(* ===== verification/E3_Prelude.thy ===== *)
theory E3_Prelude
  imports Main "HOL-Library.Word" "HOL-Library.AList"
begin

text \<open>
  The vocabulary the component theories share: the fixed-width integers of the C++ code,
  the model of its hash containers, and the generic facts the component proofs rely on.

  \<^item> \<open>uint8_t\<close>, \<open>uint16_t\<close>, \<open>uint32_t\<close> and \<open>uint64_t\<close> are words of that width.
  \<^item> \<open>std::unordered_map\<close> is an association list with distinct keys. \<open>find\<close> is
    \<^const>\<open>map_of\<close>, \<open>m[k] = v\<close> is \<^const>\<open>AList.update\<close>, \<open>erase\<close> is \<^const>\<open>AList.delete\<close>.
    The order of the list stands for the iteration order of the container, which the
    language leaves open; no property depends on it.
  \<^item> \<open>std::unordered_set\<close> is a list without duplicates: \<open>insert\<close> is \<^const>\<open>List.insert\<close>,
    \<open>erase\<close> is \<^const>\<open>removeAll\<close>.
  \<^item> \<open>steady_clock::time_point\<close> is an integer number of nanoseconds.
\<close>

unbundle bit_operations_syntax

type_synonym u8 = "8 word"
type_synonym u16 = "16 word"
type_synonym u32 = "32 word"
type_synonym u64 = "64 word"
type_synonym bytes = "u8 list"
type_synonym time_point = int
type_synonym ('k, 'v) umap = "('k \<times> 'v) list"
type_synonym 'a uset = "'a list"

named_theorems umap_simps "lookups after an update or an erase of a hash map"
named_theorems wf_intros "preservation of the shape of the hash containers"

section \<open>Hash maps\<close>

definition um_wf :: "('k, 'v) umap \<Rightarrow> bool" where
  "um_wf m \<longleftrightarrow> distinct (map fst m)"

text \<open>The value \<open>operator[]\<close> yields: the stored one, or the default it would insert.\<close>

definition um_get :: "'v \<Rightarrow> ('k, 'v) umap \<Rightarrow> 'k \<Rightarrow> 'v" where
  "um_get d m k = (case map_of m k of None \<Rightarrow> d | Some v \<Rightarrow> v)"

text \<open>\<open>m.count(k) > 0\<close>.\<close>

definition um_has :: "('k, 'v) umap \<Rightarrow> 'k \<Rightarrow> bool" where
  "um_has m k \<longleftrightarrow> map_of m k \<noteq> None"

lemma map_of_update [umap_simps, simp]: "map_of (AList.update k v m) = (map_of m)(k \<mapsto> v)"
  by (rule update_conv')

lemma map_of_delete [umap_simps, simp]: "map_of (AList.delete k m) = (map_of m)(k := None)"
  by (rule delete_conv')

lemma um_wf_Nil [wf_intros, simp]: "um_wf []"
  by (simp add: um_wf_def)

lemma um_wf_update [simp]: "um_wf (AList.update k v m) = um_wf m"
  by (auto simp: um_wf_def update_keys)

lemma um_wf_delete [wf_intros, simp]: "um_wf m \<Longrightarrow> um_wf (AList.delete k m)"
  unfolding um_wf_def by (rule distinct_delete)

lemma um_get_update [umap_simps]: "um_get d (AList.update k v m) k' = (if k' = k then v else um_get d m k')"
  by (simp add: um_get_def)

lemma um_get_delete [umap_simps]: "um_get d (AList.delete k m) k' = (if k' = k then d else um_get d m k')"
  by (simp add: um_get_def)

lemma um_has_update [umap_simps]: "um_has (AList.update k v m) k' \<longleftrightarrow> k' = k \<or> um_has m k'"
  by (auto simp: um_has_def)

lemma um_has_delete [umap_simps]: "um_has (AList.delete k m) k' \<longleftrightarrow> k' \<noteq> k \<and> um_has m k'"
  by (auto simp: um_has_def)

lemma um_has_iff_in_keys: "um_has m k \<longleftrightarrow> k \<in> fst ` set m"
  by (auto simp: um_has_def map_of_eq_None_iff)

lemma um_has_Nil [simp]: "\<not> um_has [] k"
  by (simp add: um_has_def)

lemma um_wf_mem_iff: "um_wf m \<Longrightarrow> (k, v) \<in> set m \<longleftrightarrow> map_of m k = Some v"
  by (auto simp: um_wf_def intro: map_of_is_SomeI dest: map_of_SomeD)

lemma um_wf_card: "um_wf m \<Longrightarrow> card {k. um_has m k} = length m"
proof -
  assume "um_wf m"
  have "{k. um_has m k} = set (map fst m)"
    by (auto simp: um_has_iff_in_keys)
  with \<open>um_wf m\<close> show ?thesis
    unfolding um_wf_def by (metis distinct_card length_map)
qed

lemma length_um_update: "length (AList.update k v m) = (if um_has m k then length m else Suc (length m))"
proof -
  have "length (AList.update k v m) = length (map fst (AList.update k v m))" by simp
  also have "\<dots> = (if um_has m k then length m else Suc (length m))"
    by (simp add: update_keys um_has_iff_in_keys)
  finally show ?thesis .
qed

lemma length_um_delete_le: "length (AList.delete k m) \<le> length m"
  by (simp add: AList.delete_eq)

lemma length_um_delete: "um_has m k \<Longrightarrow> length (AList.delete k m) < length m"
proof -
  assume "um_has m k"
  then obtain v where "(k, v) \<in> set m" by (auto simp: um_has_iff_in_keys)
  then show ?thesis by (simp add: AList.delete_eq) (rule length_filter_less, auto)
qed

section \<open>Words\<close>

lemma bit_u32_high [simp]: "32 \<le> n \<Longrightarrow> \<not> bit (w :: u32) n"
  by (auto dest: bit_imp_le_length)

lemma mask32_u64: "(0xffffffff :: u64) = mask 32"
  by (simp add: mask_eq_exp_minus_1)

lemma ucast_high_of_pair:
  fixes hi lo :: u32
  shows "(ucast (drop_bit 32 (push_bit 32 (ucast hi :: u64) OR ucast lo)) :: u32) = hi"
  by (rule bit_word_eqI) (auto simp: bit_simps)

lemma ucast_low_of_pair:
  fixes hi lo :: u32
  shows "(ucast ((push_bit 32 (ucast hi :: u64) OR ucast lo) AND 0xffffffff) :: u32) = lo"
  unfolding mask32_u64 by (rule bit_word_eqI) (auto simp: bit_simps)

end
