(* ===== verification/E3_Types.thy ===== *)
theory E3_Types
  imports E3_Prelude
begin

text \<open>
  The E3AP protocol types of \<^verbatim>\<open>include/libe3/types.hpp\<close> and the error codes of
  \<^verbatim>\<open>include/libe3/error_codes.h\<close>: the enumerations, the message structs (each field
  carries a prefix for its struct), the \<open>std::variant\<close> of all messages, the PDU around
  it, and the conversions between enumerations and their names.
\<close>

section \<open>Enumerations\<close>

datatype encoding_format = ASN1 | JSON | PROTOBUF

datatype e3_link_layer = ZMQ | POSIX

datatype e3_role = RAN | DAPP

datatype e3_transport_layer = SCTP | TCP | IPC

datatype action_type = INSERT | UPDATE | DELETE

datatype response_code = POSITIVE | NEGATIVE

datatype cause =
    UNSPECIFIED | PROTOCOL_ERROR | SETUP_REQUIRED | SETUP_ALREADY_COMPLETE
  | UNSUPPORTED_PROTOCOL_VERSION | UNSUPPORTED_RAN_FUNCTION | UNSUPPORTED_IDENTIFIER
  | INVALID_REQUEST | CAUSE_NOT_FOUND | DUPLICATE | RESOURCE_EXHAUSTED
  | AUTHORIZATION_REJECTED | PAYLOAD_TOO_LARGE | TRANSPORT_OVERRUN | SHUTTING_DOWN

datatype disconnect_reason = RELEASED_BY_RAN | CONNECTION_LOST

datatype pdu_type =
    SETUP_REQUEST | SETUP_RESPONSE | SUBSCRIPTION_REQUEST | SUBSCRIPTION_DELETE
  | SUBSCRIPTION_RESPONSE | INDICATION_MESSAGE | DAPP_CONTROL_ACTION | DAPP_REPORT
  | XAPP_CONTROL_ACTION | RELEASE_MESSAGE | MESSAGE_ACK

datatype agent_state =
  UNINITIALIZED | INITIALIZED | CONNECTING | CONNECTED | RUNNING | STOPPING | STOPPED | ERROR

datatype error_code =
    SUCCESS | INVALID_PARAM | NOT_INITIALIZED | ALREADY_INITIALIZED | NOT_CONNECTED
  | CONNECTION_FAILED | TIMEOUT | ENCODE_FAILED | DECODE_FAILED | SM_NOT_FOUND
  | SM_ALREADY_REGISTERED | BUFFER_TOO_SMALL | INTERNAL_ERROR | SUBSCRIPTION_EXISTS
  | SUBSCRIPTION_NOT_FOUND | DAPP_NOT_REGISTERED | TRANSPORT_ERROR | STATE_ERROR
  | SM_START_FAILED | NOT_FOUND | SM_ERROR_INVALID_PARAM | SM_ERROR_NOT_FOUND
  | SM_ERROR_ALREADY_EXISTS | SM_ERROR_THREAD_FAILED | SM_ERROR_MEMORY | CANCELLED
  | GENERIC_ERROR

fun error_code_value :: "error_code \<Rightarrow> int" where
  "error_code_value SUCCESS = 0"
| "error_code_value INVALID_PARAM = -1"
| "error_code_value NOT_INITIALIZED = -2"
| "error_code_value ALREADY_INITIALIZED = -3"
| "error_code_value NOT_CONNECTED = -4"
| "error_code_value CONNECTION_FAILED = -5"
| "error_code_value TIMEOUT = -6"
| "error_code_value ENCODE_FAILED = -7"
| "error_code_value DECODE_FAILED = -8"
| "error_code_value SM_NOT_FOUND = -9"
| "error_code_value SM_ALREADY_REGISTERED = -10"
| "error_code_value BUFFER_TOO_SMALL = -11"
| "error_code_value INTERNAL_ERROR = -12"
| "error_code_value SUBSCRIPTION_EXISTS = -13"
| "error_code_value SUBSCRIPTION_NOT_FOUND = -14"
| "error_code_value DAPP_NOT_REGISTERED = -15"
| "error_code_value TRANSPORT_ERROR = -16"
| "error_code_value STATE_ERROR = -17"
| "error_code_value SM_START_FAILED = -18"
| "error_code_value NOT_FOUND = -19"
| "error_code_value SM_ERROR_INVALID_PARAM = -20"
| "error_code_value SM_ERROR_NOT_FOUND = -21"
| "error_code_value SM_ERROR_ALREADY_EXISTS = -22"
| "error_code_value SM_ERROR_THREAD_FAILED = -23"
| "error_code_value SM_ERROR_MEMORY = -24"
| "error_code_value CANCELLED = -25"
| "error_code_value GENERIC_ERROR = -100"

section \<open>Size limits\<close>

definition MAX_PROTOCOL_DATA_SIZE :: nat where "MAX_PROTOCOL_DATA_SIZE = 32768"
definition MAX_ACTION_DATA_SIZE :: nat where "MAX_ACTION_DATA_SIZE = 32768"
definition MAX_DAPP_REPORT_DATA_SIZE :: nat where "MAX_DAPP_REPORT_DATA_SIZE = 32768"
definition MAX_XAPP_CTRL_DATA_SIZE :: nat where "MAX_XAPP_CTRL_DATA_SIZE = 32768"
definition MAX_RAN_FUNCTIONS :: nat where "MAX_RAN_FUNCTIONS = 64"
definition MAX_IDENTIFIER_LIST_SIZE :: nat where "MAX_IDENTIFIER_LIST_SIZE = 256"
definition DEFAULT_BUFFER_SIZE :: nat where "DEFAULT_BUFFER_SIZE = 60000"
definition MAX_DETAIL_SIZE :: nat where "MAX_DETAIL_SIZE = 512"

section \<open>Messages\<close>

record encoded_message =
  em_buffer :: bytes
  em_format :: encoding_format

record setup_request =
  sreq_e3ap_protocol_version :: string
  sreq_dapp_name :: string
  sreq_dapp_version :: string
  sreq_vendor :: string

record ran_function_def =
  rf_ran_function_identifier :: u32
  rf_telemetry_identifier_list :: "u32 list"
  rf_control_identifier_list :: "u32 list"
  rf_ran_function_data :: bytes

record setup_response =
  srsp_request_id :: u32
  srsp_response_code :: response_code
  srsp_e3ap_protocol_version :: "string option"
  srsp_dapp_identifier :: "u32 option"
  srsp_ran_identifier :: string
  srsp_ran_function_list :: "ran_function_def list"
  srsp_cause :: "cause option"
  srsp_detail :: "string option"

record subscription_request =
  subreq_dapp_identifier :: u32
  subreq_ran_function_identifier :: u32
  subreq_telemetry_identifier_list :: "u32 list"
  subreq_control_identifier_list :: "u32 list"
  subreq_subscription_time :: "u32 option"
  subreq_periodicity :: "u32 option"

record subscription_delete =
  subdel_dapp_identifier :: u32
  subdel_subscription_id :: u32

record subscription_response =
  subrsp_request_id :: u32
  subrsp_dapp_identifier :: u32
  subrsp_response_code :: response_code
  subrsp_subscription_id :: "u32 option"
  subrsp_telemetry_identifier_list :: "u32 list option"
  subrsp_control_identifier_list :: "u32 list option"
  subrsp_ran_function_identifier :: "u32 option"
  subrsp_periodicity :: "u32 option"
  subrsp_cause :: "cause option"
  subrsp_detail :: "string option"

record indication_message =
  ind_dapp_identifier :: u32
  ind_ran_function_identifier :: u32
  ind_protocol_data :: bytes

record dapp_control_action =
  ctl_dapp_identifier :: u32
  ctl_ran_function_identifier :: u32
  ctl_control_identifier :: u32
  ctl_action_data :: bytes
  ctl_sequence_id :: u32

record message_ack =
  ack_request_id :: u32
  ack_response_code :: response_code
  ack_cause :: "cause option"
  ack_detail :: "string option"

record dapp_report =
  rep_dapp_identifier :: u32
  rep_ran_function_identifier :: u32
  rep_report_data :: bytes
  rep_sequence_id :: u32
  rep_recv_seq :: u64

record xapp_control_action =
  xca_dapp_identifier :: u32
  xca_ran_function_identifier :: u32
  xca_xapp_control_data :: bytes
  xca_sequence_id :: u32
  xca_message_id :: u32

record release_message =
  rel_dapp_identifier :: u32

datatype pdu_choice =
    SetupRequest setup_request
  | SetupResponse setup_response
  | SubscriptionRequest subscription_request
  | SubscriptionDelete subscription_delete
  | SubscriptionResponse subscription_response
  | IndicationMessage indication_message
  | DAppControlAction dapp_control_action
  | DAppReport dapp_report
  | XAppControlAction xapp_control_action
  | ReleaseMessage release_message
  | MessageAck message_ack

record pdu =
  pdu_type_of :: pdu_type
  pdu_choice_of :: pdu_choice
  pdu_message_id :: u32
  pdu_enqueue_seq :: u64
  pdu_timestamp :: u64

text \<open>
  The constructor \<open>Pdu(PduType)\<close> followed by the assignment of \<open>choice\<close> and
  \<open>message_id\<close>, the pattern of every sender. The first argument is the reading of the
  realtime clock the constructor stamps.
\<close>

definition make_pdu :: "u64 \<Rightarrow> pdu_type \<Rightarrow> pdu_choice \<Rightarrow> u32 \<Rightarrow> pdu" where
  "make_pdu now t c mid =
     \<lparr>pdu_type_of = t, pdu_choice_of = c, pdu_message_id = mid, pdu_enqueue_seq = 0,
      pdu_timestamp = now\<rparr>"

text \<open>The tag that belongs to each alternative of the variant.\<close>

fun choice_type :: "pdu_choice \<Rightarrow> pdu_type" where
  "choice_type (SetupRequest _) = SETUP_REQUEST"
| "choice_type (SetupResponse _) = SETUP_RESPONSE"
| "choice_type (SubscriptionRequest _) = SUBSCRIPTION_REQUEST"
| "choice_type (SubscriptionDelete _) = SUBSCRIPTION_DELETE"
| "choice_type (SubscriptionResponse _) = SUBSCRIPTION_RESPONSE"
| "choice_type (IndicationMessage _) = INDICATION_MESSAGE"
| "choice_type (DAppControlAction _) = DAPP_CONTROL_ACTION"
| "choice_type (DAppReport _) = DAPP_REPORT"
| "choice_type (XAppControlAction _) = XAPP_CONTROL_ACTION"
| "choice_type (ReleaseMessage _) = RELEASE_MESSAGE"
| "choice_type (MessageAck _) = MESSAGE_ACK"

text \<open>A PDU whose tag agrees with the alternative it holds, as every constructor call builds it.\<close>

definition pdu_wf :: "pdu \<Rightarrow> bool" where
  "pdu_wf p \<longleftrightarrow> pdu_type_of p = choice_type (pdu_choice_of p)"

lemma make_pdu_wf [simp]: "pdu_wf (make_pdu now t c mid) \<longleftrightarrow> t = choice_type c"
  by (simp add: pdu_wf_def make_pdu_def)

section \<open>Configuration\<close>

record e3_config =
  cfg_role :: e3_role
  cfg_ran_identifier :: string
  cfg_dapp_name :: string
  cfg_dapp_version :: string
  cfg_vendor :: string
  cfg_e3ap_version :: string
  cfg_link_layer :: e3_link_layer
  cfg_transport_layer :: e3_transport_layer
  cfg_setup_port :: u16
  cfg_subscriber_port :: u16
  cfg_publisher_port :: u16
  cfg_setup_endpoint :: string
  cfg_subscriber_endpoint :: string
  cfg_publisher_endpoint :: string
  cfg_encoding :: encoding_format
  cfg_connect_timeout_ms :: u32
  cfg_recv_timeout_ms :: u32
  cfg_send_timeout_ms :: u32
  cfg_receive_buffer_size :: nat
  cfg_send_buffer_size :: nat
  cfg_io_threads :: nat
  cfg_io_thread_affinity :: int
  cfg_io_thread_niceness :: int
  cfg_log_level :: int
  cfg_log_path :: string

text \<open>The defaults of a build with ZeroMQ and ASN.1, the two default CMake options.\<close>

definition default_config :: e3_config where
  "default_config =
     \<lparr>cfg_role = RAN, cfg_ran_identifier = '''', cfg_dapp_name = ''libe3-dapp'',
      cfg_dapp_version = ''0.0.0'', cfg_vendor = '''', cfg_e3ap_version = ''1.0.0'',
      cfg_link_layer = ZMQ, cfg_transport_layer = IPC, cfg_setup_port = 9990,
      cfg_subscriber_port = 9999, cfg_publisher_port = 9991,
      cfg_setup_endpoint = ''ipc:///tmp/dapps/setup'',
      cfg_subscriber_endpoint = ''ipc:///tmp/dapps/dapp_socket'',
      cfg_publisher_endpoint = ''ipc:///tmp/dapps/e3_socket'', cfg_encoding = ASN1,
      cfg_connect_timeout_ms = 5000, cfg_recv_timeout_ms = 1000, cfg_send_timeout_ms = 1000,
      cfg_receive_buffer_size = DEFAULT_BUFFER_SIZE, cfg_send_buffer_size = DEFAULT_BUFFER_SIZE,
      cfg_io_threads = 2, cfg_io_thread_affinity = -1, cfg_io_thread_niceness = 0,
      cfg_log_level = 3, cfg_log_path = ''''\<rparr>"

record dapp_entry =
  de_dapp_identifier :: u32
  de_registered_time :: time_point

section \<open>Names of enumeration values\<close>

fun pdu_type_to_string :: "pdu_type \<Rightarrow> string" where
  "pdu_type_to_string SETUP_REQUEST = ''SetupRequest''"
| "pdu_type_to_string SETUP_RESPONSE = ''SetupResponse''"
| "pdu_type_to_string SUBSCRIPTION_REQUEST = ''SubscriptionRequest''"
| "pdu_type_to_string SUBSCRIPTION_DELETE = ''SubscriptionDelete''"
| "pdu_type_to_string SUBSCRIPTION_RESPONSE = ''SubscriptionResponse''"
| "pdu_type_to_string INDICATION_MESSAGE = ''IndicationMessage''"
| "pdu_type_to_string DAPP_CONTROL_ACTION = ''DAppControlAction''"
| "pdu_type_to_string DAPP_REPORT = ''DAppReport''"
| "pdu_type_to_string XAPP_CONTROL_ACTION = ''XAppControlAction''"
| "pdu_type_to_string RELEASE_MESSAGE = ''ReleaseMessage''"
| "pdu_type_to_string MESSAGE_ACK = ''MessageAck''"

fun action_type_to_string :: "action_type \<Rightarrow> string" where
  "action_type_to_string INSERT = ''insert''"
| "action_type_to_string UPDATE = ''update''"
| "action_type_to_string DELETE = ''delete''"

fun response_code_to_string :: "response_code \<Rightarrow> string" where
  "response_code_to_string POSITIVE = ''positive''"
| "response_code_to_string NEGATIVE = ''negative''"

fun cause_to_string :: "cause \<Rightarrow> string" where
  "cause_to_string UNSPECIFIED = ''unspecified''"
| "cause_to_string PROTOCOL_ERROR = ''protocolError''"
| "cause_to_string SETUP_REQUIRED = ''setupRequired''"
| "cause_to_string SETUP_ALREADY_COMPLETE = ''setupAlreadyComplete''"
| "cause_to_string UNSUPPORTED_PROTOCOL_VERSION = ''unsupportedProtocolVersion''"
| "cause_to_string UNSUPPORTED_RAN_FUNCTION = ''unsupportedRanFunction''"
| "cause_to_string UNSUPPORTED_IDENTIFIER = ''unsupportedIdentifier''"
| "cause_to_string INVALID_REQUEST = ''invalidRequest''"
| "cause_to_string CAUSE_NOT_FOUND = ''notFound''"
| "cause_to_string DUPLICATE = ''duplicate''"
| "cause_to_string RESOURCE_EXHAUSTED = ''resourceExhausted''"
| "cause_to_string AUTHORIZATION_REJECTED = ''authorizationRejected''"
| "cause_to_string PAYLOAD_TOO_LARGE = ''payloadTooLarge''"
| "cause_to_string TRANSPORT_OVERRUN = ''transportOverrun''"
| "cause_to_string SHUTTING_DOWN = ''shuttingDown''"

text \<open>The enumerators of \<open>Cause\<close> in the order of their values 0 to 14.\<close>

definition cause_enum :: "cause list" where
  "cause_enum =
     [UNSPECIFIED, PROTOCOL_ERROR, SETUP_REQUIRED, SETUP_ALREADY_COMPLETE,
      UNSUPPORTED_PROTOCOL_VERSION, UNSUPPORTED_RAN_FUNCTION, UNSUPPORTED_IDENTIFIER,
      INVALID_REQUEST, CAUSE_NOT_FOUND, DUPLICATE, RESOURCE_EXHAUSTED,
      AUTHORIZATION_REJECTED, PAYLOAD_TOO_LARGE, TRANSPORT_OVERRUN, SHUTTING_DOWN]"

fun cause_value :: "cause \<Rightarrow> int" where
  "cause_value UNSPECIFIED = 0"
| "cause_value PROTOCOL_ERROR = 1"
| "cause_value SETUP_REQUIRED = 2"
| "cause_value SETUP_ALREADY_COMPLETE = 3"
| "cause_value UNSUPPORTED_PROTOCOL_VERSION = 4"
| "cause_value UNSUPPORTED_RAN_FUNCTION = 5"
| "cause_value UNSUPPORTED_IDENTIFIER = 6"
| "cause_value INVALID_REQUEST = 7"
| "cause_value CAUSE_NOT_FOUND = 8"
| "cause_value DUPLICATE = 9"
| "cause_value RESOURCE_EXHAUSTED = 10"
| "cause_value AUTHORIZATION_REJECTED = 11"
| "cause_value PAYLOAD_TOO_LARGE = 12"
| "cause_value TRANSPORT_OVERRUN = 13"
| "cause_value SHUTTING_DOWN = 14"

text \<open>The counting loop of \<open>cause_from_string\<close>: \<open>static_cast\<close> of the counter is the enumerator at that position.\<close>

function cause_scan :: "nat \<Rightarrow> string \<Rightarrow> cause" where
  "cause_scan v name =
     (if int v \<le> cause_value SHUTTING_DOWN
      then if name = cause_to_string (cause_enum ! v) then cause_enum ! v
           else cause_scan (Suc v) name
      else UNSPECIFIED)"
  by pat_completeness auto
termination
  by (relation "measure (\<lambda>(v, _). 15 - v)") auto

declare cause_scan.simps [simp del]

definition cause_from_string :: "string \<Rightarrow> cause" where
  "cause_from_string name = cause_scan 0 name"

definition cause_from_value :: "int \<Rightarrow> cause" where
  "cause_from_value v =
     (if 0 \<le> v \<and> v \<le> cause_value SHUTTING_DOWN then cause_enum ! nat v else UNSPECIFIED)"

fun error_code_to_string :: "error_code \<Rightarrow> string" where
  "error_code_to_string SUCCESS = ''Success''"
| "error_code_to_string INVALID_PARAM = ''Invalid parameter''"
| "error_code_to_string NOT_INITIALIZED = ''Not initialized''"
| "error_code_to_string ALREADY_INITIALIZED = ''Already initialized''"
| "error_code_to_string NOT_CONNECTED = ''Not connected''"
| "error_code_to_string CONNECTION_FAILED = ''Connection failed''"
| "error_code_to_string TIMEOUT = ''Timeout''"
| "error_code_to_string ENCODE_FAILED = ''Encode failed''"
| "error_code_to_string DECODE_FAILED = ''Decode failed''"
| "error_code_to_string SM_NOT_FOUND = ''Service Model not found''"
| "error_code_to_string SM_ALREADY_REGISTERED = ''Service Model already registered''"
| "error_code_to_string BUFFER_TOO_SMALL = ''Buffer too small''"
| "error_code_to_string INTERNAL_ERROR = ''Internal error''"
| "error_code_to_string SUBSCRIPTION_EXISTS = ''Subscription already exists''"
| "error_code_to_string SUBSCRIPTION_NOT_FOUND = ''Subscription not found''"
| "error_code_to_string DAPP_NOT_REGISTERED = ''dApp not registered''"
| "error_code_to_string TRANSPORT_ERROR = ''Transport error''"
| "error_code_to_string STATE_ERROR = ''State error''"
| "error_code_to_string SM_START_FAILED = ''Service Model start failed''"
| "error_code_to_string NOT_FOUND = ''Not found''"
| "error_code_to_string CANCELLED = ''Operation cancelled''"
| "error_code_to_string _ = ''Unknown error''"

fun agent_state_to_string :: "agent_state \<Rightarrow> string" where
  "agent_state_to_string UNINITIALIZED = ''Uninitialized''"
| "agent_state_to_string INITIALIZED = ''Initialized''"
| "agent_state_to_string CONNECTING = ''Connecting''"
| "agent_state_to_string CONNECTED = ''Connected''"
| "agent_state_to_string RUNNING = ''Running''"
| "agent_state_to_string STOPPING = ''Stopping''"
| "agent_state_to_string STOPPED = ''Stopped''"
| "agent_state_to_string ERROR = ''Error''"

fun role_to_string :: "e3_role \<Rightarrow> string" where
  "role_to_string RAN = ''ran''"
| "role_to_string DAPP = ''dapp''"

fun link_layer_to_string :: "e3_link_layer \<Rightarrow> string" where
  "link_layer_to_string ZMQ = ''zmq''"
| "link_layer_to_string POSIX = ''posix''"

fun transport_layer_to_string :: "e3_transport_layer \<Rightarrow> string" where
  "transport_layer_to_string SCTP = ''sctp''"
| "transport_layer_to_string TCP = ''tcp''"
| "transport_layer_to_string IPC = ''ipc''"

section \<open>Facts\<close>

lemma error_code_value_inj: "inj error_code_value"
proof (rule injI)
  fix x y assume "error_code_value x = error_code_value y"
  then show "x = y" by (cases x; cases y) simp_all
qed

lemma error_code_value_neg: "error_code_value e \<le> 0 \<and> (error_code_value e = 0 \<longleftrightarrow> e = SUCCESS)"
  by (cases e) simp_all

lemma cause_enum_nth: "cause_enum ! nat (cause_value c) = c"
  by (cases c) (simp_all add: cause_enum_def)

lemma cause_value_range: "0 \<le> cause_value c \<and> cause_value c \<le> 14"
  by (cases c) simp_all

text \<open>The loop returns the first enumerator from \<open>v\<close> on with that name, \<open>UNSPECIFIED\<close> when there is none.\<close>

lemma cause_scan_find:
  "cause_scan v name =
     (case List.find (\<lambda>c. name = cause_to_string c) (drop v cause_enum) of
        None \<Rightarrow> UNSPECIFIED | Some c \<Rightarrow> c)"
proof (induction v name rule: cause_scan.induct)
  case (1 v name)
  have len: "length cause_enum = 15" by (simp add: cause_enum_def)
  show ?case
  proof (cases "int v \<le> cause_value SHUTTING_DOWN")
    case True
    then have "drop v cause_enum = cause_enum ! v # drop (Suc v) cause_enum"
      by (simp add: Cons_nth_drop_Suc len)
    with 1 True show ?thesis by (simp add: cause_scan.simps [of v name])
  next
    case False
    then show ?thesis by (simp add: cause_scan.simps [of v name] len)
  qed
qed

lemma cause_to_string_inj: "cause_to_string a = cause_to_string b \<longleftrightarrow> a = b"
  by (cases a; cases b) simp_all

lemma cause_from_string_to_string: "cause_from_string (cause_to_string c) = c"
  by (cases c) (simp_all add: cause_from_string_def cause_scan_find cause_enum_def cause_to_string_inj)

lemma cause_from_value_value: "cause_from_value (cause_value c) = c"
  using cause_value_range [of c] by (simp add: cause_from_value_def cause_enum_nth)

lemma pdu_type_to_string_inj: "pdu_type_to_string a = pdu_type_to_string b \<longleftrightarrow> a = b"
  by (cases a; cases b) simp_all

end
