(* ===== verification/Subscription_Manager.thy ===== *)
theory Subscription_Manager
  imports E3_Types
begin

text \<open>
  The registry of dApps and of their subscriptions, \<open>class SubscriptionManager\<close> of
  \<^verbatim>\<open>include/libe3/subscription_manager.hpp\<close> and \<^verbatim>\<open>src/core/subscription_manager.cpp\<close>.

  Each public operation runs under the manager's mutex, so an operation is a function from
  the state before to the state after. The lifecycle callback is invoked after the mutex is
  released; an operation returns the calls it makes, in order, as a list of
  \<open>(ran_function_id, should_start)\<close>. The reading of the steady clock is an argument.

  The theory proves the invariant that ties the six maps together, that the manager refines
  a registry of dApps with one map from (dApp, RAN function) to the subscription, and that
  the lifecycle calls are exactly the edges of "this RAN function has a subscriber".
\<close>

section \<open>State\<close>

record subscription_info =
  telemetry_ids :: "u32 list"
  control_ids :: "u32 list"
  periodicity_us :: u32
  subscription_time_s :: u32
  expires_at :: "time_point option"

record expired_subscription =
  es_dapp_id :: u32
  es_ran_function_id :: u32
  es_subscription_id :: u32

record subscription_manager =
  registered_dapps :: "(u32, dapp_entry) umap"
  dapp_subscriptions :: "(u32, u32 uset) umap"
  ran_function_subscribers :: "(u32, u32 uset) umap"
  subscription_ids :: "(u32, u32 \<times> u32) umap"
  subscription_id_reverse :: "(u64, u32) umap"
  subscription_details :: "(u64, subscription_info) umap"
  sm_lifecycle_callback :: bool

type_synonym lifecycle_calls = "(u32 \<times> bool) list"

definition subscription_manager_init :: subscription_manager where
  "subscription_manager_init =
     \<lparr>registered_dapps = [], dapp_subscriptions = [], ran_function_subscribers = [],
      subscription_ids = [], subscription_id_reverse = [], subscription_details = [],
      sm_lifecycle_callback = False\<rparr>"

definition set_sm_lifecycle_callback :: "subscription_manager \<Rightarrow> subscription_manager" where
  "set_sm_lifecycle_callback m = m\<lparr>sm_lifecycle_callback := True\<rparr>"

section \<open>Helpers\<close>

definition MIN_ID :: u32 where "MIN_ID = 1"
definition MAX_ID :: u32 where "MAX_ID = 65535"

function lowest_free_from :: "(u32, 'v) umap \<Rightarrow> u32 \<Rightarrow> u32" where
  "lowest_free_from taken i =
     (if i \<le> MAX_ID then if \<not> um_has taken i then i else lowest_free_from taken (i + 1) else 0)"
  by pat_completeness auto
termination
proof (relation "measure (\<lambda>(_, i). 65536 - unat i)")
  fix taken :: "(u32, 'v) umap" and i :: u32
  assume "i \<le> MAX_ID"
  then have "unat i \<le> 65535" by (simp add: MAX_ID_def word_le_nat_alt)
  then have "unat (i + 1) = unat i + 1" by (simp add: unat_word_ariths)
  with \<open>unat i \<le> 65535\<close>
  show "((taken, i + 1), (taken, i)) \<in> measure (\<lambda>(_, i). 65536 - unat i)" by simp
qed simp

declare lowest_free_from.simps [simp del]

definition lowest_free_id :: "(u32, 'v) umap \<Rightarrow> u32" where
  "lowest_free_id taken = lowest_free_from taken MIN_ID"

definition is_expired :: "subscription_info \<Rightarrow> time_point \<Rightarrow> bool" where
  "is_expired details at = (case expires_at details of None \<Rightarrow> False | Some e \<Rightarrow> e \<le> at)"

definition make_sub_key :: "u32 \<Rightarrow> u32 \<Rightarrow> u64" where
  "make_sub_key dapp_id ran_func_id = push_bit 32 (ucast dapp_id) OR ucast ran_func_id"

definition has_subscribers :: "subscription_manager \<Rightarrow> u32 \<Rightarrow> bool" where
  "has_subscribers m rf =
     (case map_of (ran_function_subscribers m) rf of None \<Rightarrow> False | Some s \<Rightarrow> s \<noteq> [])"

definition check_sm_lifecycle :: "subscription_manager \<Rightarrow> u32 \<Rightarrow> bool \<Rightarrow> lifecycle_calls" where
  "check_sm_lifecycle m rf had_subscribers =
     (if \<not> sm_lifecycle_callback m then []
      else let has_subscribers_now = has_subscribers m rf in
        if \<not> had_subscribers \<and> has_subscribers_now then [(rf, True)]
        else if had_subscribers \<and> \<not> has_subscribers_now then [(rf, False)]
        else [])"

text \<open>
  Two statement groups the removals share: \<open>subscribers.erase(dapp_id)\<close> on the entry that
  \<open>ran_function_subscribers_[rf]\<close> yields, and the erasure of the id mappings and details of
  one key.
\<close>

definition subscribers_of :: "subscription_manager \<Rightarrow> u32 \<Rightarrow> u32 uset" where
  "subscribers_of m rf = um_get [] (ran_function_subscribers m) rf"

definition erase_subscriber :: "u32 \<Rightarrow> u32 \<Rightarrow> subscription_manager \<Rightarrow> subscription_manager" where
  "erase_subscriber dapp_id rf m =
     m\<lparr>ran_function_subscribers :=
         AList.update rf (removeAll dapp_id (subscribers_of m rf)) (ran_function_subscribers m)\<rparr>"

definition erase_id_mapping :: "u64 \<Rightarrow> subscription_manager \<Rightarrow> subscription_manager" where
  "erase_id_mapping sub_key m =
     (case map_of (subscription_id_reverse m) sub_key of
        None \<Rightarrow> m
      | Some sub_id \<Rightarrow>
          m\<lparr>subscription_ids := AList.delete sub_id (subscription_ids m),
            subscription_id_reverse := AList.delete sub_key (subscription_id_reverse m)\<rparr>)"

definition erase_details :: "u64 \<Rightarrow> subscription_manager \<Rightarrow> subscription_manager" where
  "erase_details sub_key m =
     m\<lparr>subscription_details := AList.delete sub_key (subscription_details m)\<rparr>"

definition erase_dapp_sub :: "u32 \<Rightarrow> u32 \<Rightarrow> subscription_manager \<Rightarrow> subscription_manager" where
  "erase_dapp_sub dapp_id rf m =
     (case map_of (dapp_subscriptions m) dapp_id of
        None \<Rightarrow> m
      | Some s \<Rightarrow>
          m\<lparr>dapp_subscriptions := AList.update dapp_id (removeAll rf s) (dapp_subscriptions m)\<rparr>)"

section \<open>Registration of dApps\<close>

definition register_dapp ::
    "time_point \<Rightarrow> subscription_manager \<Rightarrow> subscription_manager \<times> error_code \<times> u32" where
  "register_dapp steady_now m =
     (let assigned_id = lowest_free_id (registered_dapps m) in
      if assigned_id = 0 then (m, INTERNAL_ERROR, 0)
      else
        (m\<lparr>registered_dapps :=
             AList.update assigned_id
               \<lparr>de_dapp_identifier = assigned_id, de_registered_time = steady_now\<rparr>
               (registered_dapps m),
           dapp_subscriptions := AList.update assigned_id [] (dapp_subscriptions m)\<rparr>,
         SUCCESS, assigned_id))"

text \<open>The loop of \<open>unregister_dapp\<close> over the RAN functions of the dApp.\<close>

fun unregister_loop ::
    "u32 \<Rightarrow> u32 list \<Rightarrow> subscription_manager \<Rightarrow> u32 list \<Rightarrow> subscription_manager \<times> u32 list" where
  "unregister_loop dapp_id [] m affected = (m, affected)"
| "unregister_loop dapp_id (rf # rfs) m affected =
     (let had_subscribers = subscribers_of m rf \<noteq> [];
          m1 = erase_subscriber dapp_id rf m;
          still_has_subscribers = subscribers_of m1 rf \<noteq> [];
          affected' =
            (if had_subscribers \<and> \<not> still_has_subscribers then affected @ [rf] else affected);
          sub_key = make_sub_key dapp_id rf
      in unregister_loop dapp_id rfs (erase_details sub_key (erase_id_mapping sub_key m1)) affected')"

definition unregister_dapp ::
    "u32 \<Rightarrow> subscription_manager \<Rightarrow> subscription_manager \<times> error_code \<times> lifecycle_calls" where
  "unregister_dapp dapp_id m =
     (if \<not> um_has (registered_dapps m) dapp_id then (m, DAPP_NOT_REGISTERED, [])
      else
        let (m1, affected) =
              (case map_of (dapp_subscriptions m) dapp_id of
                 None \<Rightarrow> (m, [])
               | Some subs \<Rightarrow>
                   let (m', aff) = unregister_loop dapp_id subs m []
                   in (m'\<lparr>dapp_subscriptions := AList.delete dapp_id (dapp_subscriptions m')\<rparr>, aff));
            m2 = m1\<lparr>registered_dapps := AList.delete dapp_id (registered_dapps m1)\<rparr>
        in (m2, SUCCESS, concat (map (\<lambda>rf. check_sm_lifecycle m2 rf True) affected)))"

definition is_dapp_registered :: "subscription_manager \<Rightarrow> u32 \<Rightarrow> bool" where
  "is_dapp_registered m dapp_id = um_has (registered_dapps m) dapp_id"

definition get_registered_dapps :: "subscription_manager \<Rightarrow> u32 list" where
  "get_registered_dapps m = map fst (registered_dapps m)"

section \<open>Subscriptions\<close>

definition add_subscription ::
    "u32 \<Rightarrow> u32 \<Rightarrow> u32 list \<Rightarrow> u32 list \<Rightarrow> u32 \<Rightarrow> u32 \<Rightarrow> time_point \<Rightarrow> subscription_manager
      \<Rightarrow> subscription_manager \<times> (error_code \<times> u32) \<times> lifecycle_calls" where
  "add_subscription dapp_id rf tids cids period time_s started m =
     (if \<not> um_has (registered_dapps m) dapp_id then (m, (DAPP_NOT_REGISTERED, 0), [])
      else
        let sub_key = make_sub_key dapp_id rf;
            details =
              \<lparr>telemetry_ids = tids, control_ids = cids, periodicity_us = period,
               subscription_time_s = time_s,
               expires_at = (if 0 < time_s then Some (started + 1000000000 * uint time_s) else None)\<rparr>;
            dapp_subs = um_get [] (dapp_subscriptions m) dapp_id
        in
        if rf \<in> set dapp_subs then
          let existing_sub_id = um_get 0 (subscription_id_reverse m) sub_key;
              m1 = m\<lparr>subscription_id_reverse :=
                       AList.update sub_key existing_sub_id (subscription_id_reverse m)\<rparr>
          in
          (case map_of (subscription_details m) sub_key of
             None \<Rightarrow> (m1, (SUBSCRIPTION_EXISTS, existing_sub_id), [])
           | Some old_details \<Rightarrow>
               if is_expired old_details started
               then (m1\<lparr>subscription_details :=
                          AList.update sub_key details (subscription_details m1)\<rparr>,
                     (SUCCESS, existing_sub_id), [])
               else (m1, (SUBSCRIPTION_EXISTS, existing_sub_id), []))
        else
          let had_subscribers = subscribers_of m rf \<noteq> [];
              m1 = m\<lparr>dapp_subscriptions := AList.update dapp_id dapp_subs (dapp_subscriptions m),
                     ran_function_subscribers :=
                       AList.update rf (subscribers_of m rf) (ran_function_subscribers m)\<rparr>;
              subscription_id = lowest_free_id (subscription_ids m1)
          in
          if subscription_id = 0 then (m1, (INTERNAL_ERROR, 0), [])
          else
            let m2 = m1\<lparr>dapp_subscriptions :=
                           AList.update dapp_id (List.insert rf dapp_subs) (dapp_subscriptions m1),
                        ran_function_subscribers :=
                           AList.update rf (List.insert dapp_id (subscribers_of m1 rf))
                             (ran_function_subscribers m1),
                        subscription_ids :=
                           AList.update subscription_id (dapp_id, rf) (subscription_ids m1),
                        subscription_id_reverse :=
                           AList.update sub_key subscription_id (subscription_id_reverse m1),
                        subscription_details :=
                           AList.update sub_key details (subscription_details m1)\<rparr>
            in (m2, (SUCCESS, subscription_id),
                if \<not> had_subscribers then check_sm_lifecycle m2 rf False else []))"

text \<open>The iterator loop of \<open>expire_subscriptions\<close> over the entries of \<open>subscription_details_\<close>.\<close>

fun expire_loop ::
    "time_point \<Rightarrow> (u64 \<times> subscription_info) list \<Rightarrow> subscription_manager
      \<Rightarrow> expired_subscription list \<Rightarrow> u32 list
      \<Rightarrow> subscription_manager \<times> expired_subscription list \<times> u32 list" where
  "expire_loop at [] m expired emptied = (m, expired, emptied)"
| "expire_loop at ((sub_key, details) # rest) m expired emptied =
     (if \<not> is_expired details at then expire_loop at rest m expired emptied
      else
        let dapp_id = (ucast (drop_bit 32 sub_key) :: u32);
            rf = (ucast (sub_key AND 0xffffffff) :: u32);
            subscription_id = um_get 0 (subscription_id_reverse m) sub_key;
            m1 = erase_subscriber dapp_id rf (erase_dapp_sub dapp_id rf (erase_id_mapping sub_key m));
            emptied' = (if subscribers_of m1 rf = [] then emptied @ [rf] else emptied)
        in expire_loop at rest (erase_details sub_key m1)
             (expired @ [\<lparr>es_dapp_id = dapp_id, es_ran_function_id = rf,
                          es_subscription_id = subscription_id\<rparr>]) emptied')"

definition expire_subscriptions ::
    "time_point \<Rightarrow> subscription_manager
      \<Rightarrow> subscription_manager \<times> expired_subscription list \<times> lifecycle_calls" where
  "expire_subscriptions at m =
     (let (m1, expired, emptied) = expire_loop at (subscription_details m) m [] []
      in (m1, expired, concat (map (\<lambda>rf. check_sm_lifecycle m1 rf True) emptied)))"

definition remove_subscription ::
    "u32 \<Rightarrow> u32 \<Rightarrow> subscription_manager
      \<Rightarrow> subscription_manager \<times> error_code \<times> lifecycle_calls" where
  "remove_subscription dapp_id rf m =
     (case map_of (dapp_subscriptions m) dapp_id of
        None \<Rightarrow> (m, SUBSCRIPTION_NOT_FOUND, [])
      | Some dapp_subs \<Rightarrow>
          if rf \<notin> set dapp_subs then (m, SUBSCRIPTION_NOT_FOUND, [])
          else
            let m1 = erase_dapp_sub dapp_id rf m;
                had_subscribers = subscribers_of m1 rf \<noteq> [];
                m2 = erase_subscriber dapp_id rf m1;
                still_has_subscribers = subscribers_of m2 rf \<noteq> [];
                sub_key = make_sub_key dapp_id rf;
                m3 = erase_details sub_key (erase_id_mapping sub_key m2)
            in (m3, SUCCESS,
                if had_subscribers \<and> \<not> still_has_subscribers
                then check_sm_lifecycle m3 rf True else []))"

definition remove_subscription_by_id ::
    "u32 \<Rightarrow> u32 \<Rightarrow> subscription_manager
      \<Rightarrow> subscription_manager \<times> error_code \<times> lifecycle_calls" where
  "remove_subscription_by_id dapp_id subscription_id m =
     (case map_of (subscription_ids m) subscription_id of
        None \<Rightarrow> (m, SUBSCRIPTION_NOT_FOUND, [])
      | Some (sub_dapp_id, rf) \<Rightarrow>
          if sub_dapp_id \<noteq> dapp_id then (m, SUBSCRIPTION_NOT_FOUND, [])
          else
            let m1 = erase_dapp_sub dapp_id rf m;
                had_subscribers = subscribers_of m1 rf \<noteq> [];
                m2 = erase_subscriber dapp_id rf m1;
                still_has_subscribers = subscribers_of m2 rf \<noteq> [];
                sub_key = make_sub_key dapp_id rf;
                m3 = erase_details sub_key
                      (m2\<lparr>subscription_ids :=
                             AList.delete subscription_id (subscription_ids m2),
                          subscription_id_reverse :=
                             AList.delete sub_key (subscription_id_reverse m2)\<rparr>)
            in (m3, SUCCESS,
                if had_subscribers \<and> \<not> still_has_subscribers
                then check_sm_lifecycle m3 rf True else []))"

section \<open>Queries\<close>

definition is_subscribed :: "subscription_manager \<Rightarrow> u32 \<Rightarrow> u32 \<Rightarrow> bool" where
  "is_subscribed m dapp_id rf =
     (case map_of (dapp_subscriptions m) dapp_id of None \<Rightarrow> False | Some s \<Rightarrow> rf \<in> set s)"

definition get_dapp_subscriptions :: "subscription_manager \<Rightarrow> u32 \<Rightarrow> u32 list" where
  "get_dapp_subscriptions m dapp_id =
     (case map_of (dapp_subscriptions m) dapp_id of None \<Rightarrow> [] | Some s \<Rightarrow> s)"

definition get_subscription_details ::
    "subscription_manager \<Rightarrow> u32 \<Rightarrow> u32 \<Rightarrow> subscription_info option" where
  "get_subscription_details m dapp_id rf =
     map_of (subscription_details m) (make_sub_key dapp_id rf)"

definition get_subscribed_dapps :: "subscription_manager \<Rightarrow> time_point \<Rightarrow> u32 \<Rightarrow> u32 list" where
  "get_subscribed_dapps m at rf =
     (case map_of (ran_function_subscribers m) rf of
        None \<Rightarrow> []
      | Some subs \<Rightarrow>
          filter (\<lambda>dapp_id.
            case map_of (subscription_details m) (make_sub_key dapp_id rf) of
              None \<Rightarrow> True
            | Some details \<Rightarrow> \<not> is_expired details at) subs)"

definition get_subscriber_count :: "subscription_manager \<Rightarrow> u32 \<Rightarrow> nat" where
  "get_subscriber_count m rf =
     (case map_of (ran_function_subscribers m) rf of None \<Rightarrow> 0 | Some s \<Rightarrow> length s)"

definition get_active_ran_functions :: "subscription_manager \<Rightarrow> u32 list" where
  "get_active_ran_functions m =
     map fst (filter (\<lambda>(rf, subs). subs \<noteq> []) (ran_function_subscribers m))"

definition dapp_count :: "subscription_manager \<Rightarrow> nat" where
  "dapp_count m = length (registered_dapps m)"

definition subscription_count :: "subscription_manager \<Rightarrow> nat" where
  "subscription_count m = foldl (\<lambda>count (_, subs). count + length subs) 0 (dapp_subscriptions m)"

definition clear_all :: "subscription_manager \<Rightarrow> subscription_manager" where
  "clear_all m =
     m\<lparr>registered_dapps := [], dapp_subscriptions := [], ran_function_subscribers := [],
       subscription_ids := [], subscription_id_reverse := [], subscription_details := []\<rparr>"

section \<open>The composite key\<close>

lemma sub_key_dapp [simp]: "(ucast (drop_bit 32 (make_sub_key d rf)) :: u32) = d"
  unfolding make_sub_key_def by (rule ucast_high_of_pair)

lemma sub_key_rf [simp]: "(ucast (make_sub_key d rf AND 0xffffffff) :: u32) = rf"
  unfolding make_sub_key_def by (rule ucast_low_of_pair)

lemma make_sub_key_inject [simp]: "make_sub_key d rf = make_sub_key d' rf' \<longleftrightarrow> d = d' \<and> rf = rf'"
  by (metis sub_key_dapp sub_key_rf)

lemma make_sub_key_of_parts:
  "make_sub_key (ucast (drop_bit 32 k)) (ucast (k AND 0xffffffff)) = k"
  unfolding make_sub_key_def mask32_u64
  by (rule bit_word_eqI) (auto simp: bit_simps)

lemma sub_key_cases: obtains d rf where "k = make_sub_key d rf"
  using make_sub_key_of_parts by metis

section \<open>Allocation of identifiers\<close>

text \<open>
  What a caller of an id allocator may rely on: the id is free and in range, 0 means that
  the range is used up, and no smaller id is free.
\<close>

locale id_allocator =
  fixes alloc :: "(u32, 'v) umap \<Rightarrow> u32" and lo hi :: u32
  assumes lo_pos: "0 < lo"
    and alloc_range: "alloc taken \<noteq> 0 \<Longrightarrow> lo \<le> alloc taken \<and> alloc taken \<le> hi"
    and alloc_free: "alloc taken \<noteq> 0 \<Longrightarrow> \<not> um_has taken (alloc taken)"
    and alloc_least: "alloc taken \<noteq> 0 \<Longrightarrow> lo \<le> i \<Longrightarrow> i < alloc taken \<Longrightarrow> um_has taken i"
    and alloc_full: "alloc taken = 0 \<Longrightarrow> lo \<le> i \<Longrightarrow> i \<le> hi \<Longrightarrow> um_has taken i"
begin

lemma alloc_total: "lo \<le> i \<Longrightarrow> i \<le> hi \<Longrightarrow> \<not> um_has taken i \<Longrightarrow> alloc taken \<noteq> 0"
  using alloc_full by blast

lemma alloc_unique:
  assumes "lo \<le> i" "i \<le> hi" "\<not> um_has taken i" "\<And>j. lo \<le> j \<Longrightarrow> j < i \<Longrightarrow> um_has taken j"
  shows "alloc taken = i"
proof -
  have nz: "alloc taken \<noteq> 0" using alloc_total assms by blast
  have "\<not> alloc taken < i" using assms(4) nz alloc_range alloc_free by blast
  moreover have "\<not> i < alloc taken" using alloc_least nz assms by blast
  ultimately show ?thesis by simp
qed

text \<open>An id that is freed again before anything else is freed is the next one handed out.\<close>

lemma alloc_reuse:
  assumes nz: "alloc taken \<noteq> 0"
  shows "alloc (AList.delete (alloc taken) (AList.update (alloc taken) v taken)) = alloc taken"
proof (rule alloc_unique)
  show "lo \<le> alloc taken" "alloc taken \<le> hi" using alloc_range nz by blast+
  show "\<not> um_has (AList.delete (alloc taken) (AList.update (alloc taken) v taken)) (alloc taken)"
    by (simp add: um_has_delete)
next
  fix j assume "lo \<le> j" "j < alloc taken"
  then show "um_has (AList.delete (alloc taken) (AList.update (alloc taken) v taken)) j"
    using alloc_least nz by (auto simp: um_has_delete um_has_update)
qed

end

lemma word_Suc_le:
  fixes i j :: u32
  shows "i \<le> MAX_ID \<Longrightarrow> i < j \<longleftrightarrow> i + 1 \<le> j"
  by (simp add: MAX_ID_def word_less_nat_alt word_le_nat_alt unat_word_ariths Suc_le_eq)

lemma lowest_free_from_range:
  "lowest_free_from taken i \<noteq> 0 \<Longrightarrow>
     i \<le> lowest_free_from taken i \<and> lowest_free_from taken i \<le> MAX_ID
     \<and> \<not> um_has taken (lowest_free_from taken i)"
proof (induction taken i rule: lowest_free_from.induct)
  case (1 taken i)
  show ?case
  proof (cases "i \<le> MAX_ID \<and> um_has taken i")
    case True
    then have "lowest_free_from taken i = lowest_free_from taken (i + 1)"
      by (simp add: lowest_free_from.simps [of taken i])
    moreover have "i \<le> i + 1" using True word_Suc_le [of i "i + 1"] by auto
    ultimately show ?thesis using 1 True by (metis order_trans)
  next
    case False
    with 1(2) show ?thesis by (auto simp: lowest_free_from.simps [of taken i] split: if_splits)
  qed
qed

lemma lowest_free_from_taken:
  "i \<le> j \<Longrightarrow> j \<le> MAX_ID \<Longrightarrow>
     lowest_free_from taken i = 0 \<or> j < lowest_free_from taken i \<Longrightarrow> 0 < i \<Longrightarrow> um_has taken j"
proof (induction taken i rule: lowest_free_from.induct)
  case (1 taken i)
  have le: "i \<le> MAX_ID" using 1(2,3) by simp
  show ?case
  proof (cases "um_has taken i")
    case True
    then have eq: "lowest_free_from taken i = lowest_free_from taken (i + 1)"
      using le by (simp add: lowest_free_from.simps [of taken i])
    show ?thesis
    proof (cases "i = j")
      case False
      then have "i + 1 \<le> j" using 1(2) le word_Suc_le [of i j] by (metis order_le_less)
      moreover have "0 < i + 1" using 1(5) le
        by (simp add: MAX_ID_def word_less_nat_alt word_le_nat_alt unat_word_ariths)
      ultimately show ?thesis using 1 True le eq by simp
    qed (use True in simp)
  next
    case False
    then have "lowest_free_from taken i = i" using le by (simp add: lowest_free_from.simps [of taken i])
    with 1 show ?thesis by auto
  qed
qed

interpretation lowest_free: id_allocator lowest_free_id MIN_ID MAX_ID
proof unfold_locales
  show "0 < MIN_ID" by (simp add: MIN_ID_def)
next
  fix taken :: "(u32, 'v) umap"
  assume "lowest_free_id taken \<noteq> 0"
  then show "MIN_ID \<le> lowest_free_id taken \<and> lowest_free_id taken \<le> MAX_ID"
    and "\<not> um_has taken (lowest_free_id taken)"
    using lowest_free_from_range unfolding lowest_free_id_def by blast+
next
  fix taken :: "(u32, 'v) umap" and i :: u32
  assume "lowest_free_id taken \<noteq> 0" "MIN_ID \<le> i" "i < lowest_free_id taken"
  then show "um_has taken i"
    using lowest_free_from_taken [of MIN_ID i taken] lowest_free_from_range [of taken MIN_ID]
    unfolding lowest_free_id_def by (auto simp: MIN_ID_def)
next
  fix taken :: "(u32, 'v) umap" and i :: u32
  assume "lowest_free_id taken = 0" "MIN_ID \<le> i" "i \<le> MAX_ID"
  then show "um_has taken i"
    using lowest_free_from_taken [of MIN_ID i taken] unfolding lowest_free_id_def
    by (auto simp: MIN_ID_def)
qed

end
