(* ===== verification/Subscription_Inv.thy ===== *)
theory Subscription_Inv
  imports Subscription_Manager
begin

text \<open>
  The invariant of the subscription manager: the six maps of its state describe one set of
  (dApp, RAN function) links, ids stay in 1..65535, and the id maps are inverse to each
  other. Every operation keeps it, on success and on every error path.
\<close>

section \<open>Invariant\<close>

text \<open>The pairs (dApp, RAN function) that the index by dApp holds.\<close>

definition sub_links :: "subscription_manager \<Rightarrow> (u32 \<times> u32) set" where
  "sub_links m = {(d, rf). rf \<in> set (um_get [] (dapp_subscriptions m) d)}"

definition maps_wf :: "subscription_manager \<Rightarrow> bool" where
  "maps_wf m \<longleftrightarrow>
     um_wf (registered_dapps m) \<and> um_wf (dapp_subscriptions m)
     \<and> um_wf (ran_function_subscribers m) \<and> um_wf (subscription_ids m)
     \<and> um_wf (subscription_id_reverse m) \<and> um_wf (subscription_details m)
     \<and> (\<forall>d. distinct (um_get [] (dapp_subscriptions m) d))
     \<and> (\<forall>rf. distinct (subscribers_of m rf))
     \<and> (\<forall>k i. map_of (subscription_details m) k = Some i \<longrightarrow>
              (expires_at i = None \<longleftrightarrow> subscription_time_s i = 0))"

definition registration_inv :: "subscription_manager \<Rightarrow> bool" where
  "registration_inv m \<longleftrightarrow>
     (\<forall>d. um_has (dapp_subscriptions m) d \<longleftrightarrow> um_has (registered_dapps m) d)
     \<and> (\<forall>d e. map_of (registered_dapps m) d = Some e \<longrightarrow>
              de_dapp_identifier e = d \<and> MIN_ID \<le> d \<and> d \<le> MAX_ID)"

text \<open>The other four maps agree with the set of links \<open>P\<close>.\<close>

definition links_inv :: "(u32 \<times> u32) set \<Rightarrow> subscription_manager \<Rightarrow> bool" where
  "links_inv P m \<longleftrightarrow>
     (\<forall>d rf. d \<in> set (subscribers_of m rf) \<longleftrightarrow> (d, rf) \<in> P)
     \<and> (\<forall>d rf. um_has (subscription_id_reverse m) (make_sub_key d rf) \<longleftrightarrow> (d, rf) \<in> P)
     \<and> (\<forall>d rf. um_has (subscription_details m) (make_sub_key d rf) \<longleftrightarrow> (d, rf) \<in> P)
     \<and> (\<forall>d rf sid. map_of (subscription_id_reverse m) (make_sub_key d rf) = Some sid
                    \<longleftrightarrow> map_of (subscription_ids m) sid = Some (d, rf))
     \<and> (\<forall>sid. um_has (subscription_ids m) sid \<longrightarrow> MIN_ID \<le> sid \<and> sid \<le> MAX_ID)"

definition manager_inv :: "subscription_manager \<Rightarrow> bool" where
  "manager_inv m \<longleftrightarrow> maps_wf m \<and> registration_inv m \<and> links_inv (sub_links m) m"

lemma links_invI:
  assumes "\<And>d rf. d \<in> set (subscribers_of m rf) \<longleftrightarrow> (d, rf) \<in> P"
    and "\<And>d rf. um_has (subscription_id_reverse m) (make_sub_key d rf) \<longleftrightarrow> (d, rf) \<in> P"
    and "\<And>d rf. um_has (subscription_details m) (make_sub_key d rf) \<longleftrightarrow> (d, rf) \<in> P"
    and "\<And>d rf sid. map_of (subscription_id_reverse m) (make_sub_key d rf) = Some sid
                    \<longleftrightarrow> map_of (subscription_ids m) sid = Some (d, rf)"
    and "\<And>sid. um_has (subscription_ids m) sid \<Longrightarrow> MIN_ID \<le> sid \<and> sid \<le> MAX_ID"
  shows "links_inv P m"
  unfolding links_inv_def using assms by blast

lemma links_invD:
  assumes "links_inv P m"
  shows "d \<in> set (subscribers_of m rf) \<longleftrightarrow> (d, rf) \<in> P"
    and "um_has (subscription_id_reverse m) (make_sub_key d rf) \<longleftrightarrow> (d, rf) \<in> P"
    and "um_has (subscription_details m) (make_sub_key d rf) \<longleftrightarrow> (d, rf) \<in> P"
    and "map_of (subscription_id_reverse m) (make_sub_key d rf) = Some sid
           \<longleftrightarrow> map_of (subscription_ids m) sid = Some (d, rf)"
    and "um_has (subscription_ids m) sid \<Longrightarrow> MIN_ID \<le> sid \<and> sid \<le> MAX_ID"
  using assms unfolding links_inv_def by blast+

lemma manager_inv_init: "manager_inv subscription_manager_init"
  by (simp add: manager_inv_def maps_wf_def registration_inv_def links_inv_def sub_links_def
      subscription_manager_init_def subscribers_of_def um_get_def)

lemma manager_inv_callback [simp]:
  "manager_inv (m\<lparr>sm_lifecycle_callback := b\<rparr>) = manager_inv m"
  by (simp add: manager_inv_def maps_wf_def registration_inv_def links_inv_def sub_links_def
      subscribers_of_def)

subsection \<open>The erasures\<close>

lemma erase_subscriber_fields [simp]:
  "registered_dapps (erase_subscriber d rf m) = registered_dapps m"
  "dapp_subscriptions (erase_subscriber d rf m) = dapp_subscriptions m"
  "subscription_ids (erase_subscriber d rf m) = subscription_ids m"
  "subscription_id_reverse (erase_subscriber d rf m) = subscription_id_reverse m"
  "subscription_details (erase_subscriber d rf m) = subscription_details m"
  "sm_lifecycle_callback (erase_subscriber d rf m) = sm_lifecycle_callback m"
  "um_wf (ran_function_subscribers (erase_subscriber d rf m)) = um_wf (ran_function_subscribers m)"
  "subscribers_of (erase_subscriber d rf m) rf' =
     (if rf' = rf then removeAll d (subscribers_of m rf) else subscribers_of m rf')"
  by (simp_all add: erase_subscriber_def subscribers_of_def um_get_update)

lemma erase_id_mapping_fields [simp]:
  "registered_dapps (erase_id_mapping k m) = registered_dapps m"
  "dapp_subscriptions (erase_id_mapping k m) = dapp_subscriptions m"
  "ran_function_subscribers (erase_id_mapping k m) = ran_function_subscribers m"
  "subscribers_of (erase_id_mapping k m) rf = subscribers_of m rf"
  "subscription_details (erase_id_mapping k m) = subscription_details m"
  "sm_lifecycle_callback (erase_id_mapping k m) = sm_lifecycle_callback m"
  "map_of (subscription_id_reverse (erase_id_mapping k m)) = (map_of (subscription_id_reverse m))(k := None)"
  "map_of (subscription_ids (erase_id_mapping k m)) =
     (case map_of (subscription_id_reverse m) k of
        None \<Rightarrow> map_of (subscription_ids m)
      | Some sid \<Rightarrow> (map_of (subscription_ids m))(sid := None))"
  "um_wf (subscription_id_reverse m) \<Longrightarrow> um_wf (subscription_id_reverse (erase_id_mapping k m))"
  "um_wf (subscription_ids m) \<Longrightarrow> um_wf (subscription_ids (erase_id_mapping k m))"
  by (auto simp: erase_id_mapping_def subscribers_of_def split: option.splits)

lemma erase_details_fields [simp]:
  "registered_dapps (erase_details k m) = registered_dapps m"
  "dapp_subscriptions (erase_details k m) = dapp_subscriptions m"
  "ran_function_subscribers (erase_details k m) = ran_function_subscribers m"
  "subscribers_of (erase_details k m) rf = subscribers_of m rf"
  "subscription_ids (erase_details k m) = subscription_ids m"
  "subscription_id_reverse (erase_details k m) = subscription_id_reverse m"
  "sm_lifecycle_callback (erase_details k m) = sm_lifecycle_callback m"
  "subscription_details (erase_details k m) = AList.delete k (subscription_details m)"
  by (simp_all add: erase_details_def subscribers_of_def)

lemma erase_dapp_sub_fields [simp]:
  "registered_dapps (erase_dapp_sub d rf m) = registered_dapps m"
  "ran_function_subscribers (erase_dapp_sub d rf m) = ran_function_subscribers m"
  "subscribers_of (erase_dapp_sub d rf m) rf' = subscribers_of m rf'"
  "subscription_ids (erase_dapp_sub d rf m) = subscription_ids m"
  "subscription_id_reverse (erase_dapp_sub d rf m) = subscription_id_reverse m"
  "subscription_details (erase_dapp_sub d rf m) = subscription_details m"
  "sm_lifecycle_callback (erase_dapp_sub d rf m) = sm_lifecycle_callback m"
  "um_wf (dapp_subscriptions (erase_dapp_sub d rf m)) = um_wf (dapp_subscriptions m)"
  "um_has (dapp_subscriptions (erase_dapp_sub d rf m)) d' = um_has (dapp_subscriptions m) d'"
  "um_get [] (dapp_subscriptions (erase_dapp_sub d rf m)) d' =
     (if d' = d then removeAll rf (um_get [] (dapp_subscriptions m) d)
      else um_get [] (dapp_subscriptions m) d')"
  by (auto simp: erase_dapp_sub_def subscribers_of_def um_get_def um_has_def split: option.splits)

lemma sub_links_cong:
  "dapp_subscriptions m = dapp_subscriptions m' \<Longrightarrow> sub_links m = sub_links m'"
  by (simp add: sub_links_def)

lemma sub_links_erase_dapp_sub: "sub_links (erase_dapp_sub d rf m) = sub_links m - {(d, rf)}"
  by (auto simp: sub_links_def split: if_splits)

text \<open>
  One subscription leaves every index but the one by dApp. All removals of the code are this
  function up to the order of independent statements.
\<close>

definition unlink :: "u32 \<Rightarrow> u32 \<Rightarrow> subscription_manager \<Rightarrow> subscription_manager" where
  "unlink d rf m =
     erase_details (make_sub_key d rf) (erase_id_mapping (make_sub_key d rf) (erase_subscriber d rf m))"

lemma unlink_fields [simp]:
  "registered_dapps (unlink d rf m) = registered_dapps m"
  "dapp_subscriptions (unlink d rf m) = dapp_subscriptions m"
  "sm_lifecycle_callback (unlink d rf m) = sm_lifecycle_callback m"
  "map_of (subscription_id_reverse (unlink d rf m)) =
     (map_of (subscription_id_reverse m))(make_sub_key d rf := None)"
  "map_of (subscription_details (unlink d rf m)) =
     (map_of (subscription_details m))(make_sub_key d rf := None)"
  "subscribers_of (unlink d rf m) rf' =
     (if rf' = rf then removeAll d (subscribers_of m rf) else subscribers_of m rf')"
  by (simp_all add: unlink_def)

lemma maps_wf_unlink: "maps_wf m \<Longrightarrow> maps_wf (unlink d rf m)"
  by (simp add: maps_wf_def unlink_def distinct_removeAll)

lemma maps_wf_erase_dapp_sub: "maps_wf m \<Longrightarrow> maps_wf (erase_dapp_sub d rf m)"
  by (simp add: maps_wf_def distinct_removeAll)

lemma links_inv_erase_dapp_sub [simp]: "links_inv P (erase_dapp_sub d rf m) = links_inv P m"
  by (simp add: links_inv_def)

lemma links_inv_unlink:
  assumes "links_inv P m"
  shows "links_inv (P - {(d, rf)}) (unlink d rf m)"
proof -
  let ?k = "make_sub_key d rf"
  have ids: "map_of (subscription_ids (unlink d rf m)) =
      (case map_of (subscription_id_reverse m) ?k of
         None \<Rightarrow> map_of (subscription_ids m)
       | Some sid \<Rightarrow> (map_of (subscription_ids m))(sid := None))"
    by (simp add: unlink_def split: option.splits)
  have C: "\<And>d rf sid. map_of (subscription_id_reverse m) (make_sub_key d rf) = Some sid
             \<longleftrightarrow> map_of (subscription_ids m) sid = Some (d, rf)"
    using assms by (simp add: links_inv_def)
  have C': "map_of (subscription_id_reverse (unlink d rf m)) (make_sub_key d' rf') = Some sid
             \<longleftrightarrow> map_of (subscription_ids (unlink d rf m)) sid = Some (d', rf')" for d' rf' sid
    using C [of d rf] C [of d' rf'] by (auto simp: ids split: option.splits) (metis C option.inject)
  show ?thesis
  proof (rule links_invI)
    show "map_of (subscription_id_reverse (unlink d rf m)) (make_sub_key d' rf') = Some sid
             \<longleftrightarrow> map_of (subscription_ids (unlink d rf m)) sid = Some (d', rf')" for d' rf' sid
      by (rule C')
    show "um_has (subscription_ids (unlink d rf m)) sid \<Longrightarrow> MIN_ID \<le> sid \<and> sid \<le> MAX_ID" for sid
      using links_invD(5) [OF assms, of sid] by (auto simp: um_has_def ids split: option.splits if_splits)
  qed (use links_invD(1-3) [OF assms] in \<open>auto simp: um_has_def\<close>)
qed

subsection \<open>The loops\<close>

text \<open>\<open>unregister_dapp\<close> unlinks the RAN functions of the dApp one after the other.\<close>

lemma unregister_loop_state: "fst (unregister_loop d rfs m aff) = fold (unlink d) rfs m"
  by (induction rfs arbitrary: m aff) (simp_all add: unlink_def Let_def)

lemma unregister_loop_affected:
  "distinct rfs \<Longrightarrow>
     snd (unregister_loop d rfs m aff) =
       aff @ filter (\<lambda>rf. subscribers_of m rf \<noteq> [] \<and> removeAll d (subscribers_of m rf) = []) rfs"
proof (induction rfs arbitrary: m aff)
  case (Cons rf rfs)
  have same: "subscribers_of (unlink d rf m) x = subscribers_of m x" if "x \<in> set rfs" for x
    using Cons.prems that by auto
  have "filter (\<lambda>x. subscribers_of (unlink d rf m) x \<noteq> []
                   \<and> removeAll d (subscribers_of (unlink d rf m) x) = []) rfs =
        filter (\<lambda>x. subscribers_of m x \<noteq> [] \<and> removeAll d (subscribers_of m x) = []) rfs"
    by (rule filter_cong) (simp_all add: same del: unlink_fields)
  then show ?case
    using Cons by (simp add: Let_def unlink_def [symmetric])
qed simp

lemma fold_unlink_fields [simp]:
  "registered_dapps (fold (unlink d) rfs m) = registered_dapps m"
  "dapp_subscriptions (fold (unlink d) rfs m) = dapp_subscriptions m"
  "sm_lifecycle_callback (fold (unlink d) rfs m) = sm_lifecycle_callback m"
  "map_of (subscription_id_reverse (fold (unlink d) rfs m)) k =
     (if k \<in> make_sub_key d ` set rfs then None else map_of (subscription_id_reverse m) k)"
  "map_of (subscription_details (fold (unlink d) rfs m)) k =
     (if k \<in> make_sub_key d ` set rfs then None else map_of (subscription_details m) k)"
  "subscribers_of (fold (unlink d) rfs m) rf =
     (if rf \<in> set rfs then removeAll d (subscribers_of m rf) else subscribers_of m rf)"
  by (induction rfs arbitrary: m) auto

lemma maps_wf_fold_unlink: "maps_wf m \<Longrightarrow> maps_wf (fold (unlink d) rfs m)"
  by (induction rfs arbitrary: m) (simp_all add: maps_wf_unlink)

lemma links_inv_fold_unlink:
  "links_inv P m \<Longrightarrow> links_inv (P - {d} \<times> set rfs) (fold (unlink d) rfs m)"
proof (induction rfs arbitrary: m P)
  case (Cons rf rfs)
  have "P - {(d, rf)} - {d} \<times> set rfs = P - {d} \<times> set (rf # rfs)" by auto
  with Cons.IH [OF links_inv_unlink [OF Cons.prems, of d rf]] show ?case by simp
qed simp

text \<open>\<open>expire_subscriptions\<close> purges the entries that ran out one after the other.\<close>

definition purge :: "u64 \<Rightarrow> subscription_manager \<Rightarrow> subscription_manager" where
  "purge k m =
     erase_dapp_sub (ucast (drop_bit 32 k)) (ucast (k AND 0xffffffff))
       (unlink (ucast (drop_bit 32 k)) (ucast (k AND 0xffffffff)) m)"

abbreviation key_dapp :: "u64 \<Rightarrow> u32" where "key_dapp k \<equiv> ucast (drop_bit 32 k)"
abbreviation key_rf :: "u64 \<Rightarrow> u32" where "key_rf k \<equiv> ucast (k AND 0xffffffff)"

lemma purge_alt:
  "erase_details k (erase_subscriber (key_dapp k) (key_rf k)
      (erase_dapp_sub (key_dapp k) (key_rf k) (erase_id_mapping k m))) = purge k m"
  by (simp add: purge_def unlink_def make_sub_key_of_parts erase_details_def erase_subscriber_def
      erase_dapp_sub_def erase_id_mapping_def subscribers_of_def split: option.splits)

lemma purge_fields [simp]:
  "registered_dapps (purge k m) = registered_dapps m"
  "sm_lifecycle_callback (purge k m) = sm_lifecycle_callback m"
  "um_has (dapp_subscriptions (purge k m)) d = um_has (dapp_subscriptions m) d"
  "map_of (subscription_id_reverse (purge k m)) = (map_of (subscription_id_reverse m))(k := None)"
  "map_of (subscription_details (purge k m)) = (map_of (subscription_details m))(k := None)"
  "subscribers_of (purge k m) rf =
     (if rf = key_rf k then removeAll (key_dapp k) (subscribers_of m rf) else subscribers_of m rf)"
  by (simp_all add: purge_def make_sub_key_of_parts)

lemma manager_inv_purge: "manager_inv m \<Longrightarrow> manager_inv (purge k m)"
  by (auto simp: manager_inv_def purge_def registration_inv_def sub_links_erase_dapp_sub
      intro!: maps_wf_erase_dapp_sub maps_wf_unlink links_inv_unlink
      cong: sub_links_cong)

subsection \<open>Expiry\<close>

lemma expire_loop_state:
  "fst (expire_loop at es m ex em) = fold purge (map fst (filter (\<lambda>(k, i). is_expired i at) es)) m"
proof (induction es arbitrary: m ex em)
  case (Cons e es)
  obtain k i where "e = (k, i)" by (cases e)
  with Cons show ?case by (simp add: Let_def purge_alt del: purge_fields)
qed simp

lemma expire_loop_expired:
  "distinct (map fst es) \<Longrightarrow>
     fst (snd (expire_loop at es m ex em)) =
       ex @ map (\<lambda>k. \<lparr>es_dapp_id = key_dapp k, es_ran_function_id = key_rf k,
                       es_subscription_id = um_get 0 (subscription_id_reverse m) k\<rparr>)
              (map fst (filter (\<lambda>(k, i). is_expired i at) es))"
proof (induction es arbitrary: m ex em)
  case (Cons e es)
  obtain k i where e: "e = (k, i)" by (cases e)
  let ?row = "\<lambda>m k. \<lparr>es_dapp_id = key_dapp k, es_ran_function_id = key_rf k,
                     es_subscription_id = um_get 0 (subscription_id_reverse m) k\<rparr>"
  let ?ks = "map fst (filter (\<lambda>(k, i). is_expired i at) es)"
  have "set ?ks \<subseteq> fst ` set es" by auto
  moreover have "k \<notin> fst ` set es" using Cons.prems e by simp
  ultimately have "k' \<noteq> k" if "k' \<in> set ?ks" for k' using that by blast
  then have same: "map (?row (purge k m)) ?ks = map (?row m) ?ks"
    by (intro map_cong refl) (simp add: um_get_def)
  show ?case
  proof (cases "is_expired i at")
    case True
    then have "fst (snd (expire_loop at (e # es) m ex em)) = (ex @ [?row m k]) @ map (?row (purge k m)) ?ks"
      using Cons.IH Cons.prems by (simp add: e Let_def purge_alt del: purge_fields map_map)
    with True show ?thesis unfolding same by (simp add: e)
  qed (use Cons in \<open>simp add: e\<close>)
qed simp

text \<open>
  Purging only removes subscribers, and a RAN function is recorded at the purge that takes
  its last one.
\<close>

lemma fold_purge_subscribers: "set (subscribers_of (fold purge ks m) rf) \<subseteq> set (subscribers_of m rf)"
proof (induction ks arbitrary: m)
  case (Cons k ks)
  have "set (subscribers_of (purge k m) rf) \<subseteq> set (subscribers_of m rf)" by auto
  from order_trans [OF Cons this] show ?case by (simp del: purge_fields)
qed simp

lemma edge_insert:
  assumes "set xs = {r. A1 r \<and> F r}" "\<not> A1 r0" "A r0" "F r0" "\<And>r. r \<noteq> r0 \<Longrightarrow> A1 r \<longleftrightarrow> A r"
  shows "set (r0 # xs) = {r. A r \<and> F r}"
  using assms by (auto; metis)

lemma edge_keep:
  assumes "set xs = {r. A1 r \<and> F r}" "A1 r0" "A r0" "\<And>r. r \<noteq> r0 \<Longrightarrow> A1 r \<longleftrightarrow> A r"
  shows "set xs = {r. A r \<and> F r}"
  using assms by (auto; metis)

lemma expire_loop_emptied:
  assumes "distinct (map fst es)"
    and "\<And>k i. (k, i) \<in> set es \<Longrightarrow> key_dapp k \<in> set (subscribers_of m (key_rf k))"
  shows "\<exists>xs. snd (snd (expire_loop at es m ex em)) = em @ xs \<and> distinct xs
           \<and> set xs = {rf. subscribers_of m rf \<noteq> []
                          \<and> subscribers_of (fst (expire_loop at es m ex em)) rf = []}"
  using assms
proof (induction es arbitrary: m ex em)
  case (Cons e es)
  obtain k i where e: "e = (k, i)" by (cases e)
  show ?case
  proof (cases "is_expired i at")
    case False
    with Cons.IH [of m ex em] Cons.prems show ?thesis by (auto simp: e)
  next
    case True
    let ?m1 = "purge k m" and ?rf = "key_rf k"
    let ?em = "if subscribers_of ?m1 ?rf = [] then em @ [?rf] else em"
    let ?ex = "ex @ [\<lparr>es_dapp_id = key_dapp k, es_ran_function_id = ?rf,
                       es_subscription_id = um_get 0 (subscription_id_reverse m) k\<rparr>]"
    have step: "expire_loop at (e # es) m ex em = expire_loop at es ?m1 ?ex ?em"
      using True by (simp add: e Let_def purge_alt [symmetric])
    have mem: "key_dapp k' \<in> set (subscribers_of ?m1 (key_rf k'))" if "(k', i') \<in> set es" for k' i'
    proof -
      have "k' \<noteq> k" using Cons.prems(1) e that by force
      then have "\<not> (key_dapp k' = key_dapp k \<and> key_rf k' = ?rf)" by (metis make_sub_key_of_parts)
      then show ?thesis using Cons.prems(2) [of k' i'] that by auto
    qed
    obtain xs where xs: "snd (snd (expire_loop at es ?m1 ?ex ?em)) = ?em @ xs" "distinct xs"
      "set xs = {rf. subscribers_of ?m1 rf \<noteq> []
                     \<and> subscribers_of (fst (expire_loop at es ?m1 ?ex ?em)) rf = []}"
      using Cons.IH [of ?m1 ?ex ?em] Cons.prems(1) mem by (auto simp: e simp del: purge_fields)
    have in_m: "subscribers_of m ?rf \<noteq> []" using Cons.prems(2) [of k i] e by auto
    have mono: "subscribers_of ?m1 ?rf = [] \<Longrightarrow>
        subscribers_of (fst (expire_loop at es ?m1 ?ex ?em)) ?rf = []"
      using fold_purge_subscribers [of "map fst (filter (\<lambda>(k, i). is_expired i at) es)" ?m1 ?rf]
      unfolding expire_loop_state by simp
    have other: "subscribers_of ?m1 rf \<noteq> [] \<longleftrightarrow> subscribers_of m rf \<noteq> []" if "rf \<noteq> ?rf" for rf
      using that by simp
    show ?thesis
    proof (cases "subscribers_of ?m1 ?rf = []")
      case True
      have "set (?rf # xs) = {rf. subscribers_of m rf \<noteq> []
              \<and> subscribers_of (fst (expire_loop at es ?m1 ?ex ?em)) rf = []}"
        by (rule edge_insert [OF xs(3)]) (use True mono in_m other in simp_all)
      moreover have "distinct (?rf # xs)" using xs(2) True unfolding distinct.simps xs(3) by blast
      moreover have "snd (snd (expire_loop at es ?m1 ?ex ?em)) = em @ ?rf # xs" using xs(1) True by simp
      ultimately show ?thesis unfolding step by blast
    next
      case False
      have "set xs = {rf. subscribers_of m rf \<noteq> []
              \<and> subscribers_of (fst (expire_loop at es ?m1 ?ex ?em)) rf = []}"
        by (rule edge_keep [OF xs(3), of ?rf]) (use False in_m other in simp_all)
      moreover have "snd (snd (expire_loop at es ?m1 ?ex ?em)) = em @ xs" using xs(1) False by simp
      ultimately show ?thesis unfolding step using xs(2) by blast
    qed
  qed
qed simp

lemma manager_inv_fold_purge: "manager_inv m \<Longrightarrow> manager_inv (fold purge ks m)"
  by (induction ks arbitrary: m) (simp_all add: manager_inv_purge del: purge_fields)

lemma fold_purge_fields [simp]:
  "registered_dapps (fold purge ks m) = registered_dapps m"
  "sm_lifecycle_callback (fold purge ks m) = sm_lifecycle_callback m"
  "map_of (subscription_id_reverse (fold purge ks m)) k =
     (if k \<in> set ks then None else map_of (subscription_id_reverse m) k)"
  "map_of (subscription_details (fold purge ks m)) k =
     (if k \<in> set ks then None else map_of (subscription_details m) k)"
  by (induction ks arbitrary: m) auto

subsection \<open>Every operation keeps the invariant\<close>

lemma manager_inv_expire: "manager_inv m \<Longrightarrow> manager_inv (fst (expire_subscriptions at m))"
  using manager_inv_fold_purge expire_loop_state [of at "subscription_details m" m "[]" "[]"]
  by (simp add: expire_subscriptions_def split_def Let_def)

lemma manager_inv_register: "manager_inv m \<Longrightarrow> manager_inv (fst (register_dapp t m))"
proof (cases "lowest_free_id (registered_dapps m) = 0")
  case False
  assume inv: "manager_inv m"
  let ?i = "lowest_free_id (registered_dapps m)" and ?m = "fst (register_dapp t m)"
  have "\<not> um_has (dapp_subscriptions m) ?i"
    using inv lowest_free.alloc_free [OF False] by (simp add: manager_inv_def registration_inv_def)
  then have links: "sub_links ?m = sub_links m"
    using False by (auto simp: sub_links_def register_dapp_def Let_def um_get_def um_has_def split: if_splits)
  show ?thesis
    using inv False lowest_free.alloc_range [OF False] unfolding manager_inv_def links
    by (auto simp: register_dapp_def Let_def maps_wf_def registration_inv_def links_inv_def
        subscribers_of_def um_get_update um_has_update)
qed (simp add: register_dapp_def)

lemma unregister_dapp_state:
  assumes "manager_inv m" "um_has (registered_dapps m) d"
  shows "fst (unregister_dapp d m) =
     (fold (unlink d) (um_get [] (dapp_subscriptions m) d) m)
       \<lparr>dapp_subscriptions := AList.delete d (dapp_subscriptions m),
        registered_dapps := AList.delete d (registered_dapps m)\<rparr>"
proof -
  have "um_has (dapp_subscriptions m) d"
    using assms by (simp add: manager_inv_def registration_inv_def)
  then show ?thesis using assms(2)
    by (auto simp: unregister_dapp_def um_has_def um_get_def split_def Let_def unregister_loop_state)
qed

lemma manager_inv_unregister: "manager_inv m \<Longrightarrow> manager_inv (fst (unregister_dapp d m))"
proof (cases "um_has (registered_dapps m) d")
  case True
  assume inv: "manager_inv m"
  let ?rfs = "um_get [] (dapp_subscriptions m) d"
  let ?m1 = "fold (unlink d) ?rfs m"
  let ?m = "fst (unregister_dapp d m)"
  note st = unregister_dapp_state [OF inv True]
  have P: "sub_links ?m = sub_links m - {d} \<times> set ?rfs"
    by (auto simp: st sub_links_def um_get_delete split: if_splits)
  have wf: "maps_wf ?m1" and li: "links_inv (sub_links ?m) ?m1"
    using inv maps_wf_fold_unlink links_inv_fold_unlink unfolding manager_inv_def P by blast+
  have "maps_wf ?m"
    using wf by (auto simp: st maps_wf_def um_get_delete subscribers_of_def)
  moreover have "links_inv (sub_links ?m) ?m"
    using li unfolding P by (simp add: st links_inv_def subscribers_of_def)
  moreover have "registration_inv ?m"
    using inv by (auto simp: st manager_inv_def registration_inv_def um_has_delete)
  ultimately show ?thesis by (simp add: manager_inv_def)
qed (simp add: unregister_dapp_def)

lemma erase_dapp_sub_commute:
  "erase_subscriber d rf (erase_dapp_sub d' rf' m) = erase_dapp_sub d' rf' (erase_subscriber d rf m)"
  "erase_id_mapping k (erase_dapp_sub d' rf' m) = erase_dapp_sub d' rf' (erase_id_mapping k m)"
  "erase_details k (erase_dapp_sub d' rf' m) = erase_dapp_sub d' rf' (erase_details k m)"
  by (simp_all add: erase_subscriber_def erase_id_mapping_def erase_details_def erase_dapp_sub_def
      subscribers_of_def split: option.split)

lemma remove_subscription_state:
  assumes "rf \<in> set (um_get [] (dapp_subscriptions m) d)"
  shows "fst (remove_subscription d rf m) = erase_dapp_sub d rf (unlink d rf m)"
  using assms
  by (cases "map_of (dapp_subscriptions m) d")
    (simp_all add: remove_subscription_def um_get_def Let_def unlink_def erase_dapp_sub_commute)

lemma manager_inv_unlinked:
  "manager_inv m \<Longrightarrow> manager_inv (erase_dapp_sub d rf (unlink d rf m))"
  using manager_inv_purge [of m "make_sub_key d rf"] by (simp add: purge_def)

lemma manager_inv_remove: "manager_inv m \<Longrightarrow> manager_inv (fst (remove_subscription d rf m))"
proof (cases "rf \<in> set (um_get [] (dapp_subscriptions m) d)")
  case False
  then show "manager_inv m \<Longrightarrow> ?thesis"
    by (auto simp: remove_subscription_def um_get_def split: option.splits)
qed (simp add: remove_subscription_state manager_inv_unlinked)

lemma remove_by_id_eq_remove:
  assumes inv: "manager_inv m" and id: "map_of (subscription_ids m) sid = Some (d, rf)"
  shows "remove_subscription_by_id d sid m = remove_subscription d rf m"
proof -
  have rev: "map_of (subscription_id_reverse m) (make_sub_key d rf) = Some sid"
    using inv id links_invD(4) by (fastforce simp: manager_inv_def)
  then have "(d, rf) \<in> sub_links m"
    using inv links_invD(2) by (fastforce simp: manager_inv_def um_has_def)
  then obtain s where s: "map_of (dapp_subscriptions m) d = Some s" "rf \<in> set s"
    by (cases "map_of (dapp_subscriptions m) d") (auto simp: sub_links_def um_get_def)
  show ?thesis
    using id s rev
    by (simp add: remove_subscription_by_id_def remove_subscription_def Let_def erase_id_mapping_def)
qed

lemma remove_by_id_not_found:
  "(\<And>rf. map_of (subscription_ids m) sid \<noteq> Some (d, rf)) \<Longrightarrow>
     remove_subscription_by_id d sid m = (m, SUBSCRIPTION_NOT_FOUND, [])"
  by (auto simp: remove_subscription_by_id_def split: option.splits)

lemma manager_inv_remove_by_id:
  "manager_inv m \<Longrightarrow> manager_inv (fst (remove_subscription_by_id d sid m))"
  by (cases "\<exists>rf. map_of (subscription_ids m) sid = Some (d, rf)")
    (auto simp: remove_by_id_eq_remove manager_inv_remove remove_by_id_not_found)

subsection \<open>Adding a subscription\<close>

text \<open>The record \<open>add_subscription\<close> stores.\<close>

definition new_details :: "u32 list \<Rightarrow> u32 list \<Rightarrow> u32 \<Rightarrow> u32 \<Rightarrow> time_point \<Rightarrow> subscription_info" where
  "new_details tids cids period time_s started =
     \<lparr>telemetry_ids = tids, control_ids = cids, periodicity_us = period,
      subscription_time_s = time_s,
      expires_at = (if 0 < time_s then Some (started + 1000000000 * uint time_s) else None)\<rparr>"

text \<open>The state once \<open>operator[]\<close> has touched the two set-valued maps.\<close>

definition touch :: "u32 \<Rightarrow> u32 \<Rightarrow> subscription_manager \<Rightarrow> subscription_manager" where
  "touch d rf m =
     m\<lparr>dapp_subscriptions := AList.update d (um_get [] (dapp_subscriptions m) d) (dapp_subscriptions m),
       ran_function_subscribers :=
         AList.update rf (subscribers_of m rf) (ran_function_subscribers m)\<rparr>"

definition link_new :: "u32 \<Rightarrow> u32 \<Rightarrow> u32 \<Rightarrow> subscription_info \<Rightarrow> subscription_manager \<Rightarrow> subscription_manager" where
  "link_new d rf sid i m =
     m\<lparr>dapp_subscriptions :=
         AList.update d (List.insert rf (um_get [] (dapp_subscriptions m) d)) (dapp_subscriptions m),
       ran_function_subscribers :=
         AList.update rf (List.insert d (subscribers_of m rf)) (ran_function_subscribers m),
       subscription_ids := AList.update sid (d, rf) (subscription_ids m),
       subscription_id_reverse := AList.update (make_sub_key d rf) sid (subscription_id_reverse m),
       subscription_details := AList.update (make_sub_key d rf) i (subscription_details m)\<rparr>"

lemma touch_fields [simp]:
  "registered_dapps (touch d rf m) = registered_dapps m"
  "subscription_ids (touch d rf m) = subscription_ids m"
  "subscription_id_reverse (touch d rf m) = subscription_id_reverse m"
  "subscription_details (touch d rf m) = subscription_details m"
  "sm_lifecycle_callback (touch d rf m) = sm_lifecycle_callback m"
  "subscribers_of (touch d rf m) rf' = subscribers_of m rf'"
  "um_get [] (dapp_subscriptions (touch d rf m)) d' = um_get [] (dapp_subscriptions m) d'"
  "um_has (dapp_subscriptions (touch d rf m)) d' \<longleftrightarrow> d' = d \<or> um_has (dapp_subscriptions m) d'"
  "um_wf (dapp_subscriptions (touch d rf m)) = um_wf (dapp_subscriptions m)"
  "um_wf (ran_function_subscribers (touch d rf m)) = um_wf (ran_function_subscribers m)"
  by (auto simp: touch_def subscribers_of_def um_get_update um_has_update)

lemma link_new_fields [simp]:
  "registered_dapps (link_new d rf sid i m) = registered_dapps m"
  "sm_lifecycle_callback (link_new d rf sid i m) = sm_lifecycle_callback m"
  "map_of (subscription_ids (link_new d rf sid i m)) = (map_of (subscription_ids m))(sid \<mapsto> (d, rf))"
  "map_of (subscription_id_reverse (link_new d rf sid i m)) =
     (map_of (subscription_id_reverse m))(make_sub_key d rf \<mapsto> sid)"
  "map_of (subscription_details (link_new d rf sid i m)) =
     (map_of (subscription_details m))(make_sub_key d rf \<mapsto> i)"
  "subscribers_of (link_new d rf sid i m) rf' =
     (if rf' = rf then List.insert d (subscribers_of m rf) else subscribers_of m rf')"
  "um_get [] (dapp_subscriptions (link_new d rf sid i m)) d' =
     (if d' = d then List.insert rf (um_get [] (dapp_subscriptions m) d)
      else um_get [] (dapp_subscriptions m) d')"
  "um_has (dapp_subscriptions (link_new d rf sid i m)) d' \<longleftrightarrow> d' = d \<or> um_has (dapp_subscriptions m) d'"
  by (simp_all add: link_new_def subscribers_of_def um_get_update um_has_update)

lemma add_subscription_cases:
  fixes m d rf tids cids period time_s started
  defines "i \<equiv> new_details tids cids period time_s started"
    and "k \<equiv> make_sub_key d rf"
    and "subs \<equiv> um_get [] (dapp_subscriptions m) d"
    and "sid \<equiv> lowest_free_id (subscription_ids m)"
  shows "add_subscription d rf tids cids period time_s started m =
    (if \<not> um_has (registered_dapps m) d then (m, (DAPP_NOT_REGISTERED, 0), [])
     else if rf \<in> set subs then
       let sid0 = um_get 0 (subscription_id_reverse m) k;
           m1 = m\<lparr>subscription_id_reverse := AList.update k sid0 (subscription_id_reverse m)\<rparr>
       in (case map_of (subscription_details m) k of
             None \<Rightarrow> (m1, (SUBSCRIPTION_EXISTS, sid0), [])
           | Some old \<Rightarrow>
               if is_expired old started
               then (m1\<lparr>subscription_details := AList.update k i (subscription_details m)\<rparr>,
                     (SUCCESS, sid0), [])
               else (m1, (SUBSCRIPTION_EXISTS, sid0), []))
     else if sid = 0 then (touch d rf m, (INTERNAL_ERROR, 0), [])
     else let m2 = link_new d rf sid i (touch d rf m) in
       (m2, (SUCCESS, sid),
        if subscribers_of m rf = [] then check_sm_lifecycle m2 rf False else []))"
  unfolding add_subscription_def assms new_details_def link_new_def touch_def
  by (simp add: Let_def um_get_update subscribers_of_def split: option.split)

lemma maps_wf_new_details:
  "expires_at (new_details tids cids period time_s started) = None
     \<longleftrightarrow> subscription_time_s (new_details tids cids period time_s started) = 0"
  by (simp add: new_details_def word_greater_zero_iff)

lemma sub_links_touch [simp]: "sub_links (touch d rf m) = sub_links m"
  by (simp add: sub_links_def)

lemma manager_inv_touch:
  "manager_inv m \<Longrightarrow> um_has (registered_dapps m) d \<Longrightarrow> manager_inv (touch d rf m)"
  by (auto simp: manager_inv_def maps_wf_def registration_inv_def links_inv_def)

lemma sub_links_link_new: "sub_links (link_new d rf sid i m) = insert (d, rf) (sub_links m)"
  by (auto simp: sub_links_def split: if_splits)

lemma manager_inv_link_new:
  assumes inv: "manager_inv m" and reg: "um_has (registered_dapps m) d"
    and new: "(d, rf) \<notin> sub_links m" and sid: "sid = lowest_free_id (subscription_ids m)" "sid \<noteq> 0"
    and i: "expires_at i = None \<longleftrightarrow> subscription_time_s i = 0"
  shows "manager_inv (link_new d rf sid i m)"
proof -
  let ?m = "link_new d rf sid i m"
  have li: "links_inv (sub_links m) m" using inv by (simp add: manager_inv_def)
  have free: "map_of (subscription_ids m) sid = None"
    using lowest_free.alloc_free [of "subscription_ids m"] sid by (metis um_has_def)
  have nrev: "map_of (subscription_id_reverse m) (make_sub_key d rf) = None"
    using links_invD(2) [OF li, of d rf] new by (simp add: um_has_def)
  have "maps_wf ?m"
    using inv i by (auto simp: manager_inv_def maps_wf_def link_new_def subscribers_of_def um_get_update)
  moreover have "registration_inv ?m"
    using inv reg by (auto simp: manager_inv_def registration_inv_def)
  moreover have "links_inv (insert (d, rf) (sub_links m)) ?m"
  proof (rule links_invI)
    fix d' rf' sid'
    show "map_of (subscription_id_reverse ?m) (make_sub_key d' rf') = Some sid'
            \<longleftrightarrow> map_of (subscription_ids ?m) sid' = Some (d', rf')"
      using links_invD(4) [OF li, of d' rf' sid'] links_invD(4) [OF li, of d' rf' sid] free nrev
        links_invD(4) [OF li, of d rf sid']
      by auto
  next
    fix sid' assume "um_has (subscription_ids ?m) sid'"
    then show "MIN_ID \<le> sid' \<and> sid' \<le> MAX_ID"
      using links_invD(5) [OF li, of sid'] lowest_free.alloc_range [of "subscription_ids m"] sid
      by (auto simp: um_has_def split: if_splits)
  qed (use links_invD(1-3) [OF li] in \<open>auto simp: um_has_def\<close>)
  ultimately show ?thesis by (simp add: manager_inv_def sub_links_link_new)
qed

lemma linked_reverse:
  assumes "manager_inv m" "rf \<in> set (um_get [] (dapp_subscriptions m) d)"
  shows "map_of (subscription_id_reverse m) (make_sub_key d rf)
           = Some (um_get 0 (subscription_id_reverse m) (make_sub_key d rf))"
    and "\<exists>i. map_of (subscription_details m) (make_sub_key d rf) = Some i"
proof -
  have "(d, rf) \<in> sub_links m" using assms(2) by (simp add: sub_links_def)
  then show "map_of (subscription_id_reverse m) (make_sub_key d rf)
           = Some (um_get 0 (subscription_id_reverse m) (make_sub_key d rf))"
    and "\<exists>i. map_of (subscription_details m) (make_sub_key d rf) = Some i"
    using assms(1) links_invD(2,3) [of "sub_links m" m d rf]
    by (auto simp: manager_inv_def um_has_def um_get_def)
qed

text \<open>Neither the redundant write of the reverse map nor a renewal changes the links.\<close>

lemma manager_inv_reverse_cong:
  assumes "map_of r = map_of (subscription_id_reverse m)" "um_wf r = um_wf (subscription_id_reverse m)"
  shows "manager_inv (m\<lparr>subscription_id_reverse := r\<rparr>) = manager_inv m"
proof -
  have "um_has r = um_has (subscription_id_reverse m)" using assms(1) by (simp add: um_has_def fun_eq_iff)
  with assms show ?thesis
    by (simp add: manager_inv_def maps_wf_def registration_inv_def links_inv_def sub_links_def
        subscribers_of_def)
qed

lemma manager_inv_renew:
  assumes inv: "manager_inv m" and l: "rf \<in> set (um_get [] (dapp_subscriptions m) d)"
    and i: "expires_at i = None \<longleftrightarrow> subscription_time_s i = 0"
  defines "k \<equiv> make_sub_key d rf"
  defines "m1 \<equiv> m\<lparr>subscription_id_reverse :=
      AList.update k (um_get 0 (subscription_id_reverse m) k) (subscription_id_reverse m)\<rparr>"
  shows "manager_inv m1"
    and "manager_inv (m1\<lparr>subscription_details := AList.update k i (subscription_details m)\<rparr>)"
proof -
  have rev: "map_of (AList.update k (um_get 0 (subscription_id_reverse m) k) (subscription_id_reverse m))
      = map_of (subscription_id_reverse m)"
    using linked_reverse(1) [OF inv l] by (auto simp: k_def fun_eq_iff)
  have det: "um_has (subscription_details m) k"
    using linked_reverse(2) [OF inv l] by (auto simp: um_has_def k_def)
  show "manager_inv m1"
    unfolding m1_def using inv by (simp add: manager_inv_reverse_cong [OF rev])
  show "manager_inv (m1\<lparr>subscription_details := AList.update k i (subscription_details m)\<rparr>)"
    using \<open>manager_inv m1\<close> det i
    by (auto simp: manager_inv_def maps_wf_def registration_inv_def links_inv_def sub_links_def
        um_has_update subscribers_of_def) (auto simp: m1_def)
qed

lemma manager_inv_add:
  assumes inv: "manager_inv m"
  shows "manager_inv (fst (add_subscription d rf tids cids period time_s started m))"
proof -
  let ?i = "new_details tids cids period time_s started"
  have new: "manager_inv (link_new d rf (lowest_free_id (subscription_ids m)) ?i (touch d rf m))"
    if "um_has (registered_dapps m) d" "rf \<notin> set (um_get [] (dapp_subscriptions m) d)"
      "lowest_free_id (subscription_ids m) \<noteq> 0"
    using that manager_inv_touch [OF inv, of d rf]
    by (intro manager_inv_link_new) (auto simp: sub_links_def maps_wf_new_details)
  show ?thesis
    using inv new manager_inv_touch [OF inv, of d rf] manager_inv_renew [OF inv, of rf d ?i]
      maps_wf_new_details [of tids cids period time_s started]
    by (auto simp: add_subscription_cases Let_def split: option.splits)
qed

end
