(* ===== verification/Subscription_Refine.thy ===== *)
theory Subscription_Refine
  imports Subscription_Inv
begin

text \<open>
  What the subscription manager promises, and that it keeps it. The specification is a
  registry: the set of registered dApps and one map from (dApp, RAN function) to the
  subscription. Its steps are an inductive relation. Every run of the manager is a run of
  the registry with the same results, and the lifecycle calls of an operation are the RAN
  functions whose "has a subscriber" changed.
\<close>

section \<open>Operations as a sequence of calls\<close>

datatype manager_op =
    OpRegister time_point
  | OpUnregister u32
  | OpAdd u32 u32 "u32 list" "u32 list" u32 u32 time_point
  | OpRemove u32 u32
  | OpRemoveById u32 u32
  | OpExpire time_point

datatype manager_result =
    ResCode error_code
  | ResId error_code u32
  | ResExpired "expired_subscription list"

fun exec_op :: "manager_op \<Rightarrow> subscription_manager
    \<Rightarrow> subscription_manager \<times> manager_result \<times> lifecycle_calls" where
  "exec_op (OpRegister t) m = (let (m', c, i) = register_dapp t m in (m', ResId c i, []))"
| "exec_op (OpUnregister d) m = (let (m', c, l) = unregister_dapp d m in (m', ResCode c, l))"
| "exec_op (OpAdd d rf tids cids period time_s t) m =
     (let (m', (c, i), l) = add_subscription d rf tids cids period time_s t m in (m', ResId c i, l))"
| "exec_op (OpRemove d rf) m = (let (m', c, l) = remove_subscription d rf m in (m', ResCode c, l))"
| "exec_op (OpRemoveById d sid) m =
     (let (m', c, l) = remove_subscription_by_id d sid m in (m', ResCode c, l))"
| "exec_op (OpExpire t) m = (let (m', es, l) = expire_subscriptions t m in (m', ResExpired es, l))"

fun exec_ops :: "manager_op list \<Rightarrow> subscription_manager
    \<Rightarrow> subscription_manager \<times> manager_result list \<times> lifecycle_calls" where
  "exec_ops [] m = (m, [], [])"
| "exec_ops (x # xs) m =
     (let (m1, r, l) = exec_op x m; (m2, rs, ls) = exec_ops xs m1 in (m2, r # rs, l @ ls))"

lemma manager_inv_exec_op: "manager_inv m \<Longrightarrow> manager_inv (fst (exec_op x m))"
  using manager_inv_register manager_inv_unregister manager_inv_add manager_inv_remove
    manager_inv_remove_by_id manager_inv_expire
  by (cases x) (simp_all add: split_def Let_def)

section \<open>The registry\<close>

record registry =
  rg_dapps :: "u32 set"
  rg_subs :: "u32 \<times> u32 \<rightharpoonup> u32 \<times> subscription_info"

definition registry_of :: "subscription_manager \<Rightarrow> registry" where
  "registry_of m =
     \<lparr>rg_dapps = {d. um_has (registered_dapps m) d},
      rg_subs = (\<lambda>(d, rf).
        case map_of (subscription_id_reverse m) (make_sub_key d rf) of
          None \<Rightarrow> None
        | Some sid \<Rightarrow> map_option (Pair sid) (map_of (subscription_details m) (make_sub_key d rf)))\<rparr>"

definition rg_ids :: "registry \<Rightarrow> u32 set" where
  "rg_ids r = fst ` ran (rg_subs r)"

definition least_free :: "u32 set \<Rightarrow> u32 \<Rightarrow> bool" where
  "least_free used i \<longleftrightarrow>
     1 \<le> i \<and> i \<le> 65535 \<and> i \<notin> used \<and> (\<forall>j. 1 \<le> j \<and> j < i \<longrightarrow> j \<in> used)"

definition exhausted :: "u32 set \<Rightarrow> bool" where
  "exhausted used \<longleftrightarrow> (\<forall>j. 1 \<le> j \<and> j \<le> 65535 \<longrightarrow> j \<in> used)"

definition lapsed :: "registry \<Rightarrow> time_point \<Rightarrow> (u32 \<times> u32) set" where
  "lapsed r at = {p. \<exists>sid i. rg_subs r p = Some (sid, i) \<and> is_expired i at}"

inductive registry_step :: "registry \<Rightarrow> manager_op \<Rightarrow> manager_result \<Rightarrow> registry \<Rightarrow> bool" where
  register: "least_free (rg_dapps r) i \<Longrightarrow>
    registry_step r (OpRegister t) (ResId SUCCESS i) (r\<lparr>rg_dapps := insert i (rg_dapps r)\<rparr>)"
| register_full: "exhausted (rg_dapps r) \<Longrightarrow>
    registry_step r (OpRegister t) (ResId INTERNAL_ERROR 0) r"
| unregister: "d \<in> rg_dapps r \<Longrightarrow>
    registry_step r (OpUnregister d) (ResCode SUCCESS)
      (r\<lparr>rg_dapps := rg_dapps r - {d}, rg_subs := rg_subs r |` (- ({d} \<times> UNIV))\<rparr>)"
| unregister_unknown: "d \<notin> rg_dapps r \<Longrightarrow>
    registry_step r (OpUnregister d) (ResCode DAPP_NOT_REGISTERED) r"
| add_unknown: "d \<notin> rg_dapps r \<Longrightarrow>
    registry_step r (OpAdd d rf ts cs per s t) (ResId DAPP_NOT_REGISTERED 0) r"
| add_new: "d \<in> rg_dapps r \<Longrightarrow> rg_subs r (d, rf) = None \<Longrightarrow> least_free (rg_ids r) sid \<Longrightarrow>
    registry_step r (OpAdd d rf ts cs per s t) (ResId SUCCESS sid)
      (r\<lparr>rg_subs := (rg_subs r)((d, rf) \<mapsto> (sid, new_details ts cs per s t))\<rparr>)"
| add_full: "d \<in> rg_dapps r \<Longrightarrow> rg_subs r (d, rf) = None \<Longrightarrow> exhausted (rg_ids r) \<Longrightarrow>
    registry_step r (OpAdd d rf ts cs per s t) (ResId INTERNAL_ERROR 0) r"
| add_exists: "d \<in> rg_dapps r \<Longrightarrow> rg_subs r (d, rf) = Some (sid, i) \<Longrightarrow> \<not> is_expired i t \<Longrightarrow>
    registry_step r (OpAdd d rf ts cs per s t) (ResId SUBSCRIPTION_EXISTS sid) r"
| add_renew: "d \<in> rg_dapps r \<Longrightarrow> rg_subs r (d, rf) = Some (sid, i) \<Longrightarrow> is_expired i t \<Longrightarrow>
    registry_step r (OpAdd d rf ts cs per s t) (ResId SUCCESS sid)
      (r\<lparr>rg_subs := (rg_subs r)((d, rf) \<mapsto> (sid, new_details ts cs per s t))\<rparr>)"
| remove: "rg_subs r (d, rf) = Some (sid, i) \<Longrightarrow>
    registry_step r (OpRemove d rf) (ResCode SUCCESS)
      (r\<lparr>rg_subs := (rg_subs r)((d, rf) := None)\<rparr>)"
| remove_missing: "rg_subs r (d, rf) = None \<Longrightarrow>
    registry_step r (OpRemove d rf) (ResCode SUBSCRIPTION_NOT_FOUND) r"
| remove_by_id: "rg_subs r (d, rf) = Some (sid, i) \<Longrightarrow>
    registry_step r (OpRemoveById d sid) (ResCode SUCCESS)
      (r\<lparr>rg_subs := (rg_subs r)((d, rf) := None)\<rparr>)"
| remove_by_id_missing: "(\<And>rf i. rg_subs r (d, rf) \<noteq> Some (sid, i)) \<Longrightarrow>
    registry_step r (OpRemoveById d sid) (ResCode SUBSCRIPTION_NOT_FOUND) r"
| expire: "distinct es \<Longrightarrow>
    set es = {\<lparr>es_dapp_id = d, es_ran_function_id = rf, es_subscription_id = sid\<rparr> | d rf sid.
                \<exists>i. rg_subs r (d, rf) = Some (sid, i) \<and> is_expired i t} \<Longrightarrow>
    registry_step r (OpExpire t) (ResExpired es) (r\<lparr>rg_subs := rg_subs r |` (- lapsed r t)\<rparr>)"

inductive registry_steps :: "registry \<Rightarrow> manager_op list \<Rightarrow> manager_result list \<Rightarrow> registry \<Rightarrow> bool" where
  nil: "registry_steps r [] [] r"
| cons: "registry_step r x res r1 \<Longrightarrow> registry_steps r1 xs rs r2 \<Longrightarrow>
    registry_steps r (x # xs) (res # rs) r2"

section \<open>Simulation\<close>

lemma rg_dapps_of [simp]: "d \<in> rg_dapps (registry_of m) \<longleftrightarrow> um_has (registered_dapps m) d"
  by (simp add: registry_of_def)

lemma rg_subs_Some:
  "rg_subs (registry_of m) (d, rf) = Some (sid, i) \<longleftrightarrow>
     map_of (subscription_id_reverse m) (make_sub_key d rf) = Some sid
     \<and> map_of (subscription_details m) (make_sub_key d rf) = Some i"
  by (auto simp: registry_of_def split: option.splits)

lemma rg_subs_None:
  assumes "manager_inv m"
  shows "rg_subs (registry_of m) (d, rf) = None \<longleftrightarrow> rf \<notin> set (um_get [] (dapp_subscriptions m) d)"
proof -
  have li: "links_inv (sub_links m) m" using assms by (simp add: manager_inv_def)
  have "rg_subs (registry_of m) (d, rf) = None \<longleftrightarrow>
      \<not> (um_has (subscription_id_reverse m) (make_sub_key d rf)
         \<and> um_has (subscription_details m) (make_sub_key d rf))"
    by (auto simp: registry_of_def um_has_def split: option.splits)
  also have "\<dots> \<longleftrightarrow> (d, rf) \<notin> sub_links m"
    using links_invD(2,3) [OF li, of d rf] by blast
  finally show ?thesis by (simp add: sub_links_def)
qed

lemma rg_ids_of:
  assumes "manager_inv m"
  shows "sid \<in> rg_ids (registry_of m) \<longleftrightarrow> um_has (subscription_ids m) sid"
proof -
  have li: "links_inv (sub_links m) m" using assms by (simp add: manager_inv_def)
  have "sid \<in> rg_ids (registry_of m) \<longleftrightarrow> (\<exists>d rf i. rg_subs (registry_of m) (d, rf) = Some (sid, i))"
    unfolding rg_ids_def ran_def by force
  also have "\<dots> \<longleftrightarrow> (\<exists>d rf. map_of (subscription_ids m) sid = Some (d, rf))"
    using links_invD(2-4) [OF li] unfolding rg_subs_Some um_has_def
    by (metis not_None_eq)
  finally show ?thesis by (auto simp: um_has_def)
qed

lemma registry_eqI:
  assumes "\<And>d. d \<in> rg_dapps r \<longleftrightarrow> d \<in> rg_dapps r'" "\<And>d rf. rg_subs r (d, rf) = rg_subs r' (d, rf)"
  shows "r = (r' :: registry)"
  using assms by (auto intro!: registry.equality simp: fun_eq_iff)

lemma least_free_lowest:
  assumes "\<And>i. i \<in> used \<longleftrightarrow> um_has taken i" "lowest_free_id taken \<noteq> 0"
  shows "least_free used (lowest_free_id taken)"
  using assms lowest_free.alloc_range [of taken] lowest_free.alloc_free [of taken]
    lowest_free.alloc_least [of taken]
  by (auto simp: least_free_def MIN_ID_def MAX_ID_def)

lemma exhausted_lowest:
  assumes "\<And>i. i \<in> used \<longleftrightarrow> um_has taken i" "lowest_free_id taken = 0"
  shows "exhausted used"
  using assms lowest_free.alloc_full [of taken] by (auto simp: exhausted_def MIN_ID_def MAX_ID_def)

lemma sim_register:
  "registry_step (registry_of m) (OpRegister t) (fst (snd (exec_op (OpRegister t) m)))
     (registry_of (fst (exec_op (OpRegister t) m)))"
proof (cases "lowest_free_id (registered_dapps m) = 0")
  case True
  then have "exhausted (rg_dapps (registry_of m))" by (rule exhausted_lowest [rotated]) simp
  then show ?thesis using True by (simp add: register_dapp_def registry_step.register_full)
next
  case False
  let ?i = "lowest_free_id (registered_dapps m)"
  have "registry_of (fst (register_dapp t m)) =
      (registry_of m)\<lparr>rg_dapps := insert ?i (rg_dapps (registry_of m))\<rparr>"
    using False by (intro registry_eqI) (auto simp: register_dapp_def registry_of_def um_has_update Let_def split: option.split)
  moreover have "least_free (rg_dapps (registry_of m)) ?i"
    using False by (intro least_free_lowest) simp_all
  ultimately show ?thesis
    using False registry_step.register [of "registry_of m" ?i t]
    by (simp add: register_dapp_def Let_def)
qed

lemma sim_unregister:
  assumes inv: "manager_inv m"
  shows "registry_step (registry_of m) (OpUnregister d) (fst (snd (exec_op (OpUnregister d) m)))
     (registry_of (fst (exec_op (OpUnregister d) m)))"
proof (cases "um_has (registered_dapps m) d")
  case True
  let ?m = "fst (unregister_dapp d m)"
  have none: "rg_subs (registry_of m) (d, rf) = None \<longleftrightarrow> rf \<notin> set (um_get [] (dapp_subscriptions m) d)" for rf
    by (rule rg_subs_None [OF inv])
  have "registry_of ?m = (registry_of m)\<lparr>rg_dapps := rg_dapps (registry_of m) - {d},
      rg_subs := rg_subs (registry_of m) |` (- ({d} \<times> UNIV))\<rparr>"
  proof (rule registry_eqI)
    fix d' rf
    show "rg_subs (registry_of ?m) (d', rf) = rg_subs ((registry_of m)
        \<lparr>rg_dapps := rg_dapps (registry_of m) - {d},
         rg_subs := rg_subs (registry_of m) |` (- ({d} \<times> UNIV))\<rparr>) (d', rf)"
      using none [of rf]
      by (cases "d' = d") (auto simp: unregister_dapp_state [OF inv True] registry_of_def
          restrict_map_def image_iff split: option.splits)
  qed (auto simp: unregister_dapp_state [OF inv True] registry_of_def um_has_delete)
  moreover have "fst (snd (unregister_dapp d m)) = SUCCESS"
    using True by (simp add: unregister_dapp_def split_def Let_def)
  ultimately show ?thesis
    using True registry_step.unregister [of d "registry_of m"] by (simp add: split_def Let_def)
qed (simp add: unregister_dapp_def registry_step.unregister_unknown)

lemma sim_remove:
  assumes inv: "manager_inv m"
  shows "registry_step (registry_of m) (OpRemove d rf) (fst (snd (exec_op (OpRemove d rf) m)))
     (registry_of (fst (exec_op (OpRemove d rf) m)))"
proof (cases "rf \<in> set (um_get [] (dapp_subscriptions m) d)")
  case True
  have st: "registry_of (fst (remove_subscription d rf m)) =
      (registry_of m)\<lparr>rg_subs := (rg_subs (registry_of m))((d, rf) := None)\<rparr>"
    by (intro registry_eqI) (auto simp: remove_subscription_state [OF True] registry_of_def um_has_delete split: option.split)
  have "fst (snd (remove_subscription d rf m)) = SUCCESS"
    using True by (cases "map_of (dapp_subscriptions m) d") (simp_all add: remove_subscription_def um_get_def Let_def)
  moreover obtain sid i where "rg_subs (registry_of m) (d, rf) = Some (sid, i)"
    using True rg_subs_None [OF inv, of d rf] by auto
  ultimately show ?thesis
    using st registry_step.remove [of "registry_of m" d rf sid i] by (simp add: split_def Let_def)
next
  case False
  then have "remove_subscription d rf m = (m, SUBSCRIPTION_NOT_FOUND, [])"
    by (auto simp: remove_subscription_def um_get_def split: option.splits)
  with False show ?thesis
    using rg_subs_None [OF inv, of d rf] by (simp add: registry_step.remove_missing)
qed

lemma sim_remove_by_id:
  assumes inv: "manager_inv m"
  shows "registry_step (registry_of m) (OpRemoveById d sid) (fst (snd (exec_op (OpRemoveById d sid) m)))
     (registry_of (fst (exec_op (OpRemoveById d sid) m)))"
proof -
  have li: "links_inv (sub_links m) m" using inv by (simp add: manager_inv_def)
  show ?thesis
  proof (cases "\<exists>rf. map_of (subscription_ids m) sid = Some (d, rf)")
    case True
    then obtain rf where id: "map_of (subscription_ids m) sid = Some (d, rf)" ..
    then have rev: "map_of (subscription_id_reverse m) (make_sub_key d rf) = Some sid"
      using links_invD(4) [OF li] by blast
    then obtain i where i: "rg_subs (registry_of m) (d, rf) = Some (sid, i)"
      using links_invD(2,3) [OF li, of d rf] by (auto simp: rg_subs_Some um_has_def)
    have eq: "exec_op (OpRemoveById d sid) m = exec_op (OpRemove d rf) m"
      by (simp add: remove_by_id_eq_remove [OF inv id])
    from sim_remove [OF inv, of d rf] i show ?thesis
      unfolding eq by cases (auto intro: registry_step.remove_by_id)
  next
    case False
    then have "rg_subs (registry_of m) (d, rf) \<noteq> Some (sid, i)" for rf i
      using links_invD(4) [OF li] by (simp add: rg_subs_Some)
    with False show ?thesis
      by (simp add: remove_by_id_not_found registry_step.remove_by_id_missing)
  qed
qed

lemma sim_add:
  fixes m d rf ts cs per s t
  defines "x \<equiv> OpAdd d rf ts cs per s t"
  assumes inv: "manager_inv m"
  shows "registry_step (registry_of m) x (fst (snd (exec_op x m))) (registry_of (fst (exec_op x m)))"
proof -
  let ?r = "registry_of m" and ?i = "new_details ts cs per s t" and ?k = "make_sub_key d rf"
  let ?sid = "lowest_free_id (subscription_ids m)"
  show ?thesis
  proof (cases "um_has (registered_dapps m) d")
    case False
    then show ?thesis by (simp add: x_def add_subscription_cases registry_step.add_unknown)
  next
    case reg: True
    show ?thesis
    proof (cases "rf \<in> set (um_get [] (dapp_subscriptions m) d)")
      case True
      let ?sid0 = "um_get 0 (subscription_id_reverse m) ?k"
      let ?m1 = "m\<lparr>subscription_id_reverse := AList.update ?k ?sid0 (subscription_id_reverse m)\<rparr>"
      obtain i where i: "map_of (subscription_details m) ?k = Some i"
        using linked_reverse(2) [OF inv True] ..
      note rev = linked_reverse(1) [OF inv True]
      have sub: "rg_subs ?r (d, rf) = Some (?sid0, i)" using i rev by (simp add: rg_subs_Some)
      have r1: "registry_of ?m1 = ?r" using rev by (intro registry_eqI) (auto simp: registry_of_def split: option.split)
      have r2: "registry_of (?m1\<lparr>subscription_details := AList.update ?k ?i (subscription_details m)\<rparr>)
          = ?r\<lparr>rg_subs := (rg_subs ?r)((d, rf) \<mapsto> (?sid0, ?i))\<rparr>"
        using rev by (intro registry_eqI) (auto simp: registry_of_def split: option.split)
      show ?thesis
        using reg True i r1 r2 registry_step.add_exists [OF _ sub, of t ts cs per s]
          registry_step.add_renew [OF _ sub, of t ts cs per s]
        by (simp add: x_def add_subscription_cases Let_def)
    next
      case False
      have none: "rg_subs ?r (d, rf) = None" using False rg_subs_None [OF inv] by blast
      have touch: "registry_of (touch d rf m) = ?r"
        by (intro registry_eqI) (auto simp: registry_of_def split: option.split)
      have new: "registry_of (link_new d rf ?sid ?i (touch d rf m))
          = ?r\<lparr>rg_subs := (rg_subs ?r)((d, rf) \<mapsto> (?sid, ?i))\<rparr>"
        by (intro registry_eqI) (auto simp: registry_of_def split: option.split)
      show ?thesis
        using reg False none touch new
          registry_step.add_new [OF _ none least_free_lowest [OF rg_ids_of [OF inv]], of ts cs per s t]
          registry_step.add_full [OF _ none exhausted_lowest [OF rg_ids_of [OF inv]], of ts cs per s t]
        by (simp add: x_def add_subscription_cases Let_def)
    qed
  qed
qed

lemma expired_keys_mem:
  assumes "um_wf (subscription_details m)"
  shows "k \<in> set (map fst (filter (\<lambda>(k, i). is_expired i at) (subscription_details m)))
      \<longleftrightarrow> (\<exists>i. map_of (subscription_details m) k = Some i \<and> is_expired i at)"
  using um_wf_mem_iff [OF assms, of k] by (force simp: image_iff)

lemma expire_subscriptions_alt:
  fixes m at
  assumes "um_wf (subscription_details m)"
  defines "ks \<equiv> map fst (filter (\<lambda>(k, i). is_expired i at) (subscription_details m))"
  shows "fst (expire_subscriptions at m) = fold purge ks m"
    and "fst (snd (expire_subscriptions at m)) =
      map (\<lambda>k. \<lparr>es_dapp_id = key_dapp k, es_ran_function_id = key_rf k,
                 es_subscription_id = um_get 0 (subscription_id_reverse m) k\<rparr>) ks"
    and "distinct ks"
proof -
  have d: "distinct (map fst (subscription_details m))" using assms(1) by (simp add: um_wf_def)
  then show "distinct ks" unfolding ks_def by (simp add: distinct_map_filter)
  show "fst (expire_subscriptions at m) = fold purge ks m"
    using expire_loop_state [of at "subscription_details m" m "[]" "[]"]
    by (simp add: expire_subscriptions_def split_def Let_def ks_def)
  show "fst (snd (expire_subscriptions at m)) =
      map (\<lambda>k. \<lparr>es_dapp_id = key_dapp k, es_ran_function_id = key_rf k,
                 es_subscription_id = um_get 0 (subscription_id_reverse m) k\<rparr>) ks"
    using expire_loop_expired [OF d, of at m "[]" "[]"]
    by (simp add: expire_subscriptions_def split_def Let_def ks_def)
qed

lemma sim_expire:
  assumes inv: "manager_inv m"
  shows "registry_step (registry_of m) (OpExpire t) (fst (snd (exec_op (OpExpire t) m)))
     (registry_of (fst (exec_op (OpExpire t) m)))"
proof -
  let ?r = "registry_of m"
  let ?ks = "map fst (filter (\<lambda>(k, i). is_expired i t) (subscription_details m))"
  let ?row = "\<lambda>k. \<lparr>es_dapp_id = key_dapp k, es_ran_function_id = key_rf k,
                 es_subscription_id = um_get 0 (subscription_id_reverse m) k\<rparr>"
  have wf: "um_wf (subscription_details m)" and li: "links_inv (sub_links m) m"
    using inv by (simp_all add: manager_inv_def maps_wf_def)
  note ex = expire_subscriptions_alt [OF wf, of t]
  have mem: "make_sub_key d rf \<in> set ?ks \<longleftrightarrow>
      (\<exists>sid i. rg_subs ?r (d, rf) = Some (sid, i) \<and> is_expired i t)" for d rf
    using links_invD(2,3) [OF li, of d rf] unfolding expired_keys_mem [OF wf] rg_subs_Some
    by (auto simp: um_has_def)
  have st: "registry_of (fst (expire_subscriptions t m)) = ?r\<lparr>rg_subs := rg_subs ?r |` (- lapsed ?r t)\<rparr>"
  proof (rule registry_eqI)
    fix d rf
    have "(d, rf) \<in> lapsed ?r t \<longleftrightarrow> make_sub_key d rf \<in> set ?ks" unfolding mem by (simp add: lapsed_def)
    then show "rg_subs (registry_of (fst (expire_subscriptions t m))) (d, rf)
        = rg_subs (?r\<lparr>rg_subs := rg_subs ?r |` (- lapsed ?r t)\<rparr>) (d, rf)"
      unfolding ex(1) by (auto simp: registry_of_def restrict_map_def simp del: set_map set_filter
          split: option.split)
  qed (simp add: ex(1) registry_of_def)
  have "inj ?row"
  proof (rule injI)
    fix a b assume "?row a = ?row b"
    then have "make_sub_key (key_dapp a) (key_rf a) = make_sub_key (key_dapp b) (key_rf b)" by simp
    then show "a = b" unfolding make_sub_key_of_parts .
  qed
  then have "distinct (map ?row ?ks)" using ex(3) by (simp only: distinct_map) (blast intro: inj_on_subset)
  moreover have "set (map ?row ?ks) =
      {\<lparr>es_dapp_id = d, es_ran_function_id = rf, es_subscription_id = sid\<rparr> | d rf sid.
         \<exists>i. rg_subs ?r (d, rf) = Some (sid, i) \<and> is_expired i t}" (is "_ = ?E")
  proof (intro set_eqI iffI)
    fix e assume "e \<in> set (map ?row ?ks)"
    then obtain k where k: "k \<in> set ?ks" "e = ?row k" by auto
    obtain d rf where kd: "k = make_sub_key d rf" by (rule sub_key_cases)
    with k mem obtain sid i where "rg_subs ?r (d, rf) = Some (sid, i)" "is_expired i t" by blast
    with k(2) kd show "e \<in> ?E" by (auto simp: rg_subs_Some um_get_def)
  next
    fix e assume "e \<in> ?E"
    then obtain d rf sid i where e: "e = \<lparr>es_dapp_id = d, es_ran_function_id = rf, es_subscription_id = sid\<rparr>"
      and s: "rg_subs ?r (d, rf) = Some (sid, i)" "is_expired i t" by blast
    then have "e = ?row (make_sub_key d rf)" by (simp add: rg_subs_Some um_get_def)
    moreover have "make_sub_key d rf \<in> set ?ks" using s mem by blast
    ultimately show "e \<in> set (map ?row ?ks)" unfolding set_map [of ?row] by (rule image_eqI)
  qed
  ultimately have "registry_step ?r (OpExpire t) (ResExpired (map ?row ?ks))
      (?r\<lparr>rg_subs := rg_subs ?r |` (- lapsed ?r t)\<rparr>)"
    by (rule registry_step.expire)
  then show ?thesis using st ex(2) by (simp add: split_def Let_def)
qed

lemma sim_step:
  assumes "manager_inv m"
  shows "registry_step (registry_of m) x (fst (snd (exec_op x m))) (registry_of (fst (exec_op x m)))"
  using sim_register sim_unregister [OF assms] sim_add [OF assms] sim_remove [OF assms]
    sim_remove_by_id [OF assms] sim_expire [OF assms]
  by (cases x) blast+

lemma sim_steps:
  "manager_inv m \<Longrightarrow>
     registry_steps (registry_of m) xs (fst (snd (exec_ops xs m))) (registry_of (fst (exec_ops xs m)))
     \<and> manager_inv (fst (exec_ops xs m))"
proof (induction xs arbitrary: m)
  case (Cons x xs)
  show ?case
    using Cons.IH [OF manager_inv_exec_op [OF Cons.prems, of x]] sim_step [OF Cons.prems, of x]
    by (auto simp: split_def Let_def intro: registry_steps.cons)
qed (simp add: registry_steps.nil)

section \<open>Lifecycle calls\<close>

text \<open>
  The contract between a source of lifecycle calls and the code that starts and stops the
  Service Models: an operation calls with \<open>True\<close> exactly for the RAN functions that become
  active in it and with \<open>False\<close> exactly for those that cease to be, each once.
\<close>

fun run_calls :: "('o \<Rightarrow> 's \<Rightarrow> 's \<times> 'r \<times> lifecycle_calls) \<Rightarrow> 'o list \<Rightarrow> 's \<Rightarrow> 's \<times> lifecycle_calls" where
  "run_calls exec [] s = (s, [])"
| "run_calls exec (x # xs) s =
     (let (s1, _, l) = exec x s; (s2, ls) = run_calls exec xs s1 in (s2, l @ ls))"

definition apply_calls :: "lifecycle_calls \<Rightarrow> u32 set \<Rightarrow> u32 set" where
  "apply_calls l S = fold (\<lambda>(rf, start) S. if start then insert rf S else S - {rf}) l S"

lemma apply_calls_mem:
  "\<not> ((rf, True) \<in> set l \<and> (rf, False) \<in> set l) \<Longrightarrow>
     rf \<in> apply_calls l S \<longleftrightarrow> (rf, True) \<in> set l \<or> rf \<in> S \<and> (rf, False) \<notin> set l"
proof (induction l arbitrary: S)
  case (Cons a l)
  obtain rf' b where a: "a = (rf', b)" by (cases a)
  let ?S = "if b then insert rf' S else S - {rf'}"
  have "rf \<in> apply_calls (a # l) S \<longleftrightarrow> rf \<in> apply_calls l ?S" by (simp add: apply_calls_def a)
  also have "\<dots> \<longleftrightarrow> (rf, True) \<in> set l \<or> rf \<in> ?S \<and> (rf, False) \<notin> set l"
    by (rule Cons.IH) (use Cons.prems in auto)
  also have "\<dots> \<longleftrightarrow> (rf, True) \<in> set (a # l) \<or> rf \<in> S \<and> (rf, False) \<notin> set (a # l)"
    using Cons.prems by (cases b) (auto simp: a)
  finally show ?case .
qed (simp add: apply_calls_def)

lemma apply_calls_append: "apply_calls (l @ l') S = apply_calls l' (apply_calls l S)"
  by (simp add: apply_calls_def)

locale lifecycle_source =
  fixes exec :: "'o \<Rightarrow> 's \<Rightarrow> 's \<times> 'r \<times> lifecycle_calls"
    and active :: "'s \<Rightarrow> u32 \<Rightarrow> bool"
    and ok :: "'s \<Rightarrow> bool"
  assumes ok_exec: "ok s \<Longrightarrow> ok (fst (exec x s))"
    and rise: "ok s \<Longrightarrow> (rf, True) \<in> set (snd (snd (exec x s)))
                 \<longleftrightarrow> \<not> active s rf \<and> active (fst (exec x s)) rf"
    and fall: "ok s \<Longrightarrow> (rf, False) \<in> set (snd (snd (exec x s)))
                 \<longleftrightarrow> active s rf \<and> \<not> active (fst (exec x s)) rf"
    and once: "ok s \<Longrightarrow> distinct (snd (snd (exec x s)))"
begin

lemma step_tracks:
  assumes "ok s" "S = {rf. active s rf}"
  shows "apply_calls (snd (snd (exec x s))) S = {rf. active (fst (exec x s)) rf}"
proof (rule set_eqI)
  fix rf
  have "\<not> ((rf, True) \<in> set (snd (snd (exec x s))) \<and> (rf, False) \<in> set (snd (snd (exec x s))))"
    using rise [OF assms(1), of rf x] fall [OF assms(1), of rf x] by simp
  then have "rf \<in> apply_calls (snd (snd (exec x s))) S \<longleftrightarrow>
      (rf, True) \<in> set (snd (snd (exec x s))) \<or> rf \<in> S \<and> (rf, False) \<notin> set (snd (snd (exec x s)))"
    by (rule apply_calls_mem)
  then show "rf \<in> apply_calls (snd (snd (exec x s))) S \<longleftrightarrow> rf \<in> {rf. active (fst (exec x s)) rf}"
    unfolding rise [OF assms(1)] fall [OF assms(1)] assms(2) by auto
qed

lemma run_tracks:
  "ok s \<Longrightarrow> apply_calls (snd (run_calls exec xs s)) {rf. active s rf}
     = {rf. active (fst (run_calls exec xs s)) rf}"
proof (induction xs arbitrary: s)
  case (Cons x xs)
  let ?s1 = "fst (exec x s)"
  have "apply_calls (snd (run_calls exec (x # xs) s)) {rf. active s rf} =
      apply_calls (snd (run_calls exec xs ?s1)) (apply_calls (snd (snd (exec x s))) {rf. active s rf})"
    by (simp add: split_def Let_def apply_calls_append)
  also have "\<dots> = apply_calls (snd (run_calls exec xs ?s1)) {rf. active ?s1 rf}"
    by (simp only: step_tracks [OF Cons.prems refl])
  also have "\<dots> = {rf. active (fst (run_calls exec xs ?s1)) rf}"
    by (rule Cons.IH [OF ok_exec [OF Cons.prems]])
  finally show ?case by (simp add: split_def Let_def)
qed (simp add: apply_calls_def)

end

subsection \<open>The subscription manager is such a source\<close>

lemma has_subscribers_iff: "has_subscribers m rf \<longleftrightarrow> subscribers_of m rf \<noteq> []"
  by (auto simp: has_subscribers_def subscribers_of_def um_get_def split: option.splits)

lemma subscribers_of_other:
  "subscribers_of (m\<lparr>subscription_id_reverse := r\<rparr>) rf = subscribers_of m rf"
  "subscribers_of (m\<lparr>subscription_details := i\<rparr>) rf = subscribers_of m rf"
  by (simp_all add: subscribers_of_def)

lemma remove_subscription_not_found:
  "rf \<notin> set (um_get [] (dapp_subscriptions m) d) \<Longrightarrow>
     remove_subscription d rf m = (m, SUBSCRIPTION_NOT_FOUND, [])"
  by (auto simp: remove_subscription_def um_get_def split: option.splits)

lemma stop_calls:
  "sm_lifecycle_callback m \<Longrightarrow> (\<And>rf. rf \<in> set xs \<Longrightarrow> subscribers_of m rf = []) \<Longrightarrow>
     concat (map (\<lambda>rf. check_sm_lifecycle m rf True) xs) = map (\<lambda>rf. (rf, False)) xs"
  by (induction xs) (simp_all add: check_sm_lifecycle_def has_subscribers_iff)

text \<open>The calls of an operation are the edges between two states.\<close>

definition edge_calls :: "subscription_manager \<Rightarrow> subscription_manager \<Rightarrow> lifecycle_calls \<Rightarrow> bool" where
  "edge_calls m m' l \<longleftrightarrow> distinct l
     \<and> (\<forall>rf. (rf, True) \<in> set l \<longleftrightarrow> \<not> has_subscribers m rf \<and> has_subscribers m' rf)
     \<and> (\<forall>rf. (rf, False) \<in> set l \<longleftrightarrow> has_subscribers m rf \<and> \<not> has_subscribers m' rf)"

lemma edge_calls_same: "(\<And>rf. subscribers_of m' rf = subscribers_of m rf) \<Longrightarrow> edge_calls m m' []"
  by (simp add: edge_calls_def has_subscribers_iff)

lemma edge_calls_stops:
  assumes "distinct xs"
    and "set xs = {rf. subscribers_of m rf \<noteq> [] \<and> subscribers_of m' rf = []}"
    and "\<And>rf. subscribers_of m rf = [] \<Longrightarrow> subscribers_of m' rf = []"
  shows "edge_calls m m' (map (\<lambda>rf. (rf, False)) xs)"
  using assms by (auto simp: edge_calls_def has_subscribers_iff distinct_map inj_on_def)

lemma edges_register: "edge_calls m (fst (register_dapp t m)) []"
  by (rule edge_calls_same) (simp add: register_dapp_def Let_def subscribers_of_def)

lemma edges_unregister:
  assumes inv: "manager_inv m" and cb: "sm_lifecycle_callback m"
  shows "edge_calls m (fst (unregister_dapp d m)) (snd (snd (unregister_dapp d m)))"
proof (cases "um_has (registered_dapps m) d")
  case True
  let ?rfs = "um_get [] (dapp_subscriptions m) d" and ?m = "fst (unregister_dapp d m)"
  let ?xs = "filter (\<lambda>rf. subscribers_of m rf \<noteq> [] \<and> removeAll d (subscribers_of m rf) = []) ?rfs"
  have subs: "subscribers_of ?m rf = (if rf \<in> set ?rfs then removeAll d (subscribers_of m rf)
      else subscribers_of m rf)" for rf
    using fold_unlink_fields(6) [of d ?rfs m rf]
    unfolding unregister_dapp_state [OF inv True] subscribers_of_def by simp
  have dist: "distinct ?rfs" using inv by (simp add: manager_inv_def maps_wf_def)
  have "um_has (dapp_subscriptions m) d"
    using inv True by (simp add: manager_inv_def registration_inv_def)
  then obtain s where s: "map_of (dapp_subscriptions m) d = Some s" "?rfs = s"
    by (auto simp: um_has_def um_get_def)
  have cb': "sm_lifecycle_callback ?m" using cb by (simp add: unregister_dapp_state [OF inv True])
  have "snd (snd (unregister_dapp d m)) = concat (map (\<lambda>rf. check_sm_lifecycle ?m rf True) ?xs)"
    using True s unregister_loop_affected [OF dist, of d m "[]"]
    by (simp add: unregister_dapp_def split_def Let_def)
  also have "\<dots> = map (\<lambda>rf. (rf, False)) ?xs"
    by (rule stop_calls [OF cb']) (simp add: subs)
  finally have calls: "snd (snd (unregister_dapp d m)) = map (\<lambda>rf. (rf, False)) ?xs" .
  show ?thesis unfolding calls
  proof (rule edge_calls_stops)
    show "distinct ?xs" using dist by (rule distinct_filter)
    show "set ?xs = {rf. subscribers_of m rf \<noteq> [] \<and> subscribers_of ?m rf = []}"
      unfolding subs by auto
    show "\<And>rf. subscribers_of m rf = [] \<Longrightarrow> subscribers_of ?m rf = []" unfolding subs by simp
  qed
qed (simp add: unregister_dapp_def edge_calls_same)

lemma edges_remove:
  assumes cb: "sm_lifecycle_callback m"
  shows "edge_calls m (fst (remove_subscription d rf m)) (snd (snd (remove_subscription d rf m)))"
proof (cases "rf \<in> set (um_get [] (dapp_subscriptions m) d)")
  case True
  then obtain s where s: "map_of (dapp_subscriptions m) d = Some s" "rf \<in> set s"
    by (cases "map_of (dapp_subscriptions m) d") (auto simp: um_get_def)
  let ?m = "fst (remove_subscription d rf m)"
  have subs: "subscribers_of ?m rf' =
      (if rf' = rf then removeAll d (subscribers_of m rf) else subscribers_of m rf')" for rf'
    by (simp add: remove_subscription_state [OF True])
  have calls: "snd (snd (remove_subscription d rf m)) =
      (if subscribers_of m rf \<noteq> [] \<and> removeAll d (subscribers_of m rf) = [] then [(rf, False)] else [])"
    using cb s by (simp add: remove_subscription_def Let_def check_sm_lifecycle_def has_subscribers_iff)
  show ?thesis unfolding calls by (auto simp: edge_calls_def has_subscribers_iff subs)
next
  case False
  then show ?thesis by (simp add: remove_subscription_not_found edge_calls_same)
qed

lemma edges_remove_by_id:
  assumes inv: "manager_inv m" and cb: "sm_lifecycle_callback m"
  shows "edge_calls m (fst (remove_subscription_by_id d sid m)) (snd (snd (remove_subscription_by_id d sid m)))"
  by (cases "\<exists>rf. map_of (subscription_ids m) sid = Some (d, rf)")
    (auto simp: remove_by_id_eq_remove [OF inv] edges_remove [OF cb] remove_by_id_not_found edge_calls_same)

lemma edges_add:
  assumes cb: "sm_lifecycle_callback m"
  shows "edge_calls m (fst (add_subscription d rf ts cs per s t m)) (snd (snd (add_subscription d rf ts cs per s t m)))"
proof (cases "um_has (registered_dapps m) d \<and> rf \<notin> set (um_get [] (dapp_subscriptions m) d)
    \<and> lowest_free_id (subscription_ids m) \<noteq> 0")
  case True
  let ?m = "fst (add_subscription d rf ts cs per s t m)"
  have subs: "subscribers_of ?m rf' =
      (if rf' = rf then List.insert d (subscribers_of m rf) else subscribers_of m rf')" for rf'
    using True by (simp add: add_subscription_cases Let_def)
  have some: "List.insert d (subscribers_of m rf) \<noteq> []"
    by (auto simp: List.insert_def)
  have cb': "sm_lifecycle_callback ?m" using True cb by (simp add: add_subscription_cases Let_def)
  have "snd (snd (add_subscription d rf ts cs per s t m)) =
      (if subscribers_of m rf = [] then check_sm_lifecycle ?m rf False else [])"
    using True by (simp add: add_subscription_cases Let_def)
  then have calls: "snd (snd (add_subscription d rf ts cs per s t m)) =
      (if subscribers_of m rf = [] then [(rf, True)] else [])"
    using cb' some subs [of rf] by (simp add: check_sm_lifecycle_def has_subscribers_iff)
  show ?thesis unfolding calls using some by (auto simp: edge_calls_def has_subscribers_iff subs)
next
  case False
  have "subscribers_of (fst (add_subscription d rf ts cs per s t m)) rf' = subscribers_of m rf'" for rf'
    using False by (simp add: add_subscription_cases Let_def subscribers_of_other split: option.split) blast
  moreover have "snd (snd (add_subscription d rf ts cs per s t m)) = []"
    using False by (simp add: add_subscription_cases Let_def split: option.split) blast
  ultimately show ?thesis by (simp add: edge_calls_same)
qed

lemma edges_expire:
  assumes inv: "manager_inv m" and cb: "sm_lifecycle_callback m"
  shows "edge_calls m (fst (expire_subscriptions t m)) (snd (snd (expire_subscriptions t m)))"
proof -
  let ?es = "subscription_details m" and ?m = "fst (expire_subscriptions t m)"
  have wf: "um_wf ?es" and li: "links_inv (sub_links m) m"
    using inv by (simp_all add: manager_inv_def maps_wf_def)
  have "key_dapp k \<in> set (subscribers_of m (key_rf k))" if "(k, i) \<in> set ?es" for k i
    using that links_invD(1,3) [OF li, of "key_dapp k" "key_rf k"]
    unfolding make_sub_key_of_parts um_has_iff_in_keys by force
  then obtain xs where xs: "snd (snd (expire_loop t ?es m [] [])) = xs" "distinct xs"
      "set xs = {rf. subscribers_of m rf \<noteq> [] \<and> subscribers_of (fst (expire_loop t ?es m [] [])) rf = []}"
    using expire_loop_emptied [of ?es m t "[]" "[]"] wf by (auto simp: um_wf_def)
  have st: "fst (expire_loop t ?es m [] []) = ?m"
    by (simp add: expire_subscriptions_def split_def Let_def)
  have cb': "sm_lifecycle_callback ?m"
    using cb by (simp add: expire_subscriptions_alt(1) [OF wf])
  have "snd (snd (expire_subscriptions t m)) = concat (map (\<lambda>rf. check_sm_lifecycle ?m rf True) xs)"
    using xs(1) by (simp add: expire_subscriptions_def split_def Let_def)
  also have "\<dots> = map (\<lambda>rf. (rf, False)) xs"
    by (rule stop_calls [OF cb']) (use xs(3) st in simp)
  finally have calls: "snd (snd (expire_subscriptions t m)) = map (\<lambda>rf. (rf, False)) xs" .
  have mono: "subscribers_of m rf = [] \<Longrightarrow> subscribers_of ?m rf = []" for rf
    using fold_purge_subscribers [of "map fst (filter (\<lambda>(k, i). is_expired i t) ?es)" m rf]
    by (simp add: expire_subscriptions_alt(1) [OF wf])
  show ?thesis unfolding calls
    by (rule edge_calls_stops [OF xs(2)]) (use xs(3) st mono in simp_all)
qed

lemma edges_exec_op:
  assumes "manager_inv m" "sm_lifecycle_callback m"
  shows "edge_calls m (fst (exec_op x m)) (snd (snd (exec_op x m)))"
  using edges_register edges_unregister [OF assms] edges_add [OF assms(2)] edges_remove [OF assms(2)]
    edges_remove_by_id [OF assms] edges_expire [OF assms]
  by (cases x) (simp_all add: split_def Let_def)

lemma remove_subscription_callback:
  "sm_lifecycle_callback (fst (remove_subscription d rf m)) = sm_lifecycle_callback m"
  by (cases "rf \<in> set (um_get [] (dapp_subscriptions m) d)")
    (simp_all add: remove_subscription_state remove_subscription_not_found)

lemma exec_op_fst:
  "fst (exec_op (OpRegister t) m) = fst (register_dapp t m)"
  "fst (exec_op (OpUnregister d) m) = fst (unregister_dapp d m)"
  "fst (exec_op (OpAdd d rf ts cs per s t) m) = fst (add_subscription d rf ts cs per s t m)"
  "fst (exec_op (OpRemove d rf) m) = fst (remove_subscription d rf m)"
  "fst (exec_op (OpRemoveById d sid) m) = fst (remove_subscription_by_id d sid m)"
  "fst (exec_op (OpExpire t) m) = fst (expire_subscriptions t m)"
  by (simp_all add: split_def Let_def)

lemma exec_op_callback:
  assumes "manager_inv m"
  shows "sm_lifecycle_callback (fst (exec_op x m)) = sm_lifecycle_callback m"
proof (cases x)
  case (OpRegister t)
  then show ?thesis unfolding OpRegister exec_op_fst by (simp add: register_dapp_def Let_def)
next
  case (OpUnregister d)
  show ?thesis unfolding OpUnregister exec_op_fst
    using unregister_dapp_state [OF assms, of d]
    by (cases "um_has (registered_dapps m) d") (simp_all, simp add: unregister_dapp_def)
next
  case (OpAdd d rf ts cs per s t)
  show ?thesis unfolding OpAdd exec_op_fst
    by (simp add: add_subscription_cases Let_def split: option.split)
next
  case (OpRemove d rf)
  show ?thesis unfolding OpRemove exec_op_fst by (rule remove_subscription_callback)
next
  case (OpRemoveById d sid)
  show ?thesis unfolding OpRemoveById exec_op_fst
    by (cases "\<exists>rf. map_of (subscription_ids m) sid = Some (d, rf)")
      (auto simp: remove_by_id_eq_remove [OF assms] remove_by_id_not_found remove_subscription_callback)
next
  case (OpExpire t)
  have "um_wf (subscription_details m)" using assms by (simp add: manager_inv_def maps_wf_def)
  then show ?thesis unfolding OpExpire exec_op_fst by (simp add: expire_subscriptions_alt(1))
qed

interpretation sub_lifecycle: lifecycle_source exec_op has_subscribers
  "\<lambda>m. manager_inv m \<and> sm_lifecycle_callback m"
  using edges_exec_op by unfold_locales
    (auto simp: manager_inv_exec_op exec_op_callback edge_calls_def)

end
