(* ===== verification/Subscription_Props.thy ===== *)
theory Subscription_Props
  imports Subscription_Refine
begin

text \<open>
  The properties of the subscription manager that its clients rely on, over every state the
  public operations can reach.
\<close>

text \<open>The state after a sequence of calls on a new manager whose lifecycle callback is set.\<close>

definition reached :: "manager_op list \<Rightarrow> subscription_manager" where
  "reached xs = fst (exec_ops xs (set_sm_lifecycle_callback subscription_manager_init))"

lemma exec_ops_callback:
  "manager_inv m \<Longrightarrow> sm_lifecycle_callback (fst (exec_ops xs m)) = sm_lifecycle_callback m"
proof (induction xs arbitrary: m)
  case (Cons x xs)
  from Cons.IH [OF manager_inv_exec_op [OF Cons.prems, of x]] exec_op_callback [OF Cons.prems, of x]
  show ?case by (simp add: split_def Let_def)
qed simp

lemma manager_inv_start: "manager_inv (set_sm_lifecycle_callback subscription_manager_init)"
  by (simp add: set_sm_lifecycle_callback_def manager_inv_init)

lemma manager_inv_reached: "manager_inv (reached xs)"
  unfolding reached_def using sim_steps [OF manager_inv_start] by blast

lemma reached_callback: "sm_lifecycle_callback (reached xs)"
  unfolding reached_def exec_ops_callback [OF manager_inv_start]
  by (simp add: set_sm_lifecycle_callback_def)

text \<open>C1. Every run of the subscription manager is a run of the registry: for any sequence of
  calls on a new manager the results are those the registry specification allows, and the
  six maps at the end represent the registry's state.\<close>

theorem manager_refines_registry:
  "registry_steps (registry_of subscription_manager_init) xs
     (fst (snd (exec_ops xs (set_sm_lifecycle_callback subscription_manager_init))))
     (registry_of (reached xs))"
proof -
  have "registry_of (set_sm_lifecycle_callback subscription_manager_init)
      = registry_of subscription_manager_init"
    by (intro registry_eqI) (simp_all add: registry_of_def set_sm_lifecycle_callback_def split: option.split)
  then show ?thesis
    using sim_steps [OF manager_inv_start, of xs] by (simp add: reached_def)
qed

text \<open>C2. The lifecycle calls drive the Service Models correctly: starting a RAN function at
  each call with \<open>True\<close> and stopping it at each call with \<open>False\<close>, after any sequence of calls
  the running ones are exactly those with at least one subscriber.\<close>

theorem lifecycle_calls_track_subscribers:
  "apply_calls (snd (run_calls exec_op xs (set_sm_lifecycle_callback subscription_manager_init))) {}
     = {rf. has_subscribers
              (fst (run_calls exec_op xs (set_sm_lifecycle_callback subscription_manager_init))) rf}"
proof -
  let ?m = "set_sm_lifecycle_callback subscription_manager_init"
  have "{rf. has_subscribers ?m rf} = {}"
    by (simp add: has_subscribers_def set_sm_lifecycle_callback_def subscription_manager_init_def)
  then show ?thesis
    using sub_lifecycle.run_tracks [of ?m xs] manager_inv_start
    by (simp add: set_sm_lifecycle_callback_def)
qed

text \<open>C3. No operation makes a redundant lifecycle call: in every reachable state an operation
  calls with \<open>True\<close> exactly for the RAN functions that gain their first subscriber in it,
  with \<open>False\<close> exactly for those that lose their last one, and each at most once.\<close>

theorem lifecycle_calls_are_edges:
  "edge_calls (reached xs) (fst (exec_op x (reached xs))) (snd (snd (exec_op x (reached xs))))"
  by (rule edges_exec_op [OF manager_inv_reached reached_callback])

text \<open>C4. In every reachable state the six maps agree: the index by dApp, the index by RAN
  function, the details and the two id maps describe the same subscriptions, both kinds of
  ids are in 1..65535, and only registered dApps have subscriptions.\<close>

theorem reached_indexes_agree:
  "(is_subscribed (reached xs) d rf \<longleftrightarrow> d \<in> set (subscribers_of (reached xs) rf))
   \<and> (is_subscribed (reached xs) d rf \<longleftrightarrow> get_subscription_details (reached xs) d rf \<noteq> None)
   \<and> (is_subscribed (reached xs) d rf \<longleftrightarrow>
        (\<exists>sid. map_of (subscription_ids (reached xs)) sid = Some (d, rf)
               \<and> map_of (subscription_id_reverse (reached xs)) (make_sub_key d rf) = Some sid
               \<and> 1 \<le> sid \<and> sid \<le> 65535
               \<and> is_dapp_registered (reached xs) d \<and> 1 \<le> d \<and> d \<le> 65535))"
proof -
  let ?m = "reached xs"
  have inv: "manager_inv ?m" by (rule manager_inv_reached)
  then have li: "links_inv (sub_links ?m) ?m" and ri: "registration_inv ?m"
    by (simp_all add: manager_inv_def)
  have sub: "is_subscribed ?m d rf \<longleftrightarrow> (d, rf) \<in> sub_links ?m"
    by (simp add: is_subscribed_def sub_links_def um_get_def split: option.split)
  have reg: "is_dapp_registered ?m d \<and> 1 \<le> d \<and> d \<le> 65535" if "(d, rf) \<in> sub_links ?m"
  proof -
    from that have "um_has (dapp_subscriptions ?m) d"
      by (cases "map_of (dapp_subscriptions ?m) d") (auto simp: sub_links_def um_get_def um_has_def)
    then have "um_has (registered_dapps ?m) d" using ri by (simp add: registration_inv_def)
    moreover from this have "MIN_ID \<le> d \<and> d \<le> MAX_ID"
      using ri by (auto simp: registration_inv_def um_has_def)
    ultimately show ?thesis by (simp add: is_dapp_registered_def MIN_ID_def MAX_ID_def)
  qed
  have "(d, rf) \<in> sub_links ?m \<longleftrightarrow>
      (\<exists>sid. map_of (subscription_ids ?m) sid = Some (d, rf)
         \<and> map_of (subscription_id_reverse ?m) (make_sub_key d rf) = Some sid)"
    using links_invD(2,4) [OF li, of d rf] unfolding um_has_def by blast
  then show ?thesis
    using links_invD(1,3) [OF li, of d rf] links_invD(5) [OF li] reg
    unfolding sub get_subscription_details_def by (force simp: um_has_def MIN_ID_def MAX_ID_def)
qed

text \<open>What a query for subscribers returns, in terms of the registry.\<close>

lemma get_subscribed_dapps_iff:
  assumes "manager_inv m"
  shows "d \<in> set (get_subscribed_dapps m at rf) \<longleftrightarrow>
     (\<exists>sid i. rg_subs (registry_of m) (d, rf) = Some (sid, i) \<and> \<not> is_expired i at)"
proof -
  have li: "links_inv (sub_links m) m" using assms by (simp add: manager_inv_def)
  have "d \<in> set (get_subscribed_dapps m at rf) \<longleftrightarrow> d \<in> set (subscribers_of m rf)
      \<and> (case map_of (subscription_details m) (make_sub_key d rf) of
           None \<Rightarrow> True | Some i \<Rightarrow> \<not> is_expired i at)"
    by (auto simp: get_subscribed_dapps_def subscribers_of_def um_get_def split: option.splits)
  then show ?thesis
    using links_invD(1-3) [OF li, of d rf]
    by (auto simp: rg_subs_Some um_has_def split: option.splits)
qed

text \<open>C5. The expiry sweep is invisible to indications: at the time of a sweep the dApps that
  receive indications are the same before and after it, and the sweep removes exactly the
  subscriptions that have run out.\<close>

theorem expiry_sweep_invisible:
  "set (get_subscribed_dapps (fst (expire_subscriptions at (reached xs))) at rf)
     = set (get_subscribed_dapps (reached xs) at rf)
   \<and> get_subscription_details (fst (expire_subscriptions at (reached xs))) d rf
     = (case get_subscription_details (reached xs) d rf of
          None \<Rightarrow> None
        | Some i \<Rightarrow> if is_expired i at then None else Some i)"
proof -
  let ?m = "reached xs" and ?m' = "fst (expire_subscriptions at (reached xs))"
  have inv: "manager_inv ?m" by (rule manager_inv_reached)
  have inv': "manager_inv ?m'" by (rule manager_inv_expire [OF inv])
  have wf: "um_wf (subscription_details ?m)" using inv by (simp add: manager_inv_def maps_wf_def)
  have det: "map_of (subscription_details ?m') k =
      (case map_of (subscription_details ?m) k of
         None \<Rightarrow> None | Some i \<Rightarrow> if is_expired i at then None else Some i)" for k
    unfolding expire_subscriptions_alt(1) [OF wf] fold_purge_fields expired_keys_mem [OF wf]
    by (auto split: option.split)
  have rev: "map_of (subscription_id_reverse ?m') k =
      (if \<exists>i. map_of (subscription_details ?m) k = Some i \<and> is_expired i at then None
       else map_of (subscription_id_reverse ?m) k)" for k
    unfolding expire_subscriptions_alt(1) [OF wf] fold_purge_fields expired_keys_mem [OF wf] ..
  have "x \<in> set (get_subscribed_dapps ?m' at rf) \<longleftrightarrow> x \<in> set (get_subscribed_dapps ?m at rf)" for x
    unfolding get_subscribed_dapps_iff [OF inv] get_subscribed_dapps_iff [OF inv'] rg_subs_Some det rev
    by (auto split: option.splits)
  then show ?thesis using det by (auto simp: get_subscription_details_def)
qed

text \<open>C6. A subscription that is granted for \<open>s\<close> seconds is served for exactly that long: after a
  successful \<open>add_subscription\<close> at time \<open>t\<close> the dApp is among the subscribers at time \<open>at\<close> if and
  only if \<open>s\<close> is 0 (no limit) or \<open>at\<close> is before \<open>t\<close> plus \<open>s\<close> seconds.\<close>

theorem subscription_served_until_expiry:
  assumes "add_subscription d rf ts cs per s t (reached xs) = (m', (SUCCESS, sid), calls)"
  shows "d \<in> set (get_subscribed_dapps m' at rf) \<longleftrightarrow> s = 0 \<or> at < t + 1000000000 * uint s"
proof -
  let ?m = "reached xs"
  let ?x = "OpAdd d rf ts cs per s t"
  have inv: "manager_inv ?m" by (rule manager_inv_reached)
  have ex: "exec_op ?x ?m = (m', ResId SUCCESS sid, calls)" using assms by simp
  have inv': "manager_inv m'" using manager_inv_exec_op [OF inv, of ?x] ex by simp
  have "registry_step (registry_of ?m) ?x (ResId SUCCESS sid) (registry_of m')"
    using sim_step [OF inv, of ?x] ex by simp
  then have "rg_subs (registry_of m') (d, rf) = Some (sid, new_details ts cs per s t)"
    by cases simp_all
  then show ?thesis
    unfolding get_subscribed_dapps_iff [OF inv']
    by (auto simp: is_expired_def new_details_def word_greater_zero_iff)
qed

theorem subscription_served_until_expiry_witness:
  "(1 :: u32) \<in> set (get_subscribed_dapps
     (fst (add_subscription 1 5 [10] [] 0 60 1000 (reached [OpRegister 0]))) 60000000999 5)
   \<and> (1 :: u32) \<notin> set (get_subscribed_dapps
     (fst (add_subscription 1 5 [10] [] 0 60 1000 (reached [OpRegister 0]))) 60000001000 5)"
proof -
  let ?r = "add_subscription 1 5 [10] [] 0 60 1000 (reached [OpRegister 0])"
  have "fst (snd ?r) = (SUCCESS, 1)" by code_simp
  then have "?r = (fst ?r, (SUCCESS, 1), snd (snd ?r))" by (metis prod.collapse)
  from subscription_served_until_expiry [OF this] show ?thesis by simp
qed

text \<open>A dApp that disconnects and registers again before any lower id is released gets the
  same id back, as the comment in \<open>register_dapp\<close> promises.\<close>

theorem reconnect_gets_same_id:
  assumes "register_dapp t (reached xs) = (m1, SUCCESS, i)"
  shows "\<exists>m3. register_dapp t' (fst (unregister_dapp i m1)) = (m3, SUCCESS, i)"
proof -
  let ?m = "reached xs"
  have nz: "lowest_free_id (registered_dapps ?m) \<noteq> 0" and i: "i = lowest_free_id (registered_dapps ?m)"
    and m1: "m1 = fst (register_dapp t ?m)"
    using assms by (auto simp: register_dapp_def Let_def split: if_splits)
  have inv: "manager_inv m1" unfolding m1 by (rule manager_inv_register [OF manager_inv_reached])
  have reg: "registered_dapps m1 =
      AList.update i \<lparr>de_dapp_identifier = i, de_registered_time = t\<rparr> (registered_dapps ?m)"
    using assms by (auto simp: register_dapp_def Let_def split: if_splits)
  then have "um_has (registered_dapps m1) i" by (simp add: um_has_update)
  then have "registered_dapps (fst (unregister_dapp i m1)) = AList.delete i (registered_dapps m1)"
    using inv by (simp add: unregister_dapp_state)
  then have "lowest_free_id (registered_dapps (fst (unregister_dapp i m1))) = i"
    using lowest_free.alloc_reuse [OF nz] reg i by simp
  then show ?thesis using nz i by (simp add: register_dapp_def Let_def)
qed

theorem reconnect_gets_same_id_witness:
  "\<exists>m3. register_dapp 9 (fst (unregister_dapp 2 (fst (register_dapp 7 (reached [OpRegister 0])))))
          = (m3, SUCCESS, 2)"
proof -
  let ?r = "register_dapp 7 (reached [OpRegister 0])"
  have "snd ?r = (SUCCESS, 2)" by code_simp
  then have "?r = (fst ?r, SUCCESS, 2)" by (metis prod.collapse)
  from reconnect_gets_same_id [OF this] show ?thesis .
qed

end
