(* ===== verification/Dapp_State.thy ===== *)
theory Dapp_State
  imports E3_Types
begin

text \<open>
  The session state of a dApp, \<open>class DAppSubscriptionState\<close> of
  \<^verbatim>\<open>include/libe3/dapp_subscription_state.hpp\<close>: the id the RAN assigned, the RAN functions it
  advertised, and the subscriptions in a map and its reverse, with their deadlines. Every
  method holds the state's mutex, so a method is a state function.

  The two maps stay inverse to each other as long as the RAN never reports a second id for
  a RAN function that is still recorded; the last section shows what happens when it does.
\<close>

section \<open>State and operations\<close>

record dapp_state =
  assigned_dapp_id :: "u32 option"
  remote_ran_functions :: "ran_function_def list"
  ran_function_to_subscription_id :: "(u32, u32) umap"
  subscription_id_to_ran_function :: "(u32, u32) umap"
  ran_function_expiry :: "(u32, time_point) umap"

definition dapp_state_init :: dapp_state where
  "dapp_state_init =
     \<lparr>assigned_dapp_id = None, remote_ran_functions = [], ran_function_to_subscription_id = [],
      subscription_id_to_ran_function = [], ran_function_expiry = []\<rparr>"

definition record_setup_response :: "u32 \<Rightarrow> ran_function_def list \<Rightarrow> dapp_state \<Rightarrow> dapp_state" where
  "record_setup_response dapp_id functions st =
     st\<lparr>assigned_dapp_id := Some dapp_id, remote_ran_functions := functions\<rparr>"

definition clear_session :: "dapp_state \<Rightarrow> dapp_state" where
  "clear_session st =
     st\<lparr>assigned_dapp_id := None, remote_ran_functions := [],
        ran_function_to_subscription_id := [], subscription_id_to_ran_function := [],
        ran_function_expiry := []\<rparr>"

definition record_subscription :: "u32 \<Rightarrow> u32 \<Rightarrow> time_point option \<Rightarrow> dapp_state \<Rightarrow> dapp_state" where
  "record_subscription rf sub_id expires st =
     st\<lparr>ran_function_to_subscription_id :=
          AList.update rf sub_id (ran_function_to_subscription_id st),
        subscription_id_to_ran_function :=
          AList.update sub_id rf (subscription_id_to_ran_function st),
        ran_function_expiry :=
          (case expires of
             Some e \<Rightarrow> AList.update rf e (ran_function_expiry st)
           | None \<Rightarrow> AList.delete rf (ran_function_expiry st))\<rparr>"

text \<open>One pass of the sweep's loop body, for a RAN function whose time is up.\<close>

definition ds_forget :: "u32 \<Rightarrow> dapp_state \<Rightarrow> dapp_state" where
  "ds_forget rf st =
     (let st1 = (case map_of (ran_function_to_subscription_id st) rf of
                   None \<Rightarrow> st
                 | Some sub_id \<Rightarrow>
                     st\<lparr>subscription_id_to_ran_function :=
                          AList.delete sub_id (subscription_id_to_ran_function st),
                        ran_function_to_subscription_id :=
                          AList.delete rf (ran_function_to_subscription_id st)\<rparr>)
      in st1\<lparr>ran_function_expiry := AList.delete rf (ran_function_expiry st1)\<rparr>)"

fun ds_expire_loop ::
    "time_point \<Rightarrow> (u32 \<times> time_point) list \<Rightarrow> dapp_state \<Rightarrow> u32 list \<Rightarrow> dapp_state \<times> u32 list" where
  "ds_expire_loop now [] st expired = (st, expired)"
| "ds_expire_loop now ((rf, deadline) # rest) st expired =
     (if now < deadline then ds_expire_loop now rest st expired
      else ds_expire_loop now rest (ds_forget rf st) (expired @ [rf]))"

definition ds_expire_subscriptions :: "time_point \<Rightarrow> dapp_state \<Rightarrow> dapp_state \<times> u32 list" where
  "ds_expire_subscriptions now st = ds_expire_loop now (ran_function_expiry st) st []"

definition remove_subscription_by_rf :: "u32 \<Rightarrow> dapp_state \<Rightarrow> dapp_state \<times> bool" where
  "remove_subscription_by_rf rf st =
     (case map_of (ran_function_to_subscription_id st) rf of
        None \<Rightarrow> (st, False)
      | Some sub_id \<Rightarrow>
          (st\<lparr>ran_function_to_subscription_id := AList.delete rf (ran_function_to_subscription_id st),
              subscription_id_to_ran_function :=
                AList.delete sub_id (subscription_id_to_ran_function st),
              ran_function_expiry := AList.delete rf (ran_function_expiry st)\<rparr>, True))"

definition ds_remove_subscription_by_id :: "u32 \<Rightarrow> dapp_state \<Rightarrow> dapp_state \<times> bool" where
  "ds_remove_subscription_by_id sub_id st =
     (case map_of (subscription_id_to_ran_function st) sub_id of
        None \<Rightarrow> (st, False)
      | Some rf \<Rightarrow>
          (st\<lparr>subscription_id_to_ran_function :=
                AList.delete sub_id (subscription_id_to_ran_function st),
              ran_function_to_subscription_id := AList.delete rf (ran_function_to_subscription_id st),
              ran_function_expiry := AList.delete rf (ran_function_expiry st)\<rparr>, True))"

definition active_subscriptions :: "dapp_state \<Rightarrow> u32 list" where
  "active_subscriptions st = map fst (subscription_id_to_ran_function st)"

definition subscribed_ran_functions :: "dapp_state \<Rightarrow> u32 list" where
  "subscribed_ran_functions st = map fst (ran_function_to_subscription_id st)"

definition subscription_id_for :: "dapp_state \<Rightarrow> u32 \<Rightarrow> u32 option" where
  "subscription_id_for st rf = map_of (ran_function_to_subscription_id st) rf"

section \<open>Invariant\<close>

definition dapp_state_inv :: "dapp_state \<Rightarrow> bool" where
  "dapp_state_inv st \<longleftrightarrow>
     um_wf (ran_function_to_subscription_id st) \<and> um_wf (subscription_id_to_ran_function st)
     \<and> um_wf (ran_function_expiry st)
     \<and> (\<forall>rf sid. map_of (ran_function_to_subscription_id st) rf = Some sid
                  \<longleftrightarrow> map_of (subscription_id_to_ran_function st) sid = Some rf)
     \<and> (\<forall>rf. um_has (ran_function_expiry st) rf \<longrightarrow> um_has (ran_function_to_subscription_id st) rf)"

text \<open>
  The RAN reports ids consistently: the id it grants belongs to no other recorded RAN
  function, and a RAN function that is still recorded keeps its id.
\<close>

definition consistent_grant :: "u32 \<Rightarrow> u32 \<Rightarrow> dapp_state \<Rightarrow> bool" where
  "consistent_grant rf sid st \<longleftrightarrow>
     (case map_of (ran_function_to_subscription_id st) rf of None \<Rightarrow> True | Some s \<Rightarrow> s = sid)
     \<and> (case map_of (subscription_id_to_ran_function st) sid of None \<Rightarrow> True | Some r \<Rightarrow> r = rf)"

lemma dapp_state_inv_init: "dapp_state_inv dapp_state_init"
  by (simp add: dapp_state_inv_def dapp_state_init_def)

lemma dapp_state_inv_setup: "dapp_state_inv st \<Longrightarrow> dapp_state_inv (record_setup_response d fs st)"
  by (simp add: dapp_state_inv_def record_setup_response_def)

lemma dapp_state_inv_clear: "dapp_state_inv (clear_session st)"
  by (simp add: dapp_state_inv_def clear_session_def)

lemma dapp_state_inv_record:
  assumes "dapp_state_inv st" "consistent_grant rf sid st"
  shows "dapp_state_inv (record_subscription rf sid e st)"
proof -
  have bij: "\<And>r s. map_of (ran_function_to_subscription_id st) r = Some s
      \<longleftrightarrow> map_of (subscription_id_to_ran_function st) s = Some r"
    using assms(1) by (simp add: dapp_state_inv_def)
  have "map_of (ran_function_to_subscription_id st) rf = Some s \<Longrightarrow> s = sid"
    and "map_of (subscription_id_to_ran_function st) sid = Some r \<Longrightarrow> r = rf" for s r
    using assms(2) by (auto simp: consistent_grant_def split: option.splits)
  with bij have bij': "map_of (ran_function_to_subscription_id (record_subscription rf sid e st)) r = Some s
      \<longleftrightarrow> map_of (subscription_id_to_ran_function (record_subscription rf sid e st)) s = Some r" for r s
    by (auto simp: record_subscription_def)
  show ?thesis
    using assms(1) bij' unfolding dapp_state_inv_def
    by (auto simp: record_subscription_def um_has_update um_has_delete split: option.splits)
qed

lemma ds_forget_remove:
  "dapp_state_inv st \<Longrightarrow> um_has (ran_function_to_subscription_id st) rf \<Longrightarrow>
     ds_forget rf st = fst (remove_subscription_by_rf rf st)"
  by (auto simp: ds_forget_def remove_subscription_by_rf_def um_has_def)

lemma dapp_state_inv_remove_rf:
  assumes "dapp_state_inv st"
  shows "dapp_state_inv (fst (remove_subscription_by_rf rf st))"
proof (cases "map_of (ran_function_to_subscription_id st) rf")
  case None
  with assms show ?thesis by (simp add: remove_subscription_by_rf_def)
next
  case (Some sid)
  have bij: "\<And>r s. map_of (ran_function_to_subscription_id st) r = Some s
      \<longleftrightarrow> map_of (subscription_id_to_ran_function st) s = Some r"
    using assms by (simp add: dapp_state_inv_def)
  let ?st = "st\<lparr>ran_function_to_subscription_id := AList.delete rf (ran_function_to_subscription_id st),
      subscription_id_to_ran_function := AList.delete sid (subscription_id_to_ran_function st),
      ran_function_expiry := AList.delete rf (ran_function_expiry st)\<rparr>"
  have "map_of (ran_function_to_subscription_id ?st) r = Some s
      \<longleftrightarrow> map_of (subscription_id_to_ran_function ?st) s = Some r" for r s
    using bij [of r s] bij [of rf s] bij [of rf sid] bij [of r sid] Some by auto
  then have "dapp_state_inv ?st"
    using assms unfolding dapp_state_inv_def by (simp add: um_has_delete)
  then show ?thesis using Some by (simp add: remove_subscription_by_rf_def)
qed

lemma remove_by_id_is_remove_by_rf:
  assumes "dapp_state_inv st" "map_of (subscription_id_to_ran_function st) sid = Some rf"
  shows "ds_remove_subscription_by_id sid st = remove_subscription_by_rf rf st"
proof -
  have "map_of (ran_function_to_subscription_id st) rf = Some sid"
    using assms by (simp add: dapp_state_inv_def)
  with assms(2) show ?thesis
    by (simp add: ds_remove_subscription_by_id_def remove_subscription_by_rf_def)
qed

lemma dapp_state_inv_remove_id:
  assumes "dapp_state_inv st"
  shows "dapp_state_inv (fst (ds_remove_subscription_by_id sid st))"
proof (cases "map_of (subscription_id_to_ran_function st) sid")
  case None
  with assms show ?thesis by (simp add: ds_remove_subscription_by_id_def)
next
  case (Some rf)
  show ?thesis
    unfolding remove_by_id_is_remove_by_rf [OF assms Some] by (rule dapp_state_inv_remove_rf [OF assms])
qed

lemma ds_forget_fields:
  "map_of (ran_function_to_subscription_id (ds_forget rf st)) =
     (map_of (ran_function_to_subscription_id st))(rf := None)"
  "map_of (ran_function_expiry (ds_forget rf st)) = (map_of (ran_function_expiry st))(rf := None)"
  by (auto simp: ds_forget_def Let_def split: option.splits)

lemma dapp_state_inv_forget:
  assumes "dapp_state_inv st" "um_has (ran_function_expiry st) rf"
  shows "dapp_state_inv (ds_forget rf st)"
proof -
  have "um_has (ran_function_to_subscription_id st) rf" using assms by (simp add: dapp_state_inv_def)
  then show ?thesis by (simp add: ds_forget_remove [OF assms(1)] dapp_state_inv_remove_rf [OF assms(1)])
qed

text \<open>The sweep forgets exactly the RAN functions whose deadline has passed.\<close>

lemma ds_expire_loop_correct:
  assumes "dapp_state_inv st" "distinct (map fst es)"
    and "\<And>rf t. (rf, t) \<in> set es \<Longrightarrow> um_has (ran_function_expiry st) rf"
  shows "dapp_state_inv (fst (ds_expire_loop now es st acc))
     \<and> snd (ds_expire_loop now es st acc) = acc @ map fst (filter (\<lambda>(rf, t). t \<le> now) es)
     \<and> map_of (ran_function_to_subscription_id (fst (ds_expire_loop now es st acc))) =
         (map_of (ran_function_to_subscription_id st)) |` (- fst ` {e \<in> set es. snd e \<le> now})"
  using assms
proof (induction es arbitrary: st acc)
  case Nil
  then show ?case by simp
next
  case (Cons e es)
  obtain rf t where e: "e = (rf, t)" by (cases e)
  show ?case
  proof (cases "now < t")
    case True
    then have "{x \<in> set (e # es). snd x \<le> now} = {x \<in> set es. snd x \<le> now}" by (auto simp: e)
    moreover have "um_has (ran_function_expiry st) rf'" if "(rf', t') \<in> set es" for rf' t'
      using Cons.prems(3) [of rf' t'] that by simp
    ultimately show ?thesis
      using True Cons.IH [OF Cons.prems(1), of acc] Cons.prems(2) by (simp add: e)
  next
    case False
    have inv: "dapp_state_inv (ds_forget rf st)"
      using Cons.prems(3) [of rf t] by (intro dapp_state_inv_forget Cons.prems(1)) (simp add: e)
    have mem: "um_has (ran_function_expiry (ds_forget rf st)) rf'" if "(rf', t') \<in> set es" for rf' t'
    proof -
      have "rf' \<noteq> rf" using Cons.prems(2) that by (force simp: e)
      then show ?thesis using Cons.prems(3) [of rf' t'] that by (simp add: um_has_def ds_forget_fields)
    qed
    have sets: "fst ` {x \<in> set (e # es). snd x \<le> now} = insert rf (fst ` {x \<in> set es. snd x \<le> now})"
      using False by (force simp: e)
    have restr: "(map_of (ran_function_to_subscription_id (ds_forget rf st))) |` (- S)
        = (map_of (ran_function_to_subscription_id st)) |` (- insert rf S)" for S
      by (auto simp: ds_forget_fields restrict_map_def fun_eq_iff)
    show ?thesis
      using Cons.IH [OF inv, of "acc @ [rf]"] mem Cons.prems(2) False
      unfolding sets restr by (simp add: e)
  qed
qed

section \<open>Runs of a session\<close>

datatype dapp_op =
    DSetup u32 "ran_function_def list"
  | DClear
  | DRecord u32 u32 "time_point option"
  | DExpire time_point
  | DRemoveRf u32
  | DRemoveId u32

fun dapp_exec :: "dapp_op \<Rightarrow> dapp_state \<Rightarrow> dapp_state" where
  "dapp_exec (DSetup d fs) st = record_setup_response d fs st"
| "dapp_exec DClear st = clear_session st"
| "dapp_exec (DRecord rf sid e) st = record_subscription rf sid e st"
| "dapp_exec (DExpire now) st = fst (ds_expire_subscriptions now st)"
| "dapp_exec (DRemoveRf rf) st = fst (remove_subscription_by_rf rf st)"
| "dapp_exec (DRemoveId sid) st = fst (ds_remove_subscription_by_id sid st)"

fun consistent_run :: "dapp_op list \<Rightarrow> dapp_state \<Rightarrow> bool" where
  "consistent_run [] st = True"
| "consistent_run (x # xs) st =
     ((case x of DRecord rf sid _ \<Rightarrow> consistent_grant rf sid st | _ \<Rightarrow> True)
      \<and> consistent_run xs (dapp_exec x st))"

lemma expiry_correct:
  assumes "dapp_state_inv st"
  shows "dapp_state_inv (fst (ds_expire_subscriptions now st))"
    and "rf \<in> set (snd (ds_expire_subscriptions now st)) \<longleftrightarrow>
           (\<exists>t. map_of (ran_function_expiry st) rf = Some t \<and> t \<le> now)"
    and "subscription_id_for (fst (ds_expire_subscriptions now st)) rf =
           (if rf \<in> set (snd (ds_expire_subscriptions now st)) then None else subscription_id_for st rf)"
proof -
  have wf: "um_wf (ran_function_expiry st)" using assms by (simp add: dapp_state_inv_def)
  then have "distinct (map fst (ran_function_expiry st))" by (simp add: um_wf_def)
  moreover have "um_has (ran_function_expiry st) r" if "(r, t) \<in> set (ran_function_expiry st)" for r t
    using that by (force simp: um_has_iff_in_keys)
  ultimately have ex: "dapp_state_inv (fst (ds_expire_subscriptions now st))"
    "snd (ds_expire_subscriptions now st) = map fst (filter (\<lambda>(rf, t). t \<le> now) (ran_function_expiry st))"
    "map_of (ran_function_to_subscription_id (fst (ds_expire_subscriptions now st))) =
       (map_of (ran_function_to_subscription_id st)) |`
         (- fst ` {e \<in> set (ran_function_expiry st). snd e \<le> now})"
    using ds_expire_loop_correct [OF assms, of "ran_function_expiry st" now "[]"]
    unfolding ds_expire_subscriptions_def by simp_all
  show "dapp_state_inv (fst (ds_expire_subscriptions now st))" by (rule ex(1))
  show mem: "rf \<in> set (snd (ds_expire_subscriptions now st)) \<longleftrightarrow>
           (\<exists>t. map_of (ran_function_expiry st) rf = Some t \<and> t \<le> now)"
    unfolding ex(2) using um_wf_mem_iff [OF wf, of rf] by (force simp: image_iff)
  have "rf \<in> fst ` {e \<in> set (ran_function_expiry st). snd e \<le> now} \<longleftrightarrow>
      rf \<in> set (snd (ds_expire_subscriptions now st))"
    unfolding ex(2) by force
  then show "subscription_id_for (fst (ds_expire_subscriptions now st)) rf =
           (if rf \<in> set (snd (ds_expire_subscriptions now st)) then None else subscription_id_for st rf)"
    unfolding subscription_id_for_def ex(3) by (simp add: restrict_map_def)
qed

lemma dapp_state_inv_exec:
  assumes "dapp_state_inv st" "case x of DRecord rf sid _ \<Rightarrow> consistent_grant rf sid st | _ \<Rightarrow> True"
  shows "dapp_state_inv (dapp_exec x st)"
  using assms
  by (cases x) (simp_all add: dapp_state_inv_setup dapp_state_inv_clear dapp_state_inv_record
      expiry_correct(1) dapp_state_inv_remove_rf dapp_state_inv_remove_id)

lemma dapp_state_inv_run: "dapp_state_inv st \<Longrightarrow> consistent_run xs st \<Longrightarrow> dapp_state_inv (fold dapp_exec xs st)"
  by (induction xs arbitrary: st) (simp_all add: dapp_state_inv_exec)

text \<open>C7. While the RAN grants ids consistently, the dApp's two subscription maps are inverse to
  each other in every state of a session: looking an id up by RAN function and a RAN
  function up by id agree, so deleting by either removes the same subscription.\<close>

theorem dapp_maps_inverse:
  assumes "consistent_run xs dapp_state_init"
  defines "st \<equiv> fold dapp_exec xs dapp_state_init"
  shows "(subscription_id_for st rf = Some sid \<longleftrightarrow> map_of (subscription_id_to_ran_function st) sid = Some rf)
    \<and> (subscription_id_for st rf = Some sid \<longrightarrow>
         ds_remove_subscription_by_id sid st = remove_subscription_by_rf rf st)"
proof -
  have inv: "dapp_state_inv st" unfolding st_def by (rule dapp_state_inv_run [OF dapp_state_inv_init assms(1)])
  then show ?thesis
    using remove_by_id_is_remove_by_rf [OF inv, of sid rf]
    by (simp add: subscription_id_for_def dapp_state_inv_def)
qed

theorem dapp_maps_inverse_witness:
  "subscription_id_for (fold dapp_exec [DSetup 1 [], DRecord 5 7 None, DRecord 6 8 (Some 50), DExpire 60]
     dapp_state_init) 5 = Some 7
   \<and> ds_remove_subscription_by_id 7 (fold dapp_exec
       [DSetup 1 [], DRecord 5 7 None, DRecord 6 8 (Some 50), DExpire 60] dapp_state_init)
     = remove_subscription_by_rf 5 (fold dapp_exec
       [DSetup 1 [], DRecord 5 7 None, DRecord 6 8 (Some 50), DExpire 60] dapp_state_init)"
proof -
  let ?xs = "[DSetup 1 [], DRecord 5 7 None, DRecord 6 8 (Some 50), DExpire 60]"
  have "consistent_run ?xs dapp_state_init" by code_simp
  moreover have "subscription_id_for (fold dapp_exec ?xs dapp_state_init) 5 = Some 7" by code_simp
  ultimately show ?thesis using dapp_maps_inverse [of ?xs 5 7] by blast
qed

text \<open>The dApp's expiry sweep returns exactly the RAN functions whose deadline is at or
  before \<open>now\<close>, forgets their subscriptions and keeps all others.\<close>

theorem dapp_expiry_exact:
  assumes "consistent_run xs dapp_state_init"
  defines "st \<equiv> fold dapp_exec xs dapp_state_init"
  shows "(rf \<in> set (snd (ds_expire_subscriptions now st)) \<longleftrightarrow>
            (\<exists>t. map_of (ran_function_expiry st) rf = Some t \<and> t \<le> now))
     \<and> subscription_id_for (fst (ds_expire_subscriptions now st)) rf =
         (if rf \<in> set (snd (ds_expire_subscriptions now st)) then None else subscription_id_for st rf)"
  using expiry_correct(2,3) [OF dapp_state_inv_run [OF dapp_state_inv_init assms(1)]]
  unfolding st_def by blast

theorem dapp_expiry_exact_witness:
  "6 \<in> set (snd (ds_expire_subscriptions 60
       (fold dapp_exec [DRecord 5 7 None, DRecord 6 8 (Some 50)] dapp_state_init)))
   \<and> subscription_id_for (fst (ds_expire_subscriptions 60
       (fold dapp_exec [DRecord 5 7 None, DRecord 6 8 (Some 50)] dapp_state_init))) 5 = Some 7"
proof -
  let ?xs = "[DRecord 5 7 None, DRecord 6 8 (Some 50)]"
  have c: "consistent_run ?xs dapp_state_init" by code_simp
  have "map_of (ran_function_expiry (fold dapp_exec ?xs dapp_state_init)) 6 = Some 50"
    "map_of (ran_function_expiry (fold dapp_exec ?xs dapp_state_init)) 5 = None"
    "subscription_id_for (fold dapp_exec ?xs dapp_state_init) 5 = Some 7" by code_simp+
  then show ?thesis using dapp_expiry_exact [OF c, of 6 60] dapp_expiry_exact [OF c, of 5 60] by auto
qed

text \<open>\<open>record_subscription\<close> does not erase the old reverse entry: when the RAN reports a new
  id for a RAN function that is still recorded (it expired there and was granted again),
  the old id stays among the active subscriptions, and deleting by that dead id removes the
  live subscription.\<close>

theorem record_leaves_stale_id:
  fixes st rf s1 s2 e1 e2
  assumes "s1 \<noteq> s2"
  defines "st' \<equiv> record_subscription rf s2 e2 (record_subscription rf s1 e1 st)"
  shows "s1 \<in> set (active_subscriptions st') \<and> subscription_id_for st' rf = Some s2
     \<and> snd (ds_remove_subscription_by_id s1 st')
     \<and> subscription_id_for (fst (ds_remove_subscription_by_id s1 st')) rf = None"
proof -
  have "map_of (subscription_id_to_ran_function st') s1 = Some rf"
    using assms(1) by (simp add: st'_def record_subscription_def)
  moreover from this have "s1 \<in> set (active_subscriptions st')"
    by (force simp: active_subscriptions_def dest: map_of_SomeD)
  ultimately show ?thesis
    by (simp add: ds_remove_subscription_by_id_def subscription_id_for_def)
      (simp add: st'_def record_subscription_def)
qed

theorem record_leaves_stale_id_witness:
  "1 \<in> set (active_subscriptions
     (record_subscription 5 2 None (record_subscription 5 1 (Some 10) dapp_state_init)))"
  using record_leaves_stale_id [of 1 2 5 None "Some 10" dapp_state_init] by simp

end
