(* ===== verification/Sm_Registry.thy ===== *)
theory Sm_Registry
  imports E3_Types
begin

text \<open>
  The Service Model interface and the registry of Service Models,
  \<^verbatim>\<open>include/libe3/sm_interface.hpp\<close> and \<^verbatim>\<open>src/core/sm_registry.cpp\<close>.

  A Service Model is code of the RAN vendor. Its virtual methods are a record of functions
  over an opaque object state \<open>'s\<close>, an argument of the registry's operations; what the
  registry relies on is the locale \<open>service_model\<close>. An outbound PDU leaves through the
  emitter the interface installs; its state is \<open>'q\<close>.
\<close>

section \<open>The interface of a Service Model\<close>

type_synonym 'q emitter = "pdu \<Rightarrow> 'q \<Rightarrow> 'q \<times> error_code"

record ('s, 'q) sm_class =
  sm_name :: "'s \<Rightarrow> string"
  sm_version :: "'s \<Rightarrow> u32"
  sm_ran_function_id :: "'s \<Rightarrow> u32"
  sm_telemetry_ids :: "'s \<Rightarrow> u32 list"
  sm_control_ids :: "'s \<Rightarrow> u32 list"
  sm_ran_function_data :: "'s \<Rightarrow> bytes"
  sm_init :: "'s \<Rightarrow> 's \<times> error_code"
  sm_destroy :: "'s \<Rightarrow> 's"
  sm_start :: "'s \<Rightarrow> 's \<times> error_code"
  sm_stop :: "'s \<Rightarrow> 's"
  sm_is_running :: "'s \<Rightarrow> bool"
  sm_handle_control_action ::
    "'q emitter \<Rightarrow> u32 \<Rightarrow> dapp_control_action \<Rightarrow> 's \<Rightarrow> 'q \<Rightarrow> ('s \<times> 'q) \<times> error_code"

definition make_message_ack_pdu :: "u64 \<Rightarrow> u32 \<Rightarrow> response_code \<Rightarrow> pdu" where
  "make_message_ack_pdu now request_message_id code =
     make_pdu now MESSAGE_ACK
       (MessageAck \<lparr>ack_request_id = request_message_id, ack_response_code = code,
                    ack_cause = None, ack_detail = None\<rparr>) 0"

definition make_indication_pdu :: "u64 \<Rightarrow> u32 \<Rightarrow> u32 \<Rightarrow> bytes \<Rightarrow> pdu" where
  "make_indication_pdu now dapp_id rf protocol_data =
     make_pdu now INDICATION_MESSAGE
       (IndicationMessage \<lparr>ind_dapp_identifier = dapp_id, ind_ran_function_identifier = rf,
                           ind_protocol_data = protocol_data\<rparr>) 0"

definition emit_outbound :: "'q emitter option \<Rightarrow> pdu \<Rightarrow> 'q \<Rightarrow> 'q \<times> error_code" where
  "emit_outbound emitter p q =
     (case emitter of None \<Rightarrow> (q, NOT_INITIALIZED) | Some f \<Rightarrow> f p q)"

section \<open>The registry\<close>

record 's sm_registry =
  sms :: "(u32, 's) umap"
  factories :: "(u32, unit \<Rightarrow> 's option) umap"

definition sm_registry_init :: "'s sm_registry" where
  "sm_registry_init = \<lparr>sms = [], factories = []\<rparr>"

definition register_sm ::
    "('s, 'q) sm_class \<Rightarrow> 's option \<Rightarrow> 's sm_registry \<Rightarrow> 's sm_registry \<times> error_code" where
  "register_sm V smo reg =
     (case smo of
        None \<Rightarrow> (reg, INVALID_PARAM)
      | Some sm \<Rightarrow>
          let rfd_len = length (sm_ran_function_data V sm) in
          if rfd_len = 0 \<or> MAX_PROTOCOL_DATA_SIZE < rfd_len then (reg, INVALID_PARAM)
          else if MAX_IDENTIFIER_LIST_SIZE < length (sm_telemetry_ids V sm)
               \<or> MAX_IDENTIFIER_LIST_SIZE < length (sm_control_ids V sm) then (reg, INVALID_PARAM)
          else if MAX_RAN_FUNCTIONS \<le> length (sms reg) + length (factories reg)
          then (reg, INVALID_PARAM)
          else
            let ran_func = sm_ran_function_id V sm in
            if um_has (sms reg) ran_func then (reg, SM_ALREADY_REGISTERED)
            else
              let (sm', init_result) = sm_init V sm in
              if init_result \<noteq> SUCCESS then (reg, init_result)
              else (reg\<lparr>sms := AList.update ran_func sm' (sms reg)\<rparr>, SUCCESS))"

definition register_sm_factory ::
    "u32 \<Rightarrow> (unit \<Rightarrow> 's option) option \<Rightarrow> 's sm_registry \<Rightarrow> 's sm_registry \<times> error_code" where
  "register_sm_factory rf factory reg =
     (case factory of
        None \<Rightarrow> (reg, INVALID_PARAM)
      | Some f \<Rightarrow>
          if um_has (sms reg) rf \<or> um_has (factories reg) rf then (reg, SM_ALREADY_REGISTERED)
          else if MAX_RAN_FUNCTIONS \<le> length (sms reg) + length (factories reg)
          then (reg, INVALID_PARAM)
          else (reg\<lparr>factories := AList.update rf f (factories reg)\<rparr>, SUCCESS))"

text \<open>
  Stopping an SM if it runs and destroying it, the common part of \<open>unregister_sm\<close> and
  \<open>clear\<close>. The object they leave behind is returned, so that its state can be stated.
\<close>

definition shut_down :: "('s, 'q) sm_class \<Rightarrow> 's \<Rightarrow> 's" where
  "shut_down V sm =
     (let sm1 = (if sm_is_running V sm then sm_stop V sm else sm) in sm_destroy V sm1)"

definition unregister_sm ::
    "('s, 'q) sm_class \<Rightarrow> u32 \<Rightarrow> 's sm_registry \<Rightarrow> 's sm_registry \<times> error_code \<times> 's option" where
  "unregister_sm V rf reg =
     (case map_of (sms reg) rf of
        Some sm \<Rightarrow> (reg\<lparr>sms := AList.delete rf (sms reg)\<rparr>, SUCCESS, Some (shut_down V sm))
      | None \<Rightarrow>
          (case map_of (factories reg) rf of
             Some _ \<Rightarrow> (reg\<lparr>factories := AList.delete rf (factories reg)\<rparr>, SUCCESS, None)
           | None \<Rightarrow> (reg, SM_NOT_FOUND, None)))"

text \<open>The pointer \<open>get_by_ran_function\<close> returns is to the object stored under that id.\<close>

definition get_by_ran_function ::
    "('s, 'q) sm_class \<Rightarrow> u32 \<Rightarrow> 's sm_registry \<Rightarrow> 's sm_registry \<times> 's option" where
  "get_by_ran_function V rf reg =
     (case map_of (sms reg) rf of
        Some sm \<Rightarrow> (reg, Some sm)
      | None \<Rightarrow>
          (case map_of (factories reg) rf of
             None \<Rightarrow> (reg, None)
           | Some f \<Rightarrow>
               (case f () of
                  None \<Rightarrow> (reg, None)
                | Some sm \<Rightarrow>
                    let (sm', init_result) = sm_init V sm in
                    if init_result = SUCCESS
                    then (reg\<lparr>sms := AList.update rf sm' (sms reg),
                              factories := AList.delete rf (factories reg)\<rparr>, Some sm')
                    else (reg, None))))"

definition get_available_ran_functions :: "'s sm_registry \<Rightarrow> u32 list" where
  "get_available_ran_functions reg = sort (map fst (sms reg) @ map fst (factories reg))"

definition start_sm ::
    "('s, 'q) sm_class \<Rightarrow> u32 \<Rightarrow> 's sm_registry \<Rightarrow> 's sm_registry \<times> error_code" where
  "start_sm V rf reg =
     (case map_of (sms reg) rf of
        None \<Rightarrow> (reg, SM_NOT_FOUND)
      | Some sm \<Rightarrow>
          if sm_is_running V sm then (reg, SUCCESS)
          else
            let (sm', result) = sm_start V sm;
                reg' = reg\<lparr>sms := AList.update rf sm' (sms reg)\<rparr>
            in if result \<noteq> SUCCESS then (reg', result) else (reg', SUCCESS))"

definition stop_sm ::
    "('s, 'q) sm_class \<Rightarrow> u32 \<Rightarrow> 's sm_registry \<Rightarrow> 's sm_registry \<times> error_code" where
  "stop_sm V rf reg =
     (case map_of (sms reg) rf of
        None \<Rightarrow> (reg, SM_NOT_FOUND)
      | Some sm \<Rightarrow>
          if \<not> sm_is_running V sm then (reg, SUCCESS)
          else (reg\<lparr>sms := AList.update rf (sm_stop V sm) (sms reg)\<rparr>, SUCCESS))"

definition is_sm_running :: "('s, 'q) sm_class \<Rightarrow> 's sm_registry \<Rightarrow> u32 \<Rightarrow> bool" where
  "is_sm_running V reg rf =
     (case map_of (sms reg) rf of None \<Rightarrow> False | Some sm \<Rightarrow> sm_is_running V sm)"

definition registry_clear ::
    "('s, 'q) sm_class \<Rightarrow> 's sm_registry \<Rightarrow> 's sm_registry \<times> (u32 \<times> 's) list" where
  "registry_clear V reg =
     (\<lparr>sms = [], factories = []\<rparr>, map (\<lambda>(rf, sm). (rf, shut_down V sm)) (sms reg))"

section \<open>What the registry relies on\<close>

text \<open>
  The contract of \<open>start\<close>, \<open>stop\<close>, \<open>is_running\<close> and \<open>ran_function_id\<close> in the comments of
  \<open>class ServiceModel\<close>: a start that returns \<open>SUCCESS\<close> leaves the model running, a stop or
  a destroy leaves it stopped, and the advertised id never changes.
\<close>

locale service_model =
  fixes V :: "('s, 'q) sm_class"
  assumes start_runs: "snd (sm_start V s) = SUCCESS \<Longrightarrow> sm_is_running V (fst (sm_start V s))"
    and stop_stops: "\<not> sm_is_running V (sm_stop V s)"
    and destroy_idle: "\<not> sm_is_running V s \<Longrightarrow> \<not> sm_is_running V (sm_destroy V s)"
    and start_id: "sm_ran_function_id V (fst (sm_start V s)) = sm_ran_function_id V s"
    and stop_id: "sm_ran_function_id V (sm_stop V s) = sm_ran_function_id V s"
    and init_id: "sm_ran_function_id V (fst (sm_init V s)) = sm_ran_function_id V s"
begin

lemma start_sm_runs:
  "snd (start_sm V rf reg) = SUCCESS \<Longrightarrow> is_sm_running V (fst (start_sm V rf reg)) rf"
  by (auto simp: start_sm_def is_sm_running_def split_def Let_def start_runs
      split: option.splits if_splits)

lemma start_sm_other:
  "rf' \<noteq> rf \<Longrightarrow> is_sm_running V (fst (start_sm V rf reg)) rf' = is_sm_running V reg rf'"
  by (auto simp: start_sm_def is_sm_running_def split_def Let_def split: option.splits)

lemma stop_sm_stops: "\<not> is_sm_running V (fst (stop_sm V rf reg)) rf"
  by (auto simp: stop_sm_def is_sm_running_def stop_stops split: option.splits)

lemma stop_sm_other:
  "rf' \<noteq> rf \<Longrightarrow> is_sm_running V (fst (stop_sm V rf reg)) rf' = is_sm_running V reg rf'"
  by (auto simp: stop_sm_def is_sm_running_def split: option.splits)

lemma clear_stops_all: "(rf, sm) \<in> set (snd (registry_clear V reg)) \<Longrightarrow> \<not> sm_is_running V sm"
  by (auto simp: registry_clear_def shut_down_def Let_def destroy_idle stop_stops)

lemma unregister_stops: "snd (snd (unregister_sm V rf reg)) = Some sm \<Longrightarrow> \<not> sm_is_running V sm"
  by (auto simp: unregister_sm_def shut_down_def Let_def destroy_idle stop_stops split: option.splits)

end

section \<open>Invariant of the registry\<close>

definition sm_registry_inv :: "'s sm_registry \<Rightarrow> bool" where
  "sm_registry_inv reg \<longleftrightarrow> um_wf (sms reg) \<and> um_wf (factories reg)
     \<and> length (sms reg) + length (factories reg) \<le> MAX_RAN_FUNCTIONS"

datatype 's reg_op =
    RegRegister "'s option"
  | RegFactory u32 "(unit \<Rightarrow> 's option) option"
  | RegUnregister u32
  | RegGet u32
  | RegStart u32
  | RegStop u32
  | RegClear

fun reg_exec :: "('s, 'q) sm_class \<Rightarrow> 's reg_op \<Rightarrow> 's sm_registry \<Rightarrow> 's sm_registry" where
  "reg_exec V (RegRegister sm) reg = fst (register_sm V sm reg)"
| "reg_exec V (RegFactory rf f) reg = fst (register_sm_factory rf f reg)"
| "reg_exec V (RegUnregister rf) reg = fst (unregister_sm V rf reg)"
| "reg_exec V (RegGet rf) reg = fst (get_by_ran_function V rf reg)"
| "reg_exec V (RegStart rf) reg = fst (start_sm V rf reg)"
| "reg_exec V (RegStop rf) reg = fst (stop_sm V rf reg)"
| "reg_exec V RegClear reg = fst (registry_clear V reg)"

lemma registry_inv_exec:
  assumes "sm_registry_inv reg"
  shows "sm_registry_inv (reg_exec V x reg)"
proof (cases x)
  case (RegRegister smo)
  then show ?thesis using assms
    by (auto simp: register_sm_def sm_registry_inv_def length_um_update split_def Let_def split: option.split)
next
  case (RegFactory rf f)
  then show ?thesis using assms
    by (auto simp: register_sm_factory_def sm_registry_inv_def length_um_update split: option.split)
next
  case (RegUnregister rf)
  then show ?thesis using assms length_um_delete_le [of rf "sms reg"] length_um_delete_le [of rf "factories reg"]
    by (auto simp: unregister_sm_def sm_registry_inv_def split: option.split)
next
  case (RegGet rf)
  then show ?thesis using assms length_um_delete [of "factories reg" rf]
    by (auto simp: get_by_ran_function_def sm_registry_inv_def length_um_update split_def Let_def
        um_has_def split: option.split)
next
  case (RegStart rf)
  then show ?thesis using assms
    by (auto simp: start_sm_def sm_registry_inv_def length_um_update um_has_def split_def Let_def
        split: option.split)
next
  case (RegStop rf)
  then show ?thesis using assms
    by (auto simp: stop_sm_def sm_registry_inv_def length_um_update um_has_def split: option.split)
next
  case RegClear
  then show ?thesis by (simp add: registry_clear_def sm_registry_inv_def MAX_RAN_FUNCTIONS_def)
qed

lemma registry_inv_run: "sm_registry_inv reg \<Longrightarrow> sm_registry_inv (fold (reg_exec V) xs reg)"
  by (induction xs arbitrary: reg) (simp_all add: registry_inv_exec)

text \<open>Whatever the Service Models do, after any sequence of registry operations at most
  \<open>MAX_RAN_FUNCTIONS\<close> (64) RAN functions are listed, so the list always fits the SetupResponse;
  it is sorted and lists exactly the registered models and factories.\<close>

theorem available_functions_bounded:
  "length (get_available_ran_functions (fold (reg_exec V) xs sm_registry_init)) \<le> 64
   \<and> sorted (get_available_ran_functions (fold (reg_exec V) xs sm_registry_init))
   \<and> (rf \<in> set (get_available_ran_functions (fold (reg_exec V) xs sm_registry_init)) \<longleftrightarrow>
        um_has (sms (fold (reg_exec V) xs sm_registry_init)) rf
        \<or> um_has (factories (fold (reg_exec V) xs sm_registry_init)) rf)"
proof -
  have "sm_registry_inv (sm_registry_init :: 'a sm_registry)"
    by (simp add: sm_registry_init_def sm_registry_inv_def)
  then have "sm_registry_inv (fold (reg_exec V) xs sm_registry_init)" by (rule registry_inv_run)
  then show ?thesis
    by (auto simp: get_available_ran_functions_def sm_registry_inv_def MAX_RAN_FUNCTIONS_def
        um_has_iff_in_keys)
qed

end
