(* ===== verification/Simple_Sm.thy ===== *)
theory Simple_Sm
  imports Sm_Registry
begin

text \<open>
  The reference Service Model shipped with the library, \<open>class SimpleServiceModel\<close> of
  \<^verbatim>\<open>examples/sm_simple/simple_service_model.hpp\<close>. It satisfies the contract of the registry.

  The E3SM codecs it calls (\<^verbatim>\<open>e3sm_simple_wrapper.cpp\<close> over generated ASN.1 and Protobuf code)
  are arguments. \<open>running_\<close> stands for the worker thread: \<open>start\<close> spawns it and \<open>stop\<close> joins it.
  The mutex and condition variable of the emission gate are the flag \<open>may_emit\<close>.
\<close>

section \<open>The model\<close>

datatype pacing_mode = FixedRate | PingPong

record simple_sm =
  ssm_running :: bool
  ssm_seq :: u32
  ssm_inflight_seq :: u32
  ssm_period_us :: u64
  ssm_encoding :: encoding_format
  ssm_mode :: pacing_mode
  ssm_may_emit :: bool

record simple_codec =
  encode_ran_function_data :: "string \<Rightarrow> encoding_format \<Rightarrow> bytes option"
  decode_simple_control :: "bytes \<Rightarrow> encoding_format \<Rightarrow> int option"
  encode_simple_indication :: "u32 \<Rightarrow> u32 \<Rightarrow> encoding_format \<Rightarrow> bytes option"

definition new_simple_sm :: "u64 \<Rightarrow> encoding_format \<Rightarrow> pacing_mode \<Rightarrow> simple_sm" where
  "new_simple_sm period encoding mode =
     \<lparr>ssm_running = False, ssm_seq = 0, ssm_inflight_seq = 0, ssm_period_us = period,
      ssm_encoding = encoding, ssm_mode = mode, ssm_may_emit = True\<rparr>"

definition simple_start :: "simple_sm \<Rightarrow> simple_sm \<times> error_code" where
  "simple_start s = (if ssm_running s then (s, SUCCESS) else (s\<lparr>ssm_running := True\<rparr>, SUCCESS))"

definition simple_stop :: "simple_sm \<Rightarrow> simple_sm" where
  "simple_stop s =
     (if \<not> ssm_running s then s else s\<lparr>ssm_running := False, ssm_may_emit := True\<rparr>)"

definition allow_next_emit :: "simple_sm \<Rightarrow> simple_sm" where
  "allow_next_emit s = s\<lparr>ssm_may_emit := True\<rparr>"

definition simple_handle_control_action ::
    "simple_codec \<Rightarrow> u64 \<Rightarrow> 'q emitter \<Rightarrow> u32 \<Rightarrow> dapp_control_action \<Rightarrow> simple_sm \<Rightarrow> 'q
      \<Rightarrow> (simple_sm \<times> 'q) \<times> error_code" where
  "simple_handle_control_action codec now emit request_message_id action s q =
     (let decode_ok = decode_simple_control codec (ctl_action_data action) (ssm_encoding s) \<noteq> None;
          ack = make_message_ack_pdu now request_message_id (if decode_ok then POSITIVE else NEGATIVE);
          (q', rc) = emit_outbound (Some emit) ack q;
          s' = (if ssm_mode s = PingPong then allow_next_emit s else s)
      in ((s', q'), rc))"

definition simple_class :: "simple_codec \<Rightarrow> u64 \<Rightarrow> (simple_sm, 'q) sm_class" where
  "simple_class codec now =
     \<lparr>sm_name = (\<lambda>_. ''SIMPLE''), sm_version = (\<lambda>_. 1), sm_ran_function_id = (\<lambda>_. 1),
      sm_telemetry_ids = (\<lambda>_. [1]), sm_control_ids = (\<lambda>_. [1]),
      sm_ran_function_data = (\<lambda>s.
        case encode_ran_function_data codec ''SIMPLE'' (ssm_encoding s) of None \<Rightarrow> [] | Some out \<Rightarrow> out),
      sm_init = (\<lambda>s. (s, SUCCESS)), sm_destroy = simple_stop, sm_start = simple_start,
      sm_stop = simple_stop, sm_is_running = ssm_running,
      sm_handle_control_action = simple_handle_control_action codec now\<rparr>"

text \<open>
  One pass of the worker loop after its wait: \<open>None\<close> when the loop ends. \<open>subscribers\<close> is what
  the subscribers provider returns and \<open>now_ms\<close> the wall clock in milliseconds.
\<close>

fun emit_indications :: "'q emitter option \<Rightarrow> u64 \<Rightarrow> bytes \<Rightarrow> u32 list \<Rightarrow> 'q \<Rightarrow> 'q" where
  "emit_indications emit now encoded [] q = q"
| "emit_indications emit now encoded (dapp_id # rest) q =
     emit_indications emit now encoded rest
       (fst (emit_outbound emit (make_indication_pdu now dapp_id 1 encoded) q))"

definition simple_worker_pass ::
    "simple_codec \<Rightarrow> u64 \<Rightarrow> u64 \<Rightarrow> 'q emitter option \<Rightarrow> u32 list \<Rightarrow> simple_sm \<Rightarrow> 'q
      \<Rightarrow> (simple_sm \<times> 'q) option" where
  "simple_worker_pass codec now now_ms emit subscribers s q =
     (if \<not> ssm_running s then None
      else
        let s1 = (if ssm_mode s = PingPong then s\<lparr>ssm_may_emit := False\<rparr> else s) in
        if subscribers = [] then Some (s1, q)
        else
          let seq = ssm_seq s1;
              s2 = s1\<lparr>ssm_inflight_seq := seq\<rparr>
          in
          (case encode_simple_indication codec seq (ucast (now_ms AND 0x7FFFFFFF)) (ssm_encoding s2) of
             None \<Rightarrow> Some (s2, q)
           | Some encoded \<Rightarrow>
               Some (s2\<lparr>ssm_seq := seq + 1\<rparr>, emit_indications emit now encoded subscribers q)))"

interpretation simple: service_model "simple_class codec now"
  by unfold_locales
    (simp_all add: simple_class_def simple_start_def simple_stop_def split: if_splits)

section \<open>The registry with Service Models that keep their contract\<close>

text \<open>A codec and a registry to instantiate the properties with.\<close>

definition sample_codec :: simple_codec where
  "sample_codec =
     \<lparr>encode_ran_function_data = (\<lambda>name _. Some (map (\<lambda>c. of_nat (of_char c)) name)),
      decode_simple_control = (\<lambda>bs _. if bs = [] then None else Some 0),
      encode_simple_indication = (\<lambda>seq t _. Some [ucast seq, ucast t])\<rparr>"

definition sample_class :: "(simple_sm, pdu list) sm_class" where
  "sample_class = simple_class sample_codec 0"

text \<open>With Service Models that keep the contract of \<open>ServiceModel\<close>, a start that returns
  \<open>SUCCESS\<close> leaves that model running, a stop leaves it stopped, neither touches another
  model, and clearing the registry leaves none running.\<close>

theorem registry_start_stop:
  assumes "service_model V"
  shows "(snd (start_sm V rf reg) = SUCCESS \<longrightarrow> is_sm_running V (fst (start_sm V rf reg)) rf)
     \<and> \<not> is_sm_running V (fst (stop_sm V rf reg)) rf
     \<and> (rf' \<noteq> rf \<longrightarrow> is_sm_running V (fst (start_sm V rf reg)) rf' = is_sm_running V reg rf'
                  \<and> is_sm_running V (fst (stop_sm V rf reg)) rf' = is_sm_running V reg rf')
     \<and> (\<forall>(_, sm) \<in> set (snd (registry_clear V reg)). \<not> sm_is_running V sm)"
  using service_model.start_sm_runs [OF assms] service_model.start_sm_other [OF assms]
    service_model.stop_sm_stops [OF assms] service_model.stop_sm_other [OF assms]
    service_model.clear_stops_all [OF assms]
  by auto

theorem registry_start_stop_witness:
  "is_sm_running sample_class (fst (start_sm sample_class 1
     (fst (register_sm sample_class (Some (new_simple_sm 1000 ASN1 FixedRate)) sm_registry_init)))) 1
   \<and> \<not> is_sm_running sample_class (fst (stop_sm sample_class 1 (fst (start_sm sample_class 1
     (fst (register_sm sample_class (Some (new_simple_sm 1000 ASN1 FixedRate)) sm_registry_init)))))) 1"
proof -
  let ?reg = "fst (register_sm sample_class (Some (new_simple_sm 1000 ASN1 FixedRate)) sm_registry_init)"
  have sm: "service_model sample_class" unfolding sample_class_def by (rule simple.service_model_axioms)
  have "snd (start_sm sample_class 1 ?reg) = SUCCESS"
    by (simp add: sample_class_def simple_class_def sample_codec_def new_simple_sm_def register_sm_def
        sm_registry_init_def start_sm_def simple_start_def MAX_PROTOCOL_DATA_SIZE_def
        MAX_IDENTIFIER_LIST_SIZE_def MAX_RAN_FUNCTIONS_def)
  with registry_start_stop [OF sm, of 1 ?reg 1]
    registry_start_stop [OF sm, of 1 "fst (start_sm sample_class 1 ?reg)" 1]
  show ?thesis by blast
qed

text \<open>\<open>register_sm\<close> looks for a conflict among the models but not among the factories: a model
  registered for a RAN function that has a factory is accepted, and the RAN function is then
  listed twice.\<close>

theorem register_sm_ignores_factories:
  assumes "register_sm V (Some sm) reg = (reg', SUCCESS)"
    and "um_has (factories reg) (sm_ran_function_id V sm)"
  shows "\<not> distinct (get_available_ran_functions reg')"
proof -
  let ?rf = "sm_ran_function_id V sm"
  have "um_has (sms reg') ?rf" and f: "factories reg' = factories reg"
    using assms(1) by (auto simp: register_sm_def split_def Let_def um_has_update split: if_splits)
  then have "?rf \<in> set (map fst (sms reg'))" by (simp add: um_has_iff_in_keys)
  moreover have "?rf \<in> set (map fst (factories reg'))"
    using assms(2) f by (simp add: um_has_iff_in_keys)
  ultimately show ?thesis by (auto simp: get_available_ran_functions_def)
qed

theorem register_sm_ignores_factories_witness:
  "\<not> distinct (get_available_ran_functions (fst (register_sm sample_class
     (Some (new_simple_sm 1000 ASN1 FixedRate))
     (fst (register_sm_factory 1 (Some (\<lambda>_. Some (new_simple_sm 1000 ASN1 FixedRate))) sm_registry_init)))))"
proof -
  let ?sm = "new_simple_sm 1000 ASN1 FixedRate"
  let ?reg = "fst (register_sm_factory 1 (Some (\<lambda>_. Some ?sm)) sm_registry_init)"
  have "snd (register_sm sample_class (Some ?sm) ?reg) = SUCCESS"
    by (simp add: sample_class_def simple_class_def sample_codec_def new_simple_sm_def register_sm_def
        register_sm_factory_def sm_registry_init_def MAX_PROTOCOL_DATA_SIZE_def
        MAX_IDENTIFIER_LIST_SIZE_def MAX_RAN_FUNCTIONS_def)
  then have "register_sm sample_class (Some ?sm) ?reg = (fst (register_sm sample_class (Some ?sm) ?reg), SUCCESS)"
    by (metis prod.collapse)
  moreover have "um_has (factories ?reg) (sm_ran_function_id sample_class ?sm)"
    by (simp add: sample_class_def simple_class_def register_sm_factory_def sm_registry_init_def
        MAX_RAN_FUNCTIONS_def um_has_def)
  moreover have "sm_ran_function_id sample_class ?sm = 1" by (simp add: sample_class_def simple_class_def)
  ultimately show ?thesis using register_sm_ignores_factories by metis
qed

end
