(* ===== verification/Mpmc_Queue.thy ===== *)
theory Mpmc_Queue
  imports E3_Types
begin

text \<open>
  The bounded ring buffer \<open>MpmcQueue\<close> of \<^verbatim>\<open>include/libe3/mpmc_queue.hpp\<close> as one thread runs
  it, with its 64-bit head, tail and sequence counters. The difference of two counters is
  read as a signed 64-bit value, as the casts to \<open>intptr_t\<close> do, so the counters may wrap.
  The retry loop of \<open>try_push\<close> and \<open>try_pop\<close> is a \<open>partial_function\<close>: a loop that never returns
  is the value \<open>None\<close>.

  The ring refines a bounded FIFO queue, for every position of the counters including the
  wrap-around at \<open>2^64\<close>. Interleavings of several threads are in \<open>Mpmc_Concurrent\<close>.
\<close>

section \<open>State and construction\<close>

record 'a slot =
  slot_sequence :: u64
  slot_data :: "'a option"

record 'a mpmc =
  mq_buffer :: "'a slot list"
  mq_capacity :: u64
  mq_mask :: u64
  mq_head :: u64
  mq_tail :: u64

text \<open>\<open>while (capacity_ < min_capacity) capacity_ <<= 1\<close>\<close>

partial_function (option) round_capacity :: "u64 \<Rightarrow> u64 \<Rightarrow> u64 option" where
  "round_capacity cap min_capacity =
     (if cap < min_capacity then round_capacity (push_bit 1 cap) min_capacity else Some cap)"

declare round_capacity.simps [code]

definition mpmc_new :: "u64 \<Rightarrow> 'a mpmc option" where
  "mpmc_new min_capacity =
     (case round_capacity 2 min_capacity of
        None \<Rightarrow> None
      | Some cap \<Rightarrow>
          Some \<lparr>mq_buffer =
                  map (\<lambda>i. \<lparr>slot_sequence = of_nat i, slot_data = None\<rparr>) [0 ..< unat cap],
                mq_capacity = cap, mq_mask = cap - 1, mq_head = 0, mq_tail = 0\<rparr>)"

section \<open>Push and pop\<close>

definition slot_index :: "'a mpmc \<Rightarrow> u64 \<Rightarrow> nat" where
  "slot_index q pos = unat (pos AND mq_mask q)"

definition counter_diff :: "u64 \<Rightarrow> u64 \<Rightarrow> int" where
  "counter_diff seq pos = sint (seq - pos)"

partial_function (option) try_push_loop :: "'a \<Rightarrow> u64 \<Rightarrow> 'a mpmc \<Rightarrow> ('a mpmc \<times> bool) option" where
  "try_push_loop data pos q =
     (let i = slot_index q pos;
          seq = slot_sequence (mq_buffer q ! i);
          diff = counter_diff seq pos
      in
      if diff = 0 then
        (if mq_head q = pos
         then Some (q\<lparr>mq_head := pos + 1,
                      mq_buffer := (mq_buffer q)[i := \<lparr>slot_sequence = pos + 1, slot_data = Some data\<rparr>]\<rparr>,
                    True)
         else try_push_loop data (mq_head q) q)
      else if diff < 0 then Some (q, False)
      else try_push_loop data (mq_head q) q)"

declare try_push_loop.simps [code]

definition try_push :: "'a \<Rightarrow> 'a mpmc \<Rightarrow> ('a mpmc \<times> bool) option" where
  "try_push data q = try_push_loop data (mq_head q) q"

partial_function (option) try_pop_loop :: "u64 \<Rightarrow> 'a mpmc \<Rightarrow> ('a mpmc \<times> 'a option) option" where
  "try_pop_loop pos q =
     (let i = slot_index q pos;
          seq = slot_sequence (mq_buffer q ! i);
          diff = counter_diff seq (pos + 1)
      in
      if diff = 0 then
        (if mq_tail q = pos
         then Some (q\<lparr>mq_tail := pos + 1,
                      mq_buffer := (mq_buffer q)[i := \<lparr>slot_sequence = pos + mq_capacity q,
                                                        slot_data = None\<rparr>]\<rparr>,
                    slot_data (mq_buffer q ! i))
         else try_pop_loop (mq_tail q) q)
      else if diff < 0 then Some (q, None)
      else try_pop_loop (mq_tail q) q)"

declare try_pop_loop.simps [code]

definition try_pop :: "'a mpmc \<Rightarrow> ('a mpmc \<times> 'a option) option" where
  "try_pop q = try_pop_loop (mq_tail q) q"

definition size_approx :: "'a mpmc \<Rightarrow> u64" where
  "size_approx q =
     (let h = mq_head q; t = mq_tail q in if t \<le> h then h - t else 0)"

definition empty_approx :: "'a mpmc \<Rightarrow> bool" where
  "empty_approx q \<longleftrightarrow> size_approx q = 0"

section \<open>The representation invariant\<close>

text \<open>
  The ring holds the list \<open>xs\<close>: the capacity is a power of two of at least 2, the head is
  \<open>length xs\<close> ahead of the tail, the slots from the tail on carry the items and the sequence
  numbers of filled slots, and the remaining ones are free for the next producers.
\<close>

definition ring_holds :: "'a mpmc \<Rightarrow> 'a list \<Rightarrow> bool" where
  "ring_holds q xs \<longleftrightarrow>
     (\<exists>k. 1 \<le> k \<and> k < 63 \<and> mq_capacity q = 2 ^ k) \<and> mq_mask q = mq_capacity q - 1
     \<and> length (mq_buffer q) = unat (mq_capacity q) \<and> length xs \<le> unat (mq_capacity q)
     \<and> mq_head q = mq_tail q + of_nat (length xs)
     \<and> (\<forall>j < unat (mq_capacity q).
          mq_buffer q ! slot_index q (mq_tail q + of_nat j) =
            (if j < length xs
             then \<lparr>slot_sequence = mq_tail q + of_nat j + 1, slot_data = Some (xs ! j)\<rparr>
             else \<lparr>slot_sequence = mq_tail q + of_nat j, slot_data = None\<rparr>))"

lemma slot_index_update [simp]:
  "slot_index (mq_head_update f q) = slot_index q"
  "slot_index (mq_tail_update f q) = slot_index q"
  "slot_index (mq_buffer_update g q) = slot_index q"
  by (simp_all add: slot_index_def fun_eq_iff)

lemma unat_power2: "k < 63 \<Longrightarrow> unat (2 ^ k :: u64) = 2 ^ k"
proof -
  assume "k < 63"
  then have "(2 :: nat) ^ k < 2 ^ 64" by (intro power_strict_increasing) simp_all
  moreover have "unat (2 ^ k :: u64) = unat (of_nat (2 ^ k) :: u64)" by simp
  ultimately show ?thesis by (simp only: unat_of_nat) simp
qed

lemma ring_holdsD:
  assumes "ring_holds q xs"
  obtains k where "1 \<le> k" "k < 63" "mq_capacity q = 2 ^ k" "mq_mask q = 2 ^ k - 1"
    "length (mq_buffer q) = 2 ^ k" "length xs \<le> 2 ^ k" "mq_head q = mq_tail q + of_nat (length xs)"
    "unat (mq_capacity q) = 2 ^ k"
proof -
  obtain k where k: "1 \<le> k" "k < 63" "mq_capacity q = 2 ^ k"
    using assms by (auto simp: ring_holds_def)
  then have "unat (mq_capacity q) = 2 ^ k" by (simp add: unat_power2)
  with k assms show ?thesis by (intro that [of k]) (simp_all add: ring_holds_def)
qed

lemma slot_index_mod:
  assumes "mq_mask q = 2 ^ k - 1" "k < 63"
  shows "slot_index q (t + of_nat j) = (unat t + j) mod 2 ^ k"
proof -
  have "slot_index q (t + of_nat j) = unat (take_bit k (t + of_nat j))"
    by (simp add: slot_index_def assms(1) take_bit_eq_mask mask_eq_exp_minus_1)
  also have "\<dots> = take_bit k (unat (t + of_nat j))" by (rule unsigned_take_bit_eq)
  also have "\<dots> = unat (t + of_nat j) mod 2 ^ k" by (rule take_bit_eq_mod)
  also have "\<dots> = (unat t + j) mod 2 ^ 64 mod 2 ^ k"
    by (simp add: unat_word_ariths unat_of_nat mod_simps)
  also have "\<dots> = (unat t + j) mod 2 ^ k"
    using assms(2) by (intro mod_mod_cancel le_imp_power_dvd) simp
  finally show ?thesis .
qed

lemma add_mod_inj:
  fixes a i j n :: nat
  assumes "i < n" "j < n" "(a + i) mod n = (a + j) mod n"
  shows "i = j"
proof -
  have "n dvd j - i" if "i \<le> j" "(a + i) mod n = (a + j) mod n" for i j
    using that mod_eq_dvd_iff_nat [of "a + i" "a + j" n] by simp
  moreover have "d = 0" if "n dvd d" "d < n" for d :: nat
    using that by (auto dest: dvd_imp_le)
  ultimately show ?thesis using assms
    by (cases "i \<le> j") (metis diff_is_0_eq dual_order.antisym less_imp_diff_less,
        metis diff_is_0_eq dual_order.antisym less_imp_diff_less nat_le_linear)
qed

lemma counter_diff_simps:
  "counter_diff p p = 0"
  "counter_diff p (p + 1) < 0" "counter_diff p (p + 1) \<noteq> 0"
  by (simp_all add: counter_diff_def)

lemma counter_diff_full:
  assumes "1 \<le> k" "k < 63"
  shows "counter_diff (t + 1) (t + 2 ^ k) < 0"
proof -
  have "(t + 1) - (t + 2 ^ k) = word_of_int (1 - 2 ^ k)" by simp
  moreover have "sint (word_of_int (1 - 2 ^ k) :: u64) = 1 - 2 ^ k"
  proof -
    have "(2 :: int) ^ k \<le> 2 ^ 63" using assms(2) by (intro power_increasing) simp_all
    moreover have "(0 :: int) < 2 ^ k" by simp
    ultimately have "signed_take_bit 63 (1 - 2 ^ k :: int) = 1 - 2 ^ k"
      by (intro signed_take_bit_int_eq_self) linarith+
    moreover have "sint (word_of_int y :: u64) = signed_take_bit 63 y" for y
      by (simp add: signed_of_int)
    ultimately show ?thesis by (simp only:)
  qed
  moreover have "(2 :: int) \<le> 2 ^ k" using assms(1) self_le_power [of 2 k] by simp
  ultimately show ?thesis by (simp add: counter_diff_def)
qed

section \<open>Refinement of a bounded FIFO queue\<close>

lemma ring_slot:
  assumes "ring_holds q xs" "j < unat (mq_capacity q)"
  shows "mq_buffer q ! slot_index q (mq_tail q + of_nat j) =
            (if j < length xs
             then \<lparr>slot_sequence = mq_tail q + of_nat j + 1, slot_data = Some (xs ! j)\<rparr>
             else \<lparr>slot_sequence = mq_tail q + of_nat j, slot_data = None\<rparr>)"
  using assms by (simp add: ring_holds_def)

lemma try_push_full:
  assumes h: "ring_holds q xs" and full: "length xs = unat (mq_capacity q)"
  shows "try_push x q = Some (q, False)"
proof -
  obtain k where k: "1 \<le> k" "k < 63" "mq_capacity q = 2 ^ k" "mq_mask q = 2 ^ k - 1"
    "length (mq_buffer q) = 2 ^ k" "mq_head q = mq_tail q + of_nat (length xs)" "unat (mq_capacity q) = 2 ^ k"
    using h by (rule ring_holdsD)
  have ne: "0 < length xs" using full k by simp
  have head: "mq_head q = mq_tail q + 2 ^ k" using k full by simp
  have "slot_index q (mq_head q) = slot_index q (mq_tail q + of_nat 0)"
    using slot_index_mod [OF k(4,2), of "mq_tail q" "2 ^ k"] slot_index_mod [OF k(4,2), of "mq_tail q" 0]
    by (simp add: head)
  then have "slot_sequence (mq_buffer q ! slot_index q (mq_head q)) = mq_tail q + 1"
    using ring_slot [OF h, of 0] ne full by simp
  then have "counter_diff (slot_sequence (mq_buffer q ! slot_index q (mq_head q))) (mq_head q) < 0"
    using counter_diff_full [OF k(1,2)] by (simp add: head)
  then show ?thesis unfolding try_push_def by (subst try_push_loop.simps) (simp add: Let_def)
qed

lemma try_push_room:
  assumes h: "ring_holds q xs" and room: "length xs < unat (mq_capacity q)"
  shows "\<exists>q'. try_push x q = Some (q', True) \<and> ring_holds q' (xs @ [x]) \<and> mq_capacity q' = mq_capacity q"
proof -
  obtain k where k: "1 \<le> k" "k < 63" "mq_capacity q = 2 ^ k" "mq_mask q = 2 ^ k - 1"
    "length (mq_buffer q) = 2 ^ k" "mq_head q = mq_tail q + of_nat (length xs)" "unat (mq_capacity q) = 2 ^ k"
    using h by (rule ring_holdsD)
  let ?i = "slot_index q (mq_head q)"
  let ?q' = "q\<lparr>mq_head := mq_head q + 1,
      mq_buffer := (mq_buffer q)[?i := \<lparr>slot_sequence = mq_head q + 1, slot_data = Some x\<rparr>]\<rparr>"
  have idx: "slot_index q (mq_tail q + of_nat j) = (unat (mq_tail q) + j) mod 2 ^ k" for j
    by (rule slot_index_mod [OF k(4,2)])
  have "slot_sequence (mq_buffer q ! ?i) = mq_head q"
    using ring_slot [OF h room] by (simp add: k(6))
  then have push: "try_push x q = Some (?q', True)"
    unfolding try_push_def by (subst try_push_loop.simps) (simp add: Let_def counter_diff_simps)
  have "mq_buffer ?q' ! slot_index ?q' (mq_tail ?q' + of_nat j) =
      (if j < length (xs @ [x])
       then \<lparr>slot_sequence = mq_tail ?q' + of_nat j + 1, slot_data = Some ((xs @ [x]) ! j)\<rparr>
       else \<lparr>slot_sequence = mq_tail ?q' + of_nat j, slot_data = None\<rparr>)" if j: "j < 2 ^ k" for j
  proof (cases "j = length xs")
    case True
    moreover have "?i < length (mq_buffer q)" using idx [of "length xs"] by (simp add: k(5,6))
    ultimately show ?thesis by (simp add: k(6))
  next
    case False
    have "?i \<noteq> slot_index q (mq_tail q + of_nat j)"
      using add_mod_inj [of "length xs" "2 ^ k" j] j room k(7) False unfolding k(6) idx by auto
    then show ?thesis
      using ring_slot [OF h, of j] j k(7) False by (auto simp: nth_append)
  qed
  moreover have "mq_head q + 1 = mq_tail q + of_nat (length (xs @ [x]))" by (simp add: k(6))
  ultimately have "ring_holds ?q' (xs @ [x])"
    using k room unfolding ring_holds_def by auto
  with push show ?thesis by auto
qed

lemma try_pop_empty:
  assumes h: "ring_holds q []"
  shows "try_pop q = Some (q, None)"
proof -
  obtain k where k: "1 \<le> k" "k < 63" "unat (mq_capacity q) = 2 ^ k" using h by (rule ring_holdsD)
  have "slot_sequence (mq_buffer q ! slot_index q (mq_tail q)) = mq_tail q"
    using ring_slot [OF h, of 0] k by simp
  then show ?thesis
    unfolding try_pop_def by (subst try_pop_loop.simps) (simp add: Let_def counter_diff_simps)
qed

lemma try_pop_item:
  assumes h: "ring_holds q (x # xs)"
  shows "\<exists>q'. try_pop q = Some (q', Some x) \<and> ring_holds q' xs \<and> mq_capacity q' = mq_capacity q"
proof -
  obtain k where k: "1 \<le> k" "k < 63" "mq_capacity q = 2 ^ k" "mq_mask q = 2 ^ k - 1"
    "length (mq_buffer q) = 2 ^ k" "length (x # xs) \<le> 2 ^ k"
    "mq_head q = mq_tail q + of_nat (length (x # xs))" "unat (mq_capacity q) = 2 ^ k"
    using h by (rule ring_holdsD)
  let ?i = "slot_index q (mq_tail q)"
  let ?q' = "q\<lparr>mq_tail := mq_tail q + 1, mq_buffer := (mq_buffer q)
      [?i := \<lparr>slot_sequence = mq_tail q + mq_capacity q, slot_data = None\<rparr>]\<rparr>"
  have idx: "slot_index q (mq_tail q + of_nat j) = (unat (mq_tail q) + j) mod 2 ^ k" for j
    by (rule slot_index_mod [OF k(4,2)])
  have slot0: "mq_buffer q ! ?i = \<lparr>slot_sequence = mq_tail q + 1, slot_data = Some x\<rparr>"
    using ring_slot [OF h, of 0] k(8) by simp
  then have pop: "try_pop q = Some (?q', Some x)"
    unfolding try_pop_def by (subst try_pop_loop.simps) (simp add: Let_def counter_diff_simps)
  have next_slot: "mq_tail q + 1 + of_nat j = mq_tail q + of_nat (Suc j)" for j by simp
  have "mq_buffer ?q' ! slot_index ?q' (mq_tail ?q' + of_nat j) =
      (if j < length xs
       then \<lparr>slot_sequence = mq_tail ?q' + of_nat j + 1, slot_data = Some (xs ! j)\<rparr>
       else \<lparr>slot_sequence = mq_tail ?q' + of_nat j, slot_data = None\<rparr>)" if j: "j < 2 ^ k" for j
  proof (cases "Suc j < 2 ^ k")
    case True
    have "?i \<noteq> slot_index q (mq_tail q + of_nat (Suc j))"
      using add_mod_inj [of 0 "2 ^ k" "Suc j"] True idx [of 0] idx [of "Suc j"] by auto
    then show ?thesis
      using ring_slot [OF h, of "Suc j"] True k(8) by (simp add: next_slot del: of_nat_Suc)
  next
    case False
    then have sj: "Suc j = 2 ^ k" using j by simp
    then have "slot_index q (mq_tail q + of_nat (Suc j)) = ?i"
      using idx [of 0] idx [of "2 ^ k"] by simp
    moreover have "?i < length (mq_buffer q)" using idx [of 0] by (simp add: k(5))
    moreover have "\<not> j < length xs" using k(6) sj by simp
    moreover have "mq_tail q + 1 + of_nat j = mq_tail q + mq_capacity q"
      unfolding next_slot sj k(3) by simp
    ultimately show ?thesis by (simp add: next_slot del: of_nat_Suc)
  qed
  then have "ring_holds ?q' xs"
    using k unfolding ring_holds_def by (auto simp: algebra_simps)
  with pop show ?thesis by auto
qed

lemma round_capacity_returns:
  assumes "n \<le> (2 ^ 62 :: u64)"
  shows "k \<le> 62 \<Longrightarrow> 1 \<le> k \<Longrightarrow>
    \<exists>k'. k \<le> k' \<and> k' \<le> 62 \<and> round_capacity (2 ^ k) n = Some (2 ^ k') \<and> n \<le> 2 ^ k'"
proof (induction "62 - k" arbitrary: k)
  case 0
  then have "k = 62" by simp
  moreover have "round_capacity (2 ^ 62) n = Some (2 ^ 62)"
    using leD [OF assms] by (subst round_capacity.simps) simp
  ultimately show ?case using assms by auto
next
  case (Suc d)
  show ?case
  proof (cases "(2 ^ k :: u64) < n")
    case True
    have "push_bit 1 (2 ^ k :: u64) = 2 ^ Suc k" by (simp add: push_bit_eq_mult)
    then have "round_capacity (2 ^ k) n = round_capacity (2 ^ Suc k) n"
      using True by (subst round_capacity.simps) (simp del: power_Suc)
    moreover have d: "d = 62 - Suc k" "Suc k \<le> 62" using Suc.hyps(2) by simp_all
    obtain k' where "Suc k \<le> k'" "k' \<le> 62" "round_capacity (2 ^ Suc k) n = Some (2 ^ k')" "n \<le> 2 ^ k'"
      using Suc.hyps(1) [OF d] by (auto simp del: power_Suc)
    ultimately show ?thesis by (intro exI [of _ k']) (simp del: power_Suc)
  next
    case False
    then have "round_capacity (2 ^ k) n = Some (2 ^ k)" by (subst round_capacity.simps) simp
    with False Suc.prems show ?thesis by (intro exI [of _ k]) (simp add: not_less)
  qed
qed

lemma mpmc_new_holds:
  assumes "n \<le> (2 ^ 62 :: u64)"
  shows "\<exists>q. mpmc_new n = Some q \<and> ring_holds q [] \<and> n \<le> mq_capacity q"
proof -
  obtain k where k: "1 \<le> k" "k \<le> 62" "round_capacity 2 n = Some (2 ^ k)" "n \<le> 2 ^ k"
    using round_capacity_returns [OF assms, of 1] by auto
  let ?q = "\<lparr>mq_buffer = map (\<lambda>i. \<lparr>slot_sequence = of_nat i, slot_data = None\<rparr>) [0 ..< 2 ^ k],
      mq_capacity = 2 ^ k, mq_mask = 2 ^ k - 1, mq_head = 0, mq_tail = 0\<rparr> :: 'a mpmc"
  have cap: "unat (2 ^ k :: u64) = 2 ^ k" using k by (simp add: unat_power2)
  have "mpmc_new n = Some ?q" using k(3) cap by (simp add: mpmc_new_def)
  moreover have "slot_index ?q (0 + of_nat j) = j" if "j < 2 ^ k" for j
    using slot_index_mod [of ?q k 0 j] k(2) that by simp
  then have "ring_holds ?q []"
    unfolding ring_holds_def using k cap by (auto intro!: exI [of _ k])
  ultimately show ?thesis using k(4) by auto
qed

section \<open>The contract of a bounded queue\<close>

text \<open>
  What a client of the ring relies on, over the list a queue holds. A push and a pop always
  return; a push is refused exactly when the queue is full.
\<close>

locale bounded_queue =
  fixes holds :: "'q \<Rightarrow> 'a list \<Rightarrow> bool" and cap :: "'q \<Rightarrow> nat"
    and push :: "'a \<Rightarrow> 'q \<Rightarrow> ('q \<times> bool) option"
    and pop :: "'q \<Rightarrow> ('q \<times> 'a option) option"
  assumes holds_cap: "holds q xs \<Longrightarrow> length xs \<le> cap q"
    and push_room: "holds q xs \<Longrightarrow> length xs < cap q \<Longrightarrow>
          \<exists>q'. push x q = Some (q', True) \<and> holds q' (xs @ [x]) \<and> cap q' = cap q"
    and push_full: "holds q xs \<Longrightarrow> length xs = cap q \<Longrightarrow> push x q = Some (q, False)"
    and pop_empty: "holds q [] \<Longrightarrow> pop q = Some (q, None)"
    and pop_item: "holds q (x # xs) \<Longrightarrow>
          \<exists>q'. pop q = Some (q', Some x) \<and> holds q' xs \<and> cap q' = cap q"

datatype 'a queue_op = Push 'a | Pop

datatype 'a queue_result = Pushed bool | Popped "'a option"

fun run_queue :: "('a \<Rightarrow> 'q \<Rightarrow> ('q \<times> bool) option) \<Rightarrow> ('q \<Rightarrow> ('q \<times> 'a option) option)
    \<Rightarrow> 'a queue_op list \<Rightarrow> 'q \<Rightarrow> ('q \<times> 'a queue_result list) option" where
  "run_queue push pop [] q = Some (q, [])"
| "run_queue push pop (Push x # ops) q =
     (case push x q of None \<Rightarrow> None
      | Some (q', ok) \<Rightarrow> map_option (\<lambda>(q'', rs). (q'', Pushed ok # rs)) (run_queue push pop ops q'))"
| "run_queue push pop (Pop # ops) q =
     (case pop q of None \<Rightarrow> None
      | Some (q', x) \<Rightarrow> map_option (\<lambda>(q'', rs). (q'', Popped x # rs)) (run_queue push pop ops q'))"

text \<open>The specification: a list that takes at most \<open>n\<close> items.\<close>

fun run_list :: "nat \<Rightarrow> 'a queue_op list \<Rightarrow> 'a list \<Rightarrow> 'a list \<times> 'a queue_result list" where
  "run_list n [] xs = (xs, [])"
| "run_list n (Push x # ops) xs =
     (if length xs < n then map_prod id ((#) (Pushed True)) (run_list n ops (xs @ [x]))
      else map_prod id ((#) (Pushed False)) (run_list n ops xs))"
| "run_list n (Pop # ops) xs =
     (case xs of
        [] \<Rightarrow> map_prod id ((#) (Popped None)) (run_list n ops [])
      | y # ys \<Rightarrow> map_prod id ((#) (Popped (Some y))) (run_list n ops ys))"

context bounded_queue
begin

lemma run_refines:
  "holds q xs \<Longrightarrow>
     \<exists>q'. run_queue push pop ops q = Some (q', snd (run_list (cap q) ops xs))
          \<and> holds q' (fst (run_list (cap q) ops xs)) \<and> cap q' = cap q"
proof (induction ops arbitrary: q xs)
  case (Cons op ops)
  show ?case
  proof (cases op)
    case (Push x)
    show ?thesis
    proof (cases "length xs < cap q")
      case True
      obtain q1 where q1: "push x q = Some (q1, True)" "holds q1 (xs @ [x])" "cap q1 = cap q"
        using push_room [OF Cons.prems True] by blast
      obtain q' where "run_queue push pop ops q1 = Some (q', snd (run_list (cap q) ops (xs @ [x])))"
        "holds q' (fst (run_list (cap q) ops (xs @ [x])))" "cap q' = cap q"
        using Cons.IH [OF q1(2), unfolded q1(3)] by blast
      then show ?thesis using q1(1) True by (intro exI [of _ q']) (simp add: Push)
    next
      case False
      then have "push x q = Some (q, False)"
        using holds_cap [OF Cons.prems] by (intro push_full [OF Cons.prems]) simp
      moreover obtain q' where "run_queue push pop ops q = Some (q', snd (run_list (cap q) ops xs))"
        "holds q' (fst (run_list (cap q) ops xs))" "cap q' = cap q"
        using Cons.IH [OF Cons.prems] by blast
      ultimately show ?thesis using False by (intro exI [of _ q']) (simp add: Push)
    qed
  next
    case Pop
    show ?thesis
    proof (cases xs)
      case Nil
      obtain q' where "run_queue push pop ops q = Some (q', snd (run_list (cap q) ops xs))"
        "holds q' (fst (run_list (cap q) ops xs))" "cap q' = cap q"
        using Cons.IH [OF Cons.prems] by blast
      then show ?thesis
        using pop_empty [of q] Cons.prems Nil by (intro exI [of _ q']) (simp add: Pop)
    next
      case xs: (Cons y ys)
      obtain q1 where q1: "pop q = Some (q1, Some y)" "holds q1 ys" "cap q1 = cap q"
        using pop_item Cons.prems xs by blast
      obtain q' where "run_queue push pop ops q1 = Some (q', snd (run_list (cap q) ops ys))"
        "holds q' (fst (run_list (cap q) ops ys))" "cap q' = cap q"
        using Cons.IH [OF q1(2), unfolded q1(3)] by blast
      then show ?thesis using q1(1) xs by (intro exI [of _ q']) (simp add: Pop)
    qed
  qed
qed simp

end

interpretation mpmc: bounded_queue ring_holds "\<lambda>q. unat (mq_capacity q)" try_push try_pop
proof unfold_locales
  fix q :: "'a mpmc" and xs
  show "ring_holds q xs \<Longrightarrow> length xs \<le> unat (mq_capacity q)" by (simp add: ring_holds_def)
next
  fix q :: "'a mpmc" and xs and x
  assume "ring_holds q xs" "length xs < unat (mq_capacity q)"
  from try_push_room [OF this, of x]
  show "\<exists>q'. try_push x q = Some (q', True) \<and> ring_holds q' (xs @ [x])
      \<and> unat (mq_capacity q') = unat (mq_capacity q)" by auto
next
  fix q :: "'a mpmc" and x xs
  assume "ring_holds q (x # xs)"
  from try_pop_item [OF this]
  show "\<exists>q'. try_pop q = Some (q', Some x) \<and> ring_holds q' xs
      \<and> unat (mq_capacity q') = unat (mq_capacity q)" by auto
qed (simp_all add: try_push_full try_pop_empty)

text \<open>C8. The ring buffer is a bounded FIFO queue: constructed for at most \<open>2^62\<close> slots, it runs
  every sequence of pushes and pops to its end (no loop hangs) with the results of a list
  that takes \<open>capacity\<close> items, also when the 64-bit counters wrap.\<close>

theorem mpmc_is_bounded_fifo:
  assumes "n \<le> (2 ^ 62 :: u64)"
  shows "\<exists>q q'. mpmc_new n = Some q \<and> n \<le> mq_capacity q
     \<and> run_queue try_push try_pop ops q = Some (q', snd (run_list (unat (mq_capacity q)) ops []))"
proof -
  obtain q :: "'a mpmc" where q: "mpmc_new n = Some q" "ring_holds q []" "n \<le> mq_capacity q"
    using mpmc_new_holds [OF assms] by blast
  with mpmc.run_refines [OF q(2), of ops] show ?thesis by blast
qed

theorem mpmc_is_bounded_fifo_witness:
  "\<exists>q q'. mpmc_new 3 = Some q \<and> 3 \<le> mq_capacity q
     \<and> run_queue try_push try_pop [Push (7 :: nat), Pop, Pop] q
       = Some (q', snd (run_list (unat (mq_capacity q)) [Push 7, Pop, Pop] []))"
  by (rule mpmc_is_bounded_fifo) simp

text \<open>The ring survives the wrap-around of its counters: in every state that holds a list,
  whatever the values of head and tail, a push below capacity appends and a pop removes the
  oldest item; \<open>size_approx\<close> is exact unless the head has wrapped past the tail.\<close>

theorem ring_push_pop_wrap:
  assumes "ring_holds q xs" "length xs < unat (mq_capacity q)"
  shows "\<exists>q1 q2. try_push x q = Some (q1, True) \<and> ring_holds q1 (xs @ [x])
     \<and> try_pop q1 = Some (q2, Some (hd (xs @ [x]))) \<and> ring_holds q2 (tl (xs @ [x]))
     \<and> (mq_tail q \<le> mq_head q \<longrightarrow> unat (size_approx q) = length xs)"
proof -
  obtain q1 where q1: "try_push x q = Some (q1, True)" "ring_holds q1 (xs @ [x])"
    using try_push_room [OF assms] by blast
  then have "ring_holds q1 (hd (xs @ [x]) # tl (xs @ [x]))" by (cases xs) simp_all
  from try_pop_item [OF this]
  obtain q2 where q2: "try_pop q1 = Some (q2, Some (hd (xs @ [x])))" "ring_holds q2 (tl (xs @ [x]))"
    by blast
  obtain k where k: "k < 63" "mq_head q = mq_tail q + of_nat (length xs)" "length xs \<le> 2 ^ k"
    using assms(1) by (rule ring_holdsD)
  have "(2 :: nat) ^ k < 2 ^ 64" using k(1) by (intro power_strict_increasing) simp_all
  with k(3) have len: "length xs < 2 ^ 64" by (rule le_less_trans)
  have "mq_head q - mq_tail q = of_nat (length xs)" by (simp add: k(2))
  with len have "unat (mq_head q - mq_tail q) = length xs" by (simp only: unat_of_nat) simp
  then have "mq_tail q \<le> mq_head q \<longrightarrow> unat (size_approx q) = length xs"
    by (simp add: size_approx_def)
  with q1 q2 show ?thesis by blast
qed

theorem ring_push_pop_wrap_witness:
  "\<exists>q1 q2. try_push (7 :: nat) (the (mpmc_new 2)) = Some (q1, True) \<and> ring_holds q1 [7]
     \<and> try_pop q1 = Some (q2, Some 7) \<and> ring_holds q2 []"
proof -
  obtain q :: "nat mpmc" where q: "mpmc_new 2 = Some q" "ring_holds q []" "2 \<le> mq_capacity q"
    using mpmc_new_holds [of 2] by auto
  have "(2 :: nat) \<le> unat (mq_capacity q)" using q(3) by (simp add: word_le_nat_alt)
  then show ?thesis using ring_push_pop_wrap [OF q(2), of 7] q(1) by auto
qed

end
