(* ===== verification/Lockfree_Queue.thy ===== *)
theory Lockfree_Queue
  imports Mpmc_Queue
begin

text \<open>
  The blocking queue over the ring, \<open>class LockFreeQueue\<close> of \<^verbatim>\<open>include/libe3/lockfree_queue.hpp\<close>.

  \<open>pop\<close> repeats one attempt (take an item, else return on shutdown) while it spins, yields and
  waits on the condition variable; only the pause between two attempts differs. The list
  argument holds what other threads do to the queue in each pause, with the clock reading
  before the next attempt where \<open>pop\<close> has a deadline.

  The specification is the queue \<open>bqueue\<close>, a list with a capacity and a shutdown flag; the
  components above use it, and the queue of the code refines it operation by operation.
\<close>

section \<open>The queue\<close>

record 'a lfq =
  lf_ring :: "'a mpmc"
  lf_shutdown :: bool

datatype 'a pop_result = PopItem 'a | PopNothing | PopWaiting

definition lfq_new :: "u64 \<Rightarrow> 'a lfq option" where
  "lfq_new capacity = map_option (\<lambda>r. \<lparr>lf_ring = r, lf_shutdown = False\<rparr>) (mpmc_new capacity)"

definition lfq_push :: "'a \<Rightarrow> 'a lfq \<Rightarrow> ('a lfq \<times> error_code) option" where
  "lfq_push item q =
     (if lf_shutdown q then Some (q, NOT_INITIALIZED)
      else
        (case try_push item (lf_ring q) of
           None \<Rightarrow> None
         | Some (r, ok) \<Rightarrow>
             if \<not> ok then Some (q\<lparr>lf_ring := r\<rparr>, BUFFER_TOO_SMALL)
             else Some (q\<lparr>lf_ring := r\<rparr>, SUCCESS)))"

fun lfq_pop :: "('a lfq \<Rightarrow> 'a lfq) list \<Rightarrow> 'a lfq \<Rightarrow> ('a lfq \<times> 'a pop_result) option" where
  "lfq_pop pauses q =
     (case try_pop (lf_ring q) of
        None \<Rightarrow> None
      | Some (r, Some item) \<Rightarrow> Some (q\<lparr>lf_ring := r\<rparr>, PopItem item)
      | Some (r, None) \<Rightarrow>
          if lf_shutdown q then Some (q\<lparr>lf_ring := r\<rparr>, PopNothing)
          else
            (case pauses of
               [] \<Rightarrow> Some (q\<lparr>lf_ring := r\<rparr>, PopWaiting)
             | change # rest \<Rightarrow> lfq_pop rest (change (q\<lparr>lf_ring := r\<rparr>))))"

definition SPIN_COUNT :: nat where "SPIN_COUNT = 40"
definition YIELD_COUNT :: nat where "YIELD_COUNT = 100"

text \<open>
  The timed \<open>pop\<close>. \<open>n\<close> counts the attempts of the two spinning phases that are left; after
  them the clock is read before every attempt, and once the deadline has passed there is
  one last attempt, which does not look at the shutdown flag.
\<close>

fun lfq_pop_timed ::
    "nat \<Rightarrow> time_point \<Rightarrow> (time_point \<times> ('a lfq \<Rightarrow> 'a lfq)) list \<Rightarrow> 'a lfq
      \<Rightarrow> ('a lfq \<times> 'a pop_result) option" where
  "lfq_pop_timed n deadline [] q = Some (q, PopWaiting)"
| "lfq_pop_timed n deadline ((now, change) # rest) q =
     (if n = 0 \<and> deadline \<le> now
      then
        (case try_pop (lf_ring q) of
           None \<Rightarrow> None
         | Some (r, Some item) \<Rightarrow> Some (q\<lparr>lf_ring := r\<rparr>, PopItem item)
         | Some (r, None) \<Rightarrow> Some (q\<lparr>lf_ring := r\<rparr>, PopNothing))
      else
        (case try_pop (lf_ring q) of
           None \<Rightarrow> None
         | Some (r, Some item) \<Rightarrow> Some (q\<lparr>lf_ring := r\<rparr>, PopItem item)
         | Some (r, None) \<Rightarrow>
             if lf_shutdown q then Some (q\<lparr>lf_ring := r\<rparr>, PopNothing)
             else lfq_pop_timed (n - 1) deadline rest (change (q\<lparr>lf_ring := r\<rparr>))))"

definition lfq_pop_timeout ::
    "time_point \<Rightarrow> int \<Rightarrow> (time_point \<times> ('a lfq \<Rightarrow> 'a lfq)) list \<Rightarrow> 'a lfq
      \<Rightarrow> ('a lfq \<times> 'a pop_result) option" where
  "lfq_pop_timeout now timeout_ms pauses q =
     lfq_pop_timed (SPIN_COUNT + YIELD_COUNT) (now + 1000000 * timeout_ms) pauses q"

definition lfq_try_pop :: "'a lfq \<Rightarrow> ('a lfq \<times> 'a option) option" where
  "lfq_try_pop q =
     map_option (\<lambda>(r, x). (q\<lparr>lf_ring := r\<rparr>, x)) (try_pop (lf_ring q))"

partial_function (option) ring_drain :: "'a mpmc \<Rightarrow> 'a mpmc option" where
  "ring_drain r =
     (case try_pop r of
        None \<Rightarrow> None
      | Some (r', Some _) \<Rightarrow> ring_drain r'
      | Some (r', None) \<Rightarrow> Some r')"

declare ring_drain.simps [code]

definition lfq_clear :: "'a lfq \<Rightarrow> 'a lfq option" where
  "lfq_clear q = map_option (\<lambda>r. q\<lparr>lf_ring := r\<rparr>) (ring_drain (lf_ring q))"

definition shutdown :: "'a lfq \<Rightarrow> 'a lfq" where
  "shutdown q = q\<lparr>lf_shutdown := True\<rparr>"

definition rearm :: "'a lfq \<Rightarrow> 'a lfq option" where
  "rearm q = map_option (\<lambda>q'. q'\<lparr>lf_shutdown := False\<rparr>) (lfq_clear q)"

section \<open>Specification\<close>

record 'a bqueue =
  bq_items :: "'a list"
  bq_capacity :: nat
  bq_shutdown :: bool

definition bq_new :: "nat \<Rightarrow> 'a bqueue" where
  "bq_new n = \<lparr>bq_items = [], bq_capacity = n, bq_shutdown = False\<rparr>"

definition bq_push :: "'a \<Rightarrow> 'a bqueue \<Rightarrow> 'a bqueue \<times> error_code" where
  "bq_push x b =
     (if bq_shutdown b then (b, NOT_INITIALIZED)
      else if length (bq_items b) < bq_capacity b then (b\<lparr>bq_items := bq_items b @ [x]\<rparr>, SUCCESS)
      else (b, BUFFER_TOO_SMALL))"

definition bq_pop :: "'a bqueue \<Rightarrow> 'a bqueue \<times> 'a option" where
  "bq_pop b =
     (case bq_items b of [] \<Rightarrow> (b, None) | x # xs \<Rightarrow> (b\<lparr>bq_items := xs\<rparr>, Some x))"

definition bq_stop :: "'a bqueue \<Rightarrow> 'a bqueue" where
  "bq_stop b = b\<lparr>bq_shutdown := True\<rparr>"

definition bq_rearm :: "'a bqueue \<Rightarrow> 'a bqueue" where
  "bq_rearm b = b\<lparr>bq_items := [], bq_shutdown := False\<rparr>"

section \<open>Refinement\<close>

definition lfq_rel :: "'a lfq \<Rightarrow> 'a bqueue \<Rightarrow> bool" where
  "lfq_rel q b \<longleftrightarrow>
     ring_holds (lf_ring q) (bq_items b) \<and> unat (mq_capacity (lf_ring q)) = bq_capacity b
     \<and> lf_shutdown q = bq_shutdown b"

lemma lfq_rel_new:
  assumes "n \<le> (2 ^ 62 :: u64)"
  shows "\<exists>q m. lfq_new n = Some q \<and> unat n \<le> m \<and> lfq_rel q (bq_new m)"
  using mpmc_new_holds [OF assms] by (auto simp: lfq_new_def lfq_rel_def bq_new_def word_le_nat_alt)

lemma lfq_push_refines:
  assumes "lfq_rel q b"
  shows "\<exists>q'. lfq_push x q = Some (q', snd (bq_push x b)) \<and> lfq_rel q' (fst (bq_push x b))"
proof -
  have h: "ring_holds (lf_ring q) (bq_items b)" and c: "unat (mq_capacity (lf_ring q)) = bq_capacity b"
    using assms by (simp_all add: lfq_rel_def)
  show ?thesis
  proof (cases "length (bq_items b) < bq_capacity b")
    case True
    then obtain r where "try_push x (lf_ring q) = Some (r, True)" "ring_holds r (bq_items b @ [x])"
      "mq_capacity r = mq_capacity (lf_ring q)"
      using try_push_room [OF h] c by auto
    with assms True show ?thesis by (auto simp: lfq_push_def bq_push_def lfq_rel_def)
  next
    case False
    then have "try_push x (lf_ring q) = Some (lf_ring q, False)"
      using h c by (intro try_push_full [OF h]) (simp add: ring_holds_def)
    with assms False show ?thesis by (auto simp: lfq_push_def bq_push_def lfq_rel_def)
  qed
qed

lemma ring_pop_refines:
  assumes "lfq_rel q b"
  shows "\<exists>r. try_pop (lf_ring q) = Some (r, snd (bq_pop b)) \<and> lfq_rel (q\<lparr>lf_ring := r\<rparr>) (fst (bq_pop b))"
proof (cases "bq_items b")
  case Nil
  then show ?thesis using assms try_pop_empty [of "lf_ring q"] by (simp add: lfq_rel_def bq_pop_def)
next
  case (Cons x xs)
  then obtain r where "try_pop (lf_ring q) = Some (r, Some x)" "ring_holds r xs"
    "mq_capacity r = mq_capacity (lf_ring q)"
    using assms try_pop_item [of "lf_ring q" x xs] by (auto simp: lfq_rel_def)
  with assms Cons show ?thesis by (simp add: lfq_rel_def bq_pop_def)
qed

lemma lfq_try_pop_refines:
  "lfq_rel q b \<Longrightarrow> \<exists>q'. lfq_try_pop q = Some (q', snd (bq_pop b)) \<and> lfq_rel q' (fst (bq_pop b))"
  using ring_pop_refines [of q b] by (auto simp: lfq_try_pop_def)

lemma lfq_shutdown_refines: "lfq_rel q b \<Longrightarrow> lfq_rel (shutdown q) (bq_stop b)"
  by (simp add: lfq_rel_def shutdown_def bq_stop_def)

lemma ring_drain_empties:
  "ring_holds r xs \<Longrightarrow> \<exists>r'. ring_drain r = Some r' \<and> ring_holds r' [] \<and> mq_capacity r' = mq_capacity r"
proof (induction xs arbitrary: r)
  case Nil
  then show ?case using try_pop_empty [OF Nil] by (subst ring_drain.simps) simp
next
  case (Cons x xs)
  obtain r1 where r1: "try_pop r = Some (r1, Some x)" "ring_holds r1 xs" "mq_capacity r1 = mq_capacity r"
    using try_pop_item [OF Cons.prems] by blast
  from Cons.IH [OF r1(2)] r1 show ?case by (subst ring_drain.simps) auto
qed

lemma lfq_rearm_refines: "lfq_rel q b \<Longrightarrow> \<exists>q'. rearm q = Some q' \<and> lfq_rel q' (bq_rearm b)"
  using ring_drain_empties [of "lf_ring q" "bq_items b"]
  by (auto simp: lfq_rel_def rearm_def lfq_clear_def bq_rearm_def)

datatype 'a lfq_op = LPush 'a | LTryPop | LShutdown | LRearm

datatype 'a lfq_result = LCode error_code | LItem "'a option" | LDone

fun lfq_exec :: "'a lfq_op \<Rightarrow> 'a lfq \<Rightarrow> ('a lfq \<times> 'a lfq_result) option" where
  "lfq_exec (LPush x) q = map_option (map_prod id LCode) (lfq_push x q)"
| "lfq_exec LTryPop q = map_option (map_prod id LItem) (lfq_try_pop q)"
| "lfq_exec LShutdown q = Some (shutdown q, LDone)"
| "lfq_exec LRearm q = map_option (\<lambda>q'. (q', LDone)) (rearm q)"

fun bq_exec :: "'a lfq_op \<Rightarrow> 'a bqueue \<Rightarrow> 'a bqueue \<times> 'a lfq_result" where
  "bq_exec (LPush x) b = map_prod id LCode (bq_push x b)"
| "bq_exec LTryPop b = map_prod id LItem (bq_pop b)"
| "bq_exec LShutdown b = (bq_stop b, LDone)"
| "bq_exec LRearm b = (bq_rearm b, LDone)"

fun lfq_run :: "'a lfq_op list \<Rightarrow> 'a lfq \<Rightarrow> ('a lfq \<times> 'a lfq_result list) option" where
  "lfq_run [] q = Some (q, [])"
| "lfq_run (x # xs) q =
     (case lfq_exec x q of
        None \<Rightarrow> None
      | Some (q', r) \<Rightarrow> map_option (\<lambda>(q'', rs). (q'', r # rs)) (lfq_run xs q'))"

fun bq_run :: "'a lfq_op list \<Rightarrow> 'a bqueue \<Rightarrow> 'a bqueue \<times> 'a lfq_result list" where
  "bq_run [] b = (b, [])"
| "bq_run (x # xs) b =
     (let (b', r) = bq_exec x b; (b'', rs) = bq_run xs b' in (b'', r # rs))"

lemma lfq_exec_refines:
  assumes "lfq_rel q b"
  shows "\<exists>q'. lfq_exec x q = Some (q', snd (bq_exec x b)) \<and> lfq_rel q' (fst (bq_exec x b))"
proof (cases x)
  case (LPush y)
  then show ?thesis using lfq_push_refines [OF assms, of y] by auto
next
  case LTryPop
  then show ?thesis using lfq_try_pop_refines [OF assms] by auto
next
  case LShutdown
  then show ?thesis using lfq_shutdown_refines [OF assms] by simp
next
  case LRearm
  then show ?thesis using lfq_rearm_refines [OF assms] by auto
qed

lemma lfq_run_refines:
  "lfq_rel q b \<Longrightarrow> \<exists>q'. lfq_run xs q = Some (q', snd (bq_run xs b)) \<and> lfq_rel q' (fst (bq_run xs b))"
proof (induction xs arbitrary: q b)
  case (Cons x xs)
  obtain q1 where q1: "lfq_exec x q = Some (q1, snd (bq_exec x b))" "lfq_rel q1 (fst (bq_exec x b))"
    using lfq_exec_refines [OF Cons.prems] by blast
  obtain q2 where "lfq_run xs q1 = Some (q2, snd (bq_run xs (fst (bq_exec x b))))"
    "lfq_rel q2 (fst (bq_run xs (fst (bq_exec x b))))"
    using Cons.IH [OF q1(2)] by blast
  with q1(1) show ?case by (simp add: split_def Let_def)
qed simp

text \<open>C9. The blocking queue refines a bounded list with a shutdown flag: any sequence of
  \<open>push\<close>, \<open>try_pop\<close>, \<open>shutdown\<close> and \<open>rearm\<close> on a new queue returns, with the results of the
  specification, including the error codes for a full and for a stopped queue.\<close>

theorem lfq_refines_bqueue:
  assumes "n \<le> (2 ^ 62 :: u64)"
  shows "\<exists>q q' m. lfq_new n = Some q \<and> unat n \<le> m
     \<and> lfq_run xs q = Some (q', snd (bq_run xs (bq_new m)))"
proof -
  obtain q m where q: "lfq_new n = Some (q :: 'a lfq)" "unat n \<le> m" "lfq_rel q (bq_new m)"
    using lfq_rel_new [OF assms] by blast
  with lfq_run_refines [OF q(3), of xs] show ?thesis by blast
qed

theorem lfq_refines_bqueue_witness:
  "\<exists>q q' m. lfq_new 128 = Some q \<and> unat (128 :: u64) \<le> m
     \<and> lfq_run [LPush (7 :: nat), LShutdown, LPush 8, LTryPop, LTryPop] q
       = Some (q', snd (bq_run [LPush 7, LShutdown, LPush 8, LTryPop, LTryPop] (bq_new m)))"
  by (rule lfq_refines_bqueue) simp

text \<open>Neither a blocking \<open>pop\<close> nor a shutdown loses an item: while the queue holds items,
  \<open>pop\<close> returns the oldest one at once, even after a shutdown; on an empty queue that is shut
  down it returns without an item.\<close>

theorem pop_drains_before_shutdown:
  assumes "lfq_rel q b"
  shows "(bq_items b \<noteq> [] \<longrightarrow>
       (\<exists>q'. lfq_pop pauses q = Some (q', PopItem (hd (bq_items b))) \<and> lfq_rel q' (fst (bq_pop b))))
     \<and> (bq_items b = [] \<and> bq_shutdown b \<longrightarrow>
       (\<exists>q'. lfq_pop pauses q = Some (q', PopNothing) \<and> lfq_rel q' b))"
proof -
  obtain r where r: "try_pop (lf_ring q) = Some (r, snd (bq_pop b))" "lfq_rel (q\<lparr>lf_ring := r\<rparr>) (fst (bq_pop b))"
    using ring_pop_refines [OF assms] by blast
  show ?thesis
  proof (cases "bq_items b")
    case Nil
    with r assms show ?thesis by (auto simp: bq_pop_def lfq_rel_def)
  next
    case (Cons x xs)
    with r show ?thesis by (auto simp: bq_pop_def)
  qed
qed

theorem pop_drains_before_shutdown_witness:
  "\<exists>q q1 q2 q3. lfq_new 2 = Some q \<and> lfq_push (7 :: nat) q = Some (q1, SUCCESS)
     \<and> lfq_pop [] (shutdown q1) = Some (q2, PopItem 7) \<and> lfq_pop [] q2 = Some (q3, PopNothing)"
proof -
  obtain q m where q: "lfq_new 2 = Some (q :: nat lfq)" "lfq_rel q (bq_new m)" "unat (2 :: u64) \<le> m"
    using lfq_rel_new [of 2] by auto
  let ?b1 = "fst (bq_push 7 (bq_new m))"
  have b1: "?b1 = \<lparr>bq_items = [7], bq_capacity = m, bq_shutdown = False\<rparr>"
    "snd (bq_push 7 (bq_new m)) = SUCCESS" using q(3) by (simp_all add: bq_push_def bq_new_def)
  obtain q1 where q1: "lfq_push 7 q = Some (q1, SUCCESS)" "lfq_rel q1 ?b1"
    using lfq_push_refines [OF q(2), of 7] b1 by auto
  have rel: "lfq_rel (shutdown q1) (bq_stop ?b1)" by (rule lfq_shutdown_refines [OF q1(2)])
  obtain q2 where q2: "lfq_pop [] (shutdown q1) = Some (q2, PopItem 7)" "lfq_rel q2 (fst (bq_pop (bq_stop ?b1)))"
    using pop_drains_before_shutdown [OF rel, of "[]"] by (auto simp: b1 bq_stop_def)
  obtain q3 where "lfq_pop [] q2 = Some (q3, PopNothing)"
    using pop_drains_before_shutdown [OF q2(2), of "[]"] by (auto simp: b1 bq_stop_def bq_pop_def)
  with q(1) q1(1) q2(1) show ?thesis by blast
qed



end
