(* ===== verification/E3_Encoder.thy ===== *)
theory E3_Encoder
  imports E3_Types
begin

text \<open>
  The encoder base class, \<^verbatim>\<open>include/libe3/e3_encoder.hpp\<close> and \<^verbatim>\<open>src/encoder/e3_encoder.cpp\<close>: an
  encoder is a pair of functions, and each convenience method builds one PDU and encodes it.
  The first argument of a method is the realtime clock reading the PDU is stamped with.
\<close>

record e3_encoder =
  enc_encode :: "pdu \<Rightarrow> bytes option"
  enc_decode :: "bytes \<Rightarrow> pdu option"

definition encode_setup_request ::
    "e3_encoder \<Rightarrow> u64 \<Rightarrow> u32 \<Rightarrow> string \<Rightarrow> string \<Rightarrow> string \<Rightarrow> string \<Rightarrow> bytes option" where
  "encode_setup_request E rt message_id version dapp_name dapp_version vendor =
     enc_encode E (make_pdu rt SETUP_REQUEST
       (SetupRequest \<lparr>sreq_e3ap_protocol_version = version, sreq_dapp_name = dapp_name,
                      sreq_dapp_version = dapp_version, sreq_vendor = vendor\<rparr>) message_id)"

definition setup_response_pdu ::
    "u64 \<Rightarrow> u32 \<Rightarrow> u32 \<Rightarrow> response_code \<Rightarrow> string option \<Rightarrow> u32 option \<Rightarrow> string
      \<Rightarrow> ran_function_def list option \<Rightarrow> cause option \<Rightarrow> string option \<Rightarrow> pdu" where
  "setup_response_pdu rt message_id request_id code version dapp_id ran_id rfs cause detail =
     make_pdu rt SETUP_RESPONSE
       (SetupResponse \<lparr>srsp_request_id = request_id, srsp_response_code = code,
                       srsp_e3ap_protocol_version = version, srsp_dapp_identifier = dapp_id,
                       srsp_ran_identifier = ran_id,
                       srsp_ran_function_list = (case rfs of None \<Rightarrow> [] | Some l \<Rightarrow> l),
                       srsp_cause = cause, srsp_detail = detail\<rparr>) message_id"

definition encode_setup_response ::
    "e3_encoder \<Rightarrow> u64 \<Rightarrow> u32 \<Rightarrow> u32 \<Rightarrow> response_code \<Rightarrow> string option \<Rightarrow> u32 option \<Rightarrow> string
      \<Rightarrow> ran_function_def list option \<Rightarrow> cause option \<Rightarrow> string option \<Rightarrow> bytes option" where
  "encode_setup_response E rt message_id request_id code version dapp_id ran_id rfs cause detail =
     enc_encode E
       (setup_response_pdu rt message_id request_id code version dapp_id ran_id rfs cause detail)"

definition encode_subscription_request ::
    "e3_encoder \<Rightarrow> u64 \<Rightarrow> u32 \<Rightarrow> u32 \<Rightarrow> u32 \<Rightarrow> u32 list \<Rightarrow> u32 list \<Rightarrow> u32 option \<Rightarrow> bytes option" where
  "encode_subscription_request E rt message_id dapp_id rf tids cids sub_time =
     enc_encode E (make_pdu rt SUBSCRIPTION_REQUEST
       (SubscriptionRequest
          \<lparr>subreq_dapp_identifier = dapp_id, subreq_ran_function_identifier = rf,
           subreq_telemetry_identifier_list = tids, subreq_control_identifier_list = cids,
           subreq_subscription_time = sub_time, subreq_periodicity = None\<rparr>) message_id)"

definition encode_subscription_delete :: "e3_encoder \<Rightarrow> u64 \<Rightarrow> u32 \<Rightarrow> u32 \<Rightarrow> u32 \<Rightarrow> bytes option" where
  "encode_subscription_delete E rt message_id dapp_id sub_id =
     enc_encode E (make_pdu rt SUBSCRIPTION_DELETE
       (SubscriptionDelete \<lparr>subdel_dapp_identifier = dapp_id, subdel_subscription_id = sub_id\<rparr>)
       message_id)"

definition encode_subscription_response ::
    "e3_encoder \<Rightarrow> u64 \<Rightarrow> u32 \<Rightarrow> u32 \<Rightarrow> u32 \<Rightarrow> response_code \<Rightarrow> u32 option \<Rightarrow> cause option
      \<Rightarrow> string option \<Rightarrow> bytes option" where
  "encode_subscription_response E rt message_id request_id dapp_id code sub_id cause detail =
     enc_encode E (make_pdu rt SUBSCRIPTION_RESPONSE
       (SubscriptionResponse
          \<lparr>subrsp_request_id = request_id, subrsp_dapp_identifier = dapp_id,
           subrsp_response_code = code, subrsp_subscription_id = sub_id,
           subrsp_telemetry_identifier_list = None, subrsp_control_identifier_list = None,
           subrsp_ran_function_identifier = None, subrsp_periodicity = None,
           subrsp_cause = cause, subrsp_detail = detail\<rparr>) message_id)"

definition encode_indication_message :: "e3_encoder \<Rightarrow> u64 \<Rightarrow> u32 \<Rightarrow> u32 \<Rightarrow> u32 \<Rightarrow> bytes \<Rightarrow> bytes option" where
  "encode_indication_message E rt message_id dapp_id rf data =
     enc_encode E (make_pdu rt INDICATION_MESSAGE
       (IndicationMessage \<lparr>ind_dapp_identifier = dapp_id, ind_ran_function_identifier = rf,
                           ind_protocol_data = data\<rparr>) message_id)"

definition encode_dapp_control_action ::
    "e3_encoder \<Rightarrow> u64 \<Rightarrow> u32 \<Rightarrow> u32 \<Rightarrow> u32 \<Rightarrow> u32 \<Rightarrow> bytes \<Rightarrow> bytes option" where
  "encode_dapp_control_action E rt message_id dapp_id rf control_id data =
     enc_encode E (make_pdu rt DAPP_CONTROL_ACTION
       (DAppControlAction \<lparr>ctl_dapp_identifier = dapp_id, ctl_ran_function_identifier = rf,
                           ctl_control_identifier = control_id, ctl_action_data = data,
                           ctl_sequence_id = 0\<rparr>) message_id)"

definition encode_dapp_report :: "e3_encoder \<Rightarrow> u64 \<Rightarrow> u32 \<Rightarrow> u32 \<Rightarrow> u32 \<Rightarrow> bytes \<Rightarrow> bytes option" where
  "encode_dapp_report E rt message_id dapp_id rf data =
     enc_encode E (make_pdu rt DAPP_REPORT
       (DAppReport \<lparr>rep_dapp_identifier = dapp_id, rep_ran_function_identifier = rf,
                    rep_report_data = data, rep_sequence_id = 0, rep_recv_seq = 0\<rparr>) message_id)"

definition encode_xapp_control_action :: "e3_encoder \<Rightarrow> u64 \<Rightarrow> u32 \<Rightarrow> u32 \<Rightarrow> u32 \<Rightarrow> bytes \<Rightarrow> bytes option" where
  "encode_xapp_control_action E rt message_id dapp_id rf data =
     enc_encode E (make_pdu rt XAPP_CONTROL_ACTION
       (XAppControlAction \<lparr>xca_dapp_identifier = dapp_id, xca_ran_function_identifier = rf,
                           xca_xapp_control_data = data, xca_sequence_id = 0,
                           xca_message_id = 0\<rparr>) message_id)"

definition encode_message_ack ::
    "e3_encoder \<Rightarrow> u64 \<Rightarrow> u32 \<Rightarrow> u32 \<Rightarrow> response_code \<Rightarrow> cause option \<Rightarrow> string option \<Rightarrow> bytes option" where
  "encode_message_ack E rt message_id request_id code cause detail =
     enc_encode E (make_pdu rt MESSAGE_ACK
       (MessageAck \<lparr>ack_request_id = request_id, ack_response_code = code, ack_cause = cause,
                    ack_detail = detail\<rparr>) message_id)"

end
