(* ===== verification/E3_Outbox.thy ===== *)
theory E3_Outbox
  imports Lockfree_Queue
begin

text \<open>
  The part of \<open>class E3Interface\<close> that every sender uses (\<^verbatim>\<open>src/core/e3_interface.cpp\<close>): the
  source of message ids and the outbound queue. The queue is the specification \<open>bqueue\<close> of
  \<open>Lockfree_Queue\<close>, which the queue of the code refines.
\<close>

record outbox =
  ob_next_message_id :: u32
  ob_queue :: "pdu bqueue option"

definition generate_message_id :: "outbox \<Rightarrow> outbox \<times> u32" where
  "generate_message_id ob =
     (let n = (ucast (ob_next_message_id ob) :: u64)
      in (ob\<lparr>ob_next_message_id := ob_next_message_id ob + 1\<rparr>, ucast (n mod 0xFFFFFFFF) + 1))"

definition sanitize_request_message_id :: "u32 \<Rightarrow> outbox \<Rightarrow> outbox \<times> u32" where
  "sanitize_request_message_id request_id ob =
     (if request_id \<noteq> 0 then (ob, request_id) else generate_message_id ob)"

text \<open>With tracing compiled out, \<open>latrec_seq_next\<close> returns 0, so \<open>enqueue_seq\<close> stays as it is.\<close>

definition queue_outbound :: "pdu \<Rightarrow> outbox \<Rightarrow> outbox \<times> error_code" where
  "queue_outbound p ob =
     (case ob_queue ob of
        None \<Rightarrow> (ob, NOT_INITIALIZED)
      | Some q \<Rightarrow> let (q', rc) = bq_push p q in (ob\<lparr>ob_queue := Some q'\<rparr>, rc))"

text \<open>The emitter \<open>register_sm\<close> installs in a Service Model.\<close>

definition sm_emitter :: "pdu \<Rightarrow> outbox \<Rightarrow> outbox \<times> error_code" where
  "sm_emitter p ob =
     (let (ob1, p1) =
            (if pdu_message_id p = 0
             then let (ob', mid) = generate_message_id ob in (ob', p\<lparr>pdu_message_id := mid\<rparr>)
             else (ob, p))
      in queue_outbound (p1\<lparr>pdu_enqueue_seq := 0\<rparr>) ob1)"

section \<open>Message ids\<close>

lemma unat_ucast_u64: "unat (ucast (x :: u32) :: u64) = unat x"
proof -
  have "unat x < 2 ^ LENGTH(32)" by (rule unsigned_less)
  then show ?thesis unfolding unsigned_ucast_eq by (simp add: take_bit_nat_eq_self)
qed

lemma unat_ucast_u32: "unat (v :: u64) < 2 ^ 32 \<Longrightarrow> unat (ucast v :: u32) = unat v"
  unfolding unsigned_ucast_eq by (simp add: take_bit_nat_eq_self)

lemma message_id_unat:
  "unat (snd (generate_message_id ob)) = unat (ob_next_message_id ob) mod 0xFFFFFFFF + 1"
proof -
  let ?v = "(ucast (ob_next_message_id ob) :: u64) mod 0xFFFFFFFF"
  have v: "unat ?v = unat (ob_next_message_id ob) mod 0xFFFFFFFF"
    by (simp add: unat_mod unat_ucast_u64)
  then have lt: "unat ?v < 0xFFFFFFFF" by simp
  then have "unat (ucast ?v :: u32) = unat ?v" by (intro unat_ucast_u32) simp
  with lt have "unat ((ucast ?v :: u32) + 1) = unat ?v + 1"
    by (simp add: unat_word_ariths)
  then show ?thesis by (simp add: generate_message_id_def Let_def v)
qed

lemma message_id_nonzero: "snd (generate_message_id ob) \<noteq> 0"
  using message_id_unat [of ob] by auto

lemma sanitized_id_nonzero: "snd (sanitize_request_message_id r ob) \<noteq> 0"
  by (simp add: sanitize_request_message_id_def message_id_nonzero)

lemma generate_message_id_queue [simp]: "ob_queue (fst (generate_message_id ob)) = ob_queue ob"
  by (simp add: generate_message_id_def Let_def)

lemma sanitize_queue [simp]: "ob_queue (fst (sanitize_request_message_id r ob)) = ob_queue ob"
  by (simp add: sanitize_request_message_id_def)

fun generate_ids :: "nat \<Rightarrow> outbox \<Rightarrow> u32 list" where
  "generate_ids 0 ob = []"
| "generate_ids (Suc n) ob = (let (ob', i) = generate_message_id ob in i # generate_ids n ob')"

lemma generate_ids_values:
  "unat (ob_next_message_id ob) + n \<le> 0xFFFFFFFF \<Longrightarrow>
     map unat (generate_ids n ob) = map (\<lambda>i. unat (ob_next_message_id ob) + i + 1) [0 ..< n]"
proof (induction n arbitrary: ob)
  case (Suc n)
  let ?s = "unat (ob_next_message_id ob)"
  have "unat (ob_next_message_id ob + 1) = ?s + 1"
    using Suc.prems by (simp add: unat_word_ariths)
  then have "map unat (generate_ids n (fst (generate_message_id ob))) = map (\<lambda>i. ?s + 1 + i + 1) [0 ..< n]"
    using Suc.IH [of "fst (generate_message_id ob)"] Suc.prems by (simp add: generate_message_id_def Let_def)
  moreover have "unat (snd (generate_message_id ob)) = ?s + 1"
    using message_id_unat [of ob] Suc.prems by simp
  moreover have "map (\<lambda>i. ?s + i + 1) [0 ..< Suc n] = (?s + 1) # map (\<lambda>i. ?s + 1 + i + 1) [0 ..< n]"
  proof -
    have "[0 ..< Suc n] = 0 # map Suc [0 ..< n]" by (simp only: map_Suc_upt upt_conv_Cons zero_less_Suc)
    then show ?thesis by (simp del: upt_Suc)
  qed
  ultimately show ?case by (simp add: split_def Let_def)
qed simp

text \<open>C11. Message ids identify a request: a new interface hands out \<open>2^32 - 1\<close> ids in a row that
  are pairwise different and never 0, the value the grammar excludes.\<close>

theorem message_ids_unique:
  assumes "ob_next_message_id ob = 0" "n \<le> 0xFFFFFFFF"
  shows "distinct (generate_ids n ob) \<and> 0 \<notin> set (generate_ids n ob)"
proof -
  have "map unat (generate_ids n ob) = map (\<lambda>i. i + 1) [0 ..< n]"
    using generate_ids_values [of ob n] assms by simp
  moreover have "distinct (map (\<lambda>i. i + 1) [0 ..< n])" by (simp add: distinct_map inj_on_def)
  moreover have "(0 :: nat) \<notin> set (map (\<lambda>i. i + 1) [0 ..< n])" by auto
  ultimately have "distinct (map unat (generate_ids n ob))" "0 \<notin> unat ` set (generate_ids n ob)"
    by (simp_all del: upt_Suc flip: set_map)
  then show ?thesis by (auto simp: distinct_map image_iff)
qed

theorem message_ids_unique_witness:
  "distinct (generate_ids 3 \<lparr>ob_next_message_id = 0, ob_queue = None\<rparr>)
   \<and> 0 \<notin> set (generate_ids 3 \<lparr>ob_next_message_id = 0, ob_queue = None\<rparr>)"
  by (rule message_ids_unique) simp_all

lemma generate_message_id_fst [simp]:
  "fst (generate_message_id ob) = ob\<lparr>ob_next_message_id := ob_next_message_id ob + 1\<rparr>"
  by (simp add: generate_message_id_def Let_def)

lemma message_id_1: "unat (ob_next_message_id ob) mod 0xFFFFFFFF = 0 \<Longrightarrow> snd (generate_message_id ob) = 1"
  using message_id_unat [of ob] by (intro word_unat_eq_iff [THEN iffD2]) simp

text \<open>At the end of the range the counter repeats an id: the modulus \<open>2^32 - 1\<close> and the 32-bit
  wrap-around of the counter overlap, so the calls with the counter at \<open>2^32 - 1\<close> and, after
  the wrap, at 0 both return 1.\<close>

theorem message_id_repeats_at_wrap:
  "generate_ids 2 \<lparr>ob_next_message_id = 0xFFFFFFFF, ob_queue = q\<rparr> = [1, 1]"
proof -
  have top: "unat (- 1 :: u32) = 0xFFFFFFFF" by (simp add: unsigned_minus_1_eq_mask mask_eq_exp_minus_1)
  have max: "(0xFFFFFFFF :: u32) = - 1" by simp
  show ?thesis
    unfolding numeral_2_eq_2 max by (simp add: split_def message_id_1 top)
qed

end
