(* ===== verification/E3_Text.thy ===== *)
theory E3_Text
  imports E3_Prelude
begin

text \<open>
  The text conversions of the standard library that the code uses: \<open>std::to_string\<close> on an
  unsigned integer writes its decimal digits, most significant first.
\<close>

definition digit_char :: "nat \<Rightarrow> char" where
  "digit_char d = char_of (48 + d)"

fun decimal :: "nat \<Rightarrow> string" where
  "decimal n = (if n < 10 then [digit_char n] else decimal (n div 10) @ [digit_char (n mod 10)])"

declare decimal.simps [simp del]

definition to_string_u32 :: "u32 \<Rightarrow> string" where
  "to_string_u32 x = decimal (unat x)"

text \<open>\<open>std::string::find\<close>: the first place where a pattern stands.\<close>

fun find_text :: "string \<Rightarrow> string \<Rightarrow> nat option" where
  "find_text pat [] = (if pat = [] then Some 0 else None)"
| "find_text pat (c # s) =
     (if take (length pat) (c # s) = pat then Some 0 else map_option Suc (find_text pat s))"

text \<open>Reading digits from the left, as the number parsers of the library do.\<close>

definition digit_value :: "char \<Rightarrow> nat" where
  "digit_value c = of_char c - 48"

definition is_digit :: "char \<Rightarrow> bool" where
  "is_digit c \<longleftrightarrow> 48 \<le> (of_char c :: nat) \<and> (of_char c :: nat) \<le> 57"

definition read_decimal :: "string \<Rightarrow> nat" where
  "read_decimal cs = fold (\<lambda>c n. 10 * n + digit_value c) cs 0"

lemma of_char_digit: "d < 10 \<Longrightarrow> (of_char (digit_char d) :: nat) = 48 + d"
  by (simp add: digit_char_def)

lemma digit_value_char [simp]: "d < 10 \<Longrightarrow> digit_value (digit_char d) = d"
  by (simp add: digit_value_def of_char_digit)

lemma is_digit_char [simp]: "d < 10 \<Longrightarrow> is_digit (digit_char d)"
  by (simp add: is_digit_def of_char_digit)

lemma read_decimal_snoc [simp]: "read_decimal (cs @ [c]) = 10 * read_decimal cs + digit_value c"
  by (simp add: read_decimal_def)

lemma read_decimal_decimal [simp]: "read_decimal (decimal n) = n"
proof (induction n rule: decimal.induct)
  case (1 n)
  show ?case
  proof (cases "n < 10")
    case True
    then show ?thesis by (subst decimal.simps) (simp add: read_decimal_def)
  next
    case False
    then show ?thesis using 1 by (subst decimal.simps) simp
  qed
qed

lemma decimal_digits: "c \<in> set (decimal n) \<Longrightarrow> is_digit c"
proof (induction n rule: decimal.induct)
  case (1 n)
  then show ?case by (subst (asm) (2) decimal.simps) (auto split: if_splits)
qed

lemma decimal_not_empty: "decimal n \<noteq> []"
  by (subst decimal.simps) simp

lemma decimal_inj: "decimal m = decimal n \<Longrightarrow> m = n"
  using read_decimal_decimal by metis

lemma to_string_u32_inj: "to_string_u32 x = to_string_u32 y \<longleftrightarrow> x = y"
  using decimal_inj [of "unat x" "unat y"] by (auto simp: to_string_u32_def word_unat_eq_iff)

end
