(* ===== verification/Ran_Interface.thy ===== *)
theory Ran_Interface
  imports Subscription_Props Sm_Registry E3_Encoder E3_Outbox E3_Text
begin

text \<open>
  The RAN role of \<open>class E3Interface\<close>, \<^verbatim>\<open>src/core/e3_interface.cpp\<close>: the handlers of the five
  requests a dApp sends, and one pass of each thread's loop.

  The record \<open>ran_if\<close> holds what these threads share: the subscription manager, the registry of
  Service Models, the outbound queue with the message id counter, and the report queue. The
  handlers of the application are functions it installs; a call of one is an event in
  \<open>ri_events\<close>, as is a frame given to the connector. What the connector returns, the clocks
  (\<open>rt\<close> the realtime clock a PDU is stamped with, \<open>now\<close> the steady clock) and the codec are
  arguments.
\<close>

section \<open>State\<close>

datatype ran_event =
    StatusChanged
  | ReportDelivered dapp_report
  | SetupReplySent bytes
  | PduSent bytes

text \<open>
  A Service Model registered through the interface has its outbound emitter installed; one
  that a factory of the registry creates has not. \<open>ri_wired\<close> lists the RAN functions of the former.
\<close>

record 's ran_if =
  ri_config :: e3_config
  ri_manager :: subscription_manager
  ri_registry :: "'s sm_registry"
  ri_wired :: "u32 list"
  ri_out :: outbox
  ri_reports :: "dapp_report bqueue"
  ri_report_handler :: bool
  ri_status_handler :: bool
  ri_events :: "ran_event list"

definition MAX_NAME_BYTES :: nat where "MAX_NAME_BYTES = 64"
definition MAX_VERSION_BYTES :: nat where "MAX_VERSION_BYTES = 32"

definition name_or_unknown :: "string \<Rightarrow> string" where
  "name_or_unknown n = (if n = [] then ''unknown'' else n)"

definition wire_text_fits :: "string \<Rightarrow> nat \<Rightarrow> bool \<Rightarrow> bool" where
  "wire_text_fits v max_bytes may_be_empty =
     (if max_bytes < length v \<or> v = [] \<and> \<not> may_be_empty then False else True)"

definition ran_call :: "bool \<Rightarrow> ran_event \<Rightarrow> 's ran_if \<Rightarrow> 's ran_if" where
  "ran_call installed e s = (if installed then s\<lparr>ri_events := ri_events s @ [e]\<rparr> else s)"

definition notify_dapp_status_changed :: "'s ran_if \<Rightarrow> 's ran_if" where
  "notify_dapp_status_changed s = ran_call (ri_status_handler s) StatusChanged s"

definition ran_queue_outbound :: "pdu \<Rightarrow> 's ran_if \<Rightarrow> 's ran_if" where
  "ran_queue_outbound p s = s\<lparr>ri_out := fst (queue_outbound p (ri_out s))\<rparr>"

definition ran_message_id :: "'s ran_if \<Rightarrow> 's ran_if \<times> u32" where
  "ran_message_id s = (let (ob, mid) = generate_message_id (ri_out s) in (s\<lparr>ri_out := ob\<rparr>, mid))"

section \<open>Service Models\<close>

definition on_sm_lifecycle_change ::
    "('s, outbox) sm_class \<Rightarrow> u32 \<Rightarrow> bool \<Rightarrow> 's sm_registry \<Rightarrow> 's sm_registry" where
  "on_sm_lifecycle_change V rf should_start reg =
     (if should_start then fst (start_sm V rf reg) else fst (stop_sm V rf reg))"

definition apply_lifecycle ::
    "('s, outbox) sm_class \<Rightarrow> lifecycle_calls \<Rightarrow> 's sm_registry \<Rightarrow> 's sm_registry" where
  "apply_lifecycle V calls reg = fold (\<lambda>(rf, b). on_sm_lifecycle_change V rf b) calls reg"

text \<open>The outcome of an operation of the manager together with the callbacks it makes.\<close>

definition ran_manager_step ::
    "('s, outbox) sm_class \<Rightarrow> subscription_manager \<Rightarrow> lifecycle_calls \<Rightarrow> 's ran_if \<Rightarrow> 's ran_if" where
  "ran_manager_step V m calls s =
     s\<lparr>ri_manager := m, ri_registry := apply_lifecycle V calls (ri_registry s)\<rparr>"

definition ran_register_sm ::
    "('s, outbox) sm_class \<Rightarrow> 's option \<Rightarrow> 's ran_if \<Rightarrow> 's ran_if \<times> error_code" where
  "ran_register_sm V smo s =
     (case smo of
        None \<Rightarrow> (s, INVALID_PARAM)
      | Some sm \<Rightarrow>
          let (reg', rc) = register_sm V (Some sm) (ri_registry s) in
          (s\<lparr>ri_registry := reg',
             ri_wired := (if rc = SUCCESS
                          then List.insert (sm_ran_function_id V sm) (ri_wired s) else ri_wired s)\<rparr>,
           rc))"

text \<open>The emitter the object registered for a RAN function holds.\<close>

definition ran_emitter :: "'s ran_if \<Rightarrow> u32 \<Rightarrow> outbox emitter" where
  "ran_emitter s rf =
     emit_outbound (if rf \<in> set (ri_wired s) then Some sm_emitter else None)"

section \<open>Setup\<close>

definition ran_function_entry ::
    "('s, outbox) sm_class \<Rightarrow> u32 \<Rightarrow> 's option \<Rightarrow> ran_function_def" where
  "ran_function_entry V rf smo =
     (case smo of
        None \<Rightarrow> \<lparr>rf_ran_function_identifier = rf, rf_telemetry_identifier_list = [],
                 rf_control_identifier_list = [], rf_ran_function_data = []\<rparr>
      | Some sm \<Rightarrow> \<lparr>rf_ran_function_identifier = rf,
                    rf_telemetry_identifier_list = sm_telemetry_ids V sm,
                    rf_control_identifier_list = sm_control_ids V sm,
                    rf_ran_function_data = sm_ran_function_data V sm\<rparr>)"

fun setup_ran_functions ::
    "('s, outbox) sm_class \<Rightarrow> u32 list \<Rightarrow> 's sm_registry \<Rightarrow> ran_function_def list
      \<Rightarrow> 's sm_registry \<times> ran_function_def list" where
  "setup_ran_functions V [] reg acc = (reg, acc)"
| "setup_ran_functions V (rf # rfs) reg acc =
     (let (reg', smo) = get_by_ran_function V rf reg;
          func = ran_function_entry V rf smo
      in
      if rf_ran_function_data func = []
         \<or> MAX_PROTOCOL_DATA_SIZE < length (rf_ran_function_data func)
      then setup_ran_functions V rfs reg' acc
      else if MAX_IDENTIFIER_LIST_SIZE < length (rf_telemetry_identifier_list func)
         \<or> MAX_IDENTIFIER_LIST_SIZE < length (rf_control_identifier_list func)
      then setup_ran_functions V rfs reg' acc
      else if MAX_RAN_FUNCTIONS \<le> length acc then setup_ran_functions V rfs reg' acc
      else setup_ran_functions V rfs reg' (acc @ [func]))"

text \<open>\<open>None\<close> is \<open>std::abort\<close>.\<close>

definition handle_setup_request ::
    "('s, outbox) sm_class \<Rightarrow> e3_encoder \<Rightarrow> u64 \<Rightarrow> time_point \<Rightarrow> u32 \<Rightarrow> 's ran_if
      \<Rightarrow> 's ran_if option" where
  "handle_setup_request V E rt now request_message_id s =
     (let (ob, request_id) = sanitize_request_message_id request_message_id (ri_out s);
          (m, result, dapp_id) = register_dapp now (ri_manager s);
          positive = (result = SUCCESS);
          s1 = s\<lparr>ri_out := ob, ri_manager := m\<rparr>;
          s2 = (if positive then notify_dapp_status_changed s1 else s1);
          (reg, rfs) = setup_ran_functions V (get_available_ran_functions (ri_registry s2))
                         (ri_registry s2) [];
          (s3, message_id) = ran_message_id (s2\<lparr>ri_registry := reg\<rparr>)
      in
      case encode_setup_response E rt message_id request_id
             (if positive then POSITIVE else NEGATIVE) (Some (cfg_e3ap_version (ri_config s3)))
             (if positive then Some dapp_id else None)
             (name_or_unknown (cfg_ran_identifier (ri_config s3))) (Some rfs)
             (if positive then None else Some RESOURCE_EXHAUSTED)
             (if positive then None else Some ''no free dApp identifier'') of
        None \<Rightarrow> None
      | Some buffer \<Rightarrow> Some (ran_call True (SetupReplySent buffer) s3))"

definition send_negative_setup_reply ::
    "e3_encoder \<Rightarrow> u64 \<Rightarrow> u32 \<Rightarrow> 's ran_if \<Rightarrow> 's ran_if" where
  "send_negative_setup_reply E rt request_id s =
     (let (s1, message_id) = ran_message_id s;
          (ob, rid) = sanitize_request_message_id request_id (ri_out s1);
          s2 = s1\<lparr>ri_out := ob\<rparr>
      in
      case encode_setup_response E rt message_id rid NEGATIVE
             (Some (cfg_e3ap_version (ri_config s2))) None
             (name_or_unknown (cfg_ran_identifier (ri_config s2))) None
             (Some PROTOCOL_ERROR) (Some ''not a decodable setup request'') of
        None \<Rightarrow> s2
      | Some buffer \<Rightarrow> ran_call True (SetupReplySent buffer) s2)"

text \<open>One pass of \<open>setup_loop_ran\<close>; \<open>None\<close> as the received frame is a result of 0 or less.\<close>

definition setup_pass_ran ::
    "('s, outbox) sm_class \<Rightarrow> e3_encoder \<Rightarrow> u64 \<Rightarrow> time_point \<Rightarrow> bytes option \<Rightarrow> 's ran_if
      \<Rightarrow> 's ran_if option" where
  "setup_pass_ran V E rt now received s =
     (case received of
        None \<Rightarrow> Some s
      | Some buffer \<Rightarrow>
          (case enc_decode E buffer of
             None \<Rightarrow> Some (send_negative_setup_reply E rt 0 s)
           | Some p \<Rightarrow>
               if pdu_type_of p \<noteq> SETUP_REQUEST
               then Some (send_negative_setup_reply E rt (pdu_message_id p) s)
               else (case pdu_choice_of p of
                       SetupRequest r \<Rightarrow> handle_setup_request V E rt now (pdu_message_id p) s
                     | _ \<Rightarrow> Some (send_negative_setup_reply E rt (pdu_message_id p) s))))"

section \<open>Subscriptions\<close>

type_synonym refusal = "cause \<times> string"

definition contains :: "u32 list \<Rightarrow> u32 \<Rightarrow> bool" where
  "contains ids i = (i \<in> set ids)"

definition refusal_for_subscription ::
    "('s, outbox) sm_class \<Rightarrow> subscription_request \<Rightarrow> 's sm_registry
      \<Rightarrow> 's sm_registry \<times> refusal option" where
  "refusal_for_subscription V request reg =
     (let (reg', smo) = get_by_ran_function V (subreq_ran_function_identifier request) reg
      in (reg',
        case smo of
          None \<Rightarrow> Some (UNSUPPORTED_RAN_FUNCTION,
                        ''RAN function '' @ to_string_u32 (subreq_ran_function_identifier request)
                        @ '' is not served'')
        | Some sm \<Rightarrow>
            if subreq_telemetry_identifier_list request = []
               \<and> subreq_control_identifier_list request = []
            then Some (INVALID_REQUEST,
                       ''a subscription names at least one telemetry or control identifier'')
            else
              (case find (\<lambda>i. \<not> contains (sm_telemetry_ids V sm) i)
                      (subreq_telemetry_identifier_list request) of
                 Some i \<Rightarrow> Some (UNSUPPORTED_IDENTIFIER,
                                 ''unknown telemetry identifier '' @ to_string_u32 i)
               | None \<Rightarrow>
                   (case find (\<lambda>i. \<not> contains (sm_control_ids V sm) i)
                           (subreq_control_identifier_list request) of
                      Some i \<Rightarrow> Some (UNSUPPORTED_IDENTIFIER,
                                      ''unknown control identifier '' @ to_string_u32 i)
                    | None \<Rightarrow> None))))"

text \<open>The decision of \<open>handle_subscription_request\<close>: the code, the id and the refusal.\<close>

definition subscription_decision ::
    "('s, outbox) sm_class \<Rightarrow> time_point \<Rightarrow> subscription_request \<Rightarrow> 's ran_if
      \<Rightarrow> 's ran_if \<times> response_code \<times> u32 \<times> refusal option" where
  "subscription_decision V now request s =
     (if \<not> is_dapp_registered (ri_manager s) (subreq_dapp_identifier request)
      then (s, NEGATIVE, 1, Some (SETUP_REQUIRED, ''complete setup before subscribing''))
      else
        let (reg, refusal) = refusal_for_subscription V request (ri_registry s);
            s1 = s\<lparr>ri_registry := reg\<rparr>
        in
        case refusal of
          Some r \<Rightarrow> (s1, NEGATIVE, 1, Some r)
        | None \<Rightarrow>
            let (m, (result, sub_id), calls) =
                  add_subscription (subreq_dapp_identifier request)
                    (subreq_ran_function_identifier request)
                    (subreq_telemetry_identifier_list request)
                    (subreq_control_identifier_list request)
                    (case subreq_periodicity request of None \<Rightarrow> 0 | Some p \<Rightarrow> p)
                    (case subreq_subscription_time request of None \<Rightarrow> 0 | Some t \<Rightarrow> t)
                    now (ri_manager s1);
                s2 = ran_manager_step V m calls s1
            in
            if result = SUCCESS \<or> result = SUBSCRIPTION_EXISTS
            then (if result = SUCCESS then notify_dapp_status_changed s2 else s2,
                  POSITIVE, sub_id, None)
            else (s2, NEGATIVE, sub_id,
                  Some (if result = INTERNAL_ERROR then RESOURCE_EXHAUSTED else UNSPECIFIED,
                        if result = INTERNAL_ERROR then ''no free subscription identifier''
                        else error_code_to_string result)))"

definition subscription_answer ::
    "subscription_request \<Rightarrow> u32 \<Rightarrow> response_code \<Rightarrow> u32 \<Rightarrow> refusal option \<Rightarrow> subscription_response" where
  "subscription_answer request request_message_id code sub_id refusal =
     (let positive = (code = POSITIVE) in
      \<lparr>subrsp_request_id = request_message_id,
       subrsp_dapp_identifier = subreq_dapp_identifier request,
       subrsp_response_code = code,
       subrsp_subscription_id = (if positive then Some sub_id else None),
       subrsp_telemetry_identifier_list =
         (if positive then Some (subreq_telemetry_identifier_list request) else None),
       subrsp_control_identifier_list =
         (if positive then Some (subreq_control_identifier_list request) else None),
       subrsp_ran_function_identifier =
         (if positive then Some (subreq_ran_function_identifier request) else None),
       subrsp_periodicity = (if positive then subreq_periodicity request else None),
       subrsp_cause = (if positive then None else map_option fst refusal),
       subrsp_detail = (if positive then None else map_option snd refusal)\<rparr>)"

definition handle_subscription_request ::
    "('s, outbox) sm_class \<Rightarrow> u64 \<Rightarrow> time_point \<Rightarrow> subscription_request \<Rightarrow> u32 \<Rightarrow> 's ran_if \<Rightarrow> 's ran_if" where
  "handle_subscription_request V rt now request request_message_id s =
     (let (s1, code, sub_id, refusal) = subscription_decision V now request s;
          (s2, mid) = ran_message_id s1;
          resp = subscription_answer request request_message_id code sub_id refusal
      in ran_queue_outbound (make_pdu rt SUBSCRIPTION_RESPONSE (SubscriptionResponse resp) mid) s2)"

definition handle_subscription_delete ::
    "('s, outbox) sm_class \<Rightarrow> u64 \<Rightarrow> subscription_delete \<Rightarrow> u32 \<Rightarrow> 's ran_if \<Rightarrow> 's ran_if" where
  "handle_subscription_delete V rt del request_message_id s =
     (let (m, result, calls) =
            remove_subscription_by_id (subdel_dapp_identifier del) (subdel_subscription_id del)
              (ri_manager s);
          s1 = ran_manager_step V m calls s;
          positive = (result = SUCCESS);
          refusal_cause = (if result = DAPP_NOT_REGISTERED then SETUP_REQUIRED else CAUSE_NOT_FOUND);
          s2 = (if positive then notify_dapp_status_changed s1 else s1);
          (s3, mid) = ran_message_id s2;
          resp =
            \<lparr>subrsp_request_id = request_message_id,
             subrsp_dapp_identifier = subdel_dapp_identifier del,
             subrsp_response_code = (if positive then POSITIVE else NEGATIVE),
             subrsp_subscription_id = (if positive then Some (subdel_subscription_id del) else None),
             subrsp_telemetry_identifier_list = None, subrsp_control_identifier_list = None,
             subrsp_ran_function_identifier = None, subrsp_periodicity = None,
             subrsp_cause = (if positive then None else Some refusal_cause),
             subrsp_detail =
               (if positive then None
                else Some (if refusal_cause = SETUP_REQUIRED
                           then ''complete setup before deleting a subscription''
                           else ''the subscription does not exist or has ended''))\<rparr>
      in ran_queue_outbound (make_pdu rt SUBSCRIPTION_RESPONSE (SubscriptionResponse resp) mid) s3)"

section \<open>Controls, reports and releases\<close>

definition refuse_control ::
    "u64 \<Rightarrow> u32 \<Rightarrow> cause \<Rightarrow> string \<Rightarrow> 's ran_if \<Rightarrow> 's ran_if" where
  "refuse_control rt request_message_id cause detail s =
     (let (ob, rid) = sanitize_request_message_id request_message_id (ri_out s);
          (s1, mid) = ran_message_id (s\<lparr>ri_out := ob\<rparr>);
          ack = \<lparr>ack_request_id = rid, ack_response_code = NEGATIVE, ack_cause = Some cause,
                 ack_detail = Some detail\<rparr>
      in ran_queue_outbound (make_pdu rt MESSAGE_ACK (MessageAck ack) mid) s1)"

definition handle_control_action ::
    "('s, outbox) sm_class \<Rightarrow> u64 \<Rightarrow> dapp_control_action \<Rightarrow> u32 \<Rightarrow> 's ran_if \<Rightarrow> 's ran_if" where
  "handle_control_action V rt action request_message_id s =
     (if \<not> is_dapp_registered (ri_manager s) (ctl_dapp_identifier action)
      then refuse_control rt request_message_id SETUP_REQUIRED
             ''complete setup before sending a control'' s
      else
        let rf = ctl_ran_function_identifier action;
            (reg, smo) = get_by_ran_function V rf (ri_registry s);
            s1 = s\<lparr>ri_registry := reg\<rparr>
        in
        case smo of
          None \<Rightarrow> refuse_control rt request_message_id UNSUPPORTED_RAN_FUNCTION
                    (''RAN function '' @ to_string_u32 rf @ '' is not served'') s1
        | Some sm \<Rightarrow>
            if \<not> contains (sm_control_ids V sm) (ctl_control_identifier action)
            then refuse_control rt request_message_id UNSUPPORTED_IDENTIFIER
                   (''unknown control identifier '' @ to_string_u32 (ctl_control_identifier action)) s1
            else if \<not> sm_is_running V sm
            then refuse_control rt request_message_id CAUSE_NOT_FOUND
                   ''no subscription to this RAN function'' s1
            else
              let ((sm', ob), result) =
                    sm_handle_control_action V (ran_emitter s1 rf) request_message_id action sm (ri_out s1)
              in s1\<lparr>ri_registry := reg\<lparr>sms := AList.update rf sm' (sms reg)\<rparr>, ri_out := ob\<rparr>)"

definition handle_dapp_report :: "dapp_report \<Rightarrow> 's ran_if \<Rightarrow> 's ran_if" where
  "handle_dapp_report report s = ran_call (ri_report_handler s) (ReportDelivered report) s"

definition handle_dapp_disconnection ::
    "('s, outbox) sm_class \<Rightarrow> u32 \<Rightarrow> 's ran_if \<Rightarrow> 's ran_if" where
  "handle_dapp_disconnection V dapp_id s =
     (let (m, result, calls) = unregister_dapp dapp_id (ri_manager s);
          s1 = ran_manager_step V m calls s
      in if result = SUCCESS then notify_dapp_status_changed s1 else s1)"

definition handle_release_message ::
    "('s, outbox) sm_class \<Rightarrow> release_message \<Rightarrow> 's ran_if \<Rightarrow> 's ran_if" where
  "handle_release_message V release s = handle_dapp_disconnection V (rel_dapp_identifier release) s"

section \<open>One pass of each loop\<close>

text \<open>The \<open>switch\<close> of \<open>inbound_loop_ran\<close>: a PDU whose payload is not of its type is ignored.\<close>

definition inbound_pdu_ran ::
    "('s, outbox) sm_class \<Rightarrow> u64 \<Rightarrow> time_point \<Rightarrow> pdu \<Rightarrow> 's ran_if \<Rightarrow> 's ran_if" where
  "inbound_pdu_ran V rt now p s =
     (case pdu_type_of p of
        SUBSCRIPTION_REQUEST \<Rightarrow>
          (case pdu_choice_of p of
             SubscriptionRequest r \<Rightarrow> handle_subscription_request V rt now r (pdu_message_id p) s
           | _ \<Rightarrow> s)
      | SUBSCRIPTION_DELETE \<Rightarrow>
          (case pdu_choice_of p of
             SubscriptionDelete d \<Rightarrow> handle_subscription_delete V rt d (pdu_message_id p) s
           | _ \<Rightarrow> s)
      | DAPP_CONTROL_ACTION \<Rightarrow>
          (case pdu_choice_of p of
             DAppControlAction a \<Rightarrow> handle_control_action V rt a (pdu_message_id p) s
           | _ \<Rightarrow> s)
      | DAPP_REPORT \<Rightarrow>
          (case pdu_choice_of p of
             DAppReport r \<Rightarrow>
               s\<lparr>ri_reports := fst (bq_push (r\<lparr>rep_recv_seq := 0\<rparr>) (ri_reports s))\<rparr>
           | _ \<Rightarrow> s)
      | RELEASE_MESSAGE \<Rightarrow>
          (case pdu_choice_of p of
             ReleaseMessage r \<Rightarrow> handle_release_message V r s
           | _ \<Rightarrow> s)
      | _ \<Rightarrow> s)"

definition inbound_pass_ran ::
    "('s, outbox) sm_class \<Rightarrow> e3_encoder \<Rightarrow> u64 \<Rightarrow> time_point \<Rightarrow> bytes option \<Rightarrow> 's ran_if \<Rightarrow> 's ran_if" where
  "inbound_pass_ran V E rt now received s =
     (case received of
        None \<Rightarrow> s
      | Some buffer \<Rightarrow>
          (case enc_decode E buffer of None \<Rightarrow> s | Some p \<Rightarrow> inbound_pdu_ran V rt now p s))"

text \<open>
  One pass of the outbound loop of either role: pop, encode, send. The result is the frame the
  connector accepted, if any; \<open>send_result\<close> is what the connector returns.
\<close>

definition outbound_pass :: "e3_encoder \<Rightarrow> error_code \<Rightarrow> outbox \<Rightarrow> outbox \<times> bytes option" where
  "outbound_pass E send_result ob =
     (case ob_queue ob of
        None \<Rightarrow> (ob, None)
      | Some q \<Rightarrow>
          let (q', popped) = bq_pop q;
              ob' = ob\<lparr>ob_queue := Some q'\<rparr>
          in
          case popped of
            None \<Rightarrow> (ob', None)
          | Some p \<Rightarrow>
              (case enc_encode E p of
                 None \<Rightarrow> (ob', None)
               | Some buffer \<Rightarrow> (ob', if send_result = SUCCESS then Some buffer else None)))"

definition outbound_pass_ran :: "e3_encoder \<Rightarrow> error_code \<Rightarrow> 's ran_if \<Rightarrow> 's ran_if" where
  "outbound_pass_ran E send_result s =
     (let (ob, sent) = outbound_pass E send_result (ri_out s);
          s1 = s\<lparr>ri_out := ob\<rparr>
      in case sent of None \<Rightarrow> s1 | Some buffer \<Rightarrow> ran_call True (PduSent buffer) s1)"

definition report_worker_pass :: "'s ran_if \<Rightarrow> 's ran_if" where
  "report_worker_pass s =
     (let (q, popped) = bq_pop (ri_reports s);
          s1 = s\<lparr>ri_reports := q\<rparr>
      in case popped of None \<Rightarrow> s1 | Some r \<Rightarrow> handle_dapp_report r s1)"

lemma report_worker_pass_items:
  "bq_items (ri_reports (report_worker_pass s)) = tl (bq_items (ri_reports s))"
  by (simp add: report_worker_pass_def bq_pop_def handle_dapp_report_def ran_call_def Let_def
      split: list.split)

text \<open>After the stop signal the worker drains what is left: it ends because each pass takes one.\<close>

function report_worker_drain :: "'s ran_if \<Rightarrow> 's ran_if" where
  "report_worker_drain s =
     (if bq_items (ri_reports s) = [] then s else report_worker_drain (report_worker_pass s))"
  by auto

termination
  by (relation "measure (\<lambda>s. length (bq_items (ri_reports s)))")
    (simp_all add: report_worker_pass_items)

declare report_worker_drain.simps [simp del]

definition expiry_pass_ran ::
    "('s, outbox) sm_class \<Rightarrow> time_point \<Rightarrow> 's ran_if \<Rightarrow> 's ran_if" where
  "expiry_pass_ran V now s =
     (let (m, expired, calls) = expire_subscriptions now (ri_manager s);
          s1 = ran_manager_step V m calls s
      in if expired \<noteq> [] then notify_dapp_status_changed s1 else s1)"

end
