(* ===== verification/Ran_Inv.thy ===== *)
theory Ran_Inv
  imports Ran_Interface
begin

text \<open>
  The invariant of the RAN role over every interleaving of its threads' passes: the
  subscription manager's maps agree, and the Service Models that run are those of RAN functions
  with subscribers.

  \<^item> \<open>managed_service_model\<close> is what the interface relies on beyond the registry: initialising
    a model or giving it a control neither starts nor stops it. Its flag says whether a
    start can fail.
  \<^item> \<open>ran_reach\<close> is the step relation: any pass of a loop, a registration, an emission or a
    step of a Service Model's own thread. Each pass is one step.
\<close>

section \<open>Frame facts\<close>

lemma notify_frame [simp]:
  "ri_manager (notify_dapp_status_changed s) = ri_manager s"
  "ri_registry (notify_dapp_status_changed s) = ri_registry s"
  "ri_out (notify_dapp_status_changed s) = ri_out s"
  "ri_config (notify_dapp_status_changed s) = ri_config s"
  "ri_wired (notify_dapp_status_changed s) = ri_wired s"
  by (simp_all add: notify_dapp_status_changed_def ran_call_def)

lemma ran_call_frame [simp]:
  "ri_manager (ran_call b e s) = ri_manager s"
  "ri_registry (ran_call b e s) = ri_registry s"
  "ri_out (ran_call b e s) = ri_out s"
  by (simp_all add: ran_call_def)

lemma ran_message_id_frame [simp]:
  "ri_manager (fst (ran_message_id s)) = ri_manager s"
  "ri_registry (fst (ran_message_id s)) = ri_registry s"
  "ri_events (fst (ran_message_id s)) = ri_events s"
  "ri_config (fst (ran_message_id s)) = ri_config s"
  "ri_out (fst (ran_message_id s)) = fst (generate_message_id (ri_out s))"
  "snd (ran_message_id s) = snd (generate_message_id (ri_out s))"
  by (simp_all add: ran_message_id_def split_def Let_def)

lemma ran_queue_frame [simp]:
  "ri_manager (ran_queue_outbound p s) = ri_manager s"
  "ri_registry (ran_queue_outbound p s) = ri_registry s"
  "ri_events (ran_queue_outbound p s) = ri_events s"
  "ri_out (ran_queue_outbound p s) = fst (queue_outbound p (ri_out s))"
  by (simp_all add: ran_queue_outbound_def)

lemma manager_step_frame [simp]:
  "ri_manager (ran_manager_step V m l s) = m"
  "ri_registry (ran_manager_step V m l s) = apply_lifecycle V l (ri_registry s)"
  "ri_out (ran_manager_step V m l s) = ri_out s"
  by (simp_all add: ran_manager_step_def)

lemma negative_reply_frame [simp]:
  "ri_manager (send_negative_setup_reply E rt r s) = ri_manager s"
  "ri_registry (send_negative_setup_reply E rt r s) = ri_registry s"
  by (simp_all add: send_negative_setup_reply_def split_def Let_def split: option.split)

lemma refuse_frame [simp]:
  "ri_manager (refuse_control rt r c d s) = ri_manager s"
  "ri_registry (refuse_control rt r c d s) = ri_registry s"
  by (simp_all add: refuse_control_def split_def Let_def)

section \<open>Which operations start a Service Model\<close>

lemma check_after_loss: "(rf, True) \<notin> set (check_sm_lifecycle m rf' True)"
  by (simp add: check_sm_lifecycle_def)

lemma no_start_unregister: "(rf, True) \<notin> set (snd (snd (unregister_dapp d m)))"
  by (auto simp: unregister_dapp_def split_def Let_def check_after_loss)

lemma no_start_remove_by_id: "(rf, True) \<notin> set (snd (snd (remove_subscription_by_id d i m)))"
  by (auto simp: remove_subscription_by_id_def split_def Let_def check_after_loss
      split: option.split)

lemma no_start_expire: "(rf, True) \<notin> set (snd (snd (expire_subscriptions t m)))"
  by (auto simp: expire_subscriptions_def split_def Let_def check_after_loss)

lemma start_only_added:
  "(rf', True) \<in> set (snd (snd (add_subscription d rf ts cs per tm t m))) \<Longrightarrow> rf' = rf"
  by (auto simp: add_subscription_def check_sm_lifecycle_def Let_def
      split: option.splits if_splits)

section \<open>What the interface relies on\<close>

definition running :: "('s, 'q) sm_class \<Rightarrow> 's sm_registry \<Rightarrow> u32 set" where
  "running V reg = {rf. is_sm_running V reg rf}"

definition factories_idle :: "('s, 'q) sm_class \<Rightarrow> 's sm_registry \<Rightarrow> bool" where
  "factories_idle V reg \<longleftrightarrow>
     (\<forall>(rf, f) \<in> set (factories reg). \<forall>sm. f () = Some sm \<longrightarrow> \<not> sm_is_running V sm)"

lemma factories_idle_same: "factories reg' = factories reg \<Longrightarrow> factories_idle V reg' = factories_idle V reg"
  by (simp add: factories_idle_def)

lemma lifecycle_change_factories [simp]:
  "factories (on_sm_lifecycle_change V rf b reg) = factories reg"
  by (simp add: on_sm_lifecycle_change_def start_sm_def stop_sm_def split_def Let_def
      split: option.split)

lemma lifecycle_change_sms [simp]:
  "um_has (sms (on_sm_lifecycle_change V rf b reg)) rf' = um_has (sms reg) rf'"
  by (auto simp: on_sm_lifecycle_change_def start_sm_def stop_sm_def split_def Let_def um_has_def
      split: option.split)

lemma apply_lifecycle_Cons:
  "apply_lifecycle V ((rf, b) # l) reg = apply_lifecycle V l (on_sm_lifecycle_change V rf b reg)"
  by (simp add: apply_lifecycle_def)

lemma apply_lifecycle_frame [simp]:
  "factories (apply_lifecycle V l reg) = factories reg"
  "um_has (sms (apply_lifecycle V l reg)) rf = um_has (sms reg) rf"
  by (induction l arbitrary: reg) (auto simp: apply_lifecycle_def split_def)

lemma apply_calls_Cons:
  "apply_calls ((rf, b) # l) S = apply_calls l (if b then insert rf S else S - {rf})"
  by (simp add: apply_calls_def)

lemma apply_calls_mono: "S \<subseteq> T \<Longrightarrow> apply_calls l S \<subseteq> apply_calls l T"
proof (induction l arbitrary: S T)
  case (Cons a l)
  obtain rf b where a: "a = (rf, b)" by (cases a)
  show ?case unfolding a apply_calls_Cons by (rule Cons.IH) (use Cons.prems in auto)
qed (simp add: apply_calls_def)

lemma running_sms: "rf \<in> running V reg \<Longrightarrow> um_has (sms reg) rf"
  by (auto simp: running_def is_sm_running_def um_has_def split: option.splits)

lemma running_update:
  "sm_is_running V sm' = (rf \<in> running V reg) \<Longrightarrow>
     running V (reg\<lparr>sms := AList.update rf sm' (sms reg)\<rparr>) = running V reg"
  by (auto simp: running_def is_sm_running_def split: option.splits if_splits)

locale managed_service_model = service_model V
  for V :: "('s, outbox) sm_class" +
  fixes dependable :: bool
  assumes init_running: "sm_is_running V (fst (sm_init V s)) = sm_is_running V s"
    and control_running:
      "sm_is_running V (fst (fst (sm_handle_control_action V emit rid action s ob))) = sm_is_running V s"
    and start_succeeds: "dependable \<Longrightarrow> \<not> sm_is_running V s \<Longrightarrow> snd (sm_start V s) = SUCCESS"
begin

lemma lifecycle_change_mem:
  "rf' \<in> running V (on_sm_lifecycle_change V rf b reg) \<longleftrightarrow>
     (if rf' = rf then b \<and> is_sm_running V (fst (start_sm V rf reg)) rf else rf' \<in> running V reg)"
  by (cases "rf' = rf"; cases b)
    (simp_all add: running_def on_sm_lifecycle_change_def start_sm_other stop_sm_other stop_sm_stops)

lemma lifecycle_change_running:
  "running V (on_sm_lifecycle_change V rf b reg)
     \<subseteq> (if b then insert rf (running V reg) else running V reg - {rf})"
  by (auto simp: lifecycle_change_mem split: if_splits)

lemma lifecycle_change_running_exact:
  assumes "dependable" "b \<Longrightarrow> um_has (sms reg) rf"
  shows "running V (on_sm_lifecycle_change V rf b reg)
     = (if b then insert rf (running V reg) else running V reg - {rf})"
proof -
  have "is_sm_running V (fst (start_sm V rf reg)) rf" if b
  proof -
    obtain sm where "map_of (sms reg) rf = Some sm" using assms(2) \<open>b\<close> by (auto simp: um_has_def)
    then have "snd (start_sm V rf reg) = SUCCESS"
      using start_succeeds [OF assms(1)] by (simp add: start_sm_def split_def Let_def)
    then show ?thesis by (rule start_sm_runs)
  qed
  then show ?thesis by (auto simp: lifecycle_change_mem split: if_splits)
qed

lemma apply_lifecycle_running: "running V (apply_lifecycle V l reg) \<subseteq> apply_calls l (running V reg)"
proof (induction l arbitrary: reg)
  case Nil
  then show ?case by (simp add: apply_lifecycle_def apply_calls_def)
next
  case (Cons a l)
  obtain rf b where a: "a = (rf, b)" by (cases a)
  show ?case
    unfolding a apply_lifecycle_Cons apply_calls_Cons
    using Cons.IH [of "on_sm_lifecycle_change V rf b reg"]
      apply_calls_mono [OF lifecycle_change_running [of rf b reg], of l] by (rule subset_trans)
qed

lemma apply_lifecycle_running_exact:
  assumes dependable "\<And>rf. (rf, True) \<in> set l \<Longrightarrow> um_has (sms reg) rf"
  shows "running V (apply_lifecycle V l reg) = apply_calls l (running V reg)"
  using assms(2)
proof (induction l arbitrary: reg)
  case Nil
  then show ?case by (simp add: apply_lifecycle_def apply_calls_def)
next
  case (Cons a l)
  obtain rf b where a: "a = (rf, b)" by (cases a)
  have "running V (on_sm_lifecycle_change V rf b reg)
     = (if b then insert rf (running V reg) else running V reg - {rf})"
    using Cons.prems by (intro lifecycle_change_running_exact [OF assms(1)]) (auto simp: a)
  moreover have "running V (apply_lifecycle V l (on_sm_lifecycle_change V rf b reg))
     = apply_calls l (running V (on_sm_lifecycle_change V rf b reg))"
    using Cons.prems by (intro Cons.IH) (auto simp: a)
  ultimately show ?case by (simp add: a apply_lifecycle_Cons apply_calls_Cons)
qed

lemma get_by_ran_function_running:
  assumes "factories_idle V reg"
  shows "running V (fst (get_by_ran_function V rf reg)) = running V reg"
    and "factories_idle V (fst (get_by_ran_function V rf reg))"
    and "um_has (sms reg) rf' \<Longrightarrow> um_has (sms (fst (get_by_ran_function V rf reg))) rf'"
    and "snd (get_by_ran_function V rf reg) = Some sm \<Longrightarrow>
           map_of (sms (fst (get_by_ran_function V rf reg))) rf = Some sm"
proof -
  have idle: "\<not> sm_is_running V (fst (sm_init V sm))"
    if "map_of (factories reg) rf = Some f" "f () = Some sm" for f sm
    using that assms init_running by (force simp: factories_idle_def dest: map_of_SomeD)
  show "running V (fst (get_by_ran_function V rf reg)) = running V reg"
    using idle by (auto simp: get_by_ran_function_def running_def is_sm_running_def split_def Let_def
        split: option.splits if_splits)
  have "set (AList.delete rf (factories reg)) \<subseteq> set (factories reg)"
    by (simp add: AList.delete_eq)
  then show "factories_idle V (fst (get_by_ran_function V rf reg))"
    using assms by (auto simp: get_by_ran_function_def factories_idle_def split_def Let_def
        split: option.split)
  show "um_has (sms reg) rf' \<Longrightarrow> um_has (sms (fst (get_by_ran_function V rf reg))) rf'"
    by (auto simp: get_by_ran_function_def um_has_def split_def Let_def split: option.split)
  show "snd (get_by_ran_function V rf reg) = Some sm \<Longrightarrow>
      map_of (sms (fst (get_by_ran_function V rf reg))) rf = Some sm"
    by (auto simp: get_by_ran_function_def split_def Let_def split: option.splits if_splits)
qed

end

section \<open>The step relation\<close>

definition new_ran_if :: "e3_config \<Rightarrow> bool \<Rightarrow> bool \<Rightarrow> 's sm_registry \<Rightarrow> 's ran_if" where
  "new_ran_if cfg rh sh reg =
     \<lparr>ri_config = cfg, ri_manager = set_sm_lifecycle_callback subscription_manager_init,
      ri_registry = reg, ri_wired = [],
      ri_out = \<lparr>ob_next_message_id = 0, ob_queue = Some (bq_new 128)\<rparr>,
      ri_reports = bq_new 1024, ri_report_handler = rh, ri_status_handler = sh, ri_events = []\<rparr>"

inductive ran_reach :: "('s, outbox) sm_class \<Rightarrow> e3_encoder \<Rightarrow> 's ran_if \<Rightarrow> bool" for V E where
  step_start: "running V reg = {} \<Longrightarrow> factories_idle V reg \<Longrightarrow> ran_reach V E (new_ran_if cfg rh sh reg)"
| step_register: "ran_reach V E s \<Longrightarrow> \<not> sm_is_running V sm \<Longrightarrow>
    ran_reach V E (fst (ran_register_sm V (Some sm) s))"
| step_setup: "ran_reach V E s \<Longrightarrow> setup_pass_ran V E rt now received s = Some s' \<Longrightarrow> ran_reach V E s'"
| step_inbound: "ran_reach V E s \<Longrightarrow> ran_reach V E (inbound_pass_ran V E rt now received s)"
| step_outbound: "ran_reach V E s \<Longrightarrow> ran_reach V E (outbound_pass_ran E rc s)"
| step_report: "ran_reach V E s \<Longrightarrow> ran_reach V E (report_worker_pass s)"
| step_expiry: "ran_reach V E s \<Longrightarrow> ran_reach V E (expiry_pass_ran V now s)"
| step_emission: "ran_reach V E s \<Longrightarrow> ran_reach V E (s\<lparr>ri_out := fst (sm_emitter p (ri_out s))\<rparr>)"
| step_sm_work: "ran_reach V E s \<Longrightarrow> map_of (sms (ri_registry s)) rf = Some sm \<Longrightarrow>
    sm_is_running V sm' = sm_is_running V sm \<Longrightarrow>
    ran_reach V E (s\<lparr>ri_registry := (ri_registry s)\<lparr>sms := AList.update rf sm' (sms (ri_registry s))\<rparr>\<rparr>)"

section \<open>The invariant\<close>

definition ran_tracks :: "bool \<Rightarrow> ('s, 'q) sm_class \<Rightarrow> subscription_manager \<Rightarrow> 's sm_registry \<Rightarrow> bool" where
  "ran_tracks exact V m reg \<longleftrightarrow>
     manager_inv m \<and> sm_lifecycle_callback m \<and> factories_idle V reg
     \<and> running V reg \<subseteq> {rf. has_subscribers m rf}
     \<and> (exact \<longrightarrow> {rf. has_subscribers m rf} \<subseteq> running V reg)"

lemma exec_op_calls:
  "snd (snd (exec_op (OpRegister t) m)) = []"
  "snd (snd (exec_op (OpUnregister d) m)) = snd (snd (unregister_dapp d m))"
  "snd (snd (exec_op (OpAdd d rf ts cs per tm t) m)) = snd (snd (add_subscription d rf ts cs per tm t m))"
  "snd (snd (exec_op (OpRemoveById d i) m)) = snd (snd (remove_subscription_by_id d i m))"
  "snd (snd (exec_op (OpExpire t) m)) = snd (snd (expire_subscriptions t m))"
  by (simp_all add: split_def Let_def)

context managed_service_model
begin

text \<open>An operation of the manager, with its callbacks applied.\<close>

lemma tracks_exec_op:
  assumes "ran_tracks dependable V m reg"
    and "\<And>rf. (rf, True) \<in> set (snd (snd (exec_op x m))) \<Longrightarrow> um_has (sms reg) rf"
  shows "ran_tracks dependable V (fst (exec_op x m)) (apply_lifecycle V (snd (snd (exec_op x m))) reg)"
proof -
  let ?l = "snd (snd (exec_op x m))" and ?m = "fst (exec_op x m)"
  have inv: "manager_inv m" "sm_lifecycle_callback m" "running V reg \<subseteq> {rf. has_subscribers m rf}"
    and exact: "dependable \<Longrightarrow> running V reg = {rf. has_subscribers m rf}"
    using assms(1) by (auto simp: ran_tracks_def)
  have calls: "apply_calls ?l {rf. has_subscribers m rf} = {rf. has_subscribers ?m rf}"
    using sub_lifecycle.step_tracks [OF _ refl, of m x] inv by simp
  have "running V (apply_lifecycle V ?l reg) \<subseteq> {rf. has_subscribers ?m rf}"
    using apply_lifecycle_running [of ?l reg] apply_calls_mono [OF inv(3), of ?l] unfolding calls
    by (rule subset_trans)
  moreover have "running V (apply_lifecycle V ?l reg) = {rf. has_subscribers ?m rf}" if dependable
    using apply_lifecycle_running_exact [OF that assms(2)] exact [OF that] calls by simp
  ultimately show ?thesis
    using assms(1) inv(1,2)
    by (simp add: ran_tracks_def manager_inv_exec_op exec_op_callback factories_idle_def)
qed

lemma tracks_registry:
  assumes "ran_tracks dependable V m reg" "running V reg' = running V reg" "factories_idle V reg'"
  shows "ran_tracks dependable V m reg'"
  using assms by (simp add: ran_tracks_def)

lemma tracks_get_by_ran_function:
  assumes "ran_tracks dependable V m reg"
  shows "ran_tracks dependable V m (fst (get_by_ran_function V rf reg))"
  using assms get_by_ran_function_running(1,2) [of reg rf]
  by (intro tracks_registry [OF assms]) (simp_all add: ran_tracks_def)

lemma tracks_setup_functions:
  "ran_tracks dependable V m reg \<Longrightarrow> ran_tracks dependable V m (fst (setup_ran_functions V rfs reg acc))"
proof (induction rfs arbitrary: reg acc)
  case (Cons rf rfs)
  have "ran_tracks dependable V m (fst (get_by_ran_function V rf reg))"
    by (rule tracks_get_by_ran_function [OF Cons.prems])
  from Cons.IH [OF this] show ?case by (simp add: split_def Let_def)
qed simp

lemma tracks_register_sm:
  assumes "ran_tracks dependable V m (ri_registry s)" "\<not> sm_is_running V sm"
  shows "ran_tracks dependable V m (ri_registry (fst (ran_register_sm V (Some sm) s)))"
proof (rule tracks_registry [OF assms(1)])
  show "running V (ri_registry (fst (ran_register_sm V (Some sm) s))) = running V (ri_registry s)"
    using assms(2) init_running [of sm]
    by (auto simp: ran_register_sm_def register_sm_def running_def is_sm_running_def um_has_def
        split_def Let_def split: option.splits if_splits)
  show "factories_idle V (ri_registry (fst (ran_register_sm V (Some sm) s)))"
    using assms(1)
    by (simp add: ran_tracks_def ran_register_sm_def register_sm_def factories_idle_def split_def Let_def)
qed

lemma tracks_setup_pass:
  assumes "ran_tracks dependable V (ri_manager s) (ri_registry s)"
    and "setup_pass_ran V E rt now received s = Some s'"
  shows "ran_tracks dependable V (ri_manager s') (ri_registry s')"
proof -
  let ?m = "fst (register_dapp now (ri_manager s))" and ?reg = "ri_registry s"
  have m: "ran_tracks dependable V ?m ?reg"
    using tracks_exec_op [OF assms(1), of "OpRegister now"]
    unfolding exec_op_fst exec_op_calls by (simp add: apply_lifecycle_def)
  have "ran_tracks dependable V (ri_manager t) (ri_registry t)"
    if "handle_setup_request V E rt now rid s = Some t" for rid t
    using that tracks_setup_functions [OF m, of "get_available_ran_functions ?reg" "[]"]
    by (auto simp: handle_setup_request_def split_def Let_def split: option.splits if_splits)
  with assms show ?thesis
    by (auto simp: setup_pass_ran_def split: option.splits if_splits pdu_choice.splits)
qed

lemma tracks_subscription_request:
  assumes "ran_tracks dependable V (ri_manager s) (ri_registry s)"
  shows "ran_tracks dependable V (ri_manager (handle_subscription_request V rt now r rid s))
           (ri_registry (handle_subscription_request V rt now r rid s))"
proof -
  let ?reg = "fst (get_by_ran_function V (subreq_ran_function_identifier r) (ri_registry s))"
  have idle: "factories_idle V (ri_registry s)" using assms by (simp add: ran_tracks_def)
  have reg: "ran_tracks dependable V (ri_manager s) ?reg"
    by (rule tracks_get_by_ran_function [OF assms])
  have add: "ran_tracks dependable V
      (fst (add_subscription d (subreq_ran_function_identifier r) ts cs per tm now (ri_manager s)))
      (apply_lifecycle V (snd (snd (add_subscription d (subreq_ran_function_identifier r) ts cs per tm
         now (ri_manager s)))) ?reg)"
    if "snd (get_by_ran_function V (subreq_ran_function_identifier r) (ri_registry s)) = Some sm"
    for d ts cs per tm sm
  proof -
    have has: "um_has (sms ?reg) (subreq_ran_function_identifier r)"
      using get_by_ran_function_running(4) [OF idle that] by (simp add: um_has_def)
    show ?thesis
      using tracks_exec_op [OF reg, of "OpAdd d (subreq_ran_function_identifier r) ts cs per tm now"]
        start_only_added has unfolding exec_op_fst exec_op_calls by blast
  qed
  have fst_reg: "fst (refusal_for_subscription V r (ri_registry s)) = ?reg"
    by (simp add: refusal_for_subscription_def split_def Let_def)
  have served: "\<exists>sm. snd (get_by_ran_function V (subreq_ran_function_identifier r) (ri_registry s)) = Some sm"
    if "snd (refusal_for_subscription V r (ri_registry s)) = None"
    using that by (auto simp: refusal_for_subscription_def split_def Let_def split: option.splits)
  have "ran_tracks dependable V (ri_manager (fst (subscription_decision V now r s)))
      (ri_registry (fst (subscription_decision V now r s)))"
    using assms reg add served fst_reg
    by (cases "snd (refusal_for_subscription V r (ri_registry s))")
      (auto simp: subscription_decision_def split_def Let_def)
  then show ?thesis by (simp add: handle_subscription_request_def split_def Let_def)
qed

text \<open>The operations that only take subscribers away start nothing.\<close>

lemma tracks_losing:
  assumes "ran_tracks dependable V m reg" "\<And>rf. (rf, True) \<notin> set (snd (snd (exec_op x m)))"
  shows "ran_tracks dependable V (fst (exec_op x m)) (apply_lifecycle V (snd (snd (exec_op x m))) reg)"
  by (rule tracks_exec_op [OF assms(1)]) (simp add: assms(2))

lemma tracks_subscription_delete:
  assumes "ran_tracks dependable V (ri_manager s) (ri_registry s)"
  shows "ran_tracks dependable V (ri_manager (handle_subscription_delete V rt d rid s))
           (ri_registry (handle_subscription_delete V rt d rid s))"
  using tracks_losing [OF assms, of "OpRemoveById (subdel_dapp_identifier d) (subdel_subscription_id d)"]
    no_start_remove_by_id
  unfolding exec_op_fst exec_op_calls
  by (simp add: handle_subscription_delete_def split_def Let_def)

lemma tracks_disconnection:
  assumes "ran_tracks dependable V (ri_manager s) (ri_registry s)"
  shows "ran_tracks dependable V (ri_manager (handle_dapp_disconnection V d s))
           (ri_registry (handle_dapp_disconnection V d s))"
  using tracks_losing [OF assms, of "OpUnregister d"] no_start_unregister
  unfolding exec_op_fst exec_op_calls
  by (simp add: handle_dapp_disconnection_def split_def Let_def)

lemma tracks_expiry:
  assumes "ran_tracks dependable V (ri_manager s) (ri_registry s)"
  shows "ran_tracks dependable V (ri_manager (expiry_pass_ran V now s))
           (ri_registry (expiry_pass_ran V now s))"
  using tracks_losing [OF assms, of "OpExpire now"] no_start_expire
  unfolding exec_op_fst exec_op_calls
  by (simp add: expiry_pass_ran_def split_def Let_def)

lemma tracks_sm_update:
  assumes "ran_tracks dependable V m reg" "map_of (sms reg) rf = Some sm"
    and "sm_is_running V sm' = sm_is_running V sm"
  shows "ran_tracks dependable V m (reg\<lparr>sms := AList.update rf sm' (sms reg)\<rparr>)"
proof (rule tracks_registry [OF assms(1)])
  show "running V (reg\<lparr>sms := AList.update rf sm' (sms reg)\<rparr>) = running V reg"
    using assms(2,3) by (intro running_update) (simp add: running_def is_sm_running_def)
qed (use assms(1) in \<open>simp add: ran_tracks_def factories_idle_def\<close>)

lemma tracks_control:
  assumes "ran_tracks dependable V (ri_manager s) (ri_registry s)"
  shows "ran_tracks dependable V (ri_manager (handle_control_action V rt a rid s))
           (ri_registry (handle_control_action V rt a rid s))"
proof -
  let ?rf = "ctl_ran_function_identifier a"
  let ?reg = "fst (get_by_ran_function V ?rf (ri_registry s))"
  have idle: "factories_idle V (ri_registry s)" using assms by (simp add: ran_tracks_def)
  have reg: "ran_tracks dependable V (ri_manager s) ?reg" by (rule tracks_get_by_ran_function [OF assms])
  have upd: "ran_tracks dependable V (ri_manager s) (?reg\<lparr>sms := AList.update ?rf sm' (sms ?reg)\<rparr>)"
    if "snd (get_by_ran_function V ?rf (ri_registry s)) = Some sm" "sm_is_running V sm' = sm_is_running V sm"
    for sm sm'
    using tracks_sm_update [OF reg get_by_ran_function_running(4) [OF idle that(1)] that(2)] .
  show ?thesis
    using assms reg upd control_running
    by (auto simp: handle_control_action_def split_def Let_def split: option.split)
qed

lemma tracks_inbound:
  assumes "ran_tracks dependable V (ri_manager s) (ri_registry s)"
  shows "ran_tracks dependable V (ri_manager (inbound_pass_ran V E rt now received s))
           (ri_registry (inbound_pass_ran V E rt now received s))"
  using assms tracks_subscription_request [OF assms] tracks_subscription_delete [OF assms]
    tracks_control [OF assms] tracks_disconnection [OF assms]
  by (auto simp: inbound_pass_ran_def inbound_pdu_ran_def handle_release_message_def
      split: option.split pdu_type.split pdu_choice.split)

lemma tracks_start:
  assumes "running V reg = {}" "factories_idle V reg"
  shows "ran_tracks dependable V (ri_manager (new_ran_if cfg rh sh reg))
           (ri_registry (new_ran_if cfg rh sh reg))"
  using assms manager_inv_start
  by (auto simp: ran_tracks_def new_ran_if_def has_subscribers_def set_sm_lifecycle_callback_def
      subscription_manager_init_def)

lemma reach_tracks: "ran_reach V E s \<Longrightarrow> ran_tracks dependable V (ri_manager s) (ri_registry s)"
proof (induction rule: ran_reach.induct)
  case (step_start reg cfg rh sh)
  then show ?case by (rule tracks_start)
next
  case (step_register s sm)
  moreover have "ri_manager (fst (ran_register_sm V (Some sm) s)) = ri_manager s"
    by (simp add: ran_register_sm_def split_def Let_def)
  ultimately show ?case using tracks_register_sm [of "ri_manager s" s sm] by simp
next
  case (step_setup s rt now received s')
  then show ?case using tracks_setup_pass by blast
next
  case (step_inbound s rt now received)
  then show ?case by (intro tracks_inbound)
next
  case (step_outbound s rc)
  then show ?case by (simp add: outbound_pass_ran_def split_def Let_def split: option.split)
next
  case (step_report s)
  then show ?case
    by (simp add: report_worker_pass_def handle_dapp_report_def split_def Let_def split: option.split)
next
  case (step_expiry s now)
  then show ?case by (intro tracks_expiry)
next
  case (step_emission s p)
  then show ?case by simp
next
  case (step_sm_work s rf sm sm')
  then show ?case using tracks_sm_update by simp
qed

end

end
