(* ===== verification/Ran_Props.thy ===== *)
theory Ran_Props
  imports Ran_Inv Simple_Sm "HOL-Library.Code_Target_Nat"
begin

text \<open>
  What the RAN role answers: subscription requests, deletes, controls and setup requests, in any
  state its threads can reach, and which Service Models run. The reference Service Model
  satisfies what the interface relies on, so the properties apply to it.
\<close>

section \<open>The outbound queue\<close>

definition ob_items :: "outbox \<Rightarrow> pdu list" where
  "ob_items ob = (case ob_queue ob of None \<Rightarrow> [] | Some q \<Rightarrow> bq_items q)"

definition outbox_room :: "outbox \<Rightarrow> bool" where
  "outbox_room ob \<longleftrightarrow>
     (case ob_queue ob of
        None \<Rightarrow> False
      | Some q \<Rightarrow> \<not> bq_shutdown q \<and> length (bq_items q) < bq_capacity q)"

lemma queue_outbound_room:
  assumes "outbox_room ob"
  shows "ob_items (fst (queue_outbound p ob)) = ob_items ob @ [p]"
    and "snd (queue_outbound p ob) = SUCCESS"
  using assms
  by (auto simp: outbox_room_def ob_items_def queue_outbound_def bq_push_def split: option.splits)

lemma outbox_room_id [simp]:
  "outbox_room (ob\<lparr>ob_next_message_id := n\<rparr>) = outbox_room ob"
  "ob_items (ob\<lparr>ob_next_message_id := n\<rparr>) = ob_items ob"
  by (simp_all add: outbox_room_def ob_items_def)

lemma sanitize_room [simp]:
  "outbox_room (fst (sanitize_request_message_id r ob)) = outbox_room ob"
  "ob_items (fst (sanitize_request_message_id r ob)) = ob_items ob"
  by (simp_all add: sanitize_request_message_id_def)

lemma sanitize_echo: "r \<noteq> 0 \<Longrightarrow> snd (sanitize_request_message_id r ob) = r"
  by (simp add: sanitize_request_message_id_def)

lemma make_pdu_eq [simp]:
  "make_pdu at t c mid = make_pdu at' t' c' mid' \<longleftrightarrow> at = at' \<and> t = t' \<and> c = c' \<and> mid = mid'"
  by (auto simp: make_pdu_def)

section \<open>The reference Service Model\<close>

interpretation simple_managed: managed_service_model "simple_class codec now" True
  by unfold_locales
    (auto simp: simple_class_def simple_start_def simple_handle_control_action_def allow_next_emit_def
      split_def Let_def)

text \<open>An interface with one Service Model, and frames that stand for two messages.\<close>

definition sample_subscription :: subscription_request where
  "sample_subscription =
     \<lparr>subreq_dapp_identifier = 1, subreq_ran_function_identifier = 1,
      subreq_telemetry_identifier_list = [1], subreq_control_identifier_list = [1],
      subreq_subscription_time = None, subreq_periodicity = None\<rparr>"

definition sample_encoder :: e3_encoder where
  "sample_encoder =
     \<lparr>enc_encode = (\<lambda>_. Some [0]),
      enc_decode = (\<lambda>bs.
        if bs = [1] then Some (make_pdu 0 SETUP_REQUEST
             (SetupRequest \<lparr>sreq_e3ap_protocol_version = ''1.0.0'', sreq_dapp_name = ''d'',
                            sreq_dapp_version = ''1'', sreq_vendor = ''v''\<rparr>) 7)
        else if bs = [2] then
          Some (make_pdu 0 SUBSCRIPTION_REQUEST (SubscriptionRequest sample_subscription) 8)
        else None)\<rparr>"

definition sample_sm :: "(simple_sm, outbox) sm_class" where
  "sample_sm = simple_class sample_codec 0"

definition sample_ran0 :: "simple_sm ran_if" where
  "sample_ran0 =
     fst (ran_register_sm sample_sm (Some (new_simple_sm 1000 ASN1 FixedRate))
       (new_ran_if default_config True True sm_registry_init))"

definition sample_ran1 :: "simple_sm ran_if" where
  "sample_ran1 = the (setup_pass_ran sample_sm sample_encoder 0 0 (Some [1]) sample_ran0)"

definition sample_ran2 :: "simple_sm ran_if" where
  "sample_ran2 = inbound_pass_ran sample_sm sample_encoder 0 5 (Some [2]) sample_ran1"

lemma sample_managed: "managed_service_model sample_sm True"
  unfolding sample_sm_def by (rule simple_managed.managed_service_model_axioms)

lemma sample_reach0: "ran_reach sample_sm E sample_ran0"
  unfolding sample_ran0_def
  by (intro ran_reach.step_register ran_reach.step_start)
    (simp_all add: running_def is_sm_running_def factories_idle_def sm_registry_init_def
      sample_sm_def simple_class_def new_simple_sm_def)

lemma sample_setup: "\<exists>s. setup_pass_ran sample_sm sample_encoder 0 0 (Some [1]) sample_ran0 = Some s"
  by (simp add: setup_pass_ran_def sample_encoder_def make_pdu_def handle_setup_request_def
      encode_setup_response_def split_def Let_def)

lemma sample_reach1: "ran_reach sample_sm sample_encoder sample_ran1"
proof -
  obtain s where "setup_pass_ran sample_sm sample_encoder 0 0 (Some [1]) sample_ran0 = Some s"
    using sample_setup by blast
  then show ?thesis
    using ran_reach.step_setup [OF sample_reach0] by (simp add: sample_ran1_def)
qed

lemma sample_reach2: "ran_reach sample_sm sample_encoder sample_ran2"
  unfolding sample_ran2_def by (rule ran_reach.step_inbound [OF sample_reach1])

text \<open>What the two states hold, evaluated once.\<close>

definition sample_view :: "simple_sm ran_if \<Rightarrow> bool \<times> bool \<times> bool \<times> bool \<times> u32 list \<times> bool" where
  "sample_view s =
     (outbox_room (ri_out s), is_dapp_registered (ri_manager s) 1, has_subscribers (ri_manager s) 1,
      um_has (sms (ri_registry s)) 1, ri_wired s, um_has (factories (ri_registry s)) 1)"

lemma sample_view1: "sample_view sample_ran1 = (True, True, False, True, [1], False)"
  by code_simp

lemma sample_view2: "sample_view sample_ran2 = (True, True, True, True, [1], False)"
  by code_simp

section \<open>Which Service Models run\<close>



section \<open>Subscription requests\<close>

inductive_cases add_stepE: "registry_step r (OpAdd d rf ts cs per tm t) (ResId c i) r'"

definition granted :: "error_code \<Rightarrow> bool" where
  "granted c \<longleftrightarrow> c = SUCCESS \<or> c = SUBSCRIPTION_EXISTS"

text \<open>What adding a subscription does, read off the registry the manager refines.\<close>

lemma add_step_outcome:
  assumes "registry_step r (OpAdd d rf ts cs per tm t) (ResId c i) r'"
  shows "granted c \<longleftrightarrow> d \<in> rg_dapps r \<and> (rg_subs r (d, rf) \<noteq> None \<or> \<not> exhausted (rg_ids r))"
    and "granted c \<Longrightarrow> \<exists>info. rg_subs r' (d, rf) = Some (i, info)"
    and "\<not> granted c \<Longrightarrow> r' = r"
  using assms by (auto elim!: add_stepE simp: granted_def least_free_def exhausted_def)

lemma add_subscription_step:
  assumes "manager_inv m"
  shows "registry_step (registry_of m) (OpAdd d rf ts cs per tm t)
     (ResId (fst (fst (snd (add_subscription d rf ts cs per tm t m))))
            (snd (fst (snd (add_subscription d rf ts cs per tm t m)))))
     (registry_of (fst (add_subscription d rf ts cs per tm t m)))"
  using sim_add [OF assms, of d rf ts cs per tm t] by (simp add: split_def Let_def)

lemma find_unknown: "find (\<lambda>i. \<not> contains ids i) xs = None \<longleftrightarrow> set xs \<subseteq> set ids"
  by (auto simp: find_None_iff contains_def)

lemma no_refusal_iff:
  "snd (refusal_for_subscription V r reg) = None \<longleftrightarrow>
     (\<exists>sm. snd (get_by_ran_function V (subreq_ran_function_identifier r) reg) = Some sm
        \<and> (subreq_telemetry_identifier_list r \<noteq> [] \<or> subreq_control_identifier_list r \<noteq> [])
        \<and> set (subreq_telemetry_identifier_list r) \<subseteq> set (sm_telemetry_ids V sm)
        \<and> set (subreq_control_identifier_list r) \<subseteq> set (sm_control_ids V sm))"
  by (auto simp: refusal_for_subscription_def split_def Let_def simp flip: find_unknown
      split: option.splits)

text \<open>The subscription a request asks for is offered by the Service Model it names.\<close>

definition offered :: "('s, outbox) sm_class \<Rightarrow> subscription_request \<Rightarrow> 's sm_registry \<Rightarrow> bool" where
  "offered V r reg \<longleftrightarrow>
     (\<exists>sm. snd (get_by_ran_function V (subreq_ran_function_identifier r) reg) = Some sm
        \<and> (subreq_telemetry_identifier_list r \<noteq> [] \<or> subreq_control_identifier_list r \<noteq> [])
        \<and> set (subreq_telemetry_identifier_list r) \<subseteq> set (sm_telemetry_ids V sm)
        \<and> set (subreq_control_identifier_list r) \<subseteq> set (sm_control_ids V sm))"

lemma decision_outcome:
  fixes V now r s
  defines "dec \<equiv> subscription_decision V now r s"
    and "key \<equiv> (subreq_dapp_identifier r, subreq_ran_function_identifier r)"
  assumes inv: "manager_inv (ri_manager s)"
  shows "fst (snd dec) = POSITIVE \<longleftrightarrow>
       is_dapp_registered (ri_manager s) (subreq_dapp_identifier r) \<and> offered V r (ri_registry s)
       \<and> (rg_subs (registry_of (ri_manager s)) key \<noteq> None
          \<or> \<not> exhausted (rg_ids (registry_of (ri_manager s))))"
    and "fst (snd dec) = POSITIVE \<Longrightarrow>
       \<exists>info. rg_subs (registry_of (ri_manager (fst dec))) key = Some (fst (snd (snd dec)), info)"
    and "fst (snd dec) \<noteq> POSITIVE \<Longrightarrow>
       registry_of (ri_manager (fst dec)) = registry_of (ri_manager s) \<and> snd (snd (snd dec)) \<noteq> None"
    and "ri_out (fst dec) = ri_out s"
proof -
  let ?add = "add_subscription (subreq_dapp_identifier r) (subreq_ran_function_identifier r)
      (subreq_telemetry_identifier_list r) (subreq_control_identifier_list r)
      (case subreq_periodicity r of None \<Rightarrow> 0 | Some p \<Rightarrow> p)
      (case subreq_subscription_time r of None \<Rightarrow> 0 | Some t \<Rightarrow> t) now (ri_manager s)"
  note out = add_step_outcome [OF add_subscription_step [OF inv, of "subreq_dapp_identifier r"
      "subreq_ran_function_identifier r" "subreq_telemetry_identifier_list r"
      "subreq_control_identifier_list r" "case subreq_periodicity r of None \<Rightarrow> 0 | Some p \<Rightarrow> p"
      "case subreq_subscription_time r of None \<Rightarrow> 0 | Some t \<Rightarrow> t" now]]
  have reg: "is_dapp_registered (ri_manager s) d \<longleftrightarrow> d \<in> rg_dapps (registry_of (ri_manager s))" for d
    by (simp add: is_dapp_registered_def)
  have off: "snd (refusal_for_subscription V r (ri_registry s)) = None \<longleftrightarrow> offered V r (ri_registry s)"
    by (simp add: no_refusal_iff offered_def)
  have dec: "dec =
      (if \<not> is_dapp_registered (ri_manager s) (subreq_dapp_identifier r)
       then (s, NEGATIVE, 1, Some (SETUP_REQUIRED, ''complete setup before subscribing''))
       else if snd (refusal_for_subscription V r (ri_registry s)) \<noteq> None
       then (s\<lparr>ri_registry := fst (refusal_for_subscription V r (ri_registry s))\<rparr>, NEGATIVE, 1,
             snd (refusal_for_subscription V r (ri_registry s)))
       else
         let s2 = ran_manager_step V (fst ?add) (snd (snd ?add))
                    (s\<lparr>ri_registry := fst (refusal_for_subscription V r (ri_registry s))\<rparr>);
             c = fst (fst (snd ?add)); i = snd (fst (snd ?add))
         in if granted c then (if c = SUCCESS then notify_dapp_status_changed s2 else s2, POSITIVE, i, None)
            else (s2, NEGATIVE, i, Some (if c = INTERNAL_ERROR then RESOURCE_EXHAUSTED else UNSPECIFIED,
                        if c = INTERNAL_ERROR then ''no free subscription identifier''
                        else error_code_to_string c)))"
    by (auto simp: dec_def subscription_decision_def granted_def split_def Let_def split: option.split)
  show "fst (snd dec) = POSITIVE \<longleftrightarrow>
       is_dapp_registered (ri_manager s) (subreq_dapp_identifier r) \<and> offered V r (ri_registry s)
       \<and> (rg_subs (registry_of (ri_manager s)) key \<noteq> None
          \<or> \<not> exhausted (rg_ids (registry_of (ri_manager s))))"
    unfolding dec Let_def off reg key_def using out(1) by auto
  show "fst (snd dec) = POSITIVE \<Longrightarrow>
       \<exists>info. rg_subs (registry_of (ri_manager (fst dec))) key = Some (fst (snd (snd dec)), info)"
    unfolding dec Let_def key_def using out(2) by (auto split: if_splits)
  show "fst (snd dec) \<noteq> POSITIVE \<Longrightarrow>
       registry_of (ri_manager (fst dec)) = registry_of (ri_manager s) \<and> snd (snd (snd dec)) \<noteq> None"
    unfolding dec Let_def using out(3) by auto
  show "ri_out (fst dec) = ri_out s" unfolding dec Let_def by simp
qed

lemma reach_manager_inv:
  assumes "managed_service_model V b" "ran_reach V E s"
  shows "manager_inv (ri_manager s)"
  using managed_service_model.reach_tracks [OF assms] by (simp add: ran_tracks_def)



section \<open>Deletes\<close>



section \<open>Controls\<close>

lemma refuse_control_acks:
  assumes "outbox_room (ri_out s)" "rid \<noteq> 0"
  shows "\<exists>mid ack. ob_items (ri_out (refuse_control rt rid c d s)) = ob_items (ri_out s)
       @ [make_pdu rt MESSAGE_ACK (MessageAck ack) mid]
     \<and> mid \<noteq> 0 \<and> ack_request_id ack = rid \<and> ack_response_code ack = NEGATIVE \<and> ack_cause ack = Some c"
  using assms message_id_nonzero [of "ri_out s"]
  by (auto simp: refuse_control_def split_def Let_def queue_outbound_room sanitize_request_message_id_def)

lemma simple_control_acks:
  assumes "outbox_room ob"
  shows "\<exists>mid. ob_items (snd (fst (simple_handle_control_action codec t
         (emit_outbound (Some sm_emitter)) rid a sm ob))) = ob_items ob
       @ [make_pdu t MESSAGE_ACK
            (MessageAck \<lparr>ack_request_id = rid, ack_response_code =
               (if decode_simple_control codec (ctl_action_data a) (ssm_encoding sm) \<noteq> None
                then POSITIVE else NEGATIVE), ack_cause = None, ack_detail = None\<rparr>) mid] \<and> mid \<noteq> 0"
  using assms message_id_nonzero [of ob]
  by (auto simp: simple_handle_control_action_def emit_outbound_def sm_emitter_def
      make_message_ack_pdu_def make_pdu_def split_def Let_def queue_outbound_room)



section \<open>Setup\<close>

definition entry_fits :: "ran_function_def \<Rightarrow> bool" where
  "entry_fits f \<longleftrightarrow>
     1 \<le> length (rf_ran_function_data f) \<and> length (rf_ran_function_data f) \<le> MAX_PROTOCOL_DATA_SIZE
     \<and> length (rf_telemetry_identifier_list f) \<le> MAX_IDENTIFIER_LIST_SIZE
     \<and> length (rf_control_identifier_list f) \<le> MAX_IDENTIFIER_LIST_SIZE"

lemma setup_functions_fit:
  "(\<forall>f \<in> set acc. entry_fits f) \<Longrightarrow> length acc \<le> MAX_RAN_FUNCTIONS \<Longrightarrow>
     (\<forall>f \<in> set (snd (setup_ran_functions V rfs reg acc)). entry_fits f)
     \<and> length (snd (setup_ran_functions V rfs reg acc)) \<le> MAX_RAN_FUNCTIONS"
proof (induction rfs arbitrary: reg acc)
  case (Cons rf rfs)
  define reg' f where defs: "reg' = fst (get_by_ran_function V rf reg)"
    "f = ran_function_entry V rf (snd (get_by_ran_function V rf reg))"
  define acc' where "acc' = (if entry_fits f \<and> length acc < MAX_RAN_FUNCTIONS then acc @ [f] else acc)"
  have "setup_ran_functions V (rf # rfs) reg acc =
      (if rf_ran_function_data f = [] \<or> MAX_PROTOCOL_DATA_SIZE < length (rf_ran_function_data f)
       then setup_ran_functions V rfs reg' acc
       else if MAX_IDENTIFIER_LIST_SIZE < length (rf_telemetry_identifier_list f)
         \<or> MAX_IDENTIFIER_LIST_SIZE < length (rf_control_identifier_list f)
       then setup_ran_functions V rfs reg' acc
       else if MAX_RAN_FUNCTIONS \<le> length acc then setup_ran_functions V rfs reg' acc
       else setup_ran_functions V rfs reg' (acc @ [f]))"
    unfolding defs by (simp add: split_def Let_def)
  also have "\<dots> = setup_ran_functions V rfs reg' acc'"
    by (simp add: acc'_def entry_fits_def Suc_le_eq not_less)
  finally have "setup_ran_functions V (rf # rfs) reg acc = setup_ran_functions V rfs reg' acc'" .
  moreover have "\<forall>f \<in> set acc'. entry_fits f" "length acc' \<le> MAX_RAN_FUNCTIONS"
    using Cons.prems by (auto simp: acc'_def)
  ultimately show ?case using Cons.IH [of acc' reg'] by simp
qed simp

lemma registered_iff: "is_dapp_registered m d \<longleftrightarrow> d \<in> rg_dapps (registry_of m)"
  by (simp add: is_dapp_registered_def)

inductive_cases register_stepE: "registry_step r (OpRegister t) (ResId c i) r'"



end
