(* ===== verification/Dapp_Interface.thy ===== *)
theory Dapp_Interface
  imports Dapp_State Ran_Interface
begin

text \<open>
  The dApp role of \<open>class E3Interface\<close>, \<^verbatim>\<open>src/core/e3_interface.cpp\<close>: the setup handshake, the
  handlers of what the RAN sends, the requests a dApp queues, and one pass of each loop.

  As on the RAN side, a call of an application handler and a frame given to the connector are
  events, and what the connector returns and the clocks are arguments.
\<close>

section \<open>State\<close>

datatype dapp_handler =
    OnSetupResponse | OnSubscriptionResponse | OnIndication | OnXappControl | OnMessageAck | OnDisconnect

datatype dapp_event =
    SetupResponded setup_response
  | SubscriptionResponded subscription_response
  | IndicationDelivered indication_message
  | XappControlDelivered xapp_control_action
  | MessageAcked message_ack
  | Disconnected disconnect_reason
  | SetupRequestSent bytes
  | DappPduSent bytes

record pending_op =
  po_ran_function_id :: u32
  po_is_delete :: bool
  po_subscription_time_s :: "u32 option"

record dapp_if =
  di_config :: e3_config
  di_state :: dapp_state
  di_pending :: "(u32, pending_op) umap"
  di_out :: outbox
  di_ran_gone :: bool
  di_release_sent :: bool
  di_setup_complete :: bool
  di_setup_succeeded :: bool
  di_handlers :: "dapp_handler list"
  di_events :: "dapp_event list"

definition dapp_call :: "dapp_handler \<Rightarrow> dapp_event \<Rightarrow> dapp_if \<Rightarrow> dapp_if" where
  "dapp_call h e s = (if h \<in> set (di_handlers s) then s\<lparr>di_events := di_events s @ [e]\<rparr> else s)"

definition dapp_sent :: "dapp_event \<Rightarrow> dapp_if \<Rightarrow> dapp_if" where
  "dapp_sent e s = s\<lparr>di_events := di_events s @ [e]\<rparr>"

definition dapp_message_id :: "dapp_if \<Rightarrow> dapp_if \<times> u32" where
  "dapp_message_id s = (let (ob, mid) = generate_message_id (di_out s) in (s\<lparr>di_out := ob\<rparr>, mid))"

definition dapp_queue_outbound :: "pdu \<Rightarrow> dapp_if \<Rightarrow> dapp_if \<times> error_code" where
  "dapp_queue_outbound p s =
     (let (ob, rc) = queue_outbound p (di_out s) in (s\<lparr>di_out := ob\<rparr>, rc))"

definition remember_subscription_op :: "u32 \<Rightarrow> u32 \<Rightarrow> bool \<Rightarrow> u32 option \<Rightarrow> dapp_if \<Rightarrow> dapp_if" where
  "remember_subscription_op request_id rf is_delete sub_time s =
     s\<lparr>di_pending := AList.update request_id
         \<lparr>po_ran_function_id = rf, po_is_delete = is_delete, po_subscription_time_s = sub_time\<rparr>
         (di_pending s)\<rparr>"

definition forget_subscription_op :: "u32 \<Rightarrow> dapp_if \<Rightarrow> dapp_if" where
  "forget_subscription_op request_id s = s\<lparr>di_pending := AList.delete request_id (di_pending s)\<rparr>"

section \<open>Messages from the RAN\<close>

definition on_ran_gone :: "disconnect_reason \<Rightarrow> dapp_if \<Rightarrow> dapp_if" where
  "on_ran_gone reason s =
     (if di_ran_gone s then s
      else
        let s1 = s\<lparr>di_ran_gone := True, di_state := clear_session (di_state s), di_pending := [],
                   di_setup_succeeded := False\<rparr>
        in if di_release_sent s1 then s1 else dapp_call OnDisconnect (Disconnected reason) s1)"

definition for_this_dapp :: "u32 \<Rightarrow> dapp_if \<Rightarrow> bool" where
  "for_this_dapp dapp_id s = (assigned_dapp_id (di_state s) = Some dapp_id)"

definition handle_release_from_ran :: "release_message \<Rightarrow> dapp_if \<Rightarrow> dapp_if" where
  "handle_release_from_ran release s =
     (if \<not> for_this_dapp (rel_dapp_identifier release) s then s else on_ran_gone RELEASED_BY_RAN s)"

definition handle_setup_response :: "setup_response \<Rightarrow> dapp_if \<Rightarrow> dapp_if" where
  "handle_setup_response resp s =
     (let s1 = (if srsp_response_code resp = POSITIVE
                then s\<lparr>di_state := record_setup_response
                         (case srsp_dapp_identifier resp of None \<Rightarrow> 0 | Some d \<Rightarrow> d)
                         (srsp_ran_function_list resp) (di_state s)\<rparr>
                else s)
      in dapp_call OnSetupResponse (SetupResponded resp) s1)"

definition handle_subscription_response ::
    "time_point \<Rightarrow> subscription_response \<Rightarrow> dapp_if \<Rightarrow> dapp_if" where
  "handle_subscription_response now resp s =
     (if \<not> for_this_dapp (subrsp_dapp_identifier resp) s then s
      else
        let pending = map_of (di_pending s) (subrsp_request_id resp);
            s1 = (if pending \<noteq> None
                  then s\<lparr>di_pending := AList.delete (subrsp_request_id resp) (di_pending s)\<rparr> else s);
            s2 =
              (case pending of
                 None \<Rightarrow> s1
               | Some op \<Rightarrow>
                   if subrsp_response_code resp \<noteq> POSITIVE then s1
                   else if po_is_delete op
                   then s1\<lparr>di_state :=
                             fst (remove_subscription_by_rf (po_ran_function_id op) (di_state s1))\<rparr>
                   else
                     (case subrsp_subscription_id resp of
                        None \<Rightarrow> s1
                      | Some sub_id \<Rightarrow>
                          s1\<lparr>di_state := record_subscription (po_ran_function_id op) sub_id
                               (case po_subscription_time_s op of
                                  None \<Rightarrow> None
                                | Some t \<Rightarrow> if 0 < t then Some (now + 1000000000 * uint t) else None)
                               (di_state s1)\<rparr>))
        in dapp_call OnSubscriptionResponse (SubscriptionResponded resp) s2)"

definition handle_indication :: "indication_message \<Rightarrow> dapp_if \<Rightarrow> dapp_if" where
  "handle_indication msg s =
     (if \<not> for_this_dapp (ind_dapp_identifier msg) s then s
      else dapp_call OnIndication (IndicationDelivered msg) s)"

definition handle_xapp_control_action :: "xapp_control_action \<Rightarrow> dapp_if \<Rightarrow> dapp_if" where
  "handle_xapp_control_action action s =
     (if \<not> for_this_dapp (xca_dapp_identifier action) s then s
      else dapp_call OnXappControl (XappControlDelivered action) s)"

definition handle_message_ack :: "message_ack \<Rightarrow> dapp_if \<Rightarrow> dapp_if" where
  "handle_message_ack ack s = dapp_call OnMessageAck (MessageAcked ack) s"

definition reason_suffix :: "response_code \<Rightarrow> cause option \<Rightarrow> string option \<Rightarrow> string" where
  "reason_suffix code cause detail =
     (if code \<noteq> NEGATIVE \<or> cause = None \<and> detail = None then []
      else '' ('' @ (case cause of None \<Rightarrow> [] | Some c \<Rightarrow> cause_to_string c)
           @ (if cause \<noteq> None \<and> detail \<noteq> None then '': '' else [])
           @ (case detail of None \<Rightarrow> [] | Some d \<Rightarrow> d) @ '')'')"

section \<open>The setup handshake\<close>

text \<open>
  What the environment returns: for each round the stop flag and the result of the send, for each
  of its receive attempts the stop flag and the result of the receive.
\<close>

datatype recv_result = RecvBytes bytes | RecvTimeout | RecvError

record setup_env =
  se_stop :: "nat \<Rightarrow> bool"
  se_send :: "nat \<Rightarrow> error_code"
  se_recv_stop :: "nat \<Rightarrow> nat \<Rightarrow> bool"
  se_recv :: "nat \<Rightarrow> nat \<Rightarrow> recv_result"

definition setup_reply_received :: "e3_encoder \<Rightarrow> bytes \<Rightarrow> dapp_if \<Rightarrow> dapp_if \<times> bool" where
  "setup_reply_received E buffer s =
     (case enc_decode E buffer of
        None \<Rightarrow> (s, False)
      | Some p \<Rightarrow>
          if pdu_type_of p \<noteq> SETUP_RESPONSE then (s, False)
          else (case pdu_choice_of p of
                  SetupResponse resp \<Rightarrow> (handle_setup_response resp s, True)
                | _ \<Rightarrow> (s, False)))"

function setup_receive :: "e3_encoder \<Rightarrow> setup_env \<Rightarrow> nat \<Rightarrow> nat \<Rightarrow> dapp_if \<Rightarrow> dapp_if \<times> bool" where
  "setup_receive E env round attempt s =
     (if attempt < 4 \<and> \<not> se_recv_stop env round attempt
      then (case se_recv env round attempt of
              RecvBytes buffer \<Rightarrow> setup_reply_received E buffer s
            | RecvError \<Rightarrow> (s, False)
            | RecvTimeout \<Rightarrow> setup_receive E env round (attempt + 1) s)
      else (s, False))"
  by auto

termination
  by (relation "measure (\<lambda>(_, _, _, attempt, _). 4 - attempt)") auto

declare setup_receive.simps [simp del]

definition MAX_RETRIES :: nat where "MAX_RETRIES = 5"

function setup_rounds :: "e3_encoder \<Rightarrow> setup_env \<Rightarrow> bytes \<Rightarrow> nat \<Rightarrow> dapp_if \<Rightarrow> dapp_if \<times> bool" where
  "setup_rounds E env request retries s =
     (if \<not> se_stop env retries \<and> retries < MAX_RETRIES
      then
        let s1 = dapp_sent (SetupRequestSent request) s in
        if se_send env retries \<noteq> SUCCESS then setup_rounds E env request (retries + 1) s1
        else
          let (s2, got) = setup_receive E env retries 0 s1
          in if got then (s2, True) else setup_rounds E env request (retries + 1) s2
      else (s, False))"
  by auto

termination
  by (relation "measure (\<lambda>(_, _, _, retries, _). MAX_RETRIES - retries)") auto

declare setup_rounds.simps [simp del]

definition setup_loop_dapp :: "e3_encoder \<Rightarrow> setup_env \<Rightarrow> u64 \<Rightarrow> dapp_if \<Rightarrow> dapp_if" where
  "setup_loop_dapp E env rt s =
     (let (s1, mid) = dapp_message_id s; cfg = di_config s1 in
      case encode_setup_request E rt mid (cfg_e3ap_version cfg) (cfg_dapp_name cfg)
             (cfg_dapp_version cfg) (name_or_unknown (cfg_vendor cfg)) of
        None \<Rightarrow> s1\<lparr>di_setup_complete := True, di_setup_succeeded := False\<rparr>
      | Some request \<Rightarrow>
          let (s2, got_response) = setup_rounds E env request 0 s1
          in s2\<lparr>di_setup_complete := True, di_setup_succeeded := got_response\<rparr>)"

text \<open>The state is the one seen when the wait ends, by a notification or by its timeout.\<close>

definition wait_for_setup :: "dapp_if \<Rightarrow> error_code" where
  "wait_for_setup s =
     (if \<not> di_setup_complete s then TIMEOUT
      else if di_setup_succeeded s then SUCCESS else CONNECTION_FAILED)"

section \<open>Requests of the dApp\<close>

definition dapp_id :: "dapp_if \<Rightarrow> u32 option" where
  "dapp_id s = assigned_dapp_id (di_state s)"

definition queue_subscription_request ::
    "u64 \<Rightarrow> u32 \<Rightarrow> u32 list \<Rightarrow> u32 list \<Rightarrow> u32 option \<Rightarrow> u32 option \<Rightarrow> dapp_if
      \<Rightarrow> dapp_if \<times> error_code \<times> u32 option" where
  "queue_subscription_request rt rf tids cids sub_time periodicity s =
     (case dapp_id s of
        None \<Rightarrow> (s, NOT_INITIALIZED, None)
      | Some d \<Rightarrow>
          let req = \<lparr>subreq_dapp_identifier = d, subreq_ran_function_identifier = rf,
                     subreq_telemetry_identifier_list = tids, subreq_control_identifier_list = cids,
                     subreq_subscription_time = sub_time, subreq_periodicity = periodicity\<rparr>;
              (s1, mid) = dapp_message_id s;
              s2 = remember_subscription_op mid rf False sub_time s1;
              (s3, rc) = dapp_queue_outbound
                           (make_pdu rt SUBSCRIPTION_REQUEST (SubscriptionRequest req) mid) s2
          in if rc \<noteq> SUCCESS then (forget_subscription_op mid s3, rc, None) else (s3, rc, Some mid))"

definition queue_subscription_delete :: "u64 \<Rightarrow> u32 \<Rightarrow> dapp_if \<Rightarrow> dapp_if \<times> error_code" where
  "queue_subscription_delete rt rf s =
     (case dapp_id s of
        None \<Rightarrow> (s, NOT_INITIALIZED)
      | Some d \<Rightarrow>
          (case subscription_id_for (di_state s) rf of
             None \<Rightarrow> (s, SUBSCRIPTION_NOT_FOUND)
           | Some sub_id \<Rightarrow>
               let (s1, mid) = dapp_message_id s;
                   s2 = remember_subscription_op mid rf True None s1;
                   (s3, rc) = dapp_queue_outbound (make_pdu rt SUBSCRIPTION_DELETE
                     (SubscriptionDelete \<lparr>subdel_dapp_identifier = d, subdel_subscription_id = sub_id\<rparr>) mid) s2
               in (if rc \<noteq> SUCCESS then forget_subscription_op mid s3 else s3, rc)))"

definition queue_dapp_control_action ::
    "u64 \<Rightarrow> u32 \<Rightarrow> u32 \<Rightarrow> bytes \<Rightarrow> u32 \<Rightarrow> dapp_if \<Rightarrow> dapp_if \<times> error_code \<times> u32 option" where
  "queue_dapp_control_action rt rf control_id action_data sequence_id s =
     (case dapp_id s of
        None \<Rightarrow> (s, NOT_INITIALIZED, None)
      | Some d \<Rightarrow>
          let a = \<lparr>ctl_dapp_identifier = d, ctl_ran_function_identifier = rf,
                   ctl_control_identifier = control_id, ctl_action_data = action_data,
                   ctl_sequence_id = sequence_id\<rparr>;
              (s1, mid) = dapp_message_id s;
              (s2, rc) = dapp_queue_outbound (make_pdu rt DAPP_CONTROL_ACTION (DAppControlAction a) mid) s1
          in (s2, rc, if rc = SUCCESS then Some mid else None))"

definition queue_dapp_report ::
    "u64 \<Rightarrow> u32 \<Rightarrow> bytes \<Rightarrow> u32 \<Rightarrow> dapp_if \<Rightarrow> dapp_if \<times> error_code \<times> u32 option" where
  "queue_dapp_report rt rf report_data sequence_id s =
     (if sequence_id = 0 then (s, INVALID_PARAM, None)
      else
        case dapp_id s of
          None \<Rightarrow> (s, NOT_INITIALIZED, None)
        | Some d \<Rightarrow>
            let r = \<lparr>rep_dapp_identifier = d, rep_ran_function_identifier = rf,
                     rep_report_data = report_data, rep_sequence_id = sequence_id, rep_recv_seq = 0\<rparr>;
                (s1, mid) = dapp_message_id s;
                (s2, rc) = dapp_queue_outbound (make_pdu rt DAPP_REPORT (DAppReport r) mid) s1
            in (s2, rc, if rc = SUCCESS then Some mid else None))"

definition queue_release_message :: "u64 \<Rightarrow> dapp_if \<Rightarrow> dapp_if \<times> error_code" where
  "queue_release_message rt s =
     (case dapp_id s of
        None \<Rightarrow> (s, NOT_INITIALIZED)
      | Some d \<Rightarrow>
          let (s1, mid) = dapp_message_id s;
              (s2, rc) = dapp_queue_outbound
                (make_pdu rt RELEASE_MESSAGE (ReleaseMessage \<lparr>rel_dapp_identifier = d\<rparr>) mid)
                (s1\<lparr>di_release_sent := True\<rparr>)
          in (if rc \<noteq> SUCCESS then s2\<lparr>di_release_sent := False\<rparr> else s2, rc))"

section \<open>One pass of each loop\<close>

definition inbound_pdu_dapp :: "time_point \<Rightarrow> pdu \<Rightarrow> dapp_if \<Rightarrow> dapp_if" where
  "inbound_pdu_dapp now p s =
     (case pdu_type_of p of
        SUBSCRIPTION_RESPONSE \<Rightarrow>
          (case pdu_choice_of p of
             SubscriptionResponse r \<Rightarrow> handle_subscription_response now r s
           | _ \<Rightarrow> s)
      | INDICATION_MESSAGE \<Rightarrow>
          (case pdu_choice_of p of IndicationMessage m \<Rightarrow> handle_indication m s | _ \<Rightarrow> s)
      | XAPP_CONTROL_ACTION \<Rightarrow>
          (case pdu_choice_of p of
             XAppControlAction a \<Rightarrow>
               handle_xapp_control_action (a\<lparr>xca_message_id := pdu_message_id p\<rparr>) s
           | _ \<Rightarrow> s)
      | MESSAGE_ACK \<Rightarrow>
          (case pdu_choice_of p of MessageAck a \<Rightarrow> handle_message_ack a s | _ \<Rightarrow> s)
      | RELEASE_MESSAGE \<Rightarrow>
          (case pdu_choice_of p of ReleaseMessage r \<Rightarrow> handle_release_from_ran r s | _ \<Rightarrow> s)
      | _ \<Rightarrow> s)"

text \<open>One pass of \<open>inbound_loop_dapp\<close>; the flag says whether the loop goes on.\<close>

definition inbound_pass_dapp ::
    "e3_encoder \<Rightarrow> time_point \<Rightarrow> bool \<Rightarrow> recv_result \<Rightarrow> dapp_if \<Rightarrow> dapp_if \<times> bool" where
  "inbound_pass_dapp E now should_stop received s =
     (case received of
        RecvTimeout \<Rightarrow> (s, \<not> should_stop)
      | RecvError \<Rightarrow> if should_stop then (s, False) else (on_ran_gone CONNECTION_LOST s, False)
      | RecvBytes buffer \<Rightarrow>
          (case enc_decode E buffer of
             None \<Rightarrow> (s, True)
           | Some p \<Rightarrow> (inbound_pdu_dapp now p s, True)))"

definition outbound_pass_dapp :: "e3_encoder \<Rightarrow> error_code \<Rightarrow> dapp_if \<Rightarrow> dapp_if" where
  "outbound_pass_dapp E send_result s =
     (let (ob, sent) = outbound_pass E send_result (di_out s);
          s1 = s\<lparr>di_out := ob\<rparr>
      in case sent of None \<Rightarrow> s1 | Some buffer \<Rightarrow> dapp_sent (DappPduSent buffer) s1)"

definition expiry_pass_dapp :: "time_point \<Rightarrow> dapp_if \<Rightarrow> dapp_if" where
  "expiry_pass_dapp now s = s\<lparr>di_state := fst (ds_expire_subscriptions now (di_state s))\<rparr>"

end
