(* ===== verification/Dapp_Props.thy ===== *)
theory Dapp_Props
  imports Dapp_Interface "HOL-Library.Code_Target_Nat"
begin

text \<open>
  What the dApp role promises its application: it sees only its own traffic, it learns of the end
  of a session at most once, and the setup handshake always ends.
\<close>

section \<open>Traffic of other dApps\<close>

text \<open>The dApp a message of the RAN is addressed to. An acknowledgment names none.\<close>

fun addressee :: "pdu_choice \<Rightarrow> u32 option" where
  "addressee (SubscriptionResponse r) = Some (subrsp_dapp_identifier r)"
| "addressee (IndicationMessage m) = Some (ind_dapp_identifier m)"
| "addressee (XAppControlAction a) = Some (xca_dapp_identifier a)"
| "addressee (ReleaseMessage r) = Some (rel_dapp_identifier r)"
| "addressee _ = None"

text \<open>C17. The RAN's publisher reaches every dApp. A message addressed to another dApp, or one that
  arrives before an id was assigned, changes nothing and reaches no handler; an acknowledgment
  carries no address and reaches the handler of every dApp.\<close>

theorem foreign_traffic_ignored:
  "(addressee (pdu_choice_of p) = Some d \<and> dapp_id s \<noteq> Some d \<longrightarrow> inbound_pdu_dapp now p s = s)
   \<and> (OnMessageAck \<in> set (di_handlers s) \<longrightarrow>
        di_events (inbound_pdu_dapp now (make_pdu rt MESSAGE_ACK (MessageAck ack) mid) s)
          = di_events s @ [MessageAcked ack])"
proof (intro conjI impI)
  assume *: "addressee (pdu_choice_of p) = Some d \<and> dapp_id s \<noteq> Some d"
  show "inbound_pdu_dapp now p s = s"
    using * by (cases "pdu_choice_of p")
      (auto simp: inbound_pdu_dapp_def handle_subscription_response_def handle_indication_def
        handle_xapp_control_action_def handle_release_from_ran_def for_this_dapp_def dapp_id_def
        split: pdu_type.split)
qed (simp add: inbound_pdu_dapp_def make_pdu_def handle_message_ack_def dapp_call_def)

definition sample_dapp :: dapp_if where
  "sample_dapp =
     \<lparr>di_config = default_config\<lparr>cfg_role := DAPP\<rparr>, di_state = dapp_state_init, di_pending = [],
      di_out = \<lparr>ob_next_message_id = 0, ob_queue = Some (bq_new 128)\<rparr>, di_ran_gone = False,
      di_release_sent = False, di_setup_complete = False, di_setup_succeeded = False,
      di_handlers = [OnIndication, OnMessageAck, OnDisconnect], di_events = []\<rparr>"

theorem foreign_traffic_ignored_witness:
  "inbound_pdu_dapp 0 (make_pdu 0 INDICATION_MESSAGE (IndicationMessage
      \<lparr>ind_dapp_identifier = 2, ind_ran_function_identifier = 1, ind_protocol_data = [1]\<rparr>) 1) sample_dapp
   = sample_dapp"
  using foreign_traffic_ignored [of "make_pdu 0 INDICATION_MESSAGE (IndicationMessage
      \<lparr>ind_dapp_identifier = 2, ind_ran_function_identifier = 1, ind_protocol_data = [1]\<rparr>) 1" 2 sample_dapp 0]
  by (simp add: make_pdu_def dapp_id_def sample_dapp_def dapp_state_init_def)

section \<open>The end of a session\<close>

inductive dapp_step :: "e3_encoder \<Rightarrow> dapp_if \<Rightarrow> dapp_if \<Rightarrow> bool" for E where
  dapp_setup: "dapp_step E s (setup_loop_dapp E env rt s)"
| dapp_inbound: "dapp_step E s (fst (inbound_pass_dapp E now stop received s))"
| dapp_outbound: "dapp_step E s (outbound_pass_dapp E rc s)"
| dapp_expiry: "dapp_step E s (expiry_pass_dapp now s)"
| dapp_subscribe: "dapp_step E s (fst (queue_subscription_request rt rf ts cs tm per s))"
| dapp_unsubscribe: "dapp_step E s (fst (queue_subscription_delete rt rf s))"
| dapp_control: "dapp_step E s (fst (queue_dapp_control_action rt rf cid bs sq s))"
| dapp_report: "dapp_step E s (fst (queue_dapp_report rt rf bs sq s))"
| dapp_release: "dapp_step E s (fst (queue_release_message rt s))"

definition disconnects :: "dapp_if \<Rightarrow> nat" where
  "disconnects s = length (filter (\<lambda>e. \<exists>r. e = Disconnected r) (di_events s))"

definition gone_inv :: "dapp_if \<Rightarrow> bool" where
  "gone_inv s \<longleftrightarrow> disconnects s \<le> (if di_ran_gone s then 1 else 0)"

lemma gone_inv_cong:
  "di_events s' = di_events s \<Longrightarrow> di_ran_gone s' = di_ran_gone s \<Longrightarrow> gone_inv s' = gone_inv s"
  by (simp add: gone_inv_def disconnects_def)

lemma gone_inv_call: "(\<And>r. e \<noteq> Disconnected r) \<Longrightarrow> gone_inv (dapp_call h e s) = gone_inv s"
  by (simp add: gone_inv_def disconnects_def dapp_call_def)

lemma gone_inv_sent: "(\<And>r. e \<noteq> Disconnected r) \<Longrightarrow> gone_inv (dapp_sent e s) = gone_inv s"
  by (simp add: gone_inv_def disconnects_def dapp_sent_def)

lemma gone_inv_ran_gone: "gone_inv s \<Longrightarrow> gone_inv (on_ran_gone r s)"
  by (auto simp: gone_inv_def disconnects_def on_ran_gone_def dapp_call_def Let_def split: if_splits)

lemma gone_inv_setup_response: "gone_inv (handle_setup_response r s) = gone_inv s"
  by (simp add: handle_setup_response_def Let_def gone_inv_call) (simp add: gone_inv_def disconnects_def)

lemma gone_inv_subscription_response:
  "gone_inv (handle_subscription_response now r s) = gone_inv s"
  by (simp add: handle_subscription_response_def Let_def gone_inv_call split: option.split)
    (simp add: gone_inv_def disconnects_def)

lemma gone_inv_inbound: "gone_inv s \<Longrightarrow> gone_inv (fst (inbound_pass_dapp E now stop received s))"
  by (auto simp: inbound_pass_dapp_def inbound_pdu_dapp_def handle_indication_def gone_inv_call
      gone_inv_ran_gone handle_xapp_control_action_def handle_message_ack_def handle_release_from_ran_def
      gone_inv_subscription_response split: option.split recv_result.split pdu_type.split pdu_choice.split)

lemma gone_inv_receive: "gone_inv (fst (setup_receive E env i j s)) = gone_inv s"
proof (induction E env i j s rule: setup_receive.induct)
  case (1 E env i j s)
  have "gone_inv (fst (setup_reply_received E b s)) = gone_inv s" for b
    by (simp add: setup_reply_received_def gone_inv_setup_response split: option.split pdu_choice.split)
  with 1 show ?case by (subst setup_receive.simps) (simp split: recv_result.split)
qed

lemma gone_inv_rounds: "gone_inv (fst (setup_rounds E env req i s)) = gone_inv s"
proof (induction E env req i s rule: setup_rounds.induct)
  case (1 E env req i s)
  let ?s1 = "dapp_sent (SetupRequestSent req) s"
  have "gone_inv ?s1 = gone_inv s" by (simp add: gone_inv_sent)
  with 1 show ?case
    by (subst setup_rounds.simps) (auto simp: Let_def split_def gone_inv_receive prod_eq_iff)
qed

lemma gone_inv_setup_loop: "gone_inv (setup_loop_dapp E env rt s) = gone_inv s"
proof -
  have "gone_inv (fst (dapp_message_id s)) = gone_inv s"
    by (simp add: dapp_message_id_def gone_inv_def disconnects_def split_def Let_def)
  moreover have "gone_inv (t\<lparr>di_setup_complete := a, di_setup_succeeded := b\<rparr>) = gone_inv t" for t a b
    by (simp add: gone_inv_def disconnects_def)
  ultimately show ?thesis
    by (simp add: setup_loop_dapp_def Let_def split_def gone_inv_rounds split: option.split)
qed

lemmas dapp_request_defs = queue_subscription_request_def queue_subscription_delete_def
  queue_dapp_control_action_def queue_dapp_report_def queue_release_message_def
  dapp_message_id_def dapp_queue_outbound_def remember_subscription_op_def forget_subscription_op_def

lemma request_frame:
  "di_events (fst (queue_subscription_request rt rf ts cs tm per s)) = di_events s"
  "di_ran_gone (fst (queue_subscription_request rt rf ts cs tm per s)) = di_ran_gone s"
  "di_events (fst (queue_subscription_delete rt rf s)) = di_events s"
  "di_ran_gone (fst (queue_subscription_delete rt rf s)) = di_ran_gone s"
  "di_events (fst (queue_dapp_control_action rt rf cid bs sq s)) = di_events s"
  "di_ran_gone (fst (queue_dapp_control_action rt rf cid bs sq s)) = di_ran_gone s"
  "di_events (fst (queue_dapp_report rt rf bs sq s)) = di_events s"
  "di_ran_gone (fst (queue_dapp_report rt rf bs sq s)) = di_ran_gone s"
  "di_events (fst (queue_release_message rt s)) = di_events s"
  "di_ran_gone (fst (queue_release_message rt s)) = di_ran_gone s"
  by (simp_all add: dapp_request_defs split_def Let_def split: option.split)

lemma gone_inv_outbound: "gone_inv (outbound_pass_dapp E rc s) = gone_inv s"
proof -
  have "gone_inv (s\<lparr>di_out := ob\<rparr>) = gone_inv s" for ob
    by (rule gone_inv_cong) simp_all
  then show ?thesis
    by (simp add: outbound_pass_dapp_def split_def Let_def gone_inv_sent split: option.split)
qed

lemma gone_inv_state: "gone_inv (s\<lparr>di_state := st\<rparr>) = gone_inv s"
  by (rule gone_inv_cong) simp_all

lemma gone_inv_step: "dapp_step E s s' \<Longrightarrow> gone_inv s \<Longrightarrow> gone_inv s'"
  by (induction rule: dapp_step.induct)
    (simp_all add: gone_inv_setup_loop gone_inv_inbound gone_inv_outbound expiry_pass_dapp_def
      gone_inv_cong [OF request_frame(1,2)] gone_inv_cong [OF request_frame(3,4)]
      gone_inv_cong [OF request_frame(5,6)] gone_inv_cong [OF request_frame(7,8)]
      gone_inv_cong [OF request_frame(9,10)] gone_inv_state)



section \<open>The setup handshake\<close>

definition setup_sends :: "dapp_if \<Rightarrow> nat" where
  "setup_sends s = length (filter (\<lambda>e. \<exists>b. e = SetupRequestSent b) (di_events s))"

lemma setup_sends_response: "setup_sends (handle_setup_response r s) = setup_sends s"
  by (simp add: setup_sends_def handle_setup_response_def dapp_call_def Let_def)

lemma setup_sends_receive: "setup_sends (fst (setup_receive E env i j s)) = setup_sends s"
proof (induction E env i j s rule: setup_receive.induct)
  case (1 E env i j s)
  have "setup_sends (fst (setup_reply_received E b s)) = setup_sends s" for b
    by (simp add: setup_reply_received_def setup_sends_response split: option.split pdu_choice.split)
  with 1 show ?case by (subst setup_receive.simps) (simp split: recv_result.split)
qed

lemma setup_sends_rounds:
  "setup_sends (fst (setup_rounds E env req i s)) \<le> setup_sends s + (MAX_RETRIES - i)"
proof (induction E env req i s rule: setup_rounds.induct)
  case (1 E env req i s)
  let ?s1 = "dapp_sent (SetupRequestSent req) s"
  let ?r = "setup_receive E env i 0 ?s1"
  have one: "setup_sends ?s1 = Suc (setup_sends s)" by (simp add: setup_sends_def dapp_sent_def)
  show ?case
  proof (cases "\<not> se_stop env i \<and> i < MAX_RETRIES")
    case True
    have recv: "setup_sends (fst ?r) = Suc (setup_sends s)" by (simp add: setup_sends_receive one)
    have fail: "setup_sends (fst (setup_rounds E env req (i + 1) ?s1)) \<le> setup_sends s + (MAX_RETRIES - i)"
      if "se_send env i \<noteq> SUCCESS"
      using "1.IH"(1) [OF True refl that] True one by linarith
    have again: "setup_sends (fst (setup_rounds E env req (i + 1) (fst ?r))) \<le> setup_sends s + (MAX_RETRIES - i)"
      if "se_send env i = SUCCESS" "\<not> snd ?r"
      using "1.IH"(2) [OF True refl _ refl prod.collapse that(2)] that(1) True recv by (simp, linarith)
    show ?thesis
      using True fail again recv by (subst setup_rounds.simps) (auto simp: split_def Let_def)
  next
    case False
    then show ?thesis by (subst setup_rounds.simps) auto
  qed
qed

text \<open>C19. The setup handshake of a dApp ends whatever the connection does: it hands the connector
  at most five setup requests and leaves the outcome decided, so a caller that waits for it
  gets an answer other than a timeout.\<close>

theorem setup_handshake_ends:
  "setup_sends (setup_loop_dapp E env rt s) \<le> setup_sends s + 5
   \<and> di_setup_complete (setup_loop_dapp E env rt s)
   \<and> wait_for_setup (setup_loop_dapp E env rt s)
     = (if di_setup_succeeded (setup_loop_dapp E env rt s) then SUCCESS else CONNECTION_FAILED)"
proof -
  have id: "setup_sends (fst (dapp_message_id s)) = setup_sends s"
    by (simp add: setup_sends_def dapp_message_id_def split_def Let_def)
  have flags: "setup_sends (t\<lparr>di_setup_complete := a, di_setup_succeeded := b\<rparr>) = setup_sends t" for t a b
    by (simp add: setup_sends_def)
  show ?thesis
    using setup_sends_rounds [of E env _ 0 "fst (dapp_message_id s)"] id
    by (simp add: setup_loop_dapp_def split_def Let_def flags wait_for_setup_def MAX_RETRIES_def
        split: option.split)
qed

definition setup_response_arrives :: "e3_encoder \<Rightarrow> setup_env \<Rightarrow> nat \<Rightarrow> nat \<Rightarrow> setup_response \<Rightarrow> bool" where
  "setup_response_arrives E env i j resp \<longleftrightarrow>
     (\<exists>b mid rt. se_recv env i j = RecvBytes b
        \<and> enc_decode E b = Some (make_pdu rt SETUP_RESPONSE (SetupResponse resp) mid))"

lemma setup_receive_answered:
  assumes "setup_response_arrives E env i j resp" "\<forall>k \<le> j. \<not> se_recv_stop env i k"
    and "\<forall>k < j. se_recv env i k = RecvTimeout" "j < 4" "k \<le> j"
  shows "setup_receive E env i k s = (handle_setup_response resp s, True)"
  using assms(5)
proof (induction "j - k" arbitrary: k)
  case 0
  then show ?case
    using assms by (subst setup_receive.simps)
      (auto simp: setup_response_arrives_def setup_reply_received_def make_pdu_def)
next
  case (Suc n)
  then have "k < j" by simp
  with Suc assms show ?case by (subst setup_receive.simps) simp
qed

lemma setup_rounds_answered:
  assumes "setup_response_arrives E env i j resp" "\<forall>k \<le> j. \<not> se_recv_stop env i k"
    and "\<forall>k < j. se_recv env i k = RecvTimeout" "j < 4" "se_send env i = SUCCESS"
    and "\<forall>k \<le> i. \<not> se_stop env k" "i < MAX_RETRIES" "k \<le> i"
  shows "snd (setup_rounds E env req k s)"
  using assms(8)
proof (induction "i - k" arbitrary: k s)
  case 0
  then have k: "k = i" by simp
  have "setup_receive E env i 0 t = (handle_setup_response resp t, True)" for t
    by (rule setup_receive_answered [OF assms(1-4)]) simp
  then show ?case using assms(5-7) by (subst setup_rounds.simps) (simp add: k)
next
  case (Suc n)
  then have "k < i" "n = i - (k + 1)" by simp_all
  then have "snd (setup_rounds E env req (k + 1) t)" for t by (intro Suc.hyps(1)) simp_all
  then show ?case
    using \<open>k < i\<close> assms(6,7) by (subst setup_rounds.simps) (simp add: split_def Let_def)
qed


text \<open>A connection whose first two rounds fail and that then delivers a refusal.\<close>

definition sample_refusal :: setup_response where
  "sample_refusal =
     \<lparr>srsp_request_id = 1, srsp_response_code = NEGATIVE, srsp_e3ap_protocol_version = Some ''1.0.0'',
      srsp_dapp_identifier = None, srsp_ran_identifier = ''ran'', srsp_ran_function_list = [],
      srsp_cause = Some RESOURCE_EXHAUSTED, srsp_detail = Some ''no free dApp identifier''\<rparr>"

definition sample_setup_env :: setup_env where
  "sample_setup_env =
     \<lparr>se_stop = (\<lambda>_. False), se_send = (\<lambda>i. if i = 0 then TIMEOUT else SUCCESS),
      se_recv_stop = (\<lambda>_ _. False),
      se_recv = (\<lambda>i j. if i = 2 \<and> j = 1 then RecvBytes [9] else RecvTimeout)\<rparr>"

definition sample_setup_encoder :: e3_encoder where
  "sample_setup_encoder =
     \<lparr>enc_encode = (\<lambda>_. Some [0]),
      enc_decode = (\<lambda>b. if b = [9] then Some (make_pdu 0 SETUP_RESPONSE (SetupResponse sample_refusal) 1)
                         else None)\<rparr>"

lemma sample_setup_arrives: "setup_response_arrives sample_setup_encoder sample_setup_env 2 1 sample_refusal"
  by (auto simp: setup_response_arrives_def sample_setup_encoder_def sample_setup_env_def)




end
