(* ===== verification/E3_Lifecycle.thy ===== *)
theory E3_Lifecycle
  imports Ran_Inv Dapp_Interface
begin

text \<open>
  The life of an \<open>E3Interface\<close> object, \<^verbatim>\<open>src/core/e3_interface.cpp\<close>: \<open>init\<close>, \<open>start\<close>, \<open>stop\<close>, the
  restart after a stop, and the methods whose answer depends on the role.

  Exactly one of \<open>subscription_manager_\<close> and \<open>dapp_state_\<close> is allocated; in the model the state of
  the RAN role and that of the dApp role are two optional parts of one record. Whether the
  encoder and the connector can be created, and what the connector returns when it opens
  the setup channel, are arguments. \<open>stop\<close> joins the threads: the report worker drains its queue
  and the others have ended. The registry of Service Models is one per process; its contents
  at \<open>init\<close> are an argument.
\<close>

datatype e3_thread = SetupThread | InboundThread | OutboundThread | ReportWorker | ExpiryThread

record 's e3_interface =
  ei_config :: e3_config
  ei_state :: agent_state
  ei_should_stop :: bool
  ei_started_before :: bool
  ei_connector :: bool
  ei_threads :: "e3_thread list"
  ei_ran :: "'s ran_if option"
  ei_dapp :: "dapp_if option"

definition new_interface :: "e3_config \<Rightarrow> 's e3_interface" where
  "new_interface cfg =
     \<lparr>ei_config = cfg, ei_state = UNINITIALIZED, ei_should_stop = False, ei_started_before = False,
      ei_connector = False, ei_threads = [], ei_ran = None, ei_dapp = None\<rparr>"

definition new_dapp_if :: "e3_config \<Rightarrow> dapp_if" where
  "new_dapp_if cfg =
     \<lparr>di_config = cfg, di_state = dapp_state_init, di_pending = [],
      di_out = \<lparr>ob_next_message_id = 0, ob_queue = Some (bq_new 128)\<rparr>, di_ran_gone = False,
      di_release_sent = False, di_setup_complete = False, di_setup_succeeded = False,
      di_handlers = [], di_events = []\<rparr>"

definition config_fits :: "e3_config \<Rightarrow> bool" where
  "config_fits cfg =
     (wire_text_fits (cfg_e3ap_version cfg) MAX_VERSION_BYTES False
      \<and> (if cfg_role cfg = RAN
         then wire_text_fits (cfg_ran_identifier cfg) MAX_NAME_BYTES True
         else wire_text_fits (cfg_dapp_name cfg) MAX_NAME_BYTES False
              \<and> wire_text_fits (cfg_dapp_version cfg) MAX_VERSION_BYTES False
              \<and> wire_text_fits (cfg_vendor cfg) MAX_NAME_BYTES True))"

text \<open>
  What an earlier \<open>init\<close> that failed at the connector left behind keeps its handlers and its
  message id counter; manager, session and queues are new.
\<close>

definition allocate_ran :: "'s sm_registry \<Rightarrow> 's e3_interface \<Rightarrow> 's ran_if" where
  "allocate_ran reg s =
     (case ei_ran s of
        None \<Rightarrow> new_ran_if (ei_config s) False False reg
      | Some r \<Rightarrow> r\<lparr>ri_manager := set_sm_lifecycle_callback subscription_manager_init,
                     ri_registry := reg, ri_out := (ri_out r)\<lparr>ob_queue := Some (bq_new 128)\<rparr>,
                     ri_reports := bq_new 1024\<rparr>)"

definition allocate_dapp :: "'s e3_interface \<Rightarrow> dapp_if" where
  "allocate_dapp s =
     (case ei_dapp s of
        None \<Rightarrow> new_dapp_if (ei_config s)
      | Some d \<Rightarrow> d\<lparr>di_state := dapp_state_init, di_out := (di_out d)\<lparr>ob_queue := Some (bq_new 128)\<rparr>\<rparr>)"

definition create_connector_from_config :: "bool \<Rightarrow> 's e3_interface \<Rightarrow> 's e3_interface \<times> error_code" where
  "create_connector_from_config created s =
     (s\<lparr>ei_connector := created\<rparr>, if created then SUCCESS else INTERNAL_ERROR)"

definition if_init ::
    "bool \<Rightarrow> bool \<Rightarrow> 's sm_registry \<Rightarrow> 's e3_interface \<Rightarrow> 's e3_interface \<times> error_code" where
  "if_init encoder_created connector_created reg s =
     (if ei_state s \<noteq> UNINITIALIZED then (s, ALREADY_INITIALIZED)
      else if \<not> encoder_created then (s, INTERNAL_ERROR)
      else if cfg_encoding (ei_config s) = ASN1 \<and> \<not> config_fits (ei_config s) then (s, INVALID_PARAM)
      else
        let s1 = (if cfg_role (ei_config s) = RAN then s\<lparr>ei_ran := Some (allocate_ran reg s)\<rparr>
                  else s\<lparr>ei_dapp := Some (allocate_dapp s)\<rparr>);
            (s2, rc) = create_connector_from_config connector_created s1
        in if rc \<noteq> SUCCESS then (s2, rc) else (s2\<lparr>ei_state := INITIALIZED\<rparr>, SUCCESS))"

definition rearm_queues :: "'s e3_interface \<Rightarrow> 's e3_interface" where
  "rearm_queues s =
     s\<lparr>ei_ran := map_option (\<lambda>r. r\<lparr>ri_out := (ri_out r)\<lparr>ob_queue := map_option bq_rearm (ob_queue (ri_out r))\<rparr>,
                                   ri_reports := bq_rearm (ri_reports r)\<rparr>) (ei_ran s),
       ei_dapp := map_option (\<lambda>d. d\<lparr>di_out := (di_out d)\<lparr>ob_queue := map_option bq_rearm (ob_queue (di_out d))\<rparr>\<rparr>)
                    (ei_dapp s)\<rparr>"

definition new_session :: "dapp_if \<Rightarrow> dapp_if" where
  "new_session d =
     d\<lparr>di_state := clear_session (di_state d), di_pending := [], di_ran_gone := False,
       di_release_sent := False, di_setup_complete := False, di_setup_succeeded := False\<rparr>"

definition role_threads :: "e3_role \<Rightarrow> e3_thread list" where
  "role_threads r =
     (if r = RAN then [SetupThread, InboundThread, OutboundThread, ReportWorker, ExpiryThread]
      else [SetupThread, InboundThread, OutboundThread, ExpiryThread])"

definition if_start :: "bool \<Rightarrow> error_code \<Rightarrow> 's e3_interface \<Rightarrow> 's e3_interface \<times> error_code" where
  "if_start connector_created conn_result s =
     (if ei_state s \<noteq> INITIALIZED then (s, STATE_ERROR)
      else
        let s1 = s\<lparr>ei_state := CONNECTING, ei_should_stop := False\<rparr>;
            (s2, rc) = (if ei_started_before s1
                        then create_connector_from_config connector_created s1 else (s1, SUCCESS))
        in
        if rc \<noteq> SUCCESS then (s2\<lparr>ei_state := ERROR\<rparr>, rc)
        else
          let s3 = (if ei_started_before s2 then rearm_queues s2 else s2);
              s4 = s3\<lparr>ei_started_before := True, ei_dapp := map_option new_session (ei_dapp s3)\<rparr>
          in
          if conn_result \<noteq> SUCCESS then (s4\<lparr>ei_state := ERROR\<rparr>, conn_result)
          else (s4\<lparr>ei_threads := role_threads (cfg_role (ei_config s4)), ei_state := RUNNING\<rparr>, SUCCESS))"

definition stop_ran :: "('s, outbox) sm_class \<Rightarrow> bool \<Rightarrow> 's ran_if \<Rightarrow> 's ran_if" where
  "stop_ran V worker r =
     (let r1 = r\<lparr>ri_out := (ri_out r)\<lparr>ob_queue := map_option bq_stop (ob_queue (ri_out r))\<rparr>,
                ri_reports := bq_stop (ri_reports r)\<rparr>;
          r2 = (if worker then report_worker_drain r1 else r1)
      in r2\<lparr>ri_registry := fst (registry_clear V (ri_registry r2)), ri_wired := []\<rparr>)"

definition stop_dapp :: "dapp_if \<Rightarrow> dapp_if" where
  "stop_dapp d =
     d\<lparr>di_out := (di_out d)\<lparr>ob_queue := map_option bq_stop (ob_queue (di_out d))\<rparr>,
       di_setup_complete := True\<rparr>"

definition if_stop :: "('s, outbox) sm_class \<Rightarrow> 's e3_interface \<Rightarrow> 's e3_interface" where
  "if_stop V s =
     (if ei_state s = UNINITIALIZED \<or> ei_state s = STOPPING then s
      else
        s\<lparr>ei_should_stop := True,
          ei_ran := map_option (stop_ran V (ReportWorker \<in> set (ei_threads s))) (ei_ran s),
          ei_dapp := map_option stop_dapp (ei_dapp s),
          ei_threads := [], ei_state := INITIALIZED\<rparr>)"

section \<open>Methods that depend on the role\<close>

definition if_queue_outbound :: "pdu \<Rightarrow> 's e3_interface \<Rightarrow> 's e3_interface \<times> error_code" where
  "if_queue_outbound p s =
     (case (ei_ran s, ei_dapp s) of
        (Some r, _) \<Rightarrow>
          (s\<lparr>ei_ran := Some (ran_queue_outbound p r)\<rparr>, snd (queue_outbound p (ri_out r)))
      | (None, Some d) \<Rightarrow>
          let (d', rc) = dapp_queue_outbound p d in (s\<lparr>ei_dapp := Some d'\<rparr>, rc)
      | (None, None) \<Rightarrow> (s, NOT_INITIALIZED))"

text \<open>A PDU built around a fresh message id and queued, as the sending methods do.\<close>

definition if_send :: "(u32 \<Rightarrow> pdu) \<Rightarrow> 's e3_interface \<Rightarrow> 's e3_interface \<times> error_code" where
  "if_send mk s =
     (case (ei_ran s, ei_dapp s) of
        (Some r, _) \<Rightarrow>
          let (r', i) = ran_message_id r in if_queue_outbound (mk i) (s\<lparr>ei_ran := Some r'\<rparr>)
      | (None, Some d) \<Rightarrow>
          let (d', i) = dapp_message_id d in if_queue_outbound (mk i) (s\<lparr>ei_dapp := Some d'\<rparr>)
      | (None, None) \<Rightarrow> (s, NOT_INITIALIZED))"

text \<open>The requests of a dApp on an interface without dApp state.\<close>

definition if_queue_subscription_request ::
    "u64 \<Rightarrow> u32 \<Rightarrow> u32 list \<Rightarrow> u32 list \<Rightarrow> u32 option \<Rightarrow> u32 option \<Rightarrow> 's e3_interface
      \<Rightarrow> 's e3_interface \<times> error_code \<times> u32 option" where
  "if_queue_subscription_request rt rf tids cids sub_time periodicity s =
     (case ei_dapp s of
        None \<Rightarrow> (s, STATE_ERROR, None)
      | Some d \<Rightarrow>
          let (d', r) = queue_subscription_request rt rf tids cids sub_time periodicity d
          in (s\<lparr>ei_dapp := Some d'\<rparr>, r))"

definition if_queue_subscription_delete ::
    "u64 \<Rightarrow> u32 \<Rightarrow> 's e3_interface \<Rightarrow> 's e3_interface \<times> error_code" where
  "if_queue_subscription_delete rt rf s =
     (case ei_dapp s of
        None \<Rightarrow> (s, STATE_ERROR)
      | Some d \<Rightarrow> let (d', rc) = queue_subscription_delete rt rf d in (s\<lparr>ei_dapp := Some d'\<rparr>, rc))"

definition if_queue_dapp_control_action ::
    "u64 \<Rightarrow> u32 \<Rightarrow> u32 \<Rightarrow> bytes \<Rightarrow> u32 \<Rightarrow> 's e3_interface \<Rightarrow> 's e3_interface \<times> error_code \<times> u32 option" where
  "if_queue_dapp_control_action rt rf control_id action_data sequence_id s =
     (case ei_dapp s of
        None \<Rightarrow> (s, STATE_ERROR, None)
      | Some d \<Rightarrow>
          let (d', r) = queue_dapp_control_action rt rf control_id action_data sequence_id d
          in (s\<lparr>ei_dapp := Some d'\<rparr>, r))"

definition if_queue_dapp_report ::
    "u64 \<Rightarrow> u32 \<Rightarrow> bytes \<Rightarrow> u32 \<Rightarrow> 's e3_interface \<Rightarrow> 's e3_interface \<times> error_code \<times> u32 option" where
  "if_queue_dapp_report rt rf report_data sequence_id s =
     (if sequence_id = 0 then (s, INVALID_PARAM, None)
      else
        case ei_dapp s of
          None \<Rightarrow> (s, STATE_ERROR, None)
        | Some d \<Rightarrow>
            let (d', r) = queue_dapp_report rt rf report_data sequence_id d
            in (s\<lparr>ei_dapp := Some d'\<rparr>, r))"

definition if_queue_release_message :: "u64 \<Rightarrow> 's e3_interface \<Rightarrow> 's e3_interface \<times> error_code" where
  "if_queue_release_message rt s =
     (case ei_dapp s of
        None \<Rightarrow> (s, STATE_ERROR)
      | Some d \<Rightarrow> let (d', rc) = queue_release_message rt d in (s\<lparr>ei_dapp := Some d'\<rparr>, rc))"

definition if_wait_for_setup :: "'s e3_interface \<Rightarrow> error_code" where
  "if_wait_for_setup s =
     (if cfg_role (ei_config s) \<noteq> DAPP then INVALID_PARAM
      else case ei_dapp s of None \<Rightarrow> TIMEOUT | Some d \<Rightarrow> wait_for_setup d)"

definition if_dapp_id :: "'s e3_interface \<Rightarrow> u32 option" where
  "if_dapp_id s = (case ei_dapp s of None \<Rightarrow> None | Some d \<Rightarrow> dapp_id d)"

definition if_active_subscription_ids :: "'s e3_interface \<Rightarrow> u32 list" where
  "if_active_subscription_ids s =
     (case ei_dapp s of None \<Rightarrow> [] | Some d \<Rightarrow> active_subscriptions (di_state d))"

definition if_subscribed_ran_functions :: "'s e3_interface \<Rightarrow> u32 list" where
  "if_subscribed_ran_functions s =
     (case ei_dapp s of None \<Rightarrow> [] | Some d \<Rightarrow> subscribed_ran_functions (di_state d))"

definition if_remote_ran_functions :: "'s e3_interface \<Rightarrow> ran_function_def list" where
  "if_remote_ran_functions s =
     (case ei_dapp s of None \<Rightarrow> [] | Some d \<Rightarrow> remote_ran_functions (di_state d))"

end
