(* ===== verification/Lifecycle_Props.thy ===== *)
theory Lifecycle_Props
  imports E3_Lifecycle Ran_Props
begin

text \<open>
  What the lifecycle of an interface guarantees: which parts exist in which state, what a restart
  restores, and two sequences of calls after which an interface that reports to run does not work.
\<close>

section \<open>States\<close>

inductive life_reach :: "('s, outbox) sm_class \<Rightarrow> 's e3_interface \<Rightarrow> bool" for V where
  life_new: "life_reach V (new_interface cfg)"
| life_init: "life_reach V s \<Longrightarrow> life_reach V (fst (if_init enc conn reg s))"
| life_start: "life_reach V s \<Longrightarrow> life_reach V (fst (if_start conn rc s))"
| life_stop: "life_reach V s \<Longrightarrow> life_reach V (if_stop V s)"
| life_ran: "life_reach V s \<Longrightarrow> ei_ran s = Some r \<Longrightarrow> life_reach V (s\<lparr>ei_ran := Some r'\<rparr>)"
| life_dapp: "life_reach V s \<Longrightarrow> ei_dapp s = Some d \<Longrightarrow> life_reach V (s\<lparr>ei_dapp := Some d'\<rparr>)"

definition role_state_ok :: "'s e3_interface \<Rightarrow> bool" where
  "role_state_ok s \<longleftrightarrow>
     (if cfg_role (ei_config s) = RAN then ei_ran s \<noteq> None \<and> ei_dapp s = None
      else ei_ran s = None \<and> ei_dapp s \<noteq> None)"

definition life_inv :: "'s e3_interface \<Rightarrow> bool" where
  "life_inv s \<longleftrightarrow>
     ei_state s \<in> {UNINITIALIZED, INITIALIZED, RUNNING, ERROR}
     \<and> (ei_state s \<noteq> UNINITIALIZED \<longrightarrow> role_state_ok s)
     \<and> (if cfg_role (ei_config s) = RAN then ei_dapp s = None else ei_ran s = None)
     \<and> (ei_state s = RUNNING \<longrightarrow> ei_connector s \<and> \<not> ei_should_stop s)
     \<and> (ei_state s \<noteq> UNINITIALIZED \<longrightarrow> ei_connector s \<or> ei_started_before s)
     \<and> (ei_state s \<in> {RUNNING, ERROR} \<longrightarrow> ei_started_before s)
     \<and> ei_threads s = (if ei_state s = RUNNING then role_threads (cfg_role (ei_config s)) else [])"

lemma life_inv_init: "life_inv s \<Longrightarrow> life_inv (fst (if_init enc conn reg s))"
  by (cases "ei_state s = UNINITIALIZED"; cases "cfg_role (ei_config s) = RAN")
    (simp_all add: life_inv_def role_state_ok_def if_init_def create_connector_from_config_def Let_def)

lemma life_inv_start:
  assumes "life_inv s"
  shows "life_inv (fst (if_start conn rc s))"
proof (cases "ei_state s = INITIALIZED")
  case True
  then show ?thesis
    using assms
    by (cases "ei_started_before s"; cases conn; cases "rc = SUCCESS"; cases "cfg_role (ei_config s) = RAN")
      (simp_all add: life_inv_def role_state_ok_def if_start_def create_connector_from_config_def
        rearm_queues_def Let_def)
next
  case False
  then show ?thesis using assms by (simp add: if_start_def)
qed

lemma life_inv_stop: "life_inv s \<Longrightarrow> life_inv (if_stop V s)"
  by (cases "cfg_role (ei_config s) = RAN") (auto simp: life_inv_def role_state_ok_def if_stop_def)

lemma reach_life_inv: "life_reach V s \<Longrightarrow> life_inv s"
proof (induction rule: life_reach.induct)
  case (life_new cfg)
  then show ?case by (simp add: life_inv_def new_interface_def)
next
  case (life_ran s r r')
  then show ?case by (simp add: life_inv_def role_state_ok_def split: if_splits)
next
  case (life_dapp s d d')
  then show ?case by (simp add: life_inv_def role_state_ok_def split: if_splits)
qed (intro life_inv_init life_inv_start life_inv_stop; assumption)+



section \<open>Restart\<close>

lemma drain_frame:
  "ri_manager (report_worker_drain r) = ri_manager r"
  "ri_registry (report_worker_drain r) = ri_registry r"
  "ri_out (report_worker_drain r) = ri_out r"
  "bq_items (ri_reports (report_worker_drain r)) = []"
proof -
  have *: "ri_manager (report_worker_pass t) = ri_manager t"
    "ri_registry (report_worker_pass t) = ri_registry t" "ri_out (report_worker_pass t) = ri_out t" for t :: "'a ran_if"
    by (simp_all add: report_worker_pass_def handle_dapp_report_def split_def Let_def split: option.split)
  show "ri_manager (report_worker_drain r) = ri_manager r"
    "ri_registry (report_worker_drain r) = ri_registry r"
    "ri_out (report_worker_drain r) = ri_out r"
    "bq_items (ri_reports (report_worker_drain r)) = []"
    by (induction r rule: report_worker_drain.induct; subst report_worker_drain.simps; simp add: *)+
qed

lemma stop_ran_frame:
  "ri_manager (stop_ran V w r) = ri_manager r"
  "ri_registry (stop_ran V w r) = sm_registry_init"
  "ri_out (stop_ran V w r) = (ri_out r)\<lparr>ob_queue := map_option bq_stop (ob_queue (ri_out r))\<rparr>"
  by (simp_all add: stop_ran_def Let_def drain_frame registry_clear_def sm_registry_init_def)

definition reopened :: "outbox \<Rightarrow> outbox" where
  "reopened ob = ob\<lparr>ob_queue := map_option (\<lambda>q. q\<lparr>bq_items := [], bq_shutdown := False\<rparr>) (ob_queue ob)\<rparr>"

text \<open>A stop followed by a start brings a running dApp back with a fresh session: no id, no pending
  request, nothing known of a RAN that went away, an empty and open outbound queue, and
  message ids that go on where they were, so that answers to requests of the old session
  match no request of the new one.\<close>

theorem dapp_restart_is_fresh:
  assumes "life_reach V s" "ei_state s = RUNNING" "ei_dapp s = Some d"
  shows "\<exists>s' d'. if_start True SUCCESS (if_stop V s) = (s', SUCCESS) \<and> ei_state s' = RUNNING
     \<and> ei_dapp s' = Some d' \<and> dapp_id d' = None \<and> di_pending d' = []
     \<and> subscribed_ran_functions (di_state d') = [] \<and> active_subscriptions (di_state d') = []
     \<and> \<not> di_ran_gone d' \<and> \<not> di_release_sent d' \<and> \<not> di_setup_complete d'
     \<and> di_handlers d' = di_handlers d \<and> di_out d' = reopened (di_out d)"
proof -
  have "ei_started_before s" using reach_life_inv [OF assms(1)] assms(2) by (simp add: life_inv_def)
  then show ?thesis
    using assms(2,3)
    by (auto simp: if_stop_def if_start_def Let_def create_connector_from_config_def rearm_queues_def
        new_session_def stop_dapp_def bq_stop_def bq_rearm_def clear_session_def dapp_id_def
        subscribed_ran_functions_def active_subscriptions_def reopened_def option.map_comp comp_def)
qed

definition sample_dapp_interface :: "simple_sm e3_interface" where
  "sample_dapp_interface =
     fst (if_start True SUCCESS
       (fst (if_init True True sm_registry_init (new_interface (default_config\<lparr>cfg_role := DAPP\<rparr>)))))"

theorem dapp_restart_is_fresh_witness:
  "\<exists>s' d'. if_start True SUCCESS (if_stop sample_sm sample_dapp_interface) = (s', SUCCESS)
     \<and> ei_state s' = RUNNING \<and> ei_dapp s' = Some d' \<and> dapp_id d' = None"
proof -
  have reach: "life_reach sample_sm sample_dapp_interface"
    unfolding sample_dapp_interface_def
    by (intro life_reach.life_start life_reach.life_init life_reach.life_new)
  have "ei_state sample_dapp_interface = RUNNING" "\<not> Option.is_none (ei_dapp sample_dapp_interface)"
    by code_simp+
  then show ?thesis
    using dapp_restart_is_fresh [OF reach] by (cases "ei_dapp sample_dapp_interface") auto
qed

lemma apply_calls_started: "rf \<in> apply_calls l S \<Longrightarrow> (rf, True) \<in> set l \<or> rf \<in> S"
proof (induction l arbitrary: S)
  case (Cons a l)
  obtain rf' b where a: "a = (rf', b)" by (cases a)
  show ?case using Cons.IH [of "if b then insert rf' S else S - {rf'}"] Cons.prems
    unfolding a apply_calls_Cons by (auto split: if_splits)
qed (simp add: apply_calls_def)

lemma no_start_when_subscribed:
  assumes "sm_lifecycle_callback m" "has_subscribers m rf"
  shows "(rf, True) \<notin> set (snd (snd (add_subscription d rf' ts cs per tm t m)))"
  using edges_add [OF assms(1)] assms(2) by (auto simp: edge_calls_def)

context managed_service_model
begin

lemma register_keeps_idle:
  assumes "rf \<notin> running V (ri_registry r)" "\<not> sm_is_running V sm"
  shows "rf \<notin> running V (ri_registry (fst (ran_register_sm V (Some sm) r)))"
  using assms init_running [of sm]
  by (auto simp: ran_register_sm_def register_sm_def running_def is_sm_running_def um_has_def
      split_def Let_def split: option.splits if_splits)

lemma request_starts_nothing:
  assumes "sm_lifecycle_callback (ri_manager r)" "has_subscribers (ri_manager r) rf"
    and "factories_idle V (ri_registry r)" "rf \<notin> running V (ri_registry r)"
  shows "rf \<notin> running V (ri_registry (handle_subscription_request V rt now req rid r))"
proof -
  let ?reg = "fst (get_by_ran_function V (subreq_ran_function_identifier req) (ri_registry r))"
  have reg: "running V ?reg = running V (ri_registry r)"
    by (rule get_by_ran_function_running(1) [OF assms(3)])
  have "rf \<notin> running V (apply_lifecycle V (snd (snd (add_subscription d rf' ts cs per tm now (ri_manager r)))) ?reg)"
    for d rf' ts cs per tm
    using apply_lifecycle_running apply_calls_started no_start_when_subscribed [OF assms(1,2)] assms(4) reg
    by blast
  moreover have "fst (refusal_for_subscription V req (ri_registry r)) = ?reg"
    by (simp add: refusal_for_subscription_def split_def Let_def)
  ultimately show ?thesis
    using assms(4) reg
    by (simp add: handle_subscription_request_def subscription_decision_def split_def Let_def split: option.split)
qed

end

lemma restart_ran:
  assumes "ei_started_before s" "ei_state s = RUNNING" "ei_ran s = Some r"
  shows "\<exists>r1. ei_ran (fst (if_start True SUCCESS (if_stop V s))) = Some r1
     \<and> ri_manager r1 = ri_manager r \<and> ri_registry r1 = sm_registry_init"
  using assms
  by (simp add: if_stop_def if_start_def Let_def create_connector_from_config_def rearm_queues_def
      stop_ran_frame)

text \<open>A RAN that is stopped and started again keeps its subscriptions but has lost its Service
  Models. When a model is registered anew for a RAN function that still has a subscriber, it is
  not started, and no later subscription request starts it either.\<close>

theorem ran_restart_strands_subscribers:
  assumes "managed_service_model V b" "life_reach V s" "ei_state s = RUNNING" "ei_ran s = Some r"
    and "has_subscribers (ri_manager r) rf" "sm_lifecycle_callback (ri_manager r)"
    and "sm_ran_function_id V sm = rf" "\<not> sm_is_running V sm"
  shows "\<exists>r1. ei_ran (fst (if_start True SUCCESS (if_stop V s))) = Some r1
     \<and> (let r2 = fst (ran_register_sm V (Some sm) r1) in
          has_subscribers (ri_manager r2) rf \<and> \<not> is_sm_running V (ri_registry r2) rf
          \<and> \<not> is_sm_running V (ri_registry (handle_subscription_request V rt now req rid r2)) rf)"
proof -
  have "ei_started_before s" using reach_life_inv [OF assms(2)] assms(3) by (simp add: life_inv_def)
  then obtain r1 where r1: "ei_ran (fst (if_start True SUCCESS (if_stop V s))) = Some r1"
    "ri_manager r1 = ri_manager r" "ri_registry r1 = sm_registry_init"
    using restart_ran assms(3,4) by blast
  define r2 where "r2 = fst (ran_register_sm V (Some sm) r1)"
  have m: "ri_manager r2 = ri_manager r"
    by (simp add: r2_def ran_register_sm_def split_def Let_def r1(2))
  have f: "factories_idle V (ri_registry r2)"
    by (simp add: r2_def ran_register_sm_def register_sm_def r1(3) sm_registry_init_def
        factories_idle_def split_def Let_def)
  have "rf \<notin> running V (ri_registry r1)" by (simp add: r1(3) running_def is_sm_running_def sm_registry_init_def)
  then have idle: "rf \<notin> running V (ri_registry r2)"
    unfolding r2_def by (rule managed_service_model.register_keeps_idle [OF assms(1) _ assms(8)])
  then have "rf \<notin> running V (ri_registry (handle_subscription_request V rt now req rid r2))"
    using managed_service_model.request_starts_nothing [OF assms(1), of r2 rf rt now req rid] assms(5,6) f m
    by simp
  with idle show ?thesis using r1(1) assms(5) m by (auto simp: running_def r2_def [symmetric] Let_def)
qed

definition sample_ran_interface :: "simple_sm e3_interface" where
  "sample_ran_interface =
     (fst (if_start True SUCCESS (fst (if_init True True sm_registry_init (new_interface default_config)))))
       \<lparr>ei_ran := Some sample_ran2\<rparr>"

theorem ran_restart_strands_subscribers_witness:
  "\<exists>r1. ei_ran (fst (if_start True SUCCESS (if_stop sample_sm sample_ran_interface))) = Some r1
     \<and> \<not> is_sm_running sample_sm (ri_registry (handle_subscription_request sample_sm 0 9 sample_subscription 3
          (fst (ran_register_sm sample_sm (Some (new_simple_sm 1000 ASN1 FixedRate)) r1)))) 1"
proof -
  let ?sm = "new_simple_sm 1000 ASN1 FixedRate"
  let ?s = "fst (if_start True SUCCESS (fst (if_init True True sm_registry_init (new_interface default_config))))
      :: simple_sm e3_interface"
  have r: "life_reach sample_sm ?s" by (intro life_reach.life_start life_reach.life_init life_reach.life_new)
  have st: "ei_state ?s = RUNNING" "\<not> Option.is_none (ei_ran ?s)" by code_simp+
  then have "life_reach sample_sm sample_ran_interface"
    unfolding sample_ran_interface_def by (cases "ei_ran ?s") (auto intro: life_reach.life_ran [OF r])
  moreover have "ei_state sample_ran_interface = RUNNING" using st by (simp add: sample_ran_interface_def)
  moreover have "ei_ran sample_ran_interface = Some sample_ran2" by (simp add: sample_ran_interface_def)
  moreover have "has_subscribers (ri_manager sample_ran2) 1" using sample_view2 by (simp add: sample_view_def)
  moreover have "sm_lifecycle_callback (ri_manager sample_ran2)"
    using managed_service_model.reach_tracks [OF sample_managed sample_reach2] by (simp add: ran_tracks_def)
  moreover have "sm_ran_function_id sample_sm ?sm = 1" "\<not> sm_is_running sample_sm ?sm"
    by (simp_all add: sample_sm_def simple_class_def new_simple_sm_def)
  ultimately show ?thesis
    using ran_restart_strands_subscribers [OF sample_managed, of sample_ran_interface sample_ran2 1 ?sm
        0 9 sample_subscription 3]
    unfolding Let_def by blast
qed

text \<open>Stopping an interface that was never started closes its outbound queue for good: the next start
  reports success and the state is \<open>RUNNING\<close>, but every message is refused.\<close>

theorem stop_before_start_closes_queue:
  assumes "if_init enc conn reg (new_interface cfg) = (s, SUCCESS)"
  shows "snd (if_start conn' SUCCESS (if_stop V s)) = SUCCESS
     \<and> ei_state (fst (if_start conn' SUCCESS (if_stop V s))) = RUNNING
     \<and> snd (if_queue_outbound p (fst (if_start conn' SUCCESS (if_stop V s)))) = NOT_INITIALIZED"
proof (cases "cfg_role cfg = RAN")
  case True
  then show ?thesis
    using assms
    by (auto simp: if_init_def new_interface_def create_connector_from_config_def allocate_ran_def
        new_ran_if_def if_stop_def if_start_def if_queue_outbound_def stop_ran_frame queue_outbound_def
        bq_push_def bq_stop_def bq_new_def Let_def split: if_splits)
next
  case False
  then show ?thesis
    using assms
    by (auto simp: if_init_def new_interface_def create_connector_from_config_def allocate_dapp_def
        new_dapp_if_def if_stop_def if_start_def if_queue_outbound_def stop_dapp_def new_session_def
        dapp_queue_outbound_def queue_outbound_def bq_push_def bq_stop_def bq_new_def Let_def
        split: if_splits)
qed

theorem stop_before_start_closes_queue_witness:
  "snd (if_queue_outbound (make_pdu 0 RELEASE_MESSAGE (ReleaseMessage \<lparr>rel_dapp_identifier = 1\<rparr>) 1)
      (fst (if_start True SUCCESS (if_stop sample_sm
      (fst (if_init True True sm_registry_init (new_interface default_config))))))) = NOT_INITIALIZED"
proof -
  have "snd (if_init True True (sm_registry_init :: simple_sm sm_registry) (new_interface default_config)) = SUCCESS"
    by code_simp
  then have "if_init True True sm_registry_init (new_interface default_config)
      = (fst (if_init True True sm_registry_init (new_interface default_config :: simple_sm e3_interface)), SUCCESS)"
    by (metis prod.collapse)
  from stop_before_start_closes_queue [OF this] show ?thesis by blast
qed

end
