(* ===== verification/E3_Agent.thy ===== *)
theory E3_Agent
  imports Lifecycle_Props
begin

text \<open>
  The facade \<open>class E3Agent\<close>, \<^verbatim>\<open>src/core/e3_agent.cpp\<close>: the guards of every public call and what it
  does to the interface behind it. Application handlers are stored before \<open>init\<close> and
  forwarded after it; the model keeps which of them are set. A getter that would follow a null
  pointer returns \<open>None\<close>.
\<close>

section \<open>State and lifecycle\<close>

record 's e3_agent =
  ag_config :: e3_config
  ag_interface :: "'s e3_interface option"
  ag_report_handler :: bool
  ag_status_handler :: bool
  ag_dapp_handlers :: "dapp_handler list"

definition new_agent :: "e3_config \<Rightarrow> 's e3_agent" where
  "new_agent cfg =
     \<lparr>ag_config = cfg, ag_interface = None, ag_report_handler = False, ag_status_handler = False,
      ag_dapp_handlers = []\<rparr>"

definition install_handlers :: "'s e3_agent \<Rightarrow> 's e3_interface \<Rightarrow> 's e3_interface" where
  "install_handlers a s =
     s\<lparr>ei_ran := map_option (\<lambda>r. r\<lparr>ri_report_handler := ri_report_handler r \<or> ag_report_handler a,
                                   ri_status_handler := ri_status_handler r \<or> ag_status_handler a\<rparr>) (ei_ran s),
       ei_dapp := map_option (\<lambda>d. d\<lparr>di_handlers := di_handlers d @ ag_dapp_handlers a\<rparr>) (ei_dapp s)\<rparr>"

definition agent_init ::
    "bool \<Rightarrow> bool \<Rightarrow> 's sm_registry \<Rightarrow> 's e3_agent \<Rightarrow> 's e3_agent \<times> error_code" where
  "agent_init encoder_created connector_created reg a =
     (if ag_interface a \<noteq> None then (a, ALREADY_INITIALIZED)
      else
        let (s, result) = if_init encoder_created connector_created reg (new_interface (ag_config a))
        in if result \<noteq> SUCCESS then (a\<lparr>ag_interface := None\<rparr>, result)
           else (a\<lparr>ag_interface := Some (install_handlers a s)\<rparr>, SUCCESS))"

definition agent_start ::
    "bool \<Rightarrow> bool \<Rightarrow> error_code \<Rightarrow> 's sm_registry \<Rightarrow> 's e3_agent \<Rightarrow> 's e3_agent \<times> error_code" where
  "agent_start encoder_created connector_created conn_result reg a =
     (let (a1, init_result) =
            (if ag_interface a = None then agent_init encoder_created connector_created reg a
             else (a, SUCCESS))
      in
      case ag_interface a1 of
        None \<Rightarrow> (a1, init_result)
      | Some s \<Rightarrow>
          let (s', result) = if_start connector_created conn_result s
          in (a1\<lparr>ag_interface := Some s'\<rparr>, result))"

definition agent_stop :: "('s, outbox) sm_class \<Rightarrow> 's e3_agent \<Rightarrow> 's e3_agent" where
  "agent_stop V a = a\<lparr>ag_interface := map_option (if_stop V) (ag_interface a)\<rparr>"

definition agent_current_state :: "'s e3_agent \<Rightarrow> agent_state" where
  "agent_current_state a = (case ag_interface a of None \<Rightarrow> UNINITIALIZED | Some s \<Rightarrow> ei_state s)"

definition agent_is_running :: "'s e3_agent \<Rightarrow> bool" where
  "agent_is_running a = (case ag_interface a of None \<Rightarrow> False | Some s \<Rightarrow> ei_state s = RUNNING)"

definition set_dapp_report_handler :: "bool \<Rightarrow> 's e3_agent \<Rightarrow> 's e3_agent" where
  "set_dapp_report_handler given a =
     (let a1 = a\<lparr>ag_report_handler := given\<rparr>
      in if given
         then a1\<lparr>ag_interface := map_option
               (\<lambda>s. s\<lparr>ei_ran := map_option (\<lambda>r. r\<lparr>ri_report_handler := True\<rparr>) (ei_ran s)\<rparr>) (ag_interface a1)\<rparr>
         else a1)"

definition set_dapp_status_changed_handler :: "bool \<Rightarrow> 's e3_agent \<Rightarrow> 's e3_agent" where
  "set_dapp_status_changed_handler given a =
     (let a1 = a\<lparr>ag_status_handler := given\<rparr>
      in if given
         then a1\<lparr>ag_interface := map_option
               (\<lambda>s. s\<lparr>ei_ran := map_option (\<lambda>r. r\<lparr>ri_status_handler := True\<rparr>) (ei_ran s)\<rparr>) (ag_interface a1)\<rparr>
         else a1)"

text \<open>The six setters of the dApp role differ only in the handler they set.\<close>

definition set_dapp_handler :: "dapp_handler \<Rightarrow> bool \<Rightarrow> 's e3_agent \<Rightarrow> 's e3_agent" where
  "set_dapp_handler h given a =
     (let a1 = a\<lparr>ag_dapp_handlers :=
                   (if given then List.insert h (ag_dapp_handlers a) else removeAll h (ag_dapp_handlers a))\<rparr>
      in if given
         then a1\<lparr>ag_interface := map_option
               (\<lambda>s. s\<lparr>ei_dapp := map_option (\<lambda>d. d\<lparr>di_handlers := List.insert h (di_handlers d)\<rparr>) (ei_dapp s)\<rparr>)
               (ag_interface a1)\<rparr>
         else a1)"

section \<open>RAN role\<close>

definition agent_register_sm ::
    "('s, outbox) sm_class \<Rightarrow> bool \<Rightarrow> bool \<Rightarrow> 's sm_registry \<Rightarrow> 's option \<Rightarrow> 's e3_agent
      \<Rightarrow> 's e3_agent \<times> error_code" where
  "agent_register_sm V encoder_created connector_created reg smo a =
     (if smo = None then (a, INVALID_PARAM)
      else if cfg_role (ag_config a) \<noteq> RAN then (a, STATE_ERROR)
      else
        let (a1, init_result) =
              (if ag_interface a = None then agent_init encoder_created connector_created reg a
               else (a, SUCCESS))
        in
        if init_result \<noteq> SUCCESS then (a1, init_result)
        else
          case ag_interface a1 of
            None \<Rightarrow> (a1, init_result)
          | Some s \<Rightarrow>
              (case ei_ran s of
                 None \<Rightarrow> (a1, init_result)
               | Some r \<Rightarrow>
                   let (r', rc) = ran_register_sm V smo r
                   in (a1\<lparr>ag_interface := Some (s\<lparr>ei_ran := Some r'\<rparr>)\<rparr>, rc)))"

text \<open>The registry is that of the process, also on the dApp role.\<close>

definition agent_get_available_ran_functions :: "'s sm_registry \<Rightarrow> 's e3_agent \<Rightarrow> u32 list" where
  "agent_get_available_ran_functions process_registry a =
     (case ag_interface a of
        None \<Rightarrow> []
      | Some s \<Rightarrow> get_available_ran_functions
                   (case ei_ran s of None \<Rightarrow> process_registry | Some r \<Rightarrow> ri_registry r))"

text \<open>The common part of the sending calls, after their guards on the role.\<close>

definition agent_send :: "(u32 \<Rightarrow> pdu) \<Rightarrow> 's e3_agent \<Rightarrow> 's e3_agent \<times> error_code" where
  "agent_send mk a =
     (case ag_interface a of
        None \<Rightarrow> (a, NOT_INITIALIZED)
      | Some s \<Rightarrow>
          if ei_state s \<noteq> RUNNING then (a, NOT_INITIALIZED)
          else let (s', rc) = if_send mk s in (a\<lparr>ag_interface := Some s'\<rparr>, rc))"

definition send_indication :: "u64 \<Rightarrow> u32 \<Rightarrow> u32 \<Rightarrow> bytes \<Rightarrow> 's e3_agent \<Rightarrow> 's e3_agent \<times> error_code" where
  "send_indication rt d rf data a =
     (if cfg_role (ag_config a) \<noteq> RAN then (a, STATE_ERROR)
      else agent_send (make_pdu rt INDICATION_MESSAGE (IndicationMessage
             \<lparr>ind_dapp_identifier = d, ind_ran_function_identifier = rf, ind_protocol_data = data\<rparr>)) a)"

definition send_xapp_control ::
    "u64 \<Rightarrow> u32 \<Rightarrow> u32 \<Rightarrow> bytes \<Rightarrow> u32 \<Rightarrow> 's e3_agent \<Rightarrow> 's e3_agent \<times> error_code" where
  "send_xapp_control rt d rf control_data sequence_id a =
     (if cfg_role (ag_config a) \<noteq> RAN then (a, STATE_ERROR)
      else agent_send (make_pdu rt XAPP_CONTROL_ACTION (XAppControlAction
             \<lparr>xca_dapp_identifier = d, xca_ran_function_identifier = rf,
              xca_xapp_control_data = control_data, xca_sequence_id = sequence_id,
              xca_message_id = 0\<rparr>)) a)"

definition send_message_ack :: "u64 \<Rightarrow> u32 \<Rightarrow> response_code \<Rightarrow> 's e3_agent \<Rightarrow> 's e3_agent \<times> error_code" where
  "send_message_ack rt request_id code a =
     agent_send (make_pdu rt MESSAGE_ACK (MessageAck
       \<lparr>ack_request_id = request_id, ack_response_code = code, ack_cause = None, ack_detail = None\<rparr>)) a"

text \<open>The manager of a RAN agent: \<open>None\<close> when the call answers with an empty value.\<close>

definition ran_side :: "'s e3_agent \<Rightarrow> 's ran_if option" where
  "ran_side a =
     (case ag_interface a of
        None \<Rightarrow> None
      | Some s \<Rightarrow> if cfg_role (ag_config a) \<noteq> RAN then None else ei_ran s)"

definition agent_get_registered_dapps :: "'s e3_agent \<Rightarrow> u32 list" where
  "agent_get_registered_dapps a =
     (case ran_side a of None \<Rightarrow> [] | Some r \<Rightarrow> get_registered_dapps (ri_manager r))"

definition agent_get_dapp_subscriptions :: "u32 \<Rightarrow> 's e3_agent \<Rightarrow> u32 list" where
  "agent_get_dapp_subscriptions d a =
     (case ran_side a of None \<Rightarrow> [] | Some r \<Rightarrow> get_dapp_subscriptions (ri_manager r) d)"

definition get_ran_function_subscribers :: "time_point \<Rightarrow> u32 \<Rightarrow> 's e3_agent \<Rightarrow> u32 list" where
  "get_ran_function_subscribers now rf a =
     (case ran_side a of None \<Rightarrow> [] | Some r \<Rightarrow> get_subscribed_dapps (ri_manager r) now rf)"

definition agent_get_active_ran_functions :: "'s e3_agent \<Rightarrow> u32 list" where
  "agent_get_active_ran_functions a =
     (case ran_side a of None \<Rightarrow> [] | Some r \<Rightarrow> get_active_ran_functions (ri_manager r))"

text \<open>
  The three getters of the details of a subscription test the interface but not the role; on a
  dApp agent they follow the null \<open>subscription_manager_\<close>.
\<close>

definition agent_details ::
    "u32 \<Rightarrow> u32 \<Rightarrow> 's e3_interface \<Rightarrow> subscription_info option option" where
  "agent_details d rf s =
     (case ei_ran s of None \<Rightarrow> None | Some r \<Rightarrow> Some (get_subscription_details (ri_manager r) d rf))"

definition get_subscription_periodicity :: "u32 \<Rightarrow> u32 \<Rightarrow> 's e3_agent \<Rightarrow> u32 option" where
  "get_subscription_periodicity d rf a =
     (case ag_interface a of
        None \<Rightarrow> Some 0
      | Some s \<Rightarrow>
          map_option (\<lambda>i. case i of None \<Rightarrow> 0 | Some x \<Rightarrow> periodicity_us x) (agent_details d rf s))"

definition get_subscription_telemetry_ids :: "u32 \<Rightarrow> u32 \<Rightarrow> 's e3_agent \<Rightarrow> u32 list option" where
  "get_subscription_telemetry_ids d rf a =
     (case ag_interface a of
        None \<Rightarrow> Some []
      | Some s \<Rightarrow>
          map_option (\<lambda>i. case i of None \<Rightarrow> [] | Some x \<Rightarrow> telemetry_ids x) (agent_details d rf s))"

definition get_subscription_control_ids :: "u32 \<Rightarrow> u32 \<Rightarrow> 's e3_agent \<Rightarrow> u32 list option" where
  "get_subscription_control_ids d rf a =
     (case ag_interface a of
        None \<Rightarrow> Some []
      | Some s \<Rightarrow>
          map_option (\<lambda>i. case i of None \<Rightarrow> [] | Some x \<Rightarrow> control_ids x) (agent_details d rf s))"

definition agent_dapp_count :: "'s e3_agent \<Rightarrow> nat" where
  "agent_dapp_count a =
     (case ag_interface a of
        None \<Rightarrow> 0
      | Some s \<Rightarrow>
          if cfg_role (ag_config a) = RAN
          then (case ei_ran s of None \<Rightarrow> 0 | Some r \<Rightarrow> dapp_count (ri_manager r))
          else if if_dapp_id s \<noteq> None then 1 else 0)"

definition agent_subscription_count :: "'s e3_agent \<Rightarrow> nat" where
  "agent_subscription_count a =
     (case ag_interface a of
        None \<Rightarrow> 0
      | Some s \<Rightarrow>
          if cfg_role (ag_config a) = RAN
          then (case ei_ran s of None \<Rightarrow> 0 | Some r \<Rightarrow> subscription_count (ri_manager r))
          else length (if_active_subscription_ids s))"

section \<open>dApp role\<close>

definition agent_dapp_id :: "'s e3_agent \<Rightarrow> u32 option" where
  "agent_dapp_id a =
     (case ag_interface a of
        None \<Rightarrow> None
      | Some s \<Rightarrow> if cfg_role (ag_config a) \<noteq> DAPP then None else if_dapp_id s)"

definition agent_subscribed_ran_functions :: "'s e3_agent \<Rightarrow> u32 list" where
  "agent_subscribed_ran_functions a =
     (case ag_interface a of
        None \<Rightarrow> []
      | Some s \<Rightarrow> if cfg_role (ag_config a) \<noteq> DAPP then [] else if_subscribed_ran_functions s)"

definition agent_active_subscription_ids :: "'s e3_agent \<Rightarrow> u32 list" where
  "agent_active_subscription_ids a =
     (case ag_interface a of
        None \<Rightarrow> []
      | Some s \<Rightarrow> if cfg_role (ag_config a) \<noteq> DAPP then [] else if_active_subscription_ids s)"

definition agent_wait_for_setup :: "'s e3_agent \<Rightarrow> error_code" where
  "agent_wait_for_setup a =
     (if cfg_role (ag_config a) \<noteq> DAPP then INVALID_PARAM
      else case ag_interface a of None \<Rightarrow> NOT_INITIALIZED | Some s \<Rightarrow> if_wait_for_setup s)"

text \<open>The guard of the dApp's requests, and the request on the interface.\<close>

definition dapp_request ::
    "('s e3_interface \<Rightarrow> 's e3_interface \<times> 'r) \<Rightarrow> (error_code \<Rightarrow> 'r) \<Rightarrow> 's e3_agent \<Rightarrow> 's e3_agent \<times> 'r" where
  "dapp_request call refused a =
     (if cfg_role (ag_config a) \<noteq> DAPP then (a, refused STATE_ERROR)
      else
        case ag_interface a of
          None \<Rightarrow> (a, refused NOT_INITIALIZED)
        | Some s \<Rightarrow>
            if ei_state s \<noteq> RUNNING then (a, refused NOT_INITIALIZED)
            else let (s', r) = call s in (a\<lparr>ag_interface := Some s'\<rparr>, r))"

definition subscribe ::
    "u64 \<Rightarrow> u32 \<Rightarrow> u32 list \<Rightarrow> u32 list \<Rightarrow> u32 option \<Rightarrow> u32 option \<Rightarrow> 's e3_agent
      \<Rightarrow> 's e3_agent \<times> error_code \<times> u32 option" where
  "subscribe rt rf tids cids sub_time periodicity a =
     dapp_request (if_queue_subscription_request rt rf tids cids sub_time periodicity) (\<lambda>c. (c, None)) a"

definition unsubscribe :: "u64 \<Rightarrow> u32 \<Rightarrow> 's e3_agent \<Rightarrow> 's e3_agent \<times> error_code" where
  "unsubscribe rt rf a = dapp_request (if_queue_subscription_delete rt rf) id a"

definition send_control ::
    "u64 \<Rightarrow> u32 \<Rightarrow> u32 \<Rightarrow> bytes \<Rightarrow> u32 \<Rightarrow> 's e3_agent \<Rightarrow> 's e3_agent \<times> error_code \<times> u32 option" where
  "send_control rt rf control_id action_data sequence_id a =
     dapp_request (if_queue_dapp_control_action rt rf control_id action_data sequence_id) (\<lambda>c. (c, None)) a"

definition send_report ::
    "u64 \<Rightarrow> u32 \<Rightarrow> bytes \<Rightarrow> u32 \<Rightarrow> 's e3_agent \<Rightarrow> 's e3_agent \<times> error_code \<times> u32 option" where
  "send_report rt rf report_data sequence_id a =
     dapp_request (if_queue_dapp_report rt rf report_data sequence_id) (\<lambda>c. (c, None)) a"

definition agent_release :: "u64 \<Rightarrow> 's e3_agent \<Rightarrow> 's e3_agent \<times> error_code" where
  "agent_release rt a = dapp_request (if_queue_release_message rt) id a"

section \<open>Properties\<close>



text \<open>The getters of a subscription's details do not look at the role: on every dApp agent after
  \<open>init\<close> they have no defined result.\<close>

theorem details_undefined_on_dapp:
  assumes "agent_init enc conn reg (new_agent cfg) = (a, SUCCESS)" "cfg_role cfg \<noteq> RAN"
  shows "get_subscription_periodicity d rf a = None \<and> get_subscription_telemetry_ids d rf a = None
     \<and> get_subscription_control_ids d rf a = None"
  using assms
  by (auto simp: agent_init_def new_agent_def if_init_def new_interface_def install_handlers_def
      create_connector_from_config_def get_subscription_periodicity_def get_subscription_telemetry_ids_def
      get_subscription_control_ids_def agent_details_def Let_def split: if_splits)

theorem details_undefined_on_dapp_witness:
  "get_subscription_periodicity 1 1 (fst (agent_init True True sm_registry_init
      (new_agent (default_config\<lparr>cfg_role := DAPP\<rparr>) :: simple_sm e3_agent))) = None"
proof -
  let ?r = "agent_init True True sm_registry_init (new_agent (default_config\<lparr>cfg_role := DAPP\<rparr>) :: simple_sm e3_agent)"
  have "snd ?r = SUCCESS" by code_simp
  then have "?r = (fst ?r, SUCCESS)" by (metis prod.collapse)
  moreover have "cfg_role (default_config\<lparr>cfg_role := DAPP\<rparr>) \<noteq> RAN" by simp
  ultimately show ?thesis using details_undefined_on_dapp by blast
qed

end
