(* ===== verification/Pdu_Codec.thy ===== *)
theory Pdu_Codec
  imports E3_Encoder
begin

text \<open>
  What the three concrete encoders share: \<open>Pdu::get_if\<close> for each alternative of the variant, the
  part of a PDU that travels (the sequence numbers a host keeps for itself do not), and the contract
  of an encoder as the locale \<open>pdu_codec\<close>.
\<close>

fun get_setup_request :: "pdu_choice \<Rightarrow> setup_request option" where
  "get_setup_request (SetupRequest s) = Some s" | "get_setup_request _ = None"

fun get_setup_response :: "pdu_choice \<Rightarrow> setup_response option" where
  "get_setup_response (SetupResponse s) = Some s" | "get_setup_response _ = None"

fun get_subscription_request :: "pdu_choice \<Rightarrow> subscription_request option" where
  "get_subscription_request (SubscriptionRequest s) = Some s" | "get_subscription_request _ = None"

fun get_subscription_delete :: "pdu_choice \<Rightarrow> subscription_delete option" where
  "get_subscription_delete (SubscriptionDelete s) = Some s" | "get_subscription_delete _ = None"

fun get_subscription_response :: "pdu_choice \<Rightarrow> subscription_response option" where
  "get_subscription_response (SubscriptionResponse s) = Some s" | "get_subscription_response _ = None"

fun get_indication_message :: "pdu_choice \<Rightarrow> indication_message option" where
  "get_indication_message (IndicationMessage s) = Some s" | "get_indication_message _ = None"

fun get_dapp_control_action :: "pdu_choice \<Rightarrow> dapp_control_action option" where
  "get_dapp_control_action (DAppControlAction s) = Some s" | "get_dapp_control_action _ = None"

fun get_dapp_report :: "pdu_choice \<Rightarrow> dapp_report option" where
  "get_dapp_report (DAppReport s) = Some s" | "get_dapp_report _ = None"

fun get_xapp_control_action :: "pdu_choice \<Rightarrow> xapp_control_action option" where
  "get_xapp_control_action (XAppControlAction s) = Some s" | "get_xapp_control_action _ = None"

fun get_release_message :: "pdu_choice \<Rightarrow> release_message option" where
  "get_release_message (ReleaseMessage s) = Some s" | "get_release_message _ = None"

fun get_message_ack :: "pdu_choice \<Rightarrow> message_ack option" where
  "get_message_ack (MessageAck s) = Some s" | "get_message_ack _ = None"

text \<open>The PDU a peer sees: local sequence numbers are not transmitted.\<close>

fun wire_choice :: "pdu_choice \<Rightarrow> pdu_choice" where
  "wire_choice (DAppReport r) = DAppReport (r\<lparr>rep_recv_seq := 0\<rparr>)"
| "wire_choice (XAppControlAction x) = XAppControlAction (x\<lparr>xca_message_id := 0\<rparr>)"
| "wire_choice c = c"

definition wire_pdu :: "pdu \<Rightarrow> pdu" where
  "wire_pdu p = p\<lparr>pdu_choice_of := wire_choice (pdu_choice_of p), pdu_enqueue_seq := 0\<rparr>"

text \<open>
  An encoder as its clients rely on it: it delivers the transmitted part of every PDU that fits its
  format, and what it decodes has a tag that agrees with its alternative.
\<close>

locale pdu_codec =
  fixes E :: e3_encoder and fits :: "pdu \<Rightarrow> bool"
  assumes delivers: "fits p \<Longrightarrow> enc_encode E p = Some bs \<Longrightarrow> enc_decode E bs = Some (wire_pdu p)"
    and decoded_wf: "enc_decode E bs = Some p \<Longrightarrow> pdu_wf p"
begin

lemma decode_inj:
  assumes "fits p" "fits q" "enc_encode E p = Some bs" "enc_encode E q = Some bs"
  shows "wire_pdu p = wire_pdu q"
  using delivers [OF assms(1,3)] delivers [OF assms(2,4)] by simp

end

text \<open>A PDU of the default constructor: a setup request with empty texts.\<close>

definition default_setup_request :: setup_request where
  "default_setup_request =
     \<lparr>sreq_e3ap_protocol_version = [], sreq_dapp_name = [], sreq_dapp_version = [], sreq_vendor = []\<rparr>"

text \<open>Octets as the characters of a \<open>std::string\<close>, and back.\<close>

definition from_bytes :: "bytes \<Rightarrow> string" where
  "from_bytes b = map (\<lambda>x. char_of (unat x)) b"

definition to_bytes :: "string \<Rightarrow> bytes" where
  "to_bytes s = map (\<lambda>c. word_of_nat (of_char c)) s"

lemma to_bytes_from_bytes [simp]: "to_bytes (from_bytes b) = b"
proof -
  have "word_of_nat (of_char (char_of (unat x) :: char)) = x" for x :: u8
    using unsigned_less [of x, where 'a = nat] by simp
  then show ?thesis by (simp add: to_bytes_def from_bytes_def comp_def)
qed

lemma length_to_bytes [simp]: "length (to_bytes s) = length s" "length (from_bytes b) = length b"
  by (simp_all add: to_bytes_def from_bytes_def)

lemma from_bytes_to_bytes [simp]: "from_bytes (to_bytes s) = s"
proof -
  have "char_of (unat (word_of_nat (of_char c) :: u8)) = c" for c :: char
    by (simp add: unat_of_nat)
  then show ?thesis by (simp add: to_bytes_def from_bytes_def comp_def)
qed

text \<open>The text fields of a message.\<close>

fun pdu_texts :: "pdu_choice \<Rightarrow> string list" where
  "pdu_texts (SetupRequest s) =
     [sreq_e3ap_protocol_version s, sreq_dapp_name s, sreq_dapp_version s, sreq_vendor s]"
| "pdu_texts (SetupResponse s) =
     srsp_ran_identifier s # map the (filter (\<lambda>x. x \<noteq> None) [srsp_e3ap_protocol_version s, srsp_detail s])"
| "pdu_texts (SubscriptionResponse s) = map the (filter (\<lambda>x. x \<noteq> None) [subrsp_detail s])"
| "pdu_texts (MessageAck s) = map the (filter (\<lambda>x. x \<noteq> None) [ack_detail s])"
| "pdu_texts _ = []"

lemma get_if_Some [simp]:
  "get_setup_request c = Some a \<longleftrightarrow> c = SetupRequest a"
  "get_setup_response c = Some b \<longleftrightarrow> c = SetupResponse b"
  "get_subscription_request c = Some d \<longleftrightarrow> c = SubscriptionRequest d"
  "get_subscription_delete c = Some e \<longleftrightarrow> c = SubscriptionDelete e"
  "get_subscription_response c = Some f \<longleftrightarrow> c = SubscriptionResponse f"
  "get_indication_message c = Some g \<longleftrightarrow> c = IndicationMessage g"
  "get_dapp_control_action c = Some h \<longleftrightarrow> c = DAppControlAction h"
  "get_dapp_report c = Some i \<longleftrightarrow> c = DAppReport i"
  "get_xapp_control_action c = Some j \<longleftrightarrow> c = XAppControlAction j"
  "get_release_message c = Some k \<longleftrightarrow> c = ReleaseMessage k"
  "get_message_ack c = Some l \<longleftrightarrow> c = MessageAck l"
  by (cases c; simp)+

lemma wire_pdu_fields [simp]:
  "pdu_message_id (wire_pdu p) = pdu_message_id p" "pdu_type_of (wire_pdu p) = pdu_type_of p"
  "pdu_timestamp (wire_pdu p) = pdu_timestamp p" "pdu_choice_of (wire_pdu p) = wire_choice (pdu_choice_of p)"
  by (simp_all add: wire_pdu_def)

end
