(* ===== verification/Protobuf_Encoder.thy ===== *)
theory Protobuf_Encoder
  imports Pdu_Codec
begin

text \<open>
  The Protocol Buffers encoder, \<^verbatim>\<open>src/encoder/protobuf_encoder.cpp\<close>, with the messages of
  \<^verbatim>\<open>messages/proto/V1/e3ap-1.0.0.proto\<close>. A message is a record: an \<open>optional\<close> field and a
  sub-message are options, a \<open>repeated\<close> field is a list, an enumeration is open and so an integer,
  and \<open>bytes\<close> are a string as in the generated code. Serialisation belongs to the protobuf runtime
  and is the argument \<open>pb_runtime\<close>; \<open>pb_runtime_ok\<close> is what its documentation promises.
\<close>

section \<open>Messages\<close>

record pb_setup_request =
  pbq_e3ap_protocol_version :: string
  pbq_dapp_name :: string
  pbq_dapp_version :: string
  pbq_vendor :: string

record pb_ran_function_def =
  pbf_ran_function_identifier :: u32
  pbf_telemetry_identifier_list :: "u32 list"
  pbf_control_identifier_list :: "u32 list"
  pbf_ran_function_data :: string

record pb_setup_response =
  pbs_request_id :: u32
  pbs_response_code :: int
  pbs_e3ap_protocol_version :: "string option"
  pbs_dapp_identifier :: "u32 option"
  pbs_ran_identifier :: string
  pbs_ran_function_list :: "pb_ran_function_def list"
  pbs_cause :: "int option"
  pbs_detail :: "string option"

record pb_subscription_request =
  pbr_dapp_identifier :: u32
  pbr_ran_function_identifier :: u32
  pbr_telemetry_identifier_list :: "u32 list"
  pbr_control_identifier_list :: "u32 list"
  pbr_subscription_time :: "u32 option"
  pbr_periodicity :: "u32 option"

record pb_subscription_delete =
  pbd_dapp_identifier :: u32
  pbd_subscription_id :: u32

record pb_identifier_list =
  pbl_id :: "u32 list"

record pb_subscription_response =
  pbp_request_id :: u32
  pbp_dapp_identifier :: u32
  pbp_response_code :: int
  pbp_subscription_id :: "u32 option"
  pbp_telemetry_identifier_list :: "pb_identifier_list option"
  pbp_control_identifier_list :: "pb_identifier_list option"
  pbp_ran_function_identifier :: "u32 option"
  pbp_periodicity :: "u32 option"
  pbp_cause :: "int option"
  pbp_detail :: "string option"

record pb_indication_message =
  pbi_dapp_identifier :: u32
  pbi_ran_function_identifier :: u32
  pbi_protocol_data :: string

record pb_dapp_control_action =
  pbc_dapp_identifier :: u32
  pbc_ran_function_identifier :: u32
  pbc_control_identifier :: u32
  pbc_action_data :: string
  pbc_sequence_id :: u32

record pb_dapp_report =
  pbt_dapp_identifier :: u32
  pbt_ran_function_identifier :: u32
  pbt_report_data :: string
  pbt_sequence_id :: u32

record pb_xapp_control_action =
  pbx_dapp_identifier :: u32
  pbx_ran_function_identifier :: u32
  pbx_xapp_control_data :: string
  pbx_sequence_id :: u32

record pb_release_message =
  pbe_dapp_identifier :: u32

record pb_message_ack =
  pba_request_id :: u32
  pba_response_code :: int
  pba_cause :: "int option"
  pba_detail :: "string option"

datatype pb_msg =
    MSG_NOT_SET
  | PbSetupRequest pb_setup_request
  | PbSetupResponse pb_setup_response
  | PbSubscriptionRequest pb_subscription_request
  | PbSubscriptionDelete pb_subscription_delete
  | PbSubscriptionResponse pb_subscription_response
  | PbIndicationMessage pb_indication_message
  | PbDAppControlAction pb_dapp_control_action
  | PbDAppReport pb_dapp_report
  | PbXAppControlAction pb_xapp_control_action
  | PbReleaseMessage pb_release_message
  | PbMessageAck pb_message_ack

record pb_e3_pdu =
  pb_id :: u32
  pb_timestamp :: u64
  pb_msg_case :: pb_msg

section \<open>Conversions\<close>

definition RESPONSE_CODE_POSITIVE :: int where "RESPONSE_CODE_POSITIVE = 0"
definition RESPONSE_CODE_NEGATIVE :: int where "RESPONSE_CODE_NEGATIVE = 1"

definition to_pb_response_code :: "response_code \<Rightarrow> int" where
  "to_pb_response_code rc = (if rc = POSITIVE then RESPONSE_CODE_POSITIVE else RESPONSE_CODE_NEGATIVE)"

definition from_pb_response_code :: "int \<Rightarrow> response_code" where
  "from_pb_response_code rc = (if rc = RESPONSE_CODE_NEGATIVE then NEGATIVE else POSITIVE)"

definition to_pb_cause :: "cause \<Rightarrow> int" where
  "to_pb_cause c = cause_value c"

definition from_pb_cause :: "int \<Rightarrow> cause" where
  "from_pb_cause c = cause_from_value c"

definition ran_function_to_proto :: "ran_function_def \<Rightarrow> pb_ran_function_def" where
  "ran_function_to_proto rf =
     \<lparr>pbf_ran_function_identifier = rf_ran_function_identifier rf,
      pbf_telemetry_identifier_list = rf_telemetry_identifier_list rf,
      pbf_control_identifier_list = rf_control_identifier_list rf,
      pbf_ran_function_data = from_bytes (rf_ran_function_data rf)\<rparr>"

definition ran_function_of_proto :: "pb_ran_function_def \<Rightarrow> ran_function_def" where
  "ran_function_of_proto pf =
     \<lparr>rf_ran_function_identifier = pbf_ran_function_identifier pf,
      rf_telemetry_identifier_list = pbf_telemetry_identifier_list pf,
      rf_control_identifier_list = pbf_control_identifier_list pf,
      rf_ran_function_data = to_bytes (pbf_ran_function_data pf)\<rparr>"

text \<open>One branch of the \<open>switch\<close> per tag; a tag that does not fit the alternative fails.\<close>

definition choice_to_proto :: "pdu_type \<Rightarrow> pdu_choice \<Rightarrow> pb_msg option" where
  "choice_to_proto t c =
     (case t of
        SETUP_REQUEST \<Rightarrow>
          map_option (\<lambda>s. PbSetupRequest
            \<lparr>pbq_e3ap_protocol_version = sreq_e3ap_protocol_version s, pbq_dapp_name = sreq_dapp_name s,
             pbq_dapp_version = sreq_dapp_version s, pbq_vendor = sreq_vendor s\<rparr>) (get_setup_request c)
      | SETUP_RESPONSE \<Rightarrow>
          map_option (\<lambda>s. PbSetupResponse
            \<lparr>pbs_request_id = srsp_request_id s, pbs_response_code = to_pb_response_code (srsp_response_code s),
             pbs_e3ap_protocol_version = srsp_e3ap_protocol_version s,
             pbs_dapp_identifier = srsp_dapp_identifier s, pbs_ran_identifier = srsp_ran_identifier s,
             pbs_ran_function_list = map ran_function_to_proto (srsp_ran_function_list s),
             pbs_cause = map_option to_pb_cause (srsp_cause s), pbs_detail = srsp_detail s\<rparr>) (get_setup_response c)
      | SUBSCRIPTION_REQUEST \<Rightarrow>
          map_option (\<lambda>s. PbSubscriptionRequest
            \<lparr>pbr_dapp_identifier = subreq_dapp_identifier s,
             pbr_ran_function_identifier = subreq_ran_function_identifier s,
             pbr_telemetry_identifier_list = subreq_telemetry_identifier_list s,
             pbr_control_identifier_list = subreq_control_identifier_list s,
             pbr_subscription_time = subreq_subscription_time s, pbr_periodicity = subreq_periodicity s\<rparr>) (get_subscription_request c)
      | SUBSCRIPTION_DELETE \<Rightarrow>
          map_option (\<lambda>s. PbSubscriptionDelete
            \<lparr>pbd_dapp_identifier = subdel_dapp_identifier s, pbd_subscription_id = subdel_subscription_id s\<rparr>) (get_subscription_delete c)
      | SUBSCRIPTION_RESPONSE \<Rightarrow>
          map_option (\<lambda>s. PbSubscriptionResponse
            \<lparr>pbp_request_id = subrsp_request_id s, pbp_dapp_identifier = subrsp_dapp_identifier s,
             pbp_response_code = to_pb_response_code (subrsp_response_code s),
             pbp_subscription_id = subrsp_subscription_id s,
             pbp_telemetry_identifier_list =
             map_option (\<lambda>l. \<lparr>pbl_id = l\<rparr>) (subrsp_telemetry_identifier_list s),
             pbp_control_identifier_list =
             map_option (\<lambda>l. \<lparr>pbl_id = l\<rparr>) (subrsp_control_identifier_list s),
             pbp_ran_function_identifier = subrsp_ran_function_identifier s,
             pbp_periodicity = subrsp_periodicity s,
             pbp_cause = map_option to_pb_cause (subrsp_cause s), pbp_detail = subrsp_detail s\<rparr>) (get_subscription_response c)
      | INDICATION_MESSAGE \<Rightarrow>
          map_option (\<lambda>s. PbIndicationMessage
            \<lparr>pbi_dapp_identifier = ind_dapp_identifier s,
             pbi_ran_function_identifier = ind_ran_function_identifier s,
             pbi_protocol_data = from_bytes (ind_protocol_data s)\<rparr>) (get_indication_message c)
      | DAPP_CONTROL_ACTION \<Rightarrow>
          map_option (\<lambda>s. PbDAppControlAction
            \<lparr>pbc_dapp_identifier = ctl_dapp_identifier s,
             pbc_ran_function_identifier = ctl_ran_function_identifier s,
             pbc_control_identifier = ctl_control_identifier s,
             pbc_action_data = from_bytes (ctl_action_data s), pbc_sequence_id = ctl_sequence_id s\<rparr>) (get_dapp_control_action c)
      | DAPP_REPORT \<Rightarrow>
          map_option (\<lambda>s. PbDAppReport
            \<lparr>pbt_dapp_identifier = rep_dapp_identifier s,
             pbt_ran_function_identifier = rep_ran_function_identifier s,
             pbt_report_data = from_bytes (rep_report_data s), pbt_sequence_id = rep_sequence_id s\<rparr>) (get_dapp_report c)
      | XAPP_CONTROL_ACTION \<Rightarrow>
          map_option (\<lambda>s. PbXAppControlAction
            \<lparr>pbx_dapp_identifier = xca_dapp_identifier s,
             pbx_ran_function_identifier = xca_ran_function_identifier s,
             pbx_xapp_control_data = from_bytes (xca_xapp_control_data s),
             pbx_sequence_id = xca_sequence_id s\<rparr>) (get_xapp_control_action c)
      | RELEASE_MESSAGE \<Rightarrow>
          map_option (\<lambda>s. PbReleaseMessage \<lparr>pbe_dapp_identifier = rel_dapp_identifier s\<rparr>) (get_release_message c)
      | MESSAGE_ACK \<Rightarrow>
          map_option (\<lambda>s. PbMessageAck
            \<lparr>pba_request_id = ack_request_id s, pba_response_code = to_pb_response_code (ack_response_code s),
             pba_cause = map_option to_pb_cause (ack_cause s), pba_detail = ack_detail s\<rparr>) (get_message_ack c))"

definition pdu_to_proto :: "pdu \<Rightarrow> pb_e3_pdu option" where
  "pdu_to_proto p =
     map_option (\<lambda>m. \<lparr>pb_id = pdu_message_id p, pb_timestamp = pdu_timestamp p, pb_msg_case = m\<rparr>)
       (choice_to_proto (pdu_type_of p) (pdu_choice_of p))"

fun choice_of_proto :: "pb_msg \<Rightarrow> pdu_choice" where
  "choice_of_proto MSG_NOT_SET = SetupRequest default_setup_request"
| "choice_of_proto (PbSetupRequest m) =
     SetupRequest
       \<lparr>sreq_e3ap_protocol_version = pbq_e3ap_protocol_version m, sreq_dapp_name = pbq_dapp_name m,
        sreq_dapp_version = pbq_dapp_version m, sreq_vendor = pbq_vendor m\<rparr>"
| "choice_of_proto (PbSetupResponse m) =
     SetupResponse
       \<lparr>srsp_request_id = pbs_request_id m, srsp_response_code = from_pb_response_code (pbs_response_code m),
        srsp_e3ap_protocol_version = pbs_e3ap_protocol_version m,
        srsp_dapp_identifier = pbs_dapp_identifier m, srsp_ran_identifier = pbs_ran_identifier m,
        srsp_ran_function_list = map ran_function_of_proto (pbs_ran_function_list m),
        srsp_cause = map_option from_pb_cause (pbs_cause m), srsp_detail = pbs_detail m\<rparr>"
| "choice_of_proto (PbSubscriptionRequest m) =
     SubscriptionRequest
       \<lparr>subreq_dapp_identifier = pbr_dapp_identifier m,
        subreq_ran_function_identifier = pbr_ran_function_identifier m,
        subreq_telemetry_identifier_list = pbr_telemetry_identifier_list m,
        subreq_control_identifier_list = pbr_control_identifier_list m,
        subreq_subscription_time = pbr_subscription_time m, subreq_periodicity = pbr_periodicity m\<rparr>"
| "choice_of_proto (PbSubscriptionDelete m) =
     SubscriptionDelete
       \<lparr>subdel_dapp_identifier = pbd_dapp_identifier m, subdel_subscription_id = pbd_subscription_id m\<rparr>"
| "choice_of_proto (PbSubscriptionResponse m) =
     SubscriptionResponse
       \<lparr>subrsp_request_id = pbp_request_id m, subrsp_dapp_identifier = pbp_dapp_identifier m,
        subrsp_response_code = from_pb_response_code (pbp_response_code m),
        subrsp_subscription_id = pbp_subscription_id m,
        subrsp_telemetry_identifier_list = map_option pbl_id (pbp_telemetry_identifier_list m),
        subrsp_control_identifier_list = map_option pbl_id (pbp_control_identifier_list m),
        subrsp_ran_function_identifier = pbp_ran_function_identifier m,
        subrsp_periodicity = pbp_periodicity m,
        subrsp_cause = map_option from_pb_cause (pbp_cause m), subrsp_detail = pbp_detail m\<rparr>"
| "choice_of_proto (PbIndicationMessage m) =
     IndicationMessage
       \<lparr>ind_dapp_identifier = pbi_dapp_identifier m,
        ind_ran_function_identifier = pbi_ran_function_identifier m,
        ind_protocol_data = to_bytes (pbi_protocol_data m)\<rparr>"
| "choice_of_proto (PbDAppControlAction m) =
     DAppControlAction
       \<lparr>ctl_dapp_identifier = pbc_dapp_identifier m,
        ctl_ran_function_identifier = pbc_ran_function_identifier m,
        ctl_control_identifier = pbc_control_identifier m,
        ctl_action_data = to_bytes (pbc_action_data m), ctl_sequence_id = pbc_sequence_id m\<rparr>"
| "choice_of_proto (PbDAppReport m) =
     DAppReport
       \<lparr>rep_dapp_identifier = pbt_dapp_identifier m,
        rep_ran_function_identifier = pbt_ran_function_identifier m,
        rep_report_data = to_bytes (pbt_report_data m), rep_sequence_id = pbt_sequence_id m,
        rep_recv_seq = 0\<rparr>"
| "choice_of_proto (PbXAppControlAction m) =
     XAppControlAction
       \<lparr>xca_dapp_identifier = pbx_dapp_identifier m,
        xca_ran_function_identifier = pbx_ran_function_identifier m,
        xca_xapp_control_data = to_bytes (pbx_xapp_control_data m),
        xca_sequence_id = pbx_sequence_id m, xca_message_id = 0\<rparr>"
| "choice_of_proto (PbReleaseMessage m) =
     ReleaseMessage \<lparr>rel_dapp_identifier = pbe_dapp_identifier m\<rparr>"
| "choice_of_proto (PbMessageAck m) =
     MessageAck
       \<lparr>ack_request_id = pba_request_id m, ack_response_code = from_pb_response_code (pba_response_code m),
        ack_cause = map_option from_pb_cause (pba_cause m), ack_detail = pba_detail m\<rparr>"

text \<open>Every branch sets the tag of the alternative it stores; without a message the PDU keeps the defaults.\<close>

definition proto_to_pdu :: "pb_e3_pdu \<Rightarrow> pdu" where
  "proto_to_pdu m =
     (let c = choice_of_proto (pb_msg_case m)
      in \<lparr>pdu_type_of = choice_type c, pdu_choice_of = c, pdu_message_id = pb_id m,
          pdu_enqueue_seq = 0, pdu_timestamp = pb_timestamp m\<rparr>)"

section \<open>Encode and decode\<close>

record pb_runtime =
  SerializeToString :: "pb_e3_pdu \<Rightarrow> string option"
  ParseFromArray :: "bytes \<Rightarrow> int \<Rightarrow> pb_e3_pdu option"

definition pb_encode :: "pb_runtime \<Rightarrow> pdu \<Rightarrow> bytes option" where
  "pb_encode R p =
     (case pdu_to_proto p of
        None \<Rightarrow> None
      | Some m \<Rightarrow> map_option to_bytes (SerializeToString R m))"

text \<open>\<open>static_cast<int>\<close> of the size wraps at 32 bits.\<close>

definition pb_decode :: "pb_runtime \<Rightarrow> bytes \<Rightarrow> pdu option" where
  "pb_decode R data =
     (case ParseFromArray R data (sint (word_of_nat (length data) :: 32 word)) of
        None \<Rightarrow> None
      | Some m \<Rightarrow> if pb_msg_case m = MSG_NOT_SET then None else Some (proto_to_pdu m))"

definition pb_encoder :: "pb_runtime \<Rightarrow> e3_encoder" where
  "pb_encoder R = \<lparr>enc_encode = pb_encode R, enc_decode = pb_decode R\<rparr>"

text \<open>
  The documented contract of the runtime: a message that serialises, with every \<open>string\<close> field valid
  UTF-8 (\<open>utf8\<close> below) and fewer than \<open>2 ^ 31\<close> octets, parses back to itself.
\<close>

fun pb_texts :: "pb_msg \<Rightarrow> string list" where
  "pb_texts (PbSetupRequest m) =
     [pbq_e3ap_protocol_version m, pbq_dapp_name m, pbq_dapp_version m, pbq_vendor m]"
| "pb_texts (PbSetupResponse m) =
     pbs_ran_identifier m # map the (filter (\<lambda>x. x \<noteq> None) [pbs_e3ap_protocol_version m, pbs_detail m])"
| "pb_texts (PbSubscriptionResponse m) = map the (filter (\<lambda>x. x \<noteq> None) [pbp_detail m])"
| "pb_texts (PbMessageAck m) = map the (filter (\<lambda>x. x \<noteq> None) [pba_detail m])"
| "pb_texts _ = []"

definition pb_runtime_ok :: "(string \<Rightarrow> bool) \<Rightarrow> pb_runtime \<Rightarrow> bool" where
  "pb_runtime_ok utf8 R \<longleftrightarrow>
     (\<forall>m s. SerializeToString R m = Some s \<longrightarrow> list_all utf8 (pb_texts (pb_msg_case m)) \<longrightarrow>
        length s < 2 ^ 31 \<longrightarrow> ParseFromArray R (to_bytes s) (int (length s)) = Some m)"

section \<open>Round trip\<close>

lemma response_code_roundtrip [simp]: "from_pb_response_code (to_pb_response_code rc) = rc"
  by (cases rc) (simp_all add: from_pb_response_code_def to_pb_response_code_def
      RESPONSE_CODE_POSITIVE_def RESPONSE_CODE_NEGATIVE_def)

lemma cause_roundtrip [simp]: "from_pb_cause (to_pb_cause c) = c"
  by (simp add: from_pb_cause_def to_pb_cause_def cause_from_value_value)

lemma ran_function_roundtrip [simp]: "ran_function_of_proto (ran_function_to_proto rf) = rf"
  by (simp add: ran_function_of_proto_def ran_function_to_proto_def)

lemma option_map_inverse [simp]:
  "map_option from_pb_cause (map_option to_pb_cause x) = x"
  "map_option pbl_id (map_option (\<lambda>l. \<lparr>pbl_id = l\<rparr>) y) = y"
  by (simp_all add: option.map_comp comp_def option.map_ident)

lemma choice_roundtrip:
  assumes "choice_to_proto t c = Some m"
  shows "t = choice_type c" "choice_of_proto m = wire_choice c" "pb_texts m = pdu_texts c"
    "m \<noteq> MSG_NOT_SET"
  using assms
  by (cases t; auto simp: choice_to_proto_def comp_def)+

lemma pdu_to_proto_wf: "pdu_to_proto p \<noteq> None \<longleftrightarrow> pdu_wf p"
proof -
  have "choice_to_proto (choice_type c) c \<noteq> None" for c
    by (cases c) (simp_all add: choice_to_proto_def)
  then show ?thesis
    using choice_roundtrip(1) [of "pdu_type_of p" "pdu_choice_of p"]
    by (auto simp: pdu_to_proto_def pdu_wf_def)
qed

lemma pdu_to_proto_roundtrip:
  assumes "pdu_to_proto p = Some m"
  shows "proto_to_pdu m = wire_pdu p" "pb_texts (pb_msg_case m) = pdu_texts (pdu_choice_of p)"
    "pb_msg_case m \<noteq> MSG_NOT_SET"
proof -
  obtain x where x: "choice_to_proto (pdu_type_of p) (pdu_choice_of p) = Some x"
    and m: "m = \<lparr>pb_id = pdu_message_id p, pb_timestamp = pdu_timestamp p, pb_msg_case = x\<rparr>"
    using assms by (auto simp: pdu_to_proto_def)
  have "choice_type (wire_choice c) = choice_type c" for c by (cases c) simp_all
  then show "proto_to_pdu m = wire_pdu p"
    using choice_roundtrip [OF x] by (simp add: proto_to_pdu_def m wire_pdu_def)
  show "pb_texts (pb_msg_case m) = pdu_texts (pdu_choice_of p)" "pb_msg_case m \<noteq> MSG_NOT_SET"
    using choice_roundtrip [OF x] by (simp_all add: m)
qed

lemma sint_length: "n < 2 ^ 31 \<Longrightarrow> sint (word_of_nat n :: 32 word) = int n"
  by (simp add: signed_of_nat signed_take_bit_int_eq_self)

lemma pb_delivers:
  assumes "pb_runtime_ok utf8 R" "pb_encode R p = Some bs" "length bs < 2 ^ 31"
    "list_all utf8 (pdu_texts (pdu_choice_of p))"
  shows "pdu_wf p \<and> pb_decode R bs = Some (wire_pdu p)"
proof -
  obtain m s where m: "pdu_to_proto p = Some m" and s: "SerializeToString R m = Some s"
    and bs: "bs = to_bytes s"
    using assms(2) by (auto simp: pb_encode_def split: option.splits)
  have "ParseFromArray R bs (int (length bs)) = Some m"
    using assms pdu_to_proto_roundtrip(2) [OF m] s by (simp add: pb_runtime_ok_def bs)
  then have "pb_decode R bs = Some (wire_pdu p)"
    using pdu_to_proto_roundtrip [OF m] assms(3) by (simp add: pb_decode_def sint_length)
  moreover have "pdu_wf p" using m pdu_to_proto_wf by blast
  ultimately show ?thesis by simp
qed

definition pb_fits :: "(string \<Rightarrow> bool) \<Rightarrow> pb_runtime \<Rightarrow> pdu \<Rightarrow> bool" where
  "pb_fits utf8 R p \<longleftrightarrow>
     pb_runtime_ok utf8 R \<and> list_all utf8 (pdu_texts (pdu_choice_of p))
     \<and> (\<forall>bs. pb_encode R p = Some bs \<longrightarrow> length bs < 2 ^ 31)"

interpretation pb_codec: pdu_codec "pb_encoder R" "pb_fits utf8 R" for R utf8
proof unfold_locales
  fix p bs
  assume "pb_fits utf8 R p" "enc_encode (pb_encoder R) p = Some bs"
  then show "enc_decode (pb_encoder R) bs = Some (wire_pdu p)"
    using pb_delivers [of utf8 R p bs] by (simp add: pb_fits_def pb_encoder_def)
next
  fix bs p
  assume "enc_decode (pb_encoder R) bs = Some p"
  then show "pdu_wf p"
    by (auto simp: pb_encoder_def pb_decode_def proto_to_pdu_def pdu_wf_def Let_def split: option.splits if_splits)
qed

text \<open>C24. The Protocol Buffers encoder converts exactly the PDUs whose tag fits their message, and with a runtime
  that keeps its contract decoding an encoded PDU gives back everything in it that is transmitted.\<close>

theorem protobuf_roundtrip:
  assumes "pb_runtime_ok utf8 R"
  shows "(pdu_to_proto p \<noteq> None \<longleftrightarrow> pdu_wf p)
    \<and> (pb_encode R p = Some bs \<longrightarrow> length bs < 2 ^ 31 \<longrightarrow> list_all utf8 (pdu_texts (pdu_choice_of p)) \<longrightarrow>
        pb_decode R bs = Some (wire_pdu p))"
  using pb_delivers [OF assms] pdu_to_proto_wf by blast

text \<open>A runtime for one message, the release of dApp 7 with message id 5, and its octets on the wire.\<close>

definition sample_release :: pdu where
  "sample_release = make_pdu 0 RELEASE_MESSAGE (ReleaseMessage \<lparr>rel_dapp_identifier = 7\<rparr>) 5"

definition sample_release_octets :: bytes where
  "sample_release_octets = [8, 5, 98, 2, 8, 7]"

definition sample_runtime :: pb_runtime where
  "sample_runtime =
     \<lparr>SerializeToString = (\<lambda>m. if pdu_to_proto sample_release = Some m then Some (from_bytes sample_release_octets) else None),
      ParseFromArray = (\<lambda>b n. if b = sample_release_octets \<and> n = 6 then pdu_to_proto sample_release else None)\<rparr>"

theorem protobuf_roundtrip_witness:
  "pb_encode sample_runtime sample_release = Some sample_release_octets
   \<and> pb_decode sample_runtime sample_release_octets = Some sample_release"
proof -
  have ok: "pb_runtime_ok (\<lambda>_. True) sample_runtime"
    by (auto simp: pb_runtime_ok_def sample_runtime_def sample_release_octets_def split: if_splits)
  have "pdu_wf sample_release" by (simp add: sample_release_def)
  then obtain m where m: "pdu_to_proto sample_release = Some m" using pdu_to_proto_wf by blast
  have enc: "pb_encode sample_runtime sample_release = Some sample_release_octets"
    by (simp add: pb_encode_def sample_runtime_def m)
  have "wire_pdu sample_release = sample_release"
    by (simp add: wire_pdu_def sample_release_def make_pdu_def)
  moreover have "length sample_release_octets < 2 ^ 31" by (simp add: sample_release_octets_def)
  moreover have "list_all (\<lambda>_. True) (pdu_texts (pdu_choice_of sample_release))" by (simp add: list_all_iff)
  ultimately show ?thesis using protobuf_roundtrip [OF ok, of sample_release sample_release_octets] enc by simp
qed

end
