(* ===== verification/Json_Scan.thy ===== *)
theory Json_Scan
  imports E3_Prelude
begin

text \<open>
  The byte scanner of the JSON encoder, first part of \<^verbatim>\<open>src/encoder/json_encoder.cpp\<close>: it finds the
  bytes of a member of an object without building a tree. The second half of this theory gives the
  grammar of JSON texts as trees with a rendering, white space included, and shows that the scanner
  skips exactly one value and finds exactly the member asked for.
\<close>

section \<open>The scanner\<close>

definition is_json_ws :: "char \<Rightarrow> bool" where
  "is_json_ws c \<longleftrightarrow> c = CHR '' '' \<or> c = CHR 0x09 \<or> c = CHR 0x0A \<or> c = CHR 0x0D"

function skip_ws :: "string \<Rightarrow> nat \<Rightarrow> nat" where
  "skip_ws doc pos =
     (if pos < length doc \<and> is_json_ws (doc ! pos) then skip_ws doc (Suc pos) else pos)"
  by pat_completeness auto
termination by (relation "measure (\<lambda>(t, p). length t - p)") auto

declare skip_ws.simps [simp del]

function skip_string_loop :: "string \<Rightarrow> nat \<Rightarrow> nat option" where
  "skip_string_loop doc pos =
     (if pos < length doc then
        let c = doc ! pos in
        if c = CHR 0x5C then
          if pos + 1 \<ge> length doc then None
          else if doc ! (pos + 1) = CHR ''u'' then
            if pos + 6 > length doc then None else skip_string_loop doc (pos + 6)
          else skip_string_loop doc (pos + 2)
        else if c = CHR 0x22 then Some (pos + 1)
        else skip_string_loop doc (pos + 1)
      else None)"
  by pat_completeness auto
termination by (relation "measure (\<lambda>(t, p). length t - p)") auto

declare skip_string_loop.simps [simp del]

definition skip_json_string :: "string \<Rightarrow> nat \<Rightarrow> nat option" where
  "skip_json_string doc pos =
     (if pos \<ge> length doc \<or> doc ! pos \<noteq> CHR 0x22 then None else skip_string_loop doc (pos + 1))"

lemma skip_string_loop_after: "skip_string_loop doc pos = Some q \<Longrightarrow> pos < q"
proof (induction doc pos rule: skip_string_loop.induct)
  case (1 doc pos)
  then show ?case
    by (subst (asm) skip_string_loop.simps) (fastforce simp: Let_def split: if_splits)
qed

lemma skip_json_string_after: "skip_json_string doc pos = Some q \<Longrightarrow> pos < q"
  using skip_string_loop_after [of doc "pos + 1" q] by (auto simp: skip_json_string_def split: if_splits)

text \<open>The loop that counts the brackets of one kind.\<close>

function skip_container :: "char \<Rightarrow> char \<Rightarrow> string \<Rightarrow> nat \<Rightarrow> nat \<Rightarrow> nat option" where
  "skip_container opn cls doc depth pos =
     (if pos < length doc \<and> depth > 0 then
        let cc = doc ! pos in
        if cc = CHR 0x22 then
          (case skip_json_string doc pos of
             None \<Rightarrow> None
           | Some after \<Rightarrow> skip_container opn cls doc depth after)
        else if cc = opn then skip_container opn cls doc (depth + 1) (Suc pos)
        else if cc = cls then skip_container opn cls doc (depth - 1) (Suc pos)
        else skip_container opn cls doc depth (Suc pos)
      else if depth \<noteq> 0 then None
      else Some pos)"
  by pat_completeness auto
termination
  by (relation "measure (\<lambda>(opn, cls, t, d, p). length t - p)") (auto dest: skip_json_string_after)

declare skip_container.simps [simp del]

function skip_token :: "string \<Rightarrow> nat \<Rightarrow> nat" where
  "skip_token doc pos =
     (if pos < length doc \<and> \<not> (doc ! pos = CHR '','' \<or> doc ! pos = CHR ''}'' \<or> doc ! pos = CHR '']''
                              \<or> is_json_ws (doc ! pos))
      then skip_token doc (Suc pos) else pos)"
  by pat_completeness auto
termination by (relation "measure (\<lambda>(t, p). length t - p)") auto

declare skip_token.simps [simp del]

definition skip_json_value :: "string \<Rightarrow> nat \<Rightarrow> nat option" where
  "skip_json_value doc pos =
     (if pos \<ge> length doc then None
      else
        let c = doc ! pos in
        if c = CHR 0x22 then skip_json_string doc pos
        else if c = CHR ''{'' \<or> c = CHR ''['' then
          skip_container c (if c = CHR ''{'' then CHR ''}'' else CHR '']'') doc 1 (Suc pos)
        else Some (skip_token doc pos))"

lemma skip_ws_after: "pos \<le> skip_ws doc pos"
proof (induction doc pos rule: skip_ws.induct)
  case (1 doc pos)
  then show ?case by (subst skip_ws.simps) auto
qed

lemma skip_token_after: "pos \<le> skip_token doc pos"
proof (induction doc pos rule: skip_token.induct)
  case (1 doc pos)
  then show ?case by (subst skip_token.simps) auto
qed

lemma skip_container_after: "skip_container opn cls doc depth pos = Some q \<Longrightarrow> pos \<le> q"
proof (induction opn cls doc depth pos rule: skip_container.induct)
  case (1 opn cls doc depth pos)
  show ?case
  proof (cases "pos < length doc \<and> depth > 0")
    case False
    with "1.prems" show ?thesis by (subst (asm) skip_container.simps) (auto split: if_splits)
  next
    case True
    with 1 show ?thesis
      by (subst (asm) (5) skip_container.simps)
        (fastforce simp: Let_def dest: skip_json_string_after split: if_splits option.splits)
  qed
qed

lemma skip_json_value_after: "skip_json_value doc pos = Some q \<Longrightarrow> pos \<le> q"
  by (auto simp: skip_json_value_def Let_def skip_token_after split: if_splits
      dest!: skip_json_string_after skip_container_after)

function member_loop :: "string \<Rightarrow> string \<Rightarrow> nat \<Rightarrow> (nat \<times> nat) option" where
  "member_loop doc key pos0 =
     (let pos = skip_ws doc pos0 in
      if pos \<ge> length doc \<or> doc ! pos = CHR ''}'' \<or> doc ! pos \<noteq> CHR 0x22 then None
      else
        case skip_json_string doc pos of
          None \<Rightarrow> None
        | Some after_key \<Rightarrow>
            let key_start = pos + 1; key_end = after_key - 1; colon = skip_ws doc after_key
            in
            if colon \<ge> length doc \<or> doc ! colon \<noteq> CHR '':'' then None
            else
              let value_start = skip_ws doc (colon + 1)
              in
              (case skip_json_value doc value_start of
                 None \<Rightarrow> None
               | Some after_value \<Rightarrow>
                   if key_end - key_start = length key \<and> take (length key) (drop key_start doc) = key
                   then Some (value_start, after_value)
                   else
                     let next = skip_ws doc after_value
                     in if next < length doc \<and> doc ! next = CHR '','' then member_loop doc key (Suc next)
                        else None))"
  by pat_completeness auto
termination
proof (relation "measure (\<lambda>(t, k, p). length t - p)", goal_cases)
  case 1
  show ?case by simp
next
  case (2 doc key pos0 pos after_key ks ke colon vs after_value nxt)
  have "pos0 \<le> pos" using skip_ws_after 2 by simp
  also have "pos < after_key" using 2 skip_json_string_after by blast
  also have "after_key \<le> colon" using skip_ws_after 2 by simp
  also have "colon \<le> vs" using skip_ws_after [of "colon + 1" doc] 2 by simp
  also have "vs \<le> after_value" using 2 skip_json_value_after by blast
  also have "after_value \<le> nxt" using skip_ws_after 2 by simp
  finally have "pos0 < nxt" .
  moreover have "nxt < length doc" using 2 by simp
  ultimately show ?case by (simp add: diff_less_mono2)
qed

declare member_loop.simps [simp del]

definition find_top_level_member_span :: "string \<Rightarrow> nat \<Rightarrow> string \<Rightarrow> (nat \<times> nat) option" where
  "find_top_level_member_span doc obj_start key =
     (if obj_start \<ge> length doc \<or> doc ! obj_start \<noteq> CHR ''{'' then None
      else member_loop doc key (obj_start + 1))"

section \<open>JSON texts\<close>

text \<open>
  A JSON text as a tree with its white space. Elements and members keep the white space around them;
  a token is a number, \<open>true\<close>, \<open>false\<close> or \<open>null\<close>.
\<close>

datatype jchar = Plain char | Escaped char | Unicode char char char char

datatype jval =
    JToken string
  | JText "jchar list"
  | JArr string jelems
  | JObj string jmembers
and jelems =
    ENil
  | ECons string jval string jelems
and jmembers =
    MNil
  | MCons string "jchar list" string string jval string jmembers

fun render_char :: "jchar \<Rightarrow> string" where
  "render_char (Plain c) = [c]"
| "render_char (Escaped c) = [CHR 0x5C, c]"
| "render_char (Unicode a b c d) = [CHR 0x5C, CHR ''u'', a, b, c, d]"

definition render_text :: "jchar list \<Rightarrow> string" where
  "render_text cs = CHR 0x22 # concat (map render_char cs) @ [CHR 0x22]"

primrec render :: "jval \<Rightarrow> string"
  and render_elems :: "jelems \<Rightarrow> string"
  and render_members :: "jmembers \<Rightarrow> string" where
  "render (JToken t) = t"
| "render (JText cs) = render_text cs"
| "render (JArr w es) = [CHR ''[''] @ (if es = ENil then w else render_elems es) @ [CHR '']'']"
| "render (JObj w ms) = [CHR ''{''] @ (if ms = MNil then w else render_members ms) @ [CHR ''}'']"
| "render_elems ENil = []"
| "render_elems (ECons w1 v w2 es) = w1 @ render v @ w2 @ (if es = ENil then [] else [CHR '',''] @ render_elems es)"
| "render_members MNil = []"
| "render_members (MCons w1 k w2 w3 v w4 ms) =
     w1 @ render_text k @ w2 @ [CHR '':''] @ w3 @ render v @ w4
     @ (if ms = MNil then [] else [CHR '',''] @ render_members ms)"

abbreviation ws :: "string \<Rightarrow> bool" where
  "ws \<equiv> list_all is_json_ws"

fun char_wf :: "jchar \<Rightarrow> bool" where
  "char_wf (Plain c) \<longleftrightarrow> c \<noteq> CHR 0x22 \<and> c \<noteq> CHR 0x5C"
| "char_wf (Escaped c) \<longleftrightarrow> c \<noteq> CHR ''u''"
| "char_wf (Unicode _ _ _ _) \<longleftrightarrow> True"

definition token_char :: "char \<Rightarrow> bool" where
  "token_char c \<longleftrightarrow>
     \<not> is_json_ws c \<and> c \<notin> {CHR 0x22, CHR '','', CHR ''{'', CHR ''}'', CHR ''['', CHR '']''}"

primrec val_wf :: "jval \<Rightarrow> bool" and elems_wf :: "jelems \<Rightarrow> bool" and members_wf :: "jmembers \<Rightarrow> bool" where
  "val_wf (JToken t) \<longleftrightarrow> t \<noteq> [] \<and> list_all token_char t"
| "val_wf (JText cs) \<longleftrightarrow> list_all char_wf cs"
| "val_wf (JArr w es) \<longleftrightarrow> ws w \<and> elems_wf es"
| "val_wf (JObj w ms) \<longleftrightarrow> ws w \<and> members_wf ms"
| "elems_wf ENil \<longleftrightarrow> True"
| "elems_wf (ECons w1 v w2 es) \<longleftrightarrow> ws w1 \<and> val_wf v \<and> ws w2 \<and> elems_wf es"
| "members_wf MNil \<longleftrightarrow> True"
| "members_wf (MCons w1 k w2 w3 v w4 ms) \<longleftrightarrow>
     ws w1 \<and> list_all char_wf k \<and> ws w2 \<and> ws w3 \<and> val_wf v \<and> ws w4 \<and> members_wf ms"

text \<open>The first member whose key is written exactly as \<open>key\<close>.\<close>

primrec member_value :: "string \<Rightarrow> jmembers \<Rightarrow> jval option" where
  "member_value key MNil = None"
| "member_value key (MCons w1 k w2 w3 v w4 ms) =
     (if concat (map render_char k) = key then Some v else member_value key ms)"

section \<open>The scanner on JSON texts\<close>

lemma skip_ws_over:
  "ws w \<Longrightarrow> post = [] \<or> \<not> is_json_ws (hd post) \<Longrightarrow>
   skip_ws (pre @ w @ post) (length pre) = length (pre @ w)"
proof (induction w arbitrary: pre)
  case Nil
  then show ?case by (subst skip_ws.simps) (cases post, auto simp: nth_append)
next
  case (Cons c w)
  then show ?case
    using Cons.IH [of "pre @ [c]"] by (subst skip_ws.simps) (simp add: nth_append)
qed

lemma skip_token_over:
  "list_all token_char t \<Longrightarrow>
   post = [] \<or> hd post = CHR '','' \<or> hd post = CHR ''}'' \<or> hd post = CHR '']'' \<or> is_json_ws (hd post) \<Longrightarrow>
   skip_token (pre @ t @ post) (length pre) = length (pre @ t)"
proof (induction t arbitrary: pre)
  case Nil
  then show ?case by (subst skip_token.simps) (cases post, auto simp: nth_append)
next
  case (Cons c t)
  then show ?case
    using Cons.IH [of "pre @ [c]"] by (subst skip_token.simps) (simp add: nth_append token_char_def)
qed

lemma skip_string_loop_over:
  "list_all char_wf cs \<Longrightarrow>
   skip_string_loop (pre @ concat (map render_char cs) @ CHR 0x22 # post) (length pre)
   = Some (length pre + length (concat (map render_char cs)) + 1)"
proof (induction cs arbitrary: pre)
  case Nil
  then show ?case by (subst skip_string_loop.simps) (simp add: nth_append)
next
  case (Cons c cs)
  then show ?case
    using Cons.IH [of "pre @ render_char c"]
    by (subst skip_string_loop.simps) (cases c; simp add: nth_append eval_nat_numeral)
qed

lemma skip_json_string_over:
  assumes "list_all char_wf cs"
  shows "skip_json_string (pre @ render_text cs @ post) (length pre) = Some (length (pre @ render_text cs))"
  using skip_string_loop_over [OF assms, of "pre @ [CHR 0x22]" post]
  by (simp add: skip_json_string_def render_text_def nth_append)

text \<open>A piece of text that leaves the bracket count as it is.\<close>

definition neutral :: "char \<Rightarrow> char \<Rightarrow> string \<Rightarrow> bool" where
  "neutral opn cls s \<longleftrightarrow>
     (\<forall>pre post d. d > 0 \<longrightarrow>
        skip_container opn cls (pre @ s @ post) d (length pre)
        = skip_container opn cls (pre @ s @ post) d (length (pre @ s)))"

definition bracket_pair :: "char \<Rightarrow> char \<Rightarrow> bool" where
  "bracket_pair opn cls \<longleftrightarrow> (opn, cls) \<in> {(CHR ''{'', CHR ''}''), (CHR ''['', CHR '']'')}"

lemma neutralD:
  "neutral opn cls s \<Longrightarrow> d > 0 \<Longrightarrow>
   skip_container opn cls (pre @ s @ post) d (length pre)
   = skip_container opn cls (pre @ s @ post) d (length pre + length s)"
  by (simp add: neutral_def)

lemma neutral_Nil [simp]: "neutral opn cls []"
  by (simp add: neutral_def)

lemma neutral_append [intro]:
  assumes "neutral opn cls s" "neutral opn cls t"
  shows "neutral opn cls (s @ t)"
proof -
  have "skip_container opn cls (pre @ (s @ t) @ post) d (length pre)
      = skip_container opn cls (pre @ (s @ t) @ post) d (length (pre @ s @ t))" if "d > 0" for pre post d
    using neutralD [OF assms(1) that, of pre "t @ post"] neutralD [OF assms(2) that, of "pre @ s" post]
    by (simp add: add.assoc)
  then show ?thesis by (auto simp: neutral_def)
qed

lemma container_step:
  assumes "d > 0" "x \<noteq> CHR 0x22"
  shows "skip_container opn cls (pre @ x # post) d (length pre)
    = skip_container opn cls (pre @ x # post) (if x = opn then d + 1 else if x = cls then d - 1 else d)
        (Suc (length pre))"
  using assms by (subst skip_container.simps) (simp add: nth_append)

lemma neutral_char: "x \<noteq> CHR 0x22 \<Longrightarrow> x \<noteq> opn \<Longrightarrow> x \<noteq> cls \<Longrightarrow> neutral opn cls [x]"
  using container_step [of _ x opn cls] by (simp add: neutral_def)

lemma neutral_chars:
  "list_all (\<lambda>x. x \<noteq> CHR 0x22 \<and> x \<noteq> opn \<and> x \<noteq> cls) s \<Longrightarrow> neutral opn cls s"
proof (induction s)
  case (Cons x s)
  then show ?case using neutral_append [OF neutral_char [of x opn cls], of s] by simp
qed simp

lemma neutral_text:
  assumes "list_all char_wf cs"
  shows "neutral opn cls (render_text cs)"
proof -
  have "skip_container opn cls (pre @ render_text cs @ post) d (length pre)
      = skip_container opn cls (pre @ render_text cs @ post) d (length (pre @ render_text cs))"
    if "d > 0" for pre post d
  proof -
    have "(pre @ render_text cs @ post) ! length pre = CHR 0x22" "render_text cs \<noteq> []"
      by (simp_all add: render_text_def nth_append)
    with that show ?thesis
      by (subst skip_container.simps) (simp add: skip_json_string_over [OF assms] Let_def)
  qed
  then show ?thesis by (auto simp: neutral_def)
qed

lemma neutral_nested:
  assumes "neutral opn cls s" "bracket_pair opn cls"
  shows "neutral opn cls ([opn] @ s @ [cls])"
proof -
  have ne: "opn \<noteq> CHR 0x22" "cls \<noteq> CHR 0x22" "opn \<noteq> cls" using assms(2) by (auto simp: bracket_pair_def)
  have "skip_container opn cls (pre @ ([opn] @ s @ [cls]) @ post) d (length pre)
      = skip_container opn cls (pre @ ([opn] @ s @ [cls]) @ post) d (length (pre @ [opn] @ s @ [cls]))"
    if "d > 0" for pre post d
  proof -
    let ?doc = "pre @ opn # s @ cls # post"
    have "skip_container opn cls ?doc d (length pre) = skip_container opn cls ?doc (d + 1) (Suc (length pre))"
      using container_step [OF that ne(1), of opn cls pre "s @ cls # post"] by simp
    also have "\<dots> = skip_container opn cls ?doc (d + 1) (Suc (length pre) + length s)"
      using neutralD [OF assms(1), of "d + 1" "pre @ [opn]" "cls # post"] by simp
    also have "\<dots> = skip_container opn cls ?doc d (Suc (Suc (length pre) + length s))"
      using container_step [of "d + 1" cls opn cls "pre @ opn # s" post] ne by simp
    finally show ?thesis by simp
  qed
  then show ?thesis by (auto simp: neutral_def)
qed

lemma neutral_brackets:
  assumes "neutral opn cls s" "bracket_pair opn cls" "bracket_pair x y"
  shows "neutral opn cls ([x] @ s @ [y])"
proof (cases "x = opn")
  case True
  with assms show ?thesis using neutral_nested [OF assms(1,2)] by (auto simp: bracket_pair_def)
next
  case False
  with assms have "neutral opn cls [x]" "neutral opn cls [y]"
    by (auto simp: bracket_pair_def intro!: neutral_char)
  with assms show ?thesis by blast
qed

lemma ws_char: "is_json_ws x \<Longrightarrow> bracket_pair opn cls \<Longrightarrow> x \<noteq> CHR 0x22 \<and> x \<noteq> opn \<and> x \<noteq> cls"
  unfolding is_json_ws_def bracket_pair_def by fastforce

lemma token_char_neutral:
  "token_char x \<Longrightarrow> bracket_pair opn cls \<Longrightarrow> x \<noteq> CHR 0x22 \<and> x \<noteq> opn \<and> x \<noteq> cls"
  by (auto simp: token_char_def bracket_pair_def)

lemma neutral_ws: "ws w \<Longrightarrow> bracket_pair opn cls \<Longrightarrow> neutral opn cls w"
  by (rule neutral_chars) (erule list.pred_mono_strong, rule ws_char)

lemma neutral_token: "list_all token_char t \<Longrightarrow> bracket_pair opn cls \<Longrightarrow> neutral opn cls t"
  by (rule neutral_chars) (erule list.pred_mono_strong, rule token_char_neutral)

lemma neutral_render:
  assumes "bracket_pair opn cls"
  shows "val_wf v \<Longrightarrow> neutral opn cls (render v)"
    and "elems_wf es \<Longrightarrow> neutral opn cls (render_elems es)"
    and "members_wf ms \<Longrightarrow> neutral opn cls (render_members ms)"
proof (induction v and es and ms)
  case (JToken t)
  then show ?case
    using assms by (simp add: neutral_token)
next
  case (JText cs)
  then show ?case by (simp add: neutral_text)
next
  case (JArr w es)
  then have "neutral opn cls (if es = ENil then w else render_elems es)"
    using assms by (simp add: neutral_ws)
  then show ?case
    using neutral_brackets [OF _ assms, of _ "CHR ''[''" "CHR '']''"] by (simp only: render.simps) (simp add: bracket_pair_def)
next
  case (JObj w ms)
  then have "neutral opn cls (if ms = MNil then w else render_members ms)"
    using assms by (simp add: neutral_ws)
  then show ?case
    using neutral_brackets [OF _ assms, of _ "CHR ''{''" "CHR ''}''"] by (simp only: render.simps) (simp add: bracket_pair_def)
next
  case (ECons w1 v w2 es)
  have c: "neutral opn cls [CHR '','']" using assms by (auto simp: bracket_pair_def intro!: neutral_char)
  with ECons have "neutral opn cls (if es = ENil then [] else [CHR '',''] @ render_elems es)"
    "neutral opn cls w1" "neutral opn cls (render v)" "neutral opn cls w2"
    using assms neutral_append [OF c, of "render_elems es"] by (simp_all add: neutral_ws)
  then show ?case unfolding render_elems.simps by (intro neutral_append)
next
  case (MCons w1 k w2 w3 v w4 ms)
  have c: "neutral opn cls [CHR '','']" "neutral opn cls [CHR '':'']"
    using assms by (auto simp: bracket_pair_def intro!: neutral_char)
  moreover from this MCons have "neutral opn cls (if ms = MNil then [] else [CHR '',''] @ render_members ms)"
    "neutral opn cls w1" "neutral opn cls (render_text k)" "neutral opn cls w2" "neutral opn cls w3"
    "neutral opn cls (render v)" "neutral opn cls w4"
    using assms neutral_append [OF c(1), of "render_members ms"] by (simp_all add: neutral_ws neutral_text)
  ultimately show ?case unfolding render_members.simps by (intro neutral_append)
qed simp_all

lemma skip_container_over:
  assumes "neutral opn cls s" "bracket_pair opn cls"
  shows "skip_container opn cls (pre @ [opn] @ s @ [cls] @ post) 1 (Suc (length pre))
    = Some (length (pre @ [opn] @ s @ [cls]))"
proof -
  have "cls \<noteq> CHR 0x22" "opn \<noteq> cls" using assms(2) by (auto simp: bracket_pair_def)
  then have "skip_container opn cls (pre @ opn # s @ cls # post) 1 (Suc (length pre + length s))
    = skip_container opn cls (pre @ opn # s @ cls # post) 0 (Suc (Suc (length pre + length s)))"
    using container_step [of 1 cls opn cls "pre @ opn # s" post] by simp
  also have "\<dots> = Some (Suc (Suc (length pre + length s)))"
    by (subst skip_container.simps) simp
  finally show ?thesis
    using neutralD [OF assms(1), of 1 "pre @ [opn]" "cls # post"] by simp
qed

text \<open>What may follow a value in a JSON text.\<close>

definition value_end :: "string \<Rightarrow> bool" where
  "value_end post \<longleftrightarrow>
     post = [] \<or> hd post = CHR '','' \<or> hd post = CHR ''}'' \<or> hd post = CHR '']'' \<or> is_json_ws (hd post)"

lemma skip_json_value_over:
  assumes "val_wf v" "value_end post"
  shows "skip_json_value (pre @ render v @ post) (length pre) = Some (length (pre @ render v))"
proof (cases v)
  case (JToken t)
  then obtain c t' where t: "t = c # t'" "token_char c" using assms(1) by (cases t) auto
  then have "c \<noteq> CHR 0x22" "c \<noteq> CHR ''{''" "c \<noteq> CHR ''[''" by (auto simp: token_char_def)
  then show ?thesis
    using skip_token_over [of t post pre] JToken assms t
    by (simp add: skip_json_value_def nth_append value_end_def)
next
  case (JText cs)
  then show ?thesis
    using skip_json_string_over [of cs pre post] assms(1)
    by (simp add: skip_json_value_def render_text_def nth_append)
next
  case (JArr w es)
  have "bracket_pair (CHR ''['') (CHR '']'')" by (simp add: bracket_pair_def)
  moreover from this have "neutral (CHR ''['') (CHR '']'') (if es = ENil then w else render_elems es)"
    using assms(1) JArr neutral_render(2) neutral_ws by simp
  ultimately show ?thesis
    using skip_container_over [of _ _ _ pre post] JArr by (simp add: skip_json_value_def nth_append)
next
  case (JObj w ms)
  have "bracket_pair (CHR ''{'') (CHR ''}'')" by (simp add: bracket_pair_def)
  moreover from this have "neutral (CHR ''{'') (CHR ''}'') (if ms = MNil then w else render_members ms)"
    using assms(1) JObj neutral_render(3) neutral_ws by simp
  ultimately show ?thesis
    using skip_container_over [of _ _ _ pre post] JObj by (simp add: skip_json_value_def nth_append)
qed

lemma render_first: "val_wf v \<Longrightarrow> render v \<noteq> [] \<and> \<not> is_json_ws (hd (render v))"
  by (cases v) (auto simp: render_text_def is_json_ws_def token_char_def list_all_iff hd_append)

text \<open>One round of the loop, on the text of a member.\<close>

lemma member_loop_round:
  assumes w: "ws w1" "ws w2" "ws w3" "ws w4" and k: "list_all char_wf k" and v: "val_wf v"
    and tl: "value_end rest" "rest \<noteq> []" "\<not> is_json_ws (hd rest)"
    and doc: "doc = pre @ w1 @ render_text k @ w2 @ [CHR '':''] @ w3 @ render v @ w4 @ rest"
  defines "start \<equiv> length (pre @ w1 @ render_text k @ w2 @ [CHR '':''] @ w3)"
  shows "member_loop doc key (length pre) =
     (if concat (map render_char k) = key then Some (start, start + length (render v))
      else if hd rest = CHR '','' then member_loop doc key (Suc (start + length (render v @ w4)))
      else None)"
proof -
  define q where "q = length (pre @ w1)"
  define a where "a = length (pre @ w1 @ render_text k)"
  define z where "z = start + length (render v @ w4)"
  have ws1: "skip_ws doc (length pre) = q"
    using skip_ws_over [OF w(1), of "render_text k @ w2 @ [CHR '':''] @ w3 @ render v @ w4 @ rest" pre]
    by (simp add: doc render_text_def is_json_ws_def q_def)
  have quote: "q < length doc" "doc ! q = CHR 0x22"
    by (simp_all add: doc render_text_def nth_append q_def)
  have str: "skip_json_string doc q = Some a"
    using skip_json_string_over [OF k, of "pre @ w1" "w2 @ [CHR '':''] @ w3 @ render v @ w4 @ rest"] by (simp add: doc q_def a_def)
  have ws2: "skip_ws doc a = a + length w2"
    using skip_ws_over [OF w(2), of "[CHR '':''] @ w3 @ render v @ w4 @ rest" "pre @ w1 @ render_text k"]
    by (simp add: doc is_json_ws_def a_def)
  have colon: "a + length w2 < length doc" "doc ! (a + length w2) = CHR '':''"
    by (simp_all add: doc nth_append a_def)
  have ws3: "skip_ws doc (Suc (a + length w2)) = start"
    using skip_ws_over [OF w(3), of "render v @ w4 @ rest" "pre @ w1 @ render_text k @ w2 @ [CHR '':'']"] render_first [OF v]
    by (simp add: doc start_def hd_append add.assoc a_def)
  have "value_end (w4 @ rest)" using w(4) tl by (cases w4) (auto simp: value_end_def)
  then have val: "skip_json_value doc start = Some (start + length (render v))"
    using skip_json_value_over [OF v, of "w4 @ rest" "pre @ w1 @ render_text k @ w2 @ [CHR '':''] @ w3"]
    by (simp add: doc start_def)
  have ws4: "skip_ws doc (start + length (render v)) = z"
    using skip_ws_over [OF w(4), of rest "pre @ w1 @ render_text k @ w2 @ [CHR '':''] @ w3 @ render v"] tl
    by (simp add: doc start_def add.assoc z_def)
  have last: "z < length doc" "doc ! z = hd rest"
    using tl by (simp_all add: doc start_def z_def nth_append hd_conv_nth)
  have key: "a - 1 - (q + 1) = length key \<and> take (length key) (drop (q + 1) doc) = key
      \<longleftrightarrow> concat (map render_char k) = key"
    by (auto simp: doc render_text_def q_def a_def)
  show ?thesis
    using quote colon key last by (subst member_loop.simps) (simp add: ws1 str ws2 ws3 val ws4 Let_def z_def [symmetric] del: length_append)
qed

lemma member_loop_members:
  assumes "members_wf ms" "ms \<noteq> MNil" "doc = pre @ render_members ms @ [CHR ''}''] @ post"
  shows "case member_value key ms of
       None \<Rightarrow> member_loop doc key (length pre) = None
     | Some v \<Rightarrow> \<exists>b e. member_loop doc key (length pre) = Some (b, e) \<and> take (e - b) (drop b doc) = render v"
  using assms
proof (induction ms arbitrary: pre rule: jmembers.induct [of "\<lambda>_. True" "\<lambda>_. True"])
  case (MCons w1 k w2 w3 v w4 ms)
  let ?rest = "(if ms = MNil then [] else [CHR '',''] @ render_members ms) @ [CHR ''}''] @ post"
  let ?start = "length (pre @ w1 @ render_text k @ w2 @ [CHR '':''] @ w3)"
  have doc: "doc = pre @ w1 @ render_text k @ w2 @ [CHR '':''] @ w3 @ render v @ w4 @ ?rest"
    using MCons.prems by simp
  have rest: "value_end ?rest" "?rest \<noteq> []" "\<not> is_json_ws (hd ?rest)"
    by (simp_all add: value_end_def is_json_ws_def)
  have wf: "ws w1" "ws w2" "ws w3" "ws w4" "list_all char_wf k" "val_wf v" "members_wf ms"
    using MCons.prems by simp_all
  note round = member_loop_round [OF wf(1-6) rest doc, of key]
  show ?case
  proof (cases "concat (map render_char k) = key")
    case True
    have "take (length (render v)) (drop ?start doc) = render v" by (simp add: doc)
    with True round show ?thesis by simp
  next
    case False
    show ?thesis
    proof (cases "ms = MNil")
      case True
      with False round show ?thesis by simp
    next
      case more: False
      let ?pre = "pre @ w1 @ render_text k @ w2 @ [CHR '':''] @ w3 @ render v @ w4 @ [CHR '','']"
      have "doc = ?pre @ render_members ms @ [CHR ''}''] @ post" using doc more by simp
      note next_member = MCons.IH [OF wf(7) more this]
      have "member_loop doc key (length pre) = member_loop doc key (length ?pre)"
        using round False more by (simp add: add.assoc)
      with next_member False show ?thesis by (simp only: member_value.simps if_False)
    qed
  qed
qed simp_all

lemma span_exact:
  assumes "val_wf (JObj w ms)" "doc = pre @ render (JObj w ms) @ post"
  shows "case member_value key ms of
       None \<Rightarrow> find_top_level_member_span doc (length pre) key = None
     | Some v \<Rightarrow> \<exists>b e. find_top_level_member_span doc (length pre) key = Some (b, e)
         \<and> take (e - b) (drop b doc) = render v"
proof -
  have start: "find_top_level_member_span doc (length pre) key = member_loop doc key (length (pre @ [CHR ''{'']))"
    by (simp add: find_top_level_member_span_def assms(2) nth_append)
  show ?thesis
  proof (cases "ms = MNil")
    case True
    have "skip_ws doc (length (pre @ [CHR ''{''])) = length (pre @ [CHR ''{''] @ w)"
      using skip_ws_over [of w "CHR ''}'' # post" "pre @ [CHR ''{'']"] assms True by (simp add: is_json_ws_def)
    moreover have "doc ! length (pre @ [CHR ''{''] @ w) = CHR ''}''" by (simp add: assms(2) True nth_append)
    ultimately show ?thesis using True start by (subst (asm) member_loop.simps) simp
  next
    case False
    have "doc = (pre @ [CHR ''{'']) @ render_members ms @ [CHR ''}''] @ post" using assms(2) False by simp
    from member_loop_members [OF _ False this] assms(1) show ?thesis by (simp only: start val_wf.simps)
  qed
qed

end
