(* ===== verification/Json_Encoder.thy ===== *)
theory Json_Encoder
  imports Json_Scan Pdu_Codec E3_Text "HOL-Library.Monad_Syntax" "HOL-Library.List_Lexorder" "HOL-Library.Char_ord"
begin

text \<open>
  The JSON encoder, \<^verbatim>\<open>src/encoder/json_encoder.cpp\<close>. Trees, parsing and dumping belong to the nlohmann
  library: the tree is the datatype \<open>json\<close> of its documented value types, an object being kept in the
  order of its keys, and its functions are the argument \<open>nlohmann\<close>. An exception is \<open>None\<close>.
\<close>

section \<open>Trees\<close>

datatype json =
    JNull
  | JBool bool
  | JUnsigned u64
  | JInteger int
  | JFloat string
  | JString string
  | JArray "json list"
  | JObject "(string \<times> json) list"

record nlohmann =
  nl_accept :: "string \<Rightarrow> bool"
  nl_parse :: "string \<Rightarrow> json option"
  nl_dump :: "json \<Rightarrow> string option"
  nl_u32 :: "json \<Rightarrow> u32 option"
  nl_u64 :: "json \<Rightarrow> u64 option"
  nl_string :: "json \<Rightarrow> string option"

text \<open>Assignment to a member, \<open>update\<close>, and an object from a sequence of assignments.\<close>

fun obj_set :: "string \<Rightarrow> json \<Rightarrow> (string \<times> json) list \<Rightarrow> (string \<times> json) list" where
  "obj_set k v [] = [(k, v)]"
| "obj_set k v ((k', v') # kvs) =
     (if k = k' then (k, v) # kvs
      else if k < k' then (k, v) # (k', v') # kvs
      else (k', v') # obj_set k v kvs)"

definition obj_update :: "(string \<times> json) list \<Rightarrow> (string \<times> json) list \<Rightarrow> (string \<times> json) list" where
  "obj_update root mems = fold (\<lambda>(k, v). obj_set k v) mems root"

text \<open>\<open>find\<close>, \<open>value\<close> with a default, and a member read when it is there.\<close>

fun json_member :: "json \<Rightarrow> string \<Rightarrow> json option" where
  "json_member (JObject kvs) k = map_of kvs k"
| "json_member _ k = None"

fun json_value :: "(json \<Rightarrow> 'a option) \<Rightarrow> json \<Rightarrow> string \<Rightarrow> 'a \<Rightarrow> 'a option" where
  "json_value get (JObject kvs) k dflt = (case map_of kvs k of None \<Rightarrow> Some dflt | Some v \<Rightarrow> get v)"
| "json_value get _ k dflt = None"

definition json_optional :: "(json \<Rightarrow> 'a option) \<Rightarrow> json \<Rightarrow> string \<Rightarrow> 'a option option" where
  "json_optional get j k =
     (case json_member j k of None \<Rightarrow> Some None | Some v \<Rightarrow> map_option Some (get v))"

fun json_ids :: "nlohmann \<Rightarrow> json \<Rightarrow> u32 list option" where
  "json_ids N (JArray l) = those (map (nl_u32 N) l)"
| "json_ids N _ = None"

text \<open>The range a \<open>for\<close> loop over a value runs through.\<close>

fun json_elements :: "json \<Rightarrow> json list" where
  "json_elements (JArray l) = l"
| "json_elements (JObject kvs) = map snd kvs"
| "json_elements JNull = []"
| "json_elements v = [v]"

fun is_container :: "json \<Rightarrow> bool" where
  "is_container (JArray _) = True"
| "is_container (JObject _) = True"
| "is_container _ = False"

section \<open>Encoding\<close>

definition to_camel_case :: "string \<Rightarrow> string" where
  "to_camel_case s =
     (case s of
        [] \<Rightarrow> []
      | c # cs \<Rightarrow>
          (if 65 \<le> (of_char c :: nat) \<and> (of_char c :: nat) \<le> 90 then char_of (of_char c + 32 :: nat) else c) # cs)"

definition is_json_container :: "nlohmann \<Rightarrow> bytes \<Rightarrow> bool" where
  "is_json_container N b =
     (case dropWhile is_json_ws (from_bytes b) of
        [] \<Rightarrow> False
      | c # _ \<Rightarrow> (c = CHR ''{'' \<or> c = CHR ''['') \<and> nl_accept N (from_bytes b))"

definition json_num :: "u32 \<Rightarrow> json" where
  "json_num w = JUnsigned (ucast w)"

definition json_id_list :: "u32 list \<Rightarrow> json" where
  "json_id_list l = JArray (map json_num l)"

definition json_code :: "response_code \<Rightarrow> json" where
  "json_code rc = JString (if rc = POSITIVE then ''positive'' else ''negative'')"

definition json_opt :: "string \<Rightarrow> ('a \<Rightarrow> json) \<Rightarrow> 'a option \<Rightarrow> (string \<times> json) list" where
  "json_opt k f x = (case x of None \<Rightarrow> [] | Some y \<Rightarrow> [(k, f y)])"

definition write_reason :: "cause option \<Rightarrow> string option \<Rightarrow> (string \<times> json) list" where
  "write_reason cause detail =
     json_opt ''cause'' (\<lambda>c. JString (cause_to_string c)) cause @ json_opt ''detail'' JString detail"

definition json_setup_request :: "setup_request \<Rightarrow> (string \<times> json) list" where
  "json_setup_request req =
     [(''e3apProtocolVersion'', JString (sreq_e3ap_protocol_version req)),
      (''dAppName'', JString (sreq_dapp_name req)), (''dAppVersion'', JString (sreq_dapp_version req)),
      (''vendor'', JString (sreq_vendor req))]"

definition json_ran_function :: "nlohmann \<Rightarrow> ran_function_def \<Rightarrow> json option" where
  "json_ran_function N func =
     (if \<not> is_json_container N (rf_ran_function_data func) then None
      else
        map_option (\<lambda>d. JObject (obj_update []
          [(''ranFunctionIdentifier'', json_num (rf_ran_function_identifier func)),
           (''telemetryIdentifierList'', json_id_list (rf_telemetry_identifier_list func)),
           (''controlIdentifierList'', json_id_list (rf_control_identifier_list func)),
           (''ranFunctionData'', d)]))
          (nl_parse N (from_bytes (rf_ran_function_data func))))"

definition json_setup_response :: "nlohmann \<Rightarrow> setup_response \<Rightarrow> (string \<times> json) list option" where
  "json_setup_response N resp =
     map_option (\<lambda>funcs.
       [(''requestId'', json_num (srsp_request_id resp)),
        (''responseCode'', json_code (srsp_response_code resp))]
       @ json_opt ''e3apProtocolVersion'' JString (srsp_e3ap_protocol_version resp)
       @ json_opt ''dAppIdentifier'' json_num (srsp_dapp_identifier resp)
       @ [(''ranIdentifier'', JString (srsp_ran_identifier resp))]
       @ (if srsp_ran_function_list resp \<noteq> [] then [(''ranFunctionList'', JArray funcs)] else [])
       @ write_reason (srsp_cause resp) (srsp_detail resp))
     (those (map (json_ran_function N) (srsp_ran_function_list resp)))"

definition json_subscription_request :: "subscription_request \<Rightarrow> (string \<times> json) list" where
  "json_subscription_request req =
     [(''dAppIdentifier'', json_num (subreq_dapp_identifier req)),
      (''ranFunctionIdentifier'', json_num (subreq_ran_function_identifier req)),
      (''telemetryIdentifierList'', json_id_list (subreq_telemetry_identifier_list req)),
      (''controlIdentifierList'', json_id_list (subreq_control_identifier_list req))]
     @ json_opt ''subscriptionTime'' json_num (subreq_subscription_time req)
     @ json_opt ''periodicity'' json_num (subreq_periodicity req)"

definition json_subscription_delete :: "subscription_delete \<Rightarrow> (string \<times> json) list" where
  "json_subscription_delete del =
     [(''dAppIdentifier'', json_num (subdel_dapp_identifier del)),
      (''subscriptionId'', json_num (subdel_subscription_id del))]"

definition json_subscription_response :: "subscription_response \<Rightarrow> (string \<times> json) list" where
  "json_subscription_response resp =
     [(''requestId'', json_num (subrsp_request_id resp)),
      (''dAppIdentifier'', json_num (subrsp_dapp_identifier resp)),
      (''responseCode'', json_code (subrsp_response_code resp))]
     @ json_opt ''subscriptionId'' json_num (subrsp_subscription_id resp)
     @ json_opt ''telemetryIdentifierList'' json_id_list (subrsp_telemetry_identifier_list resp)
     @ json_opt ''controlIdentifierList'' json_id_list (subrsp_control_identifier_list resp)
     @ json_opt ''ranFunctionIdentifier'' json_num (subrsp_ran_function_identifier resp)
     @ json_opt ''periodicity'' json_num (subrsp_periodicity resp)
     @ write_reason (subrsp_cause resp) (subrsp_detail resp)"

definition json_indication_message :: "nlohmann \<Rightarrow> indication_message \<Rightarrow> (string \<times> json) list option" where
  "json_indication_message N msg =
     (if \<not> nl_accept N (from_bytes (ind_protocol_data msg)) then None
      else Some [(''dAppIdentifier'', json_num (ind_dapp_identifier msg)),
                 (''ranFunctionIdentifier'', json_num (ind_ran_function_identifier msg))])"

definition json_dapp_control_action :: "dapp_control_action \<Rightarrow> (string \<times> json) list" where
  "json_dapp_control_action action =
     [(''dAppIdentifier'', json_num (ctl_dapp_identifier action)),
      (''ranFunctionIdentifier'', json_num (ctl_ran_function_identifier action)),
      (''controlIdentifier'', json_num (ctl_control_identifier action))]
     @ (if ctl_sequence_id action \<noteq> 0 then [(''sequenceId'', json_num (ctl_sequence_id action))] else [])"

definition json_dapp_report :: "dapp_report \<Rightarrow> (string \<times> json) list" where
  "json_dapp_report report =
     [(''dAppIdentifier'', json_num (rep_dapp_identifier report)),
      (''ranFunctionIdentifier'', json_num (rep_ran_function_identifier report)),
      (''sequenceId'', json_num (rep_sequence_id report))]"

definition json_xapp_control_action :: "xapp_control_action \<Rightarrow> (string \<times> json) list" where
  "json_xapp_control_action action =
     [(''dAppIdentifier'', json_num (xca_dapp_identifier action)),
      (''ranFunctionIdentifier'', json_num (xca_ran_function_identifier action)),
      (''sequenceId'', json_num (xca_sequence_id action))]"

definition json_release_message :: "release_message \<Rightarrow> (string \<times> json) list" where
  "json_release_message msg = [(''dAppIdentifier'', json_num (rel_dapp_identifier msg))]"

definition json_message_ack :: "message_ack \<Rightarrow> (string \<times> json) list" where
  "json_message_ack ack =
     [(''requestId'', json_num (ack_request_id ack)), (''responseCode'', json_code (ack_response_code ack))]
     @ write_reason (ack_cause ack) (ack_detail ack)"

text \<open>The visitor: the members of the tree and the payload that is spliced into the dumped text.\<close>

datatype splice = NoPayload | ProtocolData string | RawMember string string

definition raw_member :: "nlohmann \<Rightarrow> (string \<times> json) list \<Rightarrow> string \<Rightarrow> bytes
    \<Rightarrow> ((string \<times> json) list \<times> splice) option" where
  "raw_member N mems key data =
     (if is_json_container N data then Some (mems, RawMember key (from_bytes data)) else None)"

fun json_fields :: "nlohmann \<Rightarrow> pdu_choice \<Rightarrow> ((string \<times> json) list \<times> splice) option" where
  "json_fields N (SetupRequest s) = Some (json_setup_request s, NoPayload)"
| "json_fields N (SetupResponse s) = map_option (\<lambda>f. (f, NoPayload)) (json_setup_response N s)"
| "json_fields N (SubscriptionRequest s) = Some (json_subscription_request s, NoPayload)"
| "json_fields N (SubscriptionDelete s) = Some (json_subscription_delete s, NoPayload)"
| "json_fields N (SubscriptionResponse s) = Some (json_subscription_response s, NoPayload)"
| "json_fields N (IndicationMessage s) =
     map_option (\<lambda>f. (f, ProtocolData (from_bytes (ind_protocol_data s)))) (json_indication_message N s)"
| "json_fields N (DAppControlAction s) =
     raw_member N (json_dapp_control_action s) ''actionData'' (ctl_action_data s)"
| "json_fields N (DAppReport s) = raw_member N (json_dapp_report s) ''reportData'' (rep_report_data s)"
| "json_fields N (XAppControlAction s) =
     raw_member N (json_xapp_control_action s) ''xAppControlData'' (xca_xapp_control_data s)"
| "json_fields N (ReleaseMessage s) = Some (json_release_message s, NoPayload)"
| "json_fields N (MessageAck s) = Some (json_message_ack s, NoPayload)"

definition json_envelope :: "pdu \<Rightarrow> (string \<times> json) list" where
  "json_envelope p =
     obj_update []
       [(''type'', JString (to_camel_case (pdu_type_to_string (pdu_type_of p)))),
        (''id'', json_num (pdu_message_id p)), (''timestamp'', JUnsigned (pdu_timestamp p))]"


definition quoted :: "string \<Rightarrow> string" where
  "quoted k = [CHR 0x22] @ k @ [CHR 0x22]"

fun splice_text :: "splice \<Rightarrow> string \<Rightarrow> string option" where
  "splice_text NoPayload s = Some s"
| "splice_text (ProtocolData raw) s =
     (case find_text (quoted ''ranFunctionIdentifier'') s of
        None \<Rightarrow> None
      | Some pos \<Rightarrow> Some (take pos s @ quoted ''protocolData'' @ '':'' @ raw @ '','' @ drop pos s))"
| "splice_text (RawMember key raw) s = Some (butlast s @ '','' @ quoted key @ '':'' @ raw @ ''}'')"

definition json_encode :: "nlohmann \<Rightarrow> pdu \<Rightarrow> bytes option" where
  "json_encode N p =
     do {
       (mems, payload) \<leftarrow> json_fields N (pdu_choice_of p);
       json_str \<leftarrow> nl_dump N (JObject (obj_update (json_envelope p) mems));
       s \<leftarrow> splice_text payload json_str;
       Some (to_bytes s)
     }"

section \<open>Decoding\<close>

definition string_to_pdu_type :: "string \<Rightarrow> pdu_type option" where
  "string_to_pdu_type s =
     (if s = ''setupRequest'' then Some SETUP_REQUEST
      else if s = ''setupResponse'' then Some SETUP_RESPONSE
      else if s = ''subscriptionRequest'' then Some SUBSCRIPTION_REQUEST
      else if s = ''subscriptionDelete'' then Some SUBSCRIPTION_DELETE
      else if s = ''subscriptionResponse'' then Some SUBSCRIPTION_RESPONSE
      else if s = ''indicationMessage'' then Some INDICATION_MESSAGE
      else if s = ''dAppControlAction'' then Some DAPP_CONTROL_ACTION
      else if s = ''dAppReport'' then Some DAPP_REPORT
      else if s = ''xAppControlAction'' then Some XAPP_CONTROL_ACTION
      else if s = ''releaseMessage'' then Some RELEASE_MESSAGE
      else if s = ''messageAck'' then Some MESSAGE_ACK
      else None)"

definition string_to_error_code :: "string \<Rightarrow> error_code" where
  "string_to_error_code s =
     (if s = ''SUCCESS'' then SUCCESS
      else if s = ''INVALID_PARAM'' then INVALID_PARAM
      else if s = ''TIMEOUT'' then TIMEOUT
      else if s = ''NOT_FOUND'' then NOT_FOUND
      else GENERIC_ERROR)"

definition read_code :: "nlohmann \<Rightarrow> json \<Rightarrow> response_code option" where
  "read_code N j =
     map_option (\<lambda>s. if s = ''positive'' then POSITIVE else NEGATIVE)
       (json_value (nl_string N) j ''responseCode'' ''negative'')"

definition read_cause :: "json \<Rightarrow> cause option" where
  "read_cause j = (case json_member j ''cause'' of Some (JString c) \<Rightarrow> Some (cause_from_string c) | _ \<Rightarrow> None)"

definition read_detail :: "json \<Rightarrow> string option" where
  "read_detail j =
     (case json_member j ''detail'' of
        Some (JString d) \<Rightarrow> Some d
      | _ \<Rightarrow> (case json_member j ''message'' of Some (JString m) \<Rightarrow> Some m | _ \<Rightarrow> None))"

definition payload_from_json :: "nlohmann \<Rightarrow> json \<Rightarrow> bytes option" where
  "payload_from_json N v = (if is_container v then map_option to_bytes (nl_dump N v) else None)"

definition cut :: "string \<Rightarrow> nat \<times> nat \<Rightarrow> bytes" where
  "cut raw = (\<lambda>(b, e). to_bytes (take (e - b) (drop b raw)))"

text \<open>\<open>find_first_not_of\<close> the white space, then the scan for the member.\<close>

definition scan_member :: "string \<Rightarrow> string \<Rightarrow> (nat \<times> nat) option" where
  "scan_member raw key =
     (let obj_start = length (takeWhile is_json_ws raw)
      in if obj_start = length raw then None else find_top_level_member_span raw obj_start key)"

definition payload_member :: "nlohmann \<Rightarrow> json \<Rightarrow> string \<Rightarrow> string \<Rightarrow> bytes option" where
  "payload_member N j raw key =
     (case json_member j key of
        None \<Rightarrow> Some []
      | Some v \<Rightarrow>
          (case (if is_container v then scan_member raw key else None) of
             Some sp \<Rightarrow> Some (cut raw sp)
           | None \<Rightarrow> payload_from_json N v))"

definition read_setup_request :: "nlohmann \<Rightarrow> json \<Rightarrow> setup_request option" where
  "read_setup_request N j =
     do {
       version \<leftarrow> json_value (nl_string N) j ''e3apProtocolVersion'' [];
       name \<leftarrow> json_value (nl_string N) j ''dAppName'' [];
       dapp_version \<leftarrow> json_value (nl_string N) j ''dAppVersion'' [];
       vendor \<leftarrow> json_value (nl_string N) j ''vendor'' [];
       Some \<lparr>sreq_e3ap_protocol_version = version, sreq_dapp_name = name,
             sreq_dapp_version = dapp_version, sreq_vendor = vendor\<rparr>
     }"

definition read_ran_function :: "nlohmann \<Rightarrow> json \<Rightarrow> ran_function_def option" where
  "read_ran_function N f =
     do {
       rf \<leftarrow> json_value (nl_u32 N) f ''ranFunctionIdentifier'' 0;
       tids \<leftarrow> json_value (json_ids N) f ''telemetryIdentifierList'' [];
       cids \<leftarrow> json_value (json_ids N) f ''controlIdentifierList'' [];
       data \<leftarrow> (case json_member f ''ranFunctionData'' of None \<Rightarrow> Some [] | Some v \<Rightarrow> payload_from_json N v);
       Some \<lparr>rf_ran_function_identifier = rf, rf_telemetry_identifier_list = tids,
             rf_control_identifier_list = cids, rf_ran_function_data = data\<rparr>
     }"

definition read_setup_response :: "nlohmann \<Rightarrow> json \<Rightarrow> setup_response option" where
  "read_setup_response N j =
     do {
       rid \<leftarrow> json_value (nl_u32 N) j ''requestId'' 0;
       code \<leftarrow> read_code N j;
       version \<leftarrow> json_optional (nl_string N) j ''e3apProtocolVersion'';
       dapp \<leftarrow> json_optional (nl_u32 N) j ''dAppIdentifier'';
       ran \<leftarrow> json_value (nl_string N) j ''ranIdentifier'' [];
       funcs \<leftarrow> (case json_member j ''ranFunctionList'' of
                   None \<Rightarrow> Some []
                 | Some l \<Rightarrow> those (map (read_ran_function N) (json_elements l)));
       Some \<lparr>srsp_request_id = rid, srsp_response_code = code, srsp_e3ap_protocol_version = version,
             srsp_dapp_identifier = dapp, srsp_ran_identifier = ran, srsp_ran_function_list = funcs,
             srsp_cause = read_cause j, srsp_detail = read_detail j\<rparr>
     }"

definition read_subscription_request :: "nlohmann \<Rightarrow> json \<Rightarrow> subscription_request option" where
  "read_subscription_request N j =
     do {
       d \<leftarrow> json_value (nl_u32 N) j ''dAppIdentifier'' 0;
       rf \<leftarrow> json_value (nl_u32 N) j ''ranFunctionIdentifier'' 0;
       tids \<leftarrow> json_value (json_ids N) j ''telemetryIdentifierList'' [];
       cids \<leftarrow> json_value (json_ids N) j ''controlIdentifierList'' [];
       tm \<leftarrow> json_optional (nl_u32 N) j ''subscriptionTime'';
       per \<leftarrow> json_optional (nl_u32 N) j ''periodicity'';
       Some \<lparr>subreq_dapp_identifier = d, subreq_ran_function_identifier = rf,
             subreq_telemetry_identifier_list = tids, subreq_control_identifier_list = cids,
             subreq_subscription_time = tm, subreq_periodicity = per\<rparr>
     }"

definition read_subscription_delete :: "nlohmann \<Rightarrow> json \<Rightarrow> subscription_delete option" where
  "read_subscription_delete N j =
     do {
       d \<leftarrow> json_value (nl_u32 N) j ''dAppIdentifier'' 0;
       sid \<leftarrow> json_value (nl_u32 N) j ''subscriptionId'' 0;
       Some \<lparr>subdel_dapp_identifier = d, subdel_subscription_id = sid\<rparr>
     }"

definition read_ids :: "nlohmann \<Rightarrow> json \<Rightarrow> string \<Rightarrow> string \<Rightarrow> u32 list option option" where
  "read_ids N j name alias =
     (case (case json_member j name of None \<Rightarrow> json_member j alias | Some v \<Rightarrow> Some v) of
        None \<Rightarrow> Some None
      | Some v \<Rightarrow> map_option Some (json_ids N v))"

definition read_subscription_response :: "nlohmann \<Rightarrow> json \<Rightarrow> subscription_response option" where
  "read_subscription_response N j =
     do {
       rid \<leftarrow> json_value (nl_u32 N) j ''requestId'' 0;
       d \<leftarrow> json_value (nl_u32 N) j ''dAppIdentifier'' 0;
       code \<leftarrow> read_code N j;
       sid \<leftarrow> json_optional (nl_u32 N) j ''subscriptionId'';
       tids \<leftarrow> read_ids N j ''telemetryIdentifierList'' ''telemetryGrantedList'';
       cids \<leftarrow> read_ids N j ''controlIdentifierList'' ''controlGrantedList'';
       rf \<leftarrow> json_optional (nl_u32 N) j ''ranFunctionIdentifier'';
       per \<leftarrow> json_optional (nl_u32 N) j ''periodicity'';
       Some \<lparr>subrsp_request_id = rid, subrsp_dapp_identifier = d, subrsp_response_code = code,
             subrsp_subscription_id = sid, subrsp_telemetry_identifier_list = tids,
             subrsp_control_identifier_list = cids, subrsp_ran_function_identifier = rf,
             subrsp_periodicity = per, subrsp_cause = read_cause j, subrsp_detail = read_detail j\<rparr>
     }"

definition read_dapp_control_action :: "nlohmann \<Rightarrow> json \<Rightarrow> string \<Rightarrow> dapp_control_action option" where
  "read_dapp_control_action N j raw =
     do {
       d \<leftarrow> json_value (nl_u32 N) j ''dAppIdentifier'' 0;
       rf \<leftarrow> json_value (nl_u32 N) j ''ranFunctionIdentifier'' 0;
       cid \<leftarrow> json_value (nl_u32 N) j ''controlIdentifier'' 0;
       sq \<leftarrow> json_value (nl_u32 N) j ''sequenceId'' 0;
       data \<leftarrow> payload_member N j raw ''actionData'';
       Some \<lparr>ctl_dapp_identifier = d, ctl_ran_function_identifier = rf, ctl_control_identifier = cid,
             ctl_action_data = data, ctl_sequence_id = sq\<rparr>
     }"

definition read_dapp_report :: "nlohmann \<Rightarrow> json \<Rightarrow> string \<Rightarrow> dapp_report option" where
  "read_dapp_report N j raw =
     do {
       d \<leftarrow> json_value (nl_u32 N) j ''dAppIdentifier'' 0;
       rf \<leftarrow> json_value (nl_u32 N) j ''ranFunctionIdentifier'' 0;
       sq \<leftarrow> json_value (nl_u32 N) j ''sequenceId'' 0;
       data \<leftarrow> payload_member N j raw ''reportData'';
       Some \<lparr>rep_dapp_identifier = d, rep_ran_function_identifier = rf, rep_report_data = data,
             rep_sequence_id = sq, rep_recv_seq = 0\<rparr>
     }"

definition read_xapp_control_action :: "nlohmann \<Rightarrow> json \<Rightarrow> string \<Rightarrow> xapp_control_action option" where
  "read_xapp_control_action N j raw =
     do {
       d \<leftarrow> json_value (nl_u32 N) j ''dAppIdentifier'' 0;
       rf \<leftarrow> json_value (nl_u32 N) j ''ranFunctionIdentifier'' 0;
       sq \<leftarrow> json_value (nl_u32 N) j ''sequenceId'' 0;
       data \<leftarrow> payload_member N j raw ''xAppControlData'';
       Some \<lparr>xca_dapp_identifier = d, xca_ran_function_identifier = rf, xca_xapp_control_data = data,
             xca_sequence_id = sq, xca_message_id = 0\<rparr>
     }"

definition read_release_message :: "nlohmann \<Rightarrow> json \<Rightarrow> release_message option" where
  "read_release_message N j =
     map_option (\<lambda>d. \<lparr>rel_dapp_identifier = d\<rparr>) (json_value (nl_u32 N) j ''dAppIdentifier'' 0)"

definition read_message_ack :: "nlohmann \<Rightarrow> json \<Rightarrow> message_ack option" where
  "read_message_ack N j =
     do {
       rid \<leftarrow> json_value (nl_u32 N) j ''requestId'' 0;
       code \<leftarrow> read_code N j;
       Some \<lparr>ack_request_id = rid, ack_response_code = code, ack_cause = read_cause j,
             ack_detail = read_detail j\<rparr>
     }"

text \<open>
  The result of a decode. \<open>Undefined\<close> is the read of a member that is not there through the constant
  subscript operator, which the library leaves undefined.
\<close>

datatype 'a json_outcome = Decoded 'a | DecodeFailed | Undefined

fun outcome :: "'a option \<Rightarrow> 'a json_outcome" where
  "outcome None = DecodeFailed"
| "outcome (Some x) = Decoded x"

definition read_indication_message :: "nlohmann \<Rightarrow> json \<Rightarrow> string \<Rightarrow> indication_message json_outcome" where
  "read_indication_message N j raw =
     (case (json_value (nl_u32 N) j ''dAppIdentifier'' 0, json_value (nl_u32 N) j ''ranFunctionIdentifier'' 0) of
        (Some d, Some rf) \<Rightarrow>
          (case scan_member raw ''protocolData'' of
             Some sp \<Rightarrow> Decoded \<lparr>ind_dapp_identifier = d, ind_ran_function_identifier = rf,
                                  ind_protocol_data = cut raw sp\<rparr>
           | None \<Rightarrow>
               (case json_member j ''protocolData'' of
                  None \<Rightarrow> Undefined
                | Some v \<Rightarrow>
                    outcome (map_option (\<lambda>s. \<lparr>ind_dapp_identifier = d, ind_ran_function_identifier = rf,
                                              ind_protocol_data = to_bytes s\<rparr>) (nl_dump N v))))
      | _ \<Rightarrow> DecodeFailed)"

fun json_choice :: "nlohmann \<Rightarrow> json \<Rightarrow> string \<Rightarrow> pdu_type \<Rightarrow> pdu_choice json_outcome" where
  "json_choice N j raw SETUP_REQUEST = outcome (map_option SetupRequest (read_setup_request N j))"
| "json_choice N j raw SETUP_RESPONSE = outcome (map_option SetupResponse (read_setup_response N j))"
| "json_choice N j raw SUBSCRIPTION_REQUEST =
     outcome (map_option SubscriptionRequest (read_subscription_request N j))"
| "json_choice N j raw SUBSCRIPTION_DELETE =
     outcome (map_option SubscriptionDelete (read_subscription_delete N j))"
| "json_choice N j raw SUBSCRIPTION_RESPONSE =
     outcome (map_option SubscriptionResponse (read_subscription_response N j))"
| "json_choice N j raw INDICATION_MESSAGE = map_json_outcome IndicationMessage (read_indication_message N j raw)"
| "json_choice N j raw DAPP_CONTROL_ACTION =
     outcome (map_option DAppControlAction (read_dapp_control_action N j raw))"
| "json_choice N j raw DAPP_REPORT = outcome (map_option DAppReport (read_dapp_report N j raw))"
| "json_choice N j raw XAPP_CONTROL_ACTION =
     outcome (map_option XAppControlAction (read_xapp_control_action N j raw))"
| "json_choice N j raw RELEASE_MESSAGE = outcome (map_option ReleaseMessage (read_release_message N j))"
| "json_choice N j raw MESSAGE_ACK = outcome (map_option MessageAck (read_message_ack N j))"

definition json_decode :: "nlohmann \<Rightarrow> bytes \<Rightarrow> pdu json_outcome" where
  "json_decode N data =
     (if data = [] then DecodeFailed
      else
        let raw = from_bytes data in
        case nl_parse N raw of
          None \<Rightarrow> DecodeFailed
        | Some root \<Rightarrow>
            (case Option.bind (json_value (nl_string N) root ''type'' []) string_to_pdu_type of
               None \<Rightarrow> DecodeFailed
             | Some t \<Rightarrow>
                 (case (json_value (nl_u32 N) root ''id'' 0, json_value (nl_u64 N) root ''timestamp'' 0) of
                    (Some i, Some ts) \<Rightarrow>
                      if json_member root ''data'' \<noteq> None then DecodeFailed
                      else
                        map_json_outcome (\<lambda>c. \<lparr>pdu_type_of = t, pdu_choice_of = c, pdu_message_id = i,
                                                pdu_enqueue_seq = 0, pdu_timestamp = ts\<rparr>)
                          (json_choice N root raw t)
                  | _ \<Rightarrow> DecodeFailed)))"

end
