(* ===== verification/Json_Props.thy ===== *)
theory Json_Props
  imports Json_Encoder E3_Text "HOL-Library.Code_Target_Nat"
begin

text \<open>
  Round trip of the JSON encoder. The contract of the library is \<open>nlohmann_ok\<close>; the tree a frame stands
  for is \<open>json_tree\<close>. Payloads come back byte by byte, without the white space around them.
\<close>

section \<open>The contract of the library\<close>

fun compact :: "(string \<times> jval) list \<Rightarrow> jmembers" where
  "compact [] = MNil"
| "compact ((k, v) # kvs) = MCons [] (map Plain k) [] [] v [] (compact kvs)"

definition plain_key :: "string \<Rightarrow> bool" where
  "plain_key k \<longleftrightarrow> list_all (\<lambda>c. char_wf (Plain c)) k"

definition json_text :: "string \<Rightarrow> bool" where
  "json_text s \<longleftrightarrow> (\<exists>w1 v w2. ws w1 \<and> val_wf v \<and> ws w2 \<and> s = w1 @ render v @ w2)"

text \<open>
  Unsigned numbers and strings read back as they were stored; numbers print in decimal and an object
  prints its members in order without white space; only JSON texts are accepted; a text that opens
  with a bracket is read as an object or array.
\<close>

definition nlohmann_ok :: "nlohmann \<Rightarrow> bool" where
  "nlohmann_ok N \<longleftrightarrow>
     (\<forall>w. nl_u32 N (json_num w) = Some w) \<and> (\<forall>w. nl_u64 N (JUnsigned w) = Some w)
     \<and> (\<forall>s. nl_string N (JString s) = Some s)
     \<and> (\<forall>w s. nl_dump N (JUnsigned w) = Some s \<longrightarrow> s = decimal (unat w))
     \<and> (\<forall>kvs s. nl_dump N (JObject kvs) = Some s \<longrightarrow> list_all plain_key (map fst kvs) \<longrightarrow>
          (\<exists>vs. list_all2 (\<lambda>kv v. val_wf v \<and> nl_dump N (snd kv) = Some (render v)) kvs vs
             \<and> s = render (JObj [] (compact (zip (map fst kvs) vs)))))
     \<and> (\<forall>s. nl_accept N s \<longrightarrow> json_text s \<and> nl_parse N s \<noteq> None)
     \<and> (\<forall>s v c cs. nl_parse N s = Some v \<longrightarrow> dropWhile is_json_ws s = c # cs \<longrightarrow> c \<in> {CHR ''{'', CHR ''[''} \<longrightarrow>
          is_container v)"

text \<open>The tree of a frame: the envelope, the members of the message, and the payload as a member.\<close>

definition json_tree :: "nlohmann \<Rightarrow> pdu \<Rightarrow> json option" where
  "json_tree N p =
     do {
       (mems, payload) \<leftarrow> json_fields N (pdu_choice_of p);
       let root = obj_update (json_envelope p) mems;
       (case payload of
          NoPayload \<Rightarrow> Some (JObject root)
        | ProtocolData raw \<Rightarrow> map_option (\<lambda>v. JObject (obj_set ''protocolData'' v root)) (nl_parse N raw)
        | RawMember key raw \<Rightarrow> map_option (\<lambda>v. JObject (obj_set key v root)) (nl_parse N raw))
     }"

text \<open>What arrives: the payload without the white space around it.\<close>

definition trim :: "bytes \<Rightarrow> bytes" where
  "trim b = to_bytes (rev (dropWhile is_json_ws (rev (dropWhile is_json_ws (from_bytes b)))))"

fun trim_payload :: "pdu_choice \<Rightarrow> pdu_choice" where
  "trim_payload (IndicationMessage m) = IndicationMessage (m\<lparr>ind_protocol_data := trim (ind_protocol_data m)\<rparr>)"
| "trim_payload (DAppControlAction m) = DAppControlAction (m\<lparr>ctl_action_data := trim (ctl_action_data m)\<rparr>)"
| "trim_payload (DAppReport m) = DAppReport (m\<lparr>rep_report_data := trim (rep_report_data m)\<rparr>)"
| "trim_payload (XAppControlAction m) =
     XAppControlAction (m\<lparr>xca_xapp_control_data := trim (xca_xapp_control_data m)\<rparr>)"
| "trim_payload c = c"

text \<open>RAN function data goes through the tree and so must be written the way the library prints it.\<close>

fun canonical :: "nlohmann \<Rightarrow> pdu_choice \<Rightarrow> bool" where
  "canonical N (SetupResponse s) \<longleftrightarrow>
     list_all (\<lambda>rf. Option.bind (nl_parse N (from_bytes (rf_ran_function_data rf))) (nl_dump N)
                    = Some (from_bytes (rf_ran_function_data rf))) (srsp_ran_function_list s)"
| "canonical N _ \<longleftrightarrow> True"

section \<open>Members\<close>

lemma map_of_obj_set [simp]: "map_of (obj_set k v kvs) x = (if x = k then Some v else map_of kvs x)"
  by (induction k v kvs rule: obj_set.induct) auto

lemma map_of_obj_update:
  "map_of (obj_update root mems) x = (case map_of (rev mems) x of None \<Rightarrow> map_of root x | Some v \<Rightarrow> Some v)"
proof (induction mems arbitrary: root)
  case (Cons m mems)
  obtain k v where "m = (k, v)" by (cases m)
  then show ?case
    using Cons.IH [of "obj_set k v root"] by (auto simp: obj_update_def map_add_def split: option.splits)
qed (simp add: obj_update_def)

lemma map_of_json_opt [simp]: "map_of (json_opt k f x) y = (if y = k then map_option f x else None)"
  "map_of (rev (json_opt k f x)) y = (if y = k then map_option f x else None)"
  by (auto simp: json_opt_def split: option.splits)

definition first_of :: "'a option \<Rightarrow> 'a option \<Rightarrow> 'a option" where
  "first_of x y = (case x of None \<Rightarrow> y | Some v \<Rightarrow> Some v)"

lemma first_of_simps [simp]: "first_of None y = y" "first_of (Some v) y = Some v" "first_of x None = x"
  by (auto simp: first_of_def split: option.splits)

lemma lookup_append: "map_of (xs @ ys) k = first_of (map_of xs k) (map_of ys k)"
  by (simp add: first_of_def map_add_def)

lemma json_value_member:
  "json_value get (JObject kvs) k d = (case map_of kvs k of None \<Rightarrow> Some d | Some v \<Rightarrow> get v)"
  by simp

lemma json_optional_member:
  assumes "map_of kvs k = map_option f x" "\<And>y. get (f y) = Some y"
  shows "json_optional get (JObject kvs) k = Some x"
  using assms by (cases x) (simp_all add: json_optional_def)

lemma those_map_Some: "(\<And>x. x \<in> set l \<Longrightarrow> f (g x) = Some x) \<Longrightarrow> those (map f (map g l)) = Some l"
  by (induction l) auto

lemma nl_ids: "nlohmann_ok N \<Longrightarrow> json_ids N (json_id_list l) = Some l"
  using those_map_Some [of l "nl_u32 N" json_num] by (simp add: json_id_list_def nlohmann_ok_def)

lemma camel_case_type: "string_to_pdu_type (to_camel_case (pdu_type_to_string t)) = Some t"
  by (cases t; hypsubst; code_simp)

text \<open>An object that holds the members of a message, apart from the envelope and the payload.\<close>

definition carries :: "(string \<times> json) list \<Rightarrow> (string \<times> json) list \<Rightarrow> string \<Rightarrow> bool" where
  "carries kvs mems pk \<longleftrightarrow>
     (\<forall>k. k \<notin> {''type'', ''id'', ''timestamp'', pk} \<longrightarrow> map_of kvs k = map_of (rev mems) k)"

lemma carriesD: "carries kvs mems pk \<Longrightarrow> k \<notin> {''type'', ''id'', ''timestamp'', pk} \<Longrightarrow> map_of kvs k = map_of (rev mems) k"
  by (simp add: carries_def)

declare map_of_append [simp del] lookup_append [simp]

lemma nl_reads:
  assumes "nlohmann_ok N"
  shows "nl_u32 N (json_num w) = Some w" "nl_u64 N (JUnsigned x) = Some x" "nl_string N (JString s) = Some s"
    "json_ids N (json_id_list l) = Some l"
  using assms nl_ids by (auto simp: nlohmann_ok_def)

lemma read_code_carried:
  assumes "nlohmann_ok N" "map_of kvs ''responseCode'' = Some (json_code rc)"
  shows "read_code N (JObject kvs) = Some rc"
  using assms by (cases rc) (simp_all add: read_code_def json_code_def nlohmann_ok_def)

lemma read_reason_carried:
  assumes "map_of kvs ''cause'' = map_option (\<lambda>c. JString (cause_to_string c)) cause"
    "map_of kvs ''detail'' = map_option JString detail" "map_of kvs ''message'' = None"
  shows "read_cause (JObject kvs) = cause" "read_detail (JObject kvs) = detail"
  using assms by (cases cause; cases detail; simp add: read_cause_def read_detail_def cause_from_string_to_string)+

lemma reads_setup_request:
  assumes "nlohmann_ok N" "carries kvs (json_setup_request s) ''type''"
  shows "read_setup_request N (JObject kvs) = Some s"
  by (simp add: read_setup_request_def nl_reads [OF assms(1)] carriesD [OF assms(2)] json_setup_request_def)

lemma reads_release_message:
  assumes "nlohmann_ok N" "carries kvs (json_release_message s) ''type''"
  shows "read_release_message N (JObject kvs) = Some s"
  by (simp add: read_release_message_def nl_reads [OF assms(1)] carriesD [OF assms(2)] json_release_message_def)

lemma reads_subscription_delete:
  assumes "nlohmann_ok N" "carries kvs (json_subscription_delete s) ''type''"
  shows "read_subscription_delete N (JObject kvs) = Some s"
  by (simp add: read_subscription_delete_def nl_reads [OF assms(1)] carriesD [OF assms(2)] json_subscription_delete_def)

lemma reads_message_ack:
  assumes "nlohmann_ok N" "carries kvs (json_message_ack s) ''type''"
  shows "read_message_ack N (JObject kvs) = Some s"
proof -
  note m = carriesD [OF assms(2)]
  have "read_code N (JObject kvs) = Some (ack_response_code s)"
    by (rule read_code_carried [OF assms(1)]) (simp add: m json_message_ack_def write_reason_def)
  moreover have "read_cause (JObject kvs) = ack_cause s" "read_detail (JObject kvs) = ack_detail s"
    by (rule read_reason_carried [where cause = "ack_cause s" and detail = "ack_detail s"];
        simp add: m json_message_ack_def write_reason_def)+
  ultimately show ?thesis
    by (simp add: read_message_ack_def nl_reads [OF assms(1)] m json_message_ack_def write_reason_def)
qed

lemma reads_subscription_request:
  assumes "nlohmann_ok N" "carries kvs (json_subscription_request s) ''type''"
  shows "read_subscription_request N (JObject kvs) = Some s"
proof -
  note m = carriesD [OF assms(2)]
  have "json_optional (nl_u32 N) (JObject kvs) ''subscriptionTime'' = Some (subreq_subscription_time s)"
    "json_optional (nl_u32 N) (JObject kvs) ''periodicity'' = Some (subreq_periodicity s)"
    by (rule json_optional_member [where f = json_num];
        simp add: m json_subscription_request_def nl_reads [OF assms(1)])+
  then show ?thesis
    by (simp add: read_subscription_request_def nl_reads [OF assms(1)] m json_subscription_request_def)
qed

lemma read_ids_carried:
  assumes "nlohmann_ok N" "map_of kvs name = map_option json_id_list x" "map_of kvs alias = None"
  shows "read_ids N (JObject kvs) name alias = Some x"
  using assms by (cases x) (simp_all add: read_ids_def nl_reads)

lemma reads_subscription_response:
  assumes "nlohmann_ok N" "carries kvs (json_subscription_response s) ''type''"
  shows "read_subscription_response N (JObject kvs) = Some s"
proof -
  note m = carriesD [OF assms(2)]
  note enc = json_subscription_response_def write_reason_def
  have "read_code N (JObject kvs) = Some (subrsp_response_code s)"
    by (rule read_code_carried [OF assms(1)]) (simp add: m enc)
  moreover have "read_cause (JObject kvs) = subrsp_cause s" "read_detail (JObject kvs) = subrsp_detail s"
    by (rule read_reason_carried [where cause = "subrsp_cause s" and detail = "subrsp_detail s"]; simp add: m enc)+
  moreover have "json_optional (nl_u32 N) (JObject kvs) ''subscriptionId'' = Some (subrsp_subscription_id s)"
    "json_optional (nl_u32 N) (JObject kvs) ''ranFunctionIdentifier'' = Some (subrsp_ran_function_identifier s)"
    "json_optional (nl_u32 N) (JObject kvs) ''periodicity'' = Some (subrsp_periodicity s)"
    by (rule json_optional_member [where f = json_num]; simp add: m enc nl_reads [OF assms(1)])+
  moreover have "read_ids N (JObject kvs) ''telemetryIdentifierList'' ''telemetryGrantedList''
      = Some (subrsp_telemetry_identifier_list s)"
    "read_ids N (JObject kvs) ''controlIdentifierList'' ''controlGrantedList'' = Some (subrsp_control_identifier_list s)"
    by (rule read_ids_carried [OF assms(1)]; simp add: m enc)+
  ultimately show ?thesis
    by (simp add: read_subscription_response_def nl_reads [OF assms(1)] m enc)
qed

lemma reads_ran_function:
  assumes N: "nlohmann_ok N" and f: "json_ran_function N rf = Some j"
    and canon: "Option.bind (nl_parse N (from_bytes (rf_ran_function_data rf))) (nl_dump N)
      = Some (from_bytes (rf_ran_function_data rf))"
  shows "read_ran_function N j = Some rf"
proof -
  obtain d where d: "nl_parse N (from_bytes (rf_ran_function_data rf)) = Some d"
    and c: "is_json_container N (rf_ran_function_data rf)"
    and j: "j = JObject (obj_update []
          [(''ranFunctionIdentifier'', json_num (rf_ran_function_identifier rf)),
           (''telemetryIdentifierList'', json_id_list (rf_telemetry_identifier_list rf)),
           (''controlIdentifierList'', json_id_list (rf_control_identifier_list rf)),
           (''ranFunctionData'', d)])"
    using f by (auto simp: json_ran_function_def split: if_splits)
  have "is_container d"
    using c d N by (auto simp: is_json_container_def nlohmann_ok_def split: list.splits)
  moreover have "nl_dump N d = Some (from_bytes (rf_ran_function_data rf))" using canon d by simp
  ultimately show ?thesis
    by (simp add: read_ran_function_def j map_of_obj_update payload_from_json_def nl_reads [OF N])
qed

lemma those_reads:
  assumes "those (map f l) = Some js" "\<And>x j. x \<in> set l \<Longrightarrow> f x = Some j \<Longrightarrow> g j = Some x"
  shows "those (map g js) = Some l"
  using assms by (induction l arbitrary: js) (fastforce split: option.splits)+

lemma reads_setup_response:
  assumes N: "nlohmann_ok N" and mems: "json_setup_response N s = Some mems"
    and c: "carries kvs mems ''type''" and canon: "canonical N (SetupResponse s)"
  shows "read_setup_response N (JObject kvs) = Some s"
proof -
  obtain js where js: "those (map (json_ran_function N) (srsp_ran_function_list s)) = Some js"
    using mems by (auto simp: json_setup_response_def)
  note m = carriesD [OF c]
  have enc: "mems = [(''requestId'', json_num (srsp_request_id s)), (''responseCode'', json_code (srsp_response_code s))]
       @ json_opt ''e3apProtocolVersion'' JString (srsp_e3ap_protocol_version s)
       @ json_opt ''dAppIdentifier'' json_num (srsp_dapp_identifier s)
       @ [(''ranIdentifier'', JString (srsp_ran_identifier s))]
       @ (if srsp_ran_function_list s \<noteq> [] then [(''ranFunctionList'', JArray js)] else [])
       @ write_reason (srsp_cause s) (srsp_detail s)"
    using mems js by (simp add: json_setup_response_def)
  have funcs: "those (map (read_ran_function N) js) = Some (srsp_ran_function_list s)"
    using canon by (intro those_reads [OF js]) (auto intro: reads_ran_function [OF N] simp: list_all_iff)
  have "read_code N (JObject kvs) = Some (srsp_response_code s)"
    by (rule read_code_carried [OF N]) (simp add: m enc write_reason_def)
  moreover have "read_cause (JObject kvs) = srsp_cause s" "read_detail (JObject kvs) = srsp_detail s"
    by (rule read_reason_carried [where cause = "srsp_cause s" and detail = "srsp_detail s"]; simp add: m enc write_reason_def)+
  moreover have "json_optional (nl_u32 N) (JObject kvs) ''dAppIdentifier'' = Some (srsp_dapp_identifier s)"
    by (rule json_optional_member [where f = json_num]; simp add: m enc write_reason_def nl_reads [OF N])
  moreover have "json_optional (nl_string N) (JObject kvs) ''e3apProtocolVersion'' = Some (srsp_e3ap_protocol_version s)"
    by (rule json_optional_member [where f = JString]; simp add: m enc write_reason_def nl_reads [OF N])
  moreover have "(case map_of kvs ''ranFunctionList'' of None \<Rightarrow> Some []
      | Some l \<Rightarrow> those (map (read_ran_function N) (json_elements l))) = Some (srsp_ran_function_list s)"
    using funcs by (simp add: m enc write_reason_def)
  ultimately show ?thesis
    by (simp add: read_setup_response_def nl_reads [OF N] m enc write_reason_def)
qed

section \<open>Payloads\<close>

primrec mappend :: "jmembers \<Rightarrow> jmembers \<Rightarrow> jmembers" where
  "mappend MNil ms' = ms'"
| "mappend (MCons w1 k w2 w3 v w4 ms) ms' = MCons w1 k w2 w3 v w4 (mappend ms ms')"

lemma mappend_MNil [simp]: "mappend ms ms' = MNil \<longleftrightarrow> ms = MNil \<and> ms' = MNil"
  by (cases ms) auto

lemma render_mappend:
  "ms \<noteq> MNil \<Longrightarrow> ms' \<noteq> MNil \<Longrightarrow>
   render_members (mappend ms ms') = render_members ms @ [CHR '',''] @ render_members ms'"
  by (induction ms rule: jmembers.induct [of "\<lambda>_. True" "\<lambda>_. True"]) auto

lemma members_wf_mappend [simp]: "members_wf (mappend ms ms') \<longleftrightarrow> members_wf ms \<and> members_wf ms'"
  by (induction ms rule: jmembers.induct [of "\<lambda>_. True" "\<lambda>_. True"]) auto

lemma member_value_mappend [simp]:
  "member_value key (mappend ms ms') = first_of (member_value key ms) (member_value key ms')"
  by (induction ms rule: jmembers.induct [of "\<lambda>_. True" "\<lambda>_. True"]) auto

lemma concat_Plain [simp]: "concat (map render_char (map Plain k)) = k" "concat (map (\<lambda>x. render_char (Plain x)) k) = k"
  by (induction k) auto

lemma render_text_Plain [simp]: "render_text (map Plain k) = quoted k"
  by (simp add: render_text_def quoted_def comp_def)

lemma member_value_compact [simp]: "member_value key (compact kvs) = map_of kvs key"
  by (induction kvs rule: compact.induct) (auto simp: comp_def)

lemma compact_MNil [simp]: "compact kvs = MNil \<longleftrightarrow> kvs = []"
  by (cases kvs rule: compact.cases) auto

lemma members_wf_compact:
  "members_wf (compact kvs) \<longleftrightarrow> list_all plain_key (map fst kvs) \<and> list_all val_wf (map snd kvs)"
  by (induction kvs rule: compact.induct) (auto simp: plain_key_def list_all_iff)

lemma render_last: "val_wf v \<Longrightarrow> \<not> is_json_ws (last (render v))"
proof (cases v)
  case (JToken t)
  assume "val_wf v"
  with JToken have "token_char (last t)" by (simp add: list_all_iff)
  with JToken show ?thesis by (simp add: token_char_def)
qed (simp_all add: render_text_def is_json_ws_def)

lemma ws_dropWhile: "ws w \<Longrightarrow> s \<noteq> [] \<Longrightarrow> \<not> is_json_ws (hd s) \<Longrightarrow> dropWhile is_json_ws (w @ s) = s"
  by (cases s) (auto simp: dropWhile_append list_all_iff)

lemma trim_render:
  assumes "ws w1" "val_wf v" "ws w2" "from_bytes b = w1 @ render v @ w2"
  shows "trim b = to_bytes (render v)"
proof -
  have ne: "render v \<noteq> []" "\<not> is_json_ws (hd (render v))" using render_first [OF assms(2)] by auto
  then have "dropWhile is_json_ws (from_bytes b) = render v @ w2"
    using ws_dropWhile [OF assms(1), of "render v @ w2"] by (simp add: assms(4))
  moreover have "dropWhile is_json_ws (rev w2 @ rev (render v)) = rev (render v)"
    using ne assms(3) render_last [OF assms(2)] by (intro ws_dropWhile) (simp_all add: list_all_iff hd_rev)
  ultimately show ?thesis by (simp add: trim_def)
qed

text \<open>C26. The scanner that cuts a payload out of a frame is exact: in every JSON object, with any white space,
  nesting and escapes, it returns the bytes of the first member written with the key it looks for, and
  nothing when there is none.\<close>

theorem scan_member_exact:
  assumes "ws w0" "val_wf (JObj w ms)" "raw = w0 @ render (JObj w ms) @ w1"
  shows "case member_value key ms of
       None \<Rightarrow> scan_member raw key = None
     | Some v \<Rightarrow> \<exists>sp. scan_member raw key = Some sp \<and> cut raw sp = to_bytes (render v)"
proof -
  have "takeWhile is_json_ws raw = w0"
    using assms(1) by (auto simp: assms(3) takeWhile_append list_all_iff is_json_ws_def)
  moreover have "length w0 \<noteq> length raw" by (simp add: assms(3))
  ultimately have "scan_member raw key = find_top_level_member_span raw (length w0) key"
    by (simp add: scan_member_def)
  then show ?thesis
    using span_exact [OF assms(2,3), of key] by (auto simp: cut_def split: option.splits)
qed

text \<open>The text \<^verbatim>\<open>{"id":1, "a":{"}":[2]}}\<close>: the value of \<open>a\<close> has a closing brace inside a string.\<close>

definition sample_members :: jmembers where
  "sample_members =
     MCons [] (map Plain ''id'') [] [] (JToken ''1'') []
       (MCons '' '' (map Plain ''a'') [] []
          (JObj [] (MCons [] [Plain (CHR ''}'')] [] [] (JArr [] (ECons [] (JToken ''2'') [] ENil)) [] MNil)) [] MNil)"

theorem scan_member_exact_witness:
  "\<exists>sp. scan_member (render (JObj [] sample_members)) ''a'' = Some sp
     \<and> cut (render (JObj [] sample_members)) sp
       = to_bytes [CHR ''{'', CHR 0x22, CHR ''}'', CHR 0x22, CHR '':'', CHR ''['', CHR ''2'', CHR '']'', CHR ''}'']"
proof -
  have "val_wf (JObj [] sample_members)" by code_simp
  from scan_member_exact [OF _ this, of "[]" _ "[]" "''a''", simplified] show ?thesis
    by (simp add: sample_members_def render_text_def)
qed

text \<open>The scan of a frame whose object has the payload as one of its members.\<close>

lemma scan_payload:
  assumes "members_wf ms" "member_value key ms = Some v" "raw = render (JObj [] ms)"
  shows "\<exists>sp. scan_member raw key = Some sp \<and> cut raw sp = to_bytes (render v)"
proof -
  have wf: "val_wf (JObj [] ms)" using assms(1) by simp
  have "takeWhile is_json_ws raw = []" "raw \<noteq> []" by (simp_all add: assms(3) is_json_ws_def)
  then have "scan_member raw key = find_top_level_member_span raw (length []) key" by (simp add: scan_member_def)
  moreover obtain b e where "find_top_level_member_span raw (length []) key = Some (b, e)"
    "take (e - b) (drop b raw) = render v"
    using span_exact [OF wf, of raw "[]" "[]" key] assms by auto
  ultimately show ?thesis by (auto simp: cut_def)
qed

lemma obj_set_keys [simp]: "fst ` set (obj_set k v kvs) = insert k (fst ` set kvs)"
  by (induction k v kvs rule: obj_set.induct) auto

lemma obj_update_keys: "fst ` set (obj_update root mems) = fst ` set root \<union> fst ` set mems"
proof (induction mems arbitrary: root)
  case (Cons m mems)
  obtain k v where "m = (k, v)" by (cases m)
  then show ?case using Cons.IH [of "obj_set k v root"] by (simp add: obj_update_def)
qed (simp add: obj_update_def)

lemma plain_keys_iff: "list_all plain_key (map fst kvs) \<longleftrightarrow> (\<forall>k\<in>fst ` set kvs. plain_key k)"
  by (simp add: list_all_iff)

lemma dump_object:
  assumes "nlohmann_ok N" "nl_dump N (JObject kvs) = Some s" "list_all plain_key (map fst kvs)"
  obtains vs where "list_all2 (\<lambda>kv v. val_wf v \<and> nl_dump N (snd kv) = Some (render v)) kvs vs"
    "s = render (JObj [] (compact (zip (map fst kvs) vs)))" "length vs = length kvs"
    "members_wf (compact (zip (map fst kvs) vs))"
proof -
  obtain vs where vs: "list_all2 (\<lambda>kv v. val_wf v \<and> nl_dump N (snd kv) = Some (render v)) kvs vs"
    and s: "s = render (JObj [] (compact (zip (map fst kvs) vs)))"
    using assms unfolding nlohmann_ok_def by blast
  then have len: "length vs = length kvs" by (simp add: list_all2_lengthD)
  then have "list_all val_wf vs" using vs by (auto simp: list_all2_conv_all_nth list_all_length)
  then have "members_wf (compact (zip (map fst kvs) vs))"
    using assms(3) len by (simp add: members_wf_compact)
  then show ?thesis using that vs s len by blast
qed

text \<open>The payload appended as the last member.\<close>

lemma raw_splice:
  assumes N: "nlohmann_ok N" and dump: "nl_dump N (JObject kvs) = Some s"
    and keys: "kvs \<noteq> []" "list_all plain_key (map fst kvs)" "key \<notin> fst ` set kvs" "plain_key key"
    and data: "ws w1" "val_wf v" "ws w2" "from_bytes data = w1 @ render v @ w2"
    and raw: "splice_text (RawMember key (from_bytes data)) s = Some raw"
  shows "\<exists>sp. scan_member raw key = Some sp \<and> cut raw sp = trim data"
proof -
  obtain vs where s: "s = render (JObj [] (compact (zip (map fst kvs) vs)))" and len: "length vs = length kvs"
    and wf: "members_wf (compact (zip (map fst kvs) vs))"
    using dump_object [OF N dump keys(2)] by blast
  let ?ms = "mappend (compact (zip (map fst kvs) vs)) (MCons [] (map Plain key) [] w1 v w2 MNil)"
  have ne: "zip (map fst kvs) vs \<noteq> []" using keys(1) len by (cases kvs; cases vs) auto
  have "raw = render (JObj [] ?ms)"
    using raw ne by (simp add: s render_mappend data(4) butlast_append)
  moreover have "members_wf ?ms"
    using wf data keys(4) by (simp add: plain_key_def list_all_iff)
  moreover have "map_of (zip (map fst kvs) vs) key = None"
    using keys(3) len by (simp add: map_of_zip_is_None)
  then have "member_value key ?ms = Some v" by (simp add: comp_def)
  ultimately show ?thesis using scan_payload [of ?ms key v raw] trim_render [OF data] by simp
qed

lemma indication_root:
  "obj_update (json_envelope p) [(''dAppIdentifier'', d), (''ranFunctionIdentifier'', rf)] =
     [(''dAppIdentifier'', d), (''id'', json_num (pdu_message_id p)), (''ranFunctionIdentifier'', rf),
      (''timestamp'', JUnsigned (pdu_timestamp p)),
      (''type'', JString (to_camel_case (pdu_type_to_string (pdu_type_of p))))]"
  by (simp add: json_envelope_def obj_update_def less_char_def)

lemma find_text_skip:
  "find_text (d # q) s = Some n \<Longrightarrow> \<forall>c\<in>set xs. c \<noteq> d \<Longrightarrow> find_text (d # q) (xs @ s) = Some (length xs + n)"
  by (induction xs) auto

text \<open>A quoted key is passed over when it starts with another letter.\<close>

lemma find_text_key:
  assumes "find_text (CHR 0x22 # e # q) s = Some n" "\<forall>c\<in>set k. c \<noteq> CHR 0x22" "k \<noteq> []" "hd k \<noteq> e"
    "s \<noteq> []" "hd s \<noteq> e"
  shows "find_text (CHR 0x22 # e # q) (quoted k @ s) = Some (length (quoted k) + n)"
proof -
  have "find_text (CHR 0x22 # e # q) (CHR 0x22 # s) = Some (Suc n)" using assms by (cases s) auto
  from find_text_skip [OF this assms(2)]
  have "find_text (CHR 0x22 # e # q) (k @ CHR 0x22 # s) = Some (length k + Suc n)" .
  then show ?thesis using assms(3,4) by (cases k) (auto simp: quoted_def)
qed

lemma find_text_here: "find_text q (q @ s) = Some 0"
  by (cases q; cases s) auto

lemma find_ran_function_key:
  assumes "\<forall>c\<in>set r1. c \<noteq> CHR 0x22" "\<forall>c\<in>set r2. c \<noteq> CHR 0x22"
  defines "A \<equiv> ''{'' @ quoted ''dAppIdentifier'' @ '':'' @ r1 @ '','' @ quoted ''id'' @ '':'' @ r2 @ '',''"
  shows "find_text (quoted ''ranFunctionIdentifier'') (A @ quoted ''ranFunctionIdentifier'' @ s) = Some (length A)"
proof -
  define q where "q = ''anFunctionIdentifier'' @ [CHR 0x22]"
  have q: "quoted ''ranFunctionIdentifier'' = CHR 0x22 # CHR ''r'' # q" by (simp add: quoted_def q_def)
  let ?f = "find_text (CHR 0x22 # CHR ''r'' # q)" and ?t = "CHR 0x22 # CHR ''r'' # q @ s"
  have "?f ?t = Some 0" using find_text_here [of "CHR 0x22 # CHR ''r'' # q" s] by simp
  from find_text_skip [OF this, of "'':'' @ r2 @ '',''"] assms
  have "?f (('':'' @ r2 @ '','') @ ?t) = Some (length ('':'' @ r2 @ '',''))" by simp
  from find_text_key [OF this, of "''id''"]
  have "?f (quoted ''id'' @ ('':'' @ r2 @ '','') @ ?t) = Some (length (quoted ''id'' @ '':'' @ r2 @ '',''))" by simp
  from find_text_skip [OF this, of "'':'' @ r1 @ '',''"] assms
  have "?f (('':'' @ r1 @ '','') @ quoted ''id'' @ ('':'' @ r2 @ '','') @ ?t)
      = Some (length ('':'' @ r1 @ '','' @ quoted ''id'' @ '':'' @ r2 @ '',''))" by simp
  from find_text_key [OF this, of "''dAppIdentifier''"]
  have "?f (quoted ''dAppIdentifier'' @ ('':'' @ r1 @ '','') @ quoted ''id'' @ ('':'' @ r2 @ '','') @ ?t)
      = Some (length (quoted ''dAppIdentifier'' @ '':'' @ r1 @ '','' @ quoted ''id'' @ '':'' @ r2 @ '',''))" by simp
  from find_text_skip [OF this, of "''{''"] show ?thesis by (simp add: A_def q)
qed

lemma decimal_no_quote: "\<forall>c\<in>set (decimal n). c \<noteq> CHR 0x22"
proof
  fix c assume "c \<in> set (decimal n)"
  then have "is_digit c" by (rule decimal_digits)
  then show "c \<noteq> CHR 0x22" by (auto simp: is_digit_def)
qed

lemma number_no_quote:
  assumes "nlohmann_ok N" "nl_dump N (json_num w) = Some s"
  shows "\<forall>c\<in>set s. c \<noteq> CHR 0x22"
proof -
  have "s = decimal (unat (ucast w :: u64))"
    using assms unfolding nlohmann_ok_def json_num_def by blast
  then show ?thesis using decimal_no_quote by blast
qed

text \<open>The texts with the keys left open, before and after a member is put between the second and the third.\<close>

lemma render_five:
  "render (JObj [] (compact [(k1, v1), (k2, v2), (k3, v3), (k4, v4), (k5, v5)])) =
     (''{'' @ quoted k1 @ '':'' @ render v1 @ '','' @ quoted k2 @ '':'' @ render v2 @ '','') @ quoted k3 @ '':''
     @ render v3 @ '','' @ quoted k4 @ '':'' @ render v4 @ '','' @ quoted k5 @ '':'' @ render v5 @ ''}''"
  "render (JObj [] (mappend (compact [(k1, v1), (k2, v2)])
     (MCons [] (map Plain kp) [] w1 v w2 (compact [(k3, v3), (k4, v4), (k5, v5)])))) =
     (''{'' @ quoted k1 @ '':'' @ render v1 @ '','' @ quoted k2 @ '':'' @ render v2 @ '','')
     @ quoted kp @ '':'' @ (w1 @ render v @ w2) @ '','' @ quoted k3 @ '':''
     @ render v3 @ '','' @ quoted k4 @ '':'' @ render v4 @ '','' @ quoted k5 @ '':'' @ render v5 @ ''}''"
  by simp_all

lemma indication_splice:
  assumes N: "nlohmann_ok N"
    and dump: "nl_dump N (JObject [(''dAppIdentifier'', json_num d), (''id'', json_num i),
      (''ranFunctionIdentifier'', json_num rf), (''timestamp'', JUnsigned ts), (''type'', t)]) = Some s"
    and data: "ws w1" "val_wf v" "ws w2" "from_bytes data = w1 @ render v @ w2"
    and raw: "splice_text (ProtocolData (from_bytes data)) s = Some raw"
  shows "\<exists>sp. scan_member raw ''protocolData'' = Some sp \<and> cut raw sp = trim data"
proof -
  have plain: "plain_key ''dAppIdentifier''" "plain_key ''id''" "plain_key ''ranFunctionIdentifier''"
    "plain_key ''timestamp''" "plain_key ''type''" "plain_key ''protocolData''"
    by (simp_all add: plain_key_def)
  define k1 k2 k3 k4 k5 kp where k: "k1 = ''dAppIdentifier''" "k2 = ''id''" "k3 = ''ranFunctionIdentifier''"
    "k4 = ''timestamp''" "k5 = ''type''" "kp = ''protocolData''"
  let ?kvs = "[(k1, json_num d), (k2, json_num i), (k3, json_num rf), (k4, JUnsigned ts), (k5, t)]"
  have plain_k: "plain_key k1" "plain_key k2" "plain_key k3" "plain_key k4" "plain_key k5" "plain_key kp"
    using plain by (simp_all only: k)
  have pk: "list_all plain_key (map fst ?kvs)" by (simp only: list.map fst_conv list.pred_inject plain_k)
  have "nl_dump N (JObject ?kvs) = Some s" using dump by (simp only: k)
  from dump_object [OF N this pk] obtain vs where l2: "list_all2 (\<lambda>kv v. val_wf v \<and> nl_dump N (snd kv) = Some (render v)) ?kvs vs"
    and s0: "s = render (JObj [] (compact (zip (map fst ?kvs) vs)))" by blast
  obtain v1 v2 v3 v4 v5 where vs: "vs = [v1, v2, v3, v4, v5]" using l2 by (auto simp: list_all2_Cons1)
  have wf: "val_wf v1" "val_wf v2" "val_wf v3" "val_wf v4" "val_wf v5"
    and d1: "nl_dump N (json_num d) = Some (render v1)" and d2: "nl_dump N (json_num i) = Some (render v2)"
    using l2 by (simp_all add: vs)
  have "s = render (JObj [] (compact [(k1, v1), (k2, v2), (k3, v3), (k4, v4), (k5, v5)]))"
    by (simp only: s0 vs list.map fst_conv zip_Cons_Cons zip_Nil)
  note s1 = this [unfolded render_five(1)]
  define A where "A = ''{'' @ quoted k1 @ '':'' @ render v1 @ '','' @ quoted k2 @ '':'' @ render v2 @ '',''"
  define R where "R = '':'' @ render v3 @ '','' @ quoted k4 @ '':'' @ render v4 @ '','' @ quoted k5 @ '':'' @ render v5 @ ''}''"
  have s: "s = A @ quoted k3 @ R" by (simp only: s1 A_def R_def)
  have "find_text (quoted k3) (A @ quoted k3 @ R) = Some (length A)"
    unfolding A_def k by (rule find_ran_function_key [OF number_no_quote [OF N d1] number_no_quote [OF N d2]])
  then have "raw = A @ quoted kp @ '':'' @ (w1 @ render v @ w2) @ '','' @ quoted k3 @ R"
    using raw unfolding splice_text.simps k(3) [symmetric] k(6) [symmetric] s data(4) by simp
  let ?ms = "mappend (compact [(k1, v1), (k2, v2)]) (MCons [] (map Plain kp) [] w1 v w2 (compact [(k3, v3), (k4, v4), (k5, v5)]))"
  have "raw = render (JObj [] ?ms)"
    unfolding render_five(2) \<open>raw = _\<close> A_def R_def by (rule refl)
  moreover have "members_wf ?ms"
    using wf data(1-3) plain_k by (simp add: plain_key_def list.pred_map comp_def)
  moreover have "member_value kp ?ms = Some v" unfolding member_value_mappend member_value_compact by (simp add: k)
  ultimately show ?thesis using scan_payload [of ?ms kp v raw] trim_render [OF data] by (simp add: k)
qed

section \<open>Frames\<close>

definition field_keys :: "string list" where
  "field_keys = [''e3apProtocolVersion'', ''dAppName'', ''dAppVersion'', ''vendor'', ''requestId'', ''responseCode'',
     ''dAppIdentifier'', ''ranIdentifier'', ''ranFunctionList'', ''cause'', ''detail'', ''ranFunctionIdentifier'',
     ''telemetryIdentifierList'', ''controlIdentifierList'', ''subscriptionTime'', ''periodicity'',
     ''subscriptionId'', ''controlIdentifier'', ''sequenceId'']"

lemma field_keys_plain: "list_all plain_key field_keys" "list_all plain_key [''type'', ''id'', ''timestamp'']"
  "list_all plain_key [''actionData'', ''reportData'', ''xAppControlData'', ''protocolData'']"
  by code_simp+

lemma field_keys_fresh:
  "list_all (\<lambda>k. k \<notin> set field_keys) [''type'', ''id'', ''timestamp'', ''data'', ''actionData'', ''reportData'',
     ''xAppControlData'', ''protocolData'']"
  by code_simp

lemma json_opt_keys: "fst ` set (json_opt k f x) \<subseteq> {k}"
  by (auto simp: json_opt_def split: option.splits)

lemma keys_append: "fst ` set (xs @ ys) \<subseteq> K \<longleftrightarrow> fst ` set xs \<subseteq> K \<and> fst ` set ys \<subseteq> K"
  by auto

lemma json_opt_in: "k \<in> K \<Longrightarrow> fst ` set (json_opt k f x) \<subseteq> K"
  using json_opt_keys by blast

lemma field_key:
  shows "''e3apProtocolVersion'' \<in> set field_keys" "''dAppName'' \<in> set field_keys" "''dAppVersion'' \<in> set
    field_keys" "''vendor'' \<in> set field_keys" "''requestId'' \<in> set field_keys" "''responseCode'' \<in> set
    field_keys" "''dAppIdentifier'' \<in> set field_keys" "''ranIdentifier'' \<in> set field_keys"
    "''ranFunctionList'' \<in> set field_keys" "''cause'' \<in> set field_keys" "''detail'' \<in> set field_keys"
    "''ranFunctionIdentifier'' \<in> set field_keys" "''telemetryIdentifierList'' \<in> set field_keys"
    "''controlIdentifierList'' \<in> set field_keys" "''subscriptionTime'' \<in> set field_keys" "''periodicity''
    \<in> set field_keys" "''subscriptionId'' \<in> set field_keys" "''controlIdentifier'' \<in> set field_keys"
    "''sequenceId'' \<in> set field_keys"
  by (simp_all add: field_keys_def)

lemma keys_image: "fst ` set [] \<subseteq> K" "fst ` set ((k, v) # kvs) \<subseteq> K \<longleftrightarrow> k \<in> K \<and> fst ` set kvs \<subseteq> K"
  by auto

lemma keys_if: "fst ` set xs \<subseteq> K \<Longrightarrow> fst ` set (if b then xs else []) \<subseteq> K"
  by (cases b) simp_all

lemmas known = keys_append keys_image field_key json_opt_in write_reason_def keys_if

lemma known_setup: "fst ` set (json_setup_request a) \<subseteq> set field_keys"
  "json_setup_response N b = Some mems \<Longrightarrow> fst ` set mems \<subseteq> set field_keys"
proof -
  show "fst ` set (json_setup_request a) \<subseteq> set field_keys" by (simp only: json_setup_request_def known)
  assume "json_setup_response N b = Some mems"
  then obtain js where "mems = [(''requestId'', json_num (srsp_request_id b)), (''responseCode'', json_code (srsp_response_code b))]
       @ json_opt ''e3apProtocolVersion'' JString (srsp_e3ap_protocol_version b)
       @ json_opt ''dAppIdentifier'' json_num (srsp_dapp_identifier b)
       @ [(''ranIdentifier'', JString (srsp_ran_identifier b))]
       @ (if srsp_ran_function_list b \<noteq> [] then [(''ranFunctionList'', JArray js)] else [])
       @ write_reason (srsp_cause b) (srsp_detail b)"
    unfolding json_setup_response_def by blast
  then show "fst ` set mems \<subseteq> set field_keys" by (simp only: known simp_thms)
qed

lemma known_messages:
  "fst ` set (json_subscription_request c) \<subseteq> set field_keys" "fst ` set (json_subscription_delete d) \<subseteq> set field_keys"
  "fst ` set (json_subscription_response e) \<subseteq> set field_keys"
  "json_indication_message N f = Some mems \<Longrightarrow> fst ` set mems \<subseteq> set field_keys"
  "fst ` set (json_dapp_control_action g) \<subseteq> set field_keys" "fst ` set (json_dapp_report h) \<subseteq> set field_keys"
  "fst ` set (json_xapp_control_action i) \<subseteq> set field_keys" "fst ` set (json_release_message j) \<subseteq> set field_keys"
  "fst ` set (json_message_ack k) \<subseteq> set field_keys"
  by (simp_all only: json_subscription_request_def json_subscription_delete_def json_subscription_response_def
      json_dapp_control_action_def json_dapp_report_def json_xapp_control_action_def json_release_message_def
      json_message_ack_def known simp_thms)
    (auto simp: json_indication_message_def field_key split: if_splits)

lemmas fields_of = json_fields.simps raw_member_def option.inject prod.inject map_option_eq_Some option.distinct

lemma known_fields:
  assumes "json_fields N c = Some (mems, payload)"
  shows "fst ` set mems \<subseteq> set field_keys"
proof (cases c)
  case (SetupRequest x)
  then show ?thesis using assms known_setup(1) [of x] by (auto simp only: fields_of split: if_splits)
next
  case (SetupResponse x)
  then show ?thesis using assms known_setup(2) [of N x] by (auto simp only: fields_of split: if_splits)
next
  case (SubscriptionRequest x)
  then show ?thesis using assms known_messages(1) [of x] by (auto simp only: fields_of split: if_splits)
next
  case (SubscriptionDelete x)
  then show ?thesis using assms known_messages(2) [of x] by (auto simp only: fields_of split: if_splits)
next
  case (SubscriptionResponse x)
  then show ?thesis using assms known_messages(3) [of x] by (auto simp only: fields_of split: if_splits)
next
  case (IndicationMessage x)
  then show ?thesis using assms known_messages(4) [of N x] by (auto simp only: fields_of split: if_splits)
next
  case (DAppControlAction x)
  then show ?thesis using assms known_messages(5) [of x] by (auto simp only: fields_of split: if_splits)
next
  case (DAppReport x)
  then show ?thesis using assms known_messages(6) [of x] by (auto simp only: fields_of split: if_splits)
next
  case (XAppControlAction x)
  then show ?thesis using assms known_messages(7) [of x] by (auto simp only: fields_of split: if_splits)
next
  case (ReleaseMessage x)
  then show ?thesis using assms known_messages(8) [of x] by (auto simp only: fields_of split: if_splits)
next
  case (MessageAck x)
  then show ?thesis using assms known_messages(9) [of x] by (auto simp only: fields_of split: if_splits)
qed

lemma lookup_fields:
  assumes "fst ` set mems \<subseteq> set field_keys" "k \<notin> set field_keys"
  shows "map_of (obj_update root mems) k = map_of root k"
proof -
  have "map_of (rev mems) k = None" using assms by (auto simp: map_of_eq_None_iff)
  then show ?thesis by (simp add: map_of_obj_update)
qed

lemma envelope_lookup:
  "map_of (json_envelope p) ''type'' = Some (JString (to_camel_case (pdu_type_to_string (pdu_type_of p))))"
  "map_of (json_envelope p) ''id'' = Some (json_num (pdu_message_id p))"
  "map_of (json_envelope p) ''timestamp'' = Some (JUnsigned (pdu_timestamp p))"
  "k \<notin> {''type'', ''id'', ''timestamp''} \<Longrightarrow> map_of (json_envelope p) k = None"
  by (simp_all add: json_envelope_def map_of_obj_update)

lemma root_carries: "carries (obj_update (json_envelope p) mems) mems pk"
  unfolding carries_def by (auto simp: map_of_obj_update envelope_lookup(4) split: option.splits)

lemma root_set_carries: "carries (obj_set pk v (obj_update (json_envelope p) mems)) mems pk"
  unfolding carries_def by (auto simp: map_of_obj_update envelope_lookup(4) split: option.splits)

lemma root_keys:
  assumes "fst ` set mems \<subseteq> set field_keys"
  shows "list_all plain_key (map fst (obj_update (json_envelope p) mems))" "obj_update (json_envelope p) mems \<noteq> []"
    "key \<notin> set field_keys \<Longrightarrow> key \<notin> {''type'', ''id'', ''timestamp''} \<Longrightarrow> key \<notin> fst ` set (obj_update (json_envelope p) mems)"
proof -
  have env: "fst ` set (json_envelope p) = {''type'', ''id'', ''timestamp''}"
    by (auto simp: json_envelope_def obj_update_keys)
  then have keys: "fst ` set (obj_update (json_envelope p) mems) \<subseteq> {''type'', ''id'', ''timestamp''} \<union> set field_keys"
    using assms by (auto simp: obj_update_keys)
  then show "list_all plain_key (map fst (obj_update (json_envelope p) mems))"
    using field_keys_plain unfolding plain_keys_iff by (auto simp: list_all_iff)
  have "fst ` set (obj_update (json_envelope p) mems) \<noteq> {}" unfolding obj_update_keys env by simp
  then show "obj_update (json_envelope p) mems \<noteq> []" by auto
  show "key \<notin> set field_keys \<Longrightarrow> key \<notin> {''type'', ''id'', ''timestamp''} \<Longrightarrow> key \<notin> fst ` set (obj_update (json_envelope p) mems)"
    using keys by blast
qed

lemma decode_tree:
  assumes N: "nlohmann_ok N" and raw: "nl_parse N raw = Some (JObject kvs)" "raw \<noteq> []"
    and env: "map_of kvs ''type'' = Some (JString (to_camel_case (pdu_type_to_string t)))"
      "map_of kvs ''id'' = Some (json_num i)" "map_of kvs ''timestamp'' = Some (JUnsigned ts)"
      "map_of kvs ''data'' = None"
    and c: "json_choice N (JObject kvs) raw t = Decoded c"
  shows "json_decode N (to_bytes raw) =
    Decoded \<lparr>pdu_type_of = t, pdu_choice_of = c, pdu_message_id = i, pdu_enqueue_seq = 0, pdu_timestamp = ts\<rparr>"
proof -
  have "to_bytes raw \<noteq> []" using raw(2) by (simp add: to_bytes_def)
  then show ?thesis
    using raw env c by (simp add: json_decode_def nl_reads [OF N] camel_case_type)
qed

lemma plain_choice:
  assumes N: "nlohmann_ok N" and f: "json_fields N c = Some (mems, NoPayload)" and m: "carries kvs mems ''type''"
    and canon: "canonical N c"
  shows "json_choice N (JObject kvs) raw (choice_type c) = Decoded (wire_choice (trim_payload c))"
proof (cases c)
  case (SetupResponse x)
  then have "json_setup_response N x = Some mems" using f by auto
  from reads_setup_response [OF N this m] canon SetupResponse show ?thesis by simp
qed (use f m in \<open>auto simp: reads_setup_request [OF N] reads_subscription_request [OF N] reads_subscription_delete [OF N]
      reads_subscription_response [OF N] reads_release_message [OF N] reads_message_ack [OF N] raw_member_def
      split: if_splits\<close>)

lemma payload_scanned:
  assumes "map_of kvs key = Some v" "is_container v" "scan_member raw key = Some sp" "cut raw sp = d"
  shows "payload_member N (JObject kvs) raw key = Some d"
  using assms by (simp add: payload_member_def)

lemma raw_choice:
  assumes N: "nlohmann_ok N" and f: "json_fields N c = Some (mems, RawMember key (from_bytes data))"
    and m: "carries kvs mems key" and v: "map_of kvs key = Some v" "is_container v"
    and scan: "scan_member raw key = Some sp" "cut raw sp = trim data"
  shows "json_choice N (JObject kvs) raw (choice_type c) = Decoded (wire_choice (trim_payload c))"
proof -
  note payload = payload_scanned [OF v scan, of N]
  have inj: "from_bytes a = from_bytes b \<Longrightarrow> a = b" for a b by (metis to_bytes_from_bytes)
  note m' = carriesD [OF m]
  show ?thesis
  proof (cases c)
    case (DAppControlAction x)
    then have "mems = json_dapp_control_action x" "key = ''actionData''" "data = ctl_action_data x"
      using f inj by (auto simp: raw_member_def split: if_splits)
    with DAppControlAction payload show ?thesis
      by (simp add: read_dapp_control_action_def m' json_dapp_control_action_def nl_reads [OF N])
  next
    case (DAppReport x)
    then have "mems = json_dapp_report x" "key = ''reportData''" "data = rep_report_data x"
      using f inj by (auto simp: raw_member_def split: if_splits)
    with DAppReport payload show ?thesis
      by (simp add: read_dapp_report_def m' json_dapp_report_def nl_reads [OF N])
  next
    case (XAppControlAction x)
    then have "mems = json_xapp_control_action x" "key = ''xAppControlData''" "data = xca_xapp_control_data x"
      using f inj by (auto simp: raw_member_def split: if_splits)
    with XAppControlAction payload show ?thesis
      by (simp add: read_xapp_control_action_def m' json_xapp_control_action_def nl_reads [OF N])
  qed (use f in auto)
qed

lemma indication_choice:
  assumes N: "nlohmann_ok N" and f: "json_fields N (IndicationMessage x) = Some (mems, payload)"
    and m: "carries kvs mems ''protocolData''"
    and scan: "scan_member raw ''protocolData'' = Some sp" "cut raw sp = trim (ind_protocol_data x)"
  shows "json_choice N (JObject kvs) raw INDICATION_MESSAGE = Decoded (wire_choice (trim_payload (IndicationMessage x)))"
proof -
  have "mems = [(''dAppIdentifier'', json_num (ind_dapp_identifier x)),
      (''ranFunctionIdentifier'', json_num (ind_ran_function_identifier x))]"
    using f by (auto simp: json_indication_message_def split: if_splits)
  with carriesD [OF m] scan show ?thesis by (simp add: read_indication_message_def nl_reads [OF N])
qed

lemma container_payload:
  assumes N: "nlohmann_ok N" and c: "is_json_container N data"
  obtains w1 t w2 v where "ws w1" "val_wf t" "ws w2" "from_bytes data = w1 @ render t @ w2"
    "nl_parse N (from_bytes data) = Some v" "is_container v"
proof -
  obtain x xs where x: "dropWhile is_json_ws (from_bytes data) = x # xs" "x \<in> {CHR ''{'', CHR ''[''}"
    and acc: "nl_accept N (from_bytes data)"
    using c by (auto simp: is_json_container_def split: list.splits)
  then obtain v where v: "nl_parse N (from_bytes data) = Some v" "json_text (from_bytes data)"
    using N unfolding nlohmann_ok_def by blast
  have "is_container v" using N x v(1) unfolding nlohmann_ok_def by blast
  then show ?thesis using v that unfolding json_text_def by blast
qed

lemma tree_envelope:
  assumes "fst ` set mems \<subseteq> set field_keys"
  shows "map_of (obj_update (json_envelope p) mems) ''type'' = Some (JString (to_camel_case (pdu_type_to_string (pdu_type_of p))))"
    "map_of (obj_update (json_envelope p) mems) ''id'' = Some (json_num (pdu_message_id p))"
    "map_of (obj_update (json_envelope p) mems) ''timestamp'' = Some (JUnsigned (pdu_timestamp p))"
    "map_of (obj_update (json_envelope p) mems) ''data'' = None"
  using field_keys_fresh by (simp_all add: lookup_fields [OF assms] envelope_lookup)

text \<open>The frame of \<open>p\<close> with the members \<open>mems\<close> is read as the message that travels.\<close>

definition frame_read :: "nlohmann \<Rightarrow> pdu \<Rightarrow> (string \<times> json) list \<Rightarrow> string \<Rightarrow> bool" where
  "frame_read N p mems raw \<longleftrightarrow>
     (\<exists>kvs. nl_parse N raw = Some (JObject kvs) \<and> raw \<noteq> []
        \<and> (kvs = obj_update (json_envelope p) mems
           \<or> (\<exists>k v. k \<in> {''actionData'', ''reportData'', ''xAppControlData'', ''protocolData''}
                \<and> kvs = obj_set k v (obj_update (json_envelope p) mems)))
        \<and> json_choice N (JObject kvs) raw (choice_type (pdu_choice_of p))
            = Decoded (wire_choice (trim_payload (pdu_choice_of p))))"

lemma frame_read_decodes:
  assumes N: "nlohmann_ok N" and wf: "pdu_wf p" and known: "fst ` set mems \<subseteq> set field_keys"
    and "frame_read N p mems raw"
  shows "json_decode N (to_bytes raw) = Decoded (wire_pdu (p\<lparr>pdu_choice_of := trim_payload (pdu_choice_of p)\<rparr>))"
proof -
  let ?c = "pdu_choice_of p"
  obtain kvs where kvs: "nl_parse N raw = Some (JObject kvs)" "raw \<noteq> []"
    "kvs = obj_update (json_envelope p) mems
     \<or> (\<exists>k v. k \<in> {''actionData'', ''reportData'', ''xAppControlData'', ''protocolData''}
          \<and> kvs = obj_set k v (obj_update (json_envelope p) mems))"
    "json_choice N (JObject kvs) raw (choice_type ?c) = Decoded (wire_choice (trim_payload ?c))"
    using assms(4) unfolding frame_read_def by blast
  then show ?thesis
    using decode_tree [OF N kvs(1,2), of "pdu_type_of p" "pdu_message_id p" "pdu_timestamp p" "wire_choice (trim_payload ?c)"]
      tree_envelope [OF known, of p] wf
    by (auto simp: pdu_wf_def wire_pdu_def)
qed

lemma indication_frame:
  assumes N: "nlohmann_ok N" and f: "json_fields N (pdu_choice_of p) = Some (mems, ProtocolData r)"
    and dump: "nl_dump N (JObject (obj_update (json_envelope p) mems)) = Some s"
    and splice: "splice_text (ProtocolData r) s = Some raw" and tree: "nl_parse N raw = json_tree N p"
  shows "frame_read N p mems raw"
proof -
  obtain x where x: "pdu_choice_of p = IndicationMessage x" and r: "r = from_bytes (ind_protocol_data x)"
    using f by (cases "pdu_choice_of p") (auto simp: raw_member_def split: if_splits)
  have m: "mems = [(''dAppIdentifier'', json_num (ind_dapp_identifier x)), (''ranFunctionIdentifier'', json_num (ind_ran_function_identifier x))]"
    and acc: "nl_accept N r" using f x r by (auto simp: json_indication_message_def split: if_splits)
  obtain w1 t w2 v where w: "ws w1" "val_wf t" "ws w2" "r = w1 @ render t @ w2" and v: "nl_parse N r = Some v"
    using N acc unfolding nlohmann_ok_def json_text_def by blast
  obtain sp where sp: "scan_member raw ''protocolData'' = Some sp" "cut raw sp = trim (ind_protocol_data x)"
    using indication_splice [OF N dump [unfolded m indication_root] w(1-3) w(4) [unfolded r] splice [unfolded r]] by blast
  then have "raw \<noteq> []" by (auto simp: scan_member_def)
  then show ?thesis
    using tree f v indication_choice [OF N f [unfolded x] root_set_carries sp, of v p]
    unfolding frame_read_def by (intro exI [of _ "obj_set ''protocolData'' v (obj_update (json_envelope p) mems)"])
      (auto simp: json_tree_def x)
qed

lemma raw_frame:
  assumes N: "nlohmann_ok N" and f: "json_fields N (pdu_choice_of p) = Some (mems, RawMember key r)"
    and dump: "nl_dump N (JObject (obj_update (json_envelope p) mems)) = Some s"
    and splice: "splice_text (RawMember key r) s = Some raw" and tree: "nl_parse N raw = json_tree N p"
  shows "frame_read N p mems raw"
proof -
  note known = known_fields [OF f]
  obtain data where c: "is_json_container N data" and r: "r = from_bytes data"
    and key: "key \<in> {''actionData'', ''reportData'', ''xAppControlData''}"
    using f by (cases "pdu_choice_of p") (auto simp: raw_member_def split: if_splits)
  obtain w1 t w2 v where w: "ws w1" "val_wf t" "ws w2" "from_bytes data = w1 @ render t @ w2"
    and v: "nl_parse N (from_bytes data) = Some v" "is_container v"
    by (rule container_payload [OF N c])
  have fresh: "key \<notin> set field_keys" "key \<notin> {''type'', ''id'', ''timestamp''}" "plain_key key"
    using key field_keys_fresh field_keys_plain by auto
  obtain sp where sp: "scan_member raw key = Some sp" "cut raw sp = trim data"
    using raw_splice [OF N dump root_keys(2,1) [OF known] root_keys(3) [OF known fresh(1,2)] fresh(3) w splice [unfolded r]] by blast
  then have "raw \<noteq> []" by (auto simp: scan_member_def)
  then show ?thesis
    using tree f v r key raw_choice [OF N f [unfolded r] root_set_carries _ v(2) sp, of v p]
    unfolding frame_read_def by (intro exI [of _ "obj_set key v (obj_update (json_envelope p) mems)"])
      (auto simp: json_tree_def)
qed

lemma json_delivers:
  assumes N: "nlohmann_ok N" and wf: "pdu_wf p" and canon: "canonical N (pdu_choice_of p)"
    and enc: "json_encode N p = Some bs" and tree: "nl_parse N (from_bytes bs) = json_tree N p"
  shows "json_decode N bs = Decoded (wire_pdu (p\<lparr>pdu_choice_of := trim_payload (pdu_choice_of p)\<rparr>))"
proof -
  obtain mems payload s raw where f: "json_fields N (pdu_choice_of p) = Some (mems, payload)"
    and dump: "nl_dump N (JObject (obj_update (json_envelope p) mems)) = Some s"
    and splice: "splice_text payload s = Some raw" and bs: "bs = to_bytes raw"
    using enc by (auto simp: json_encode_def split: option.splits bind_splits)
  note known = known_fields [OF f]
  have tree': "nl_parse N raw = json_tree N p" using tree by (simp add: bs)
  have "frame_read N p mems raw"
  proof (cases payload)
    case NoPayload
    have "s \<noteq> []" using dump_object [OF N dump root_keys(1) [OF known]] by fastforce
    with NoPayload tree' splice f plain_choice [OF N f [unfolded NoPayload] root_carries canon] show ?thesis
      by (auto simp: frame_read_def json_tree_def)
  next
    case (ProtocolData r)
    with indication_frame [OF N _ dump _ tree'] f splice show ?thesis by simp
  next
    case (RawMember key r)
    with raw_frame [OF N _ dump _ tree'] f splice show ?thesis by simp
  qed
  from frame_read_decodes [OF N wf known this] show ?thesis by (simp only: bs)
qed

text \<open>The encoder as the interface uses it. The case without a defined result is not a decoded PDU.\<close>

definition json_encoder :: "nlohmann \<Rightarrow> e3_encoder" where
  "json_encoder N =
     \<lparr>enc_encode = json_encode N,
      enc_decode = (\<lambda>bs. case json_decode N bs of Decoded p \<Rightarrow> Some p | _ \<Rightarrow> None)\<rparr>"

definition json_fits :: "nlohmann \<Rightarrow> pdu \<Rightarrow> bool" where
  "json_fits N p \<longleftrightarrow>
     nlohmann_ok N \<and> pdu_wf p \<and> canonical N (pdu_choice_of p) \<and> trim_payload (pdu_choice_of p) = pdu_choice_of p
     \<and> (\<forall>bs. json_encode N p = Some bs \<longrightarrow> nl_parse N (from_bytes bs) = json_tree N p)"

lemma map_outcome_Decoded: "map_json_outcome f x = Decoded y \<longleftrightarrow> (\<exists>z. x = Decoded z \<and> y = f z)"
  by (cases x) auto

lemma outcome_Decoded: "outcome x = Decoded y \<longleftrightarrow> x = Some y"
  by (cases x) auto

lemma json_choice_type: "json_choice N j raw t = Decoded c \<Longrightarrow> choice_type c = t"
  by (cases t) (auto simp: outcome_Decoded map_outcome_Decoded)

lemma json_decoded_wf: "json_decode N bs = Decoded p \<Longrightarrow> pdu_wf p"
  by (auto simp: json_decode_def Let_def map_outcome_Decoded pdu_wf_def json_choice_type
      split: if_splits option.splits)

interpretation json_codec: pdu_codec "json_encoder N" "json_fits N" for N
proof unfold_locales
  fix p bs
  assume "json_fits N p" "enc_encode (json_encoder N) p = Some bs"
  then have "json_decode N bs = Decoded (wire_pdu p)"
    using json_delivers [of N p bs] by (simp add: json_fits_def json_encoder_def)
  then show "enc_decode (json_encoder N) bs = Some (wire_pdu p)" by (simp add: json_encoder_def)
next
  fix bs p
  assume "enc_decode (json_encoder N) bs = Some p"
  then show "pdu_wf p"
    using json_decoded_wf by (auto simp: json_encoder_def split: json_outcome.splits)
qed


text \<open>
  A library of the contract that prints every tree of numbers, plain strings and objects, and reads
  the texts of a table. The example is a control action with the payload \<^verbatim>\<open> {}\<close>.
\<close>

function text_of :: "json \<Rightarrow> jval option" where
  "text_of (JUnsigned w) = Some (JToken (decimal (unat w)))"
| "text_of (JString s) = (if plain_key s then Some (JText (map Plain s)) else None)"
| "text_of (JObject kvs) =
     (if list_all plain_key (map fst kvs)
      then map_option (\<lambda>vs. JObj [] (compact (zip (map fst kvs) vs))) (those (map (\<lambda>kv. text_of (snd kv)) kvs))
      else None)"
| "text_of JNull = None"
| "text_of (JBool b) = None"
| "text_of (JInteger n) = None"
| "text_of (JFloat t) = None"
| "text_of (JArray l) = None"
  by pat_completeness auto
termination
  by (relation "measure size") (auto simp: size_list_estimation' less_Suc_eq_le elim!: size_list_estimation)

definition sample_action :: pdu where
  "sample_action = make_pdu 0 DAPP_CONTROL_ACTION (DAppControlAction
     \<lparr>ctl_dapp_identifier = 1, ctl_ran_function_identifier = 2, ctl_control_identifier = 9,
      ctl_action_data = [32, 123, 125], ctl_sequence_id = 0\<rparr>) 5"

definition sample_members_text :: jmembers where
  "sample_members_text =
     mappend (compact [(''controlIdentifier'', JToken ''9''), (''dAppIdentifier'', JToken ''1''), (''id'', JToken ''5''),
       (''ranFunctionIdentifier'', JToken ''2''), (''timestamp'', JToken ''0''),
       (''type'', JText (map Plain ''dAppControlAction''))])
     (MCons [] (map Plain ''actionData'') [] '' '' (JObj [] MNil) [] MNil)"

definition sample_tree :: json where
  "sample_tree = JObject (obj_update (json_envelope sample_action)
     [(''dAppIdentifier'', json_num 1), (''ranFunctionIdentifier'', json_num 2), (''controlIdentifier'', json_num 9),
      (''actionData'', JObject [])])"

definition table_nlohmann :: "(string \<times> json) list \<Rightarrow> nlohmann" where
  "table_nlohmann table =
     \<lparr>nl_accept = (\<lambda>s. map_of table s \<noteq> None), nl_parse = map_of table,
      nl_dump = (\<lambda>j. map_option render (text_of j)),
      nl_u32 = (\<lambda>j. case j of JUnsigned w \<Rightarrow> Some (ucast w) | _ \<Rightarrow> None),
      nl_u64 = (\<lambda>j. case j of JUnsigned w \<Rightarrow> Some w | _ \<Rightarrow> None),
      nl_string = (\<lambda>j. case j of JString s \<Rightarrow> Some s | _ \<Rightarrow> None)\<rparr>"

definition sample_nlohmann :: nlohmann where
  "sample_nlohmann =
     table_nlohmann [(render (JObj [] sample_members_text), sample_tree), ('' {}'', JObject [])]"

text \<open>An indication whose sender left out the payload.\<close>

definition bare_members :: jmembers where
  "bare_members = compact [(''dAppIdentifier'', JToken ''1''), (''id'', JToken ''5''), (''ranFunctionIdentifier'', JToken ''2''),
     (''timestamp'', JToken ''0''), (''type'', JText (map Plain ''indicationMessage''))]"

definition bare_tree :: "(string \<times> json) list" where
  "bare_tree = [(''dAppIdentifier'', json_num 1), (''id'', json_num 5), (''ranFunctionIdentifier'', json_num 2),
     (''timestamp'', JUnsigned 0), (''type'', JString ''indicationMessage'')]"

lemma digit_token:
  assumes "is_digit c"
  shows "token_char c"
proof -
  have "c \<noteq> x" if "(of_char x :: nat) < 48 \<or> 57 < (of_char x :: nat)" for x
    using that assms unfolding is_digit_def by (metis not_less)
  then show ?thesis by (simp add: token_char_def is_json_ws_def)
qed

lemma those_list_all2: "those (map f l) = Some ys \<Longrightarrow> list_all2 (\<lambda>x y. f x = Some y) l ys"
  by (induction l arbitrary: ys) (auto split: option.splits)

lemma decimal_wf: "val_wf (JToken (decimal n))"
  using decimal_digits digit_token by (simp add: list_all_iff decimal_not_empty)

lemma text_of_object:
  assumes "text_of (JObject kvs) = Some v"
  obtains vs where "list_all2 (\<lambda>kv y. text_of (snd kv) = Some y) kvs vs" "list_all plain_key (map fst kvs)"
    "v = JObj [] (compact (zip (map fst kvs) vs))"
  using assms by (auto dest: those_list_all2 split: if_splits)

lemma text_of_wf: "text_of j = Some v \<Longrightarrow> val_wf v"
proof (induction j arbitrary: v rule: text_of.induct)
  case (1 w)
  then show ?case using decimal_wf by auto
next
  case (2 s)
  then have "plain_key s" "v = JText (map Plain s)" by (simp_all split: if_splits)
  then show ?case by (simp add: plain_key_def list.pred_map comp_def)
next
  case (3 kvs)
  from "3.prems" obtain vs where vs: "list_all2 (\<lambda>kv y. text_of (snd kv) = Some y) kvs vs"
    and plain: "list_all plain_key (map fst kvs)" and v: "v = JObj [] (compact (zip (map fst kvs) vs))"
    by (rule text_of_object)
  have "val_wf y" if y: "y \<in> set vs" for y
  proof -
    obtain n where n: "n < length vs" "y = vs ! n" using y by (auto simp: in_set_conv_nth)
    then have "text_of (snd (kvs ! n)) = Some y" "kvs ! n \<in> set kvs"
      using vs by (auto simp: list_all2_conv_all_nth)
    then show ?thesis using "3.IH" plain by blast
  qed
  moreover have "length vs = length kvs" using vs by (simp add: list_all2_lengthD)
  ultimately show ?case using plain by (simp add: v members_wf_compact list_all_iff)
qed simp_all

lemma sample_texts: "json_text (render (JObj [] sample_members_text))" "json_text '' {}''"
proof -
  have "val_wf (JObj [] sample_members_text)" by code_simp
  then show "json_text (render (JObj [] sample_members_text))"
    unfolding json_text_def by (intro exI [of _ "[]"] exI [of _ "JObj [] sample_members_text"]) simp
  show "json_text '' {}''"
    unfolding json_text_def
    by (intro exI [of _ "'' ''"] exI [of _ "JObj [] MNil"] exI [of _ "[]"]) (simp add: is_json_ws_def)
qed

lemma table_nlohmann_ok:
  assumes "\<And>s j. (s, j) \<in> set table \<Longrightarrow> json_text s \<and> is_container j"
  shows "nlohmann_ok (table_nlohmann table)"
proof -
  let ?N = "table_nlohmann table"
  have "ucast (ucast w :: u64) = w" for w :: u32 by (rule bit_word_eqI) (auto simp: bit_unsigned_iff)
  then have num: "nl_u32 ?N (json_num w) = Some w" for w by (simp add: table_nlohmann_def json_num_def)
  have dump: "nl_dump ?N j = map_option render (text_of j)" for j by (simp add: table_nlohmann_def)
  have obj: "\<exists>vs. list_all2 (\<lambda>kv v. val_wf v \<and> nl_dump ?N (snd kv) = Some (render v)) kvs vs
      \<and> s = render (JObj [] (compact (zip (map fst kvs) vs)))" if s: "nl_dump ?N (JObject kvs) = Some s" for kvs s
  proof -
    obtain v where "text_of (JObject kvs) = Some v" "s = render v" using s unfolding dump by auto
    then obtain vs where vs: "list_all2 (\<lambda>kv y. text_of (snd kv) = Some y) kvs vs"
      and "s = render (JObj [] (compact (zip (map fst kvs) vs)))" by (elim text_of_object) simp
    moreover have "list_all2 (\<lambda>kv v. val_wf v \<and> nl_dump ?N (snd kv) = Some (render v)) kvs vs"
      using vs by (rule list_all2_mono) (simp add: dump text_of_wf)
    ultimately show ?thesis by blast
  qed
  have "json_text s \<and> is_container v" if "nl_parse ?N s = Some v" for s v
    using that assms map_of_SomeD by (fastforce simp: table_nlohmann_def)
  moreover have "nl_accept ?N s \<longleftrightarrow> nl_parse ?N s \<noteq> None" for s by (simp add: table_nlohmann_def)
  ultimately show ?thesis
    unfolding nlohmann_ok_def using num obj by (auto simp: table_nlohmann_def)
qed


text \<open>An indication without a payload member: the decoder reads a member that is not there.\<close>

theorem indication_without_payload_undefined:
  assumes N: "nlohmann_ok N" and frame: "val_wf (JObj w ms)" "member_value ''protocolData'' ms = None"
    and parse: "nl_parse N (render (JObj w ms)) = Some (JObject kvs)"
    and kvs: "map_of kvs ''type'' = Some (JString ''indicationMessage'')" "map_of kvs ''id'' = Some (json_num i)"
      "map_of kvs ''timestamp'' = Some (JUnsigned ts)" "map_of kvs ''data'' = None"
      "map_of kvs ''dAppIdentifier'' = Some (json_num d)" "map_of kvs ''ranFunctionIdentifier'' = Some (json_num rf)"
      "map_of kvs ''protocolData'' = None"
  shows "json_decode N (to_bytes (render (JObj w ms))) = Undefined"
proof -
  let ?raw = "render (JObj w ms)"
  have "takeWhile is_json_ws ?raw = []" "?raw \<noteq> []" by (simp_all add: is_json_ws_def)
  then have scan: "scan_member ?raw ''protocolData'' = None" "to_bytes ?raw \<noteq> []"
    using span_exact [OF frame(1), of ?raw "[]" "[]" "''protocolData''"] frame(2)
    by (simp_all add: scan_member_def to_bytes_def)
  have "json_choice N (JObject kvs) ?raw INDICATION_MESSAGE = Undefined"
    using scan kvs by (simp add: read_indication_message_def nl_reads [OF N])
  moreover have "string_to_pdu_type ''indicationMessage'' = Some INDICATION_MESSAGE"
    by (simp add: string_to_pdu_type_def)
  ultimately show ?thesis
    using scan(2) parse kvs by (simp add: json_decode_def nl_reads [OF N])
qed

theorem indication_without_payload_undefined_witness:
  "json_decode (table_nlohmann [(render (JObj [] bare_members), JObject bare_tree)])
     (to_bytes (render (JObj [] bare_members))) = Undefined"
proof -
  have wf: "val_wf (JObj [] bare_members)" by code_simp
  then have "json_text (render (JObj [] bare_members))"
    unfolding json_text_def by (intro exI [of _ "[]"] exI [of _ "JObj [] bare_members"]) simp
  then have "nlohmann_ok (table_nlohmann [(render (JObj [] bare_members), JObject bare_tree)])"
    by (intro table_nlohmann_ok) auto
  from indication_without_payload_undefined [OF this wf, of bare_tree 5 0 1 2] show ?thesis
    by (simp add: bare_members_def bare_tree_def table_nlohmann_def)
qed

end
