(* ===== verification/Posix_Framing.thy ===== *)
theory Posix_Framing
  imports E3_Types
begin

unbundle bit_operations_syntax

text \<open>
  The framing of the POSIX connector, \<open>send_in_chunks\<close> and \<open>recv_with_size\<close> of
  \<^verbatim>\<open>src/connector/posix_connector.cpp\<close>. The kernel is a script of results: how many octets a write
  takes or a read gives, at most what is offered or there, an interruption, or an error. A call whose
  script ends waits for the kernel and has no result.
\<close>

definition CHUNK_SIZE :: nat where "CHUNK_SIZE = 8192"

section \<open>Network byte order\<close>

definition htonl_octets :: "u32 \<Rightarrow> bytes" where
  "htonl_octets w = [ucast (drop_bit 24 w), ucast (drop_bit 16 w), ucast (drop_bit 8 w), ucast w]"

fun ntohl_octets :: "bytes \<Rightarrow> u32" where
  "ntohl_octets [a, b, c, d] =
     push_bit 24 (ucast a) OR push_bit 16 (ucast b) OR push_bit 8 (ucast c) OR ucast d"
| "ntohl_octets _ = 0"

lemma length_htonl [simp]: "length (htonl_octets w) = 4"
  by (simp add: htonl_octets_def)

lemma ntohl_htonl [simp]: "ntohl_octets (htonl_octets w) = w"
proof -
  define x :: u32 where "x = push_bit 24 (ucast (ucast (drop_bit 24 w) :: u8)) OR
    push_bit 16 (ucast (ucast (drop_bit 16 w) :: u8)) OR push_bit 8 (ucast (ucast (drop_bit 8 w) :: u8)) OR ucast (ucast w :: u8)"
  have "bit x n = bit w n" if "n < 32" for n
  proof -
    consider "n < 8" | "8 \<le> n" "n < 16" | "16 \<le> n" "n < 24" | "24 \<le> n" using that by linarith
    then show ?thesis using that by cases (auto simp: x_def bit_simps)
  qed
  then have "x = w" by (intro bit_word_eqI) simp
  then show ?thesis by (simp add: htonl_octets_def x_def)
qed

section \<open>Sending\<close>

datatype sys_result = Count nat | Interrupted | Failed

text \<open>What the next system call is given: the rest of the prefix and the payload, or one chunk.\<close>

definition offered :: "bytes \<Rightarrow> nat \<Rightarrow> bytes" where
  "offered buffer total_sent =
     (if total_sent < 4
      then drop total_sent (htonl_octets (word_of_nat (length buffer))) @ buffer
      else take CHUNK_SIZE (drop (total_sent - 4) buffer))"

fun send_loop :: "bytes \<Rightarrow> nat \<Rightarrow> sys_result list \<Rightarrow> (bytes \<times> int) option" where
  "send_loop buffer total_sent script =
     (if total_sent < 4 + length buffer then
        (case script of
           [] \<Rightarrow> None
         | Interrupted # rest \<Rightarrow> send_loop buffer total_sent rest
         | Failed # rest \<Rightarrow> Some ([], -1)
         | Count n # rest \<Rightarrow>
             let sent = take n (offered buffer total_sent)
             in map_option (\<lambda>(out, r). (sent @ out, r)) (send_loop buffer (total_sent + length sent) rest))
      else Some ([], 0))"

declare send_loop.simps [simp del]

definition send_in_chunks :: "bytes \<Rightarrow> sys_result list \<Rightarrow> (bytes \<times> int) option" where
  "send_in_chunks buffer script = send_loop buffer 0 script"

section \<open>Receiving\<close>

text \<open>
  One \<open>recv\<close> for at most \<open>want\<close> octets on a stream: the octets it gives, none when the peer has closed,
  and what stays in the stream; or an error.
\<close>

fun sys_recv :: "sys_result \<Rightarrow> nat \<Rightarrow> bytes \<Rightarrow> (bytes \<times> bytes) option" where
  "sys_recv (Count n) want stream = Some (take (min n want) stream, drop (min n want) stream)"
| "sys_recv _ want stream = None"

text \<open>Read until \<open>want\<close> octets are there, at most \<open>chunk\<close> at a time.\<close>

fun recv_loop ::
    "nat \<Rightarrow> error_code \<Rightarrow> nat \<Rightarrow> bytes \<Rightarrow> sys_result list \<Rightarrow> bytes
      \<Rightarrow> ((error_code + bytes) \<times> sys_result list \<times> bytes) option" where
  "recv_loop chunk on_close want got script stream =
     (if length got < want then
        (case script of
           [] \<Rightarrow> None
         | r # rest \<Rightarrow>
             (case sys_recv r (min chunk (want - length got)) stream of
                None \<Rightarrow> Some (Inl TRANSPORT_ERROR, rest, stream)
              | Some (bs, stream') \<Rightarrow>
                  if bs = [] then Some (Inl on_close, rest, stream')
                  else recv_loop chunk on_close want (got @ bs) rest stream'))
      else Some (Inr got, script, stream))"

declare recv_loop.simps [simp del]

definition recv_with_size ::
    "sys_result list \<Rightarrow> bytes \<Rightarrow> ((error_code + bytes) \<times> sys_result list \<times> bytes) option" where
  "recv_with_size script stream =
     (case recv_loop 4 NOT_CONNECTED 4 [] script stream of
        None \<Rightarrow> None
      | Some (Inl e, rest, stream') \<Rightarrow> Some (Inl e, rest, stream')
      | Some (Inr header, rest, stream') \<Rightarrow>
          let payload_size = unat (ntohl_octets header)
          in if payload_size = 0 \<or> payload_size > MAX_PROTOCOL_DATA_SIZE * 2
             then Some (Inl TRANSPORT_ERROR, rest, stream')
             else recv_loop CHUNK_SIZE TRANSPORT_ERROR payload_size [] rest stream')"

section \<open>Frames\<close>

definition frame :: "bytes \<Rightarrow> bytes" where
  "frame buffer = htonl_octets (word_of_nat (length buffer)) @ buffer"

text \<open>Every write takes something, every read gives something.\<close>

definition progress :: "sys_result list \<Rightarrow> bool" where
  "progress script \<longleftrightarrow> (\<forall>r\<in>set script. \<exists>n>0. r = Count n)"

lemma take_length_take: "take (length (take j xs)) xs = take j xs"
  by (cases "j \<le> length xs") simp_all

lemma length_frame [simp]: "length (frame buffer) = 4 + length buffer"
  by (simp add: frame_def)

lemma offered_prefix:
  assumes "tot < length (frame buffer)"
  shows "\<exists>k. offered buffer tot = take k (drop tot (frame buffer)) \<and> (k > 0)"
proof (cases "tot < 4")
  case True
  then show ?thesis by (intro exI [of _ "length (frame buffer)"]) (simp add: offered_def frame_def)
next
  case False
  then show ?thesis by (intro exI [of _ CHUNK_SIZE]) (simp add: offered_def frame_def CHUNK_SIZE_def)
qed

lemma offered_nonempty: "tot < length (frame buffer) \<Longrightarrow> offered buffer tot \<noteq> []"
  using offered_prefix [of tot buffer] by auto

text \<open>A send that returns 0 has written the frame; one that fails has written a prefix of it.\<close>

lemma send_loop_result:
  "send_loop buffer tot script = Some (out, r) \<Longrightarrow> tot \<le> length (frame buffer) \<Longrightarrow>
   (r = 0 \<and> out = drop tot (frame buffer)) \<or> (r = -1 \<and> (\<exists>k. out = take k (drop tot (frame buffer))))"
proof (induction buffer tot script arbitrary: out rule: send_loop.induct)
  case (1 buffer tot script)
  note len = length_frame [of buffer]
  show ?case
  proof (cases "tot < 4 + length buffer")
    case False
    with "1.prems" len show ?thesis by (subst (asm) send_loop.simps) simp
  next
    case True
    note unfolded = "1.prems"(1) [unfolded send_loop.simps [of buffer tot script]] True
    show ?thesis
    proof (cases script)
      case Nil
      with unfolded show ?thesis by simp
    next
      case (Cons x rest)
      show ?thesis
      proof (cases x)
        case (Count n)
        let ?sent = "take n (offered buffer tot)"
        obtain k where k: "offered buffer tot = take k (drop tot (frame buffer))"
          using offered_prefix [of tot buffer] True len by auto
        then have sent: "?sent = take (min n k) (drop tot (frame buffer))" by (simp add: min.commute)
        have le: "tot + length ?sent \<le> length (frame buffer)" using True len by (simp add: k)
        obtain out' where out: "out = ?sent @ out'" and rec: "send_loop buffer (tot + length ?sent) rest = Some (out', r)"
          using unfolded Cons Count by (auto simp: Let_def)
        let ?F = "drop tot (frame buffer)" and ?m = "length ?sent"
        have pre: "?sent = take ?m ?F" and suf: "drop (tot + ?m) (frame buffer) = drop ?m ?F"
          using take_length_take [of "min n k" ?F] by (simp_all add: sent add.commute)
        from "1.IH"(1) [OF True Cons Count refl rec le] show ?thesis
        proof
          assume "r = 0 \<and> out' = drop (tot + ?m) (frame buffer)"
          then have "r = 0" "out = take ?m ?F @ drop ?m ?F" using out pre suf by metis+
          then show ?thesis by (metis append_take_drop_id)
        next
          assume "r = -1 \<and> (\<exists>j. out' = take j (drop (tot + ?m) (frame buffer)))"
          then obtain j where "r = -1" "out = take ?m ?F @ take j (drop ?m ?F)" using out pre suf by metis
          then show ?thesis by (metis take_add)
        qed
      next
        case Interrupted
        with "1.IH"(2) [OF True Cons Interrupted] unfolded Cons "1.prems"(2) show ?thesis by simp
      next
        case Failed
        with unfolded Cons show ?thesis by (auto intro: exI [of _ 0])
      qed
    qed
  qed
qed

text \<open>
  Interruptions apart, a kernel that takes something at every write takes the frame in at most as many
  writes as it has octets.
\<close>

definition writes :: "sys_result list \<Rightarrow> sys_result list" where
  "writes script = filter (\<lambda>r. r \<noteq> Interrupted) script"

lemma progress_Cons [simp]: "progress (r # script) \<longleftrightarrow> (\<exists>n>0. r = Count n) \<and> progress script"
  by (auto simp: progress_def)

lemma send_loop_returns:
  "progress (writes script) \<Longrightarrow> 4 + length buffer \<le> tot + length (writes script) \<Longrightarrow>
   \<exists>out r. send_loop buffer tot script = Some (out, r) \<and> r = 0"
proof (induction script arbitrary: tot)
  case Nil
  then show ?case by (subst send_loop.simps) (simp add: writes_def)
next
  case (Cons x rest)
  show ?case
  proof (cases "tot < 4 + length buffer")
    case False
    then show ?thesis by (subst send_loop.simps) simp
  next
    case True
    show ?thesis
    proof (cases x)
      case (Count n)
      let ?sent = "take n (offered buffer tot)"
      have "n > 0" using Cons.prems(1) Count by (simp add: writes_def)
      then have "length ?sent > 0" using offered_nonempty [of tot buffer] True by simp
      then have "4 + length buffer \<le> tot + length ?sent + length (writes rest)"
        using Cons.prems(2) Count by (simp add: writes_def del: length_take length_greater_0_conv)
      with Cons.IH [of "tot + length ?sent"] Cons.prems(1) Count True show ?thesis
        by (subst send_loop.simps) (auto simp: writes_def Let_def)
    next
      case Interrupted
      with Cons.IH [of tot] Cons.prems True show ?thesis by (subst send_loop.simps) (simp add: writes_def)
    next
      case Failed
      with Cons.prems(1) show ?thesis by (simp add: writes_def)
    qed
  qed
qed

lemma send_in_chunks_frame:
  assumes "progress (writes script)" "4 + length buffer \<le> length (writes script)"
  shows "send_in_chunks buffer script = Some (frame buffer, 0)"
  using send_loop_returns [OF assms(1), of buffer 0] assms(2) send_loop_result [of buffer 0 script]
  by (auto simp: send_in_chunks_def)

text \<open>The reading loop takes exactly what it wants off the stream.\<close>

lemma recv_loop_exact:
  assumes "chunk > 0"
  shows "progress script \<Longrightarrow> length got \<le> want \<Longrightarrow> want - length got \<le> length script \<Longrightarrow>
    want - length got \<le> length stream \<Longrightarrow>
    \<exists>k \<le> want - length got. recv_loop chunk c want got script stream =
      Some (Inr (got @ take (want - length got) stream), drop k script, drop (want - length got) stream)"
proof (induction script arbitrary: got stream)
  case Nil
  then show ?case by (subst recv_loop.simps) simp
next
  case (Cons x rest)
  show ?case
  proof (cases "length got < want")
    case False
    with Cons.prems show ?thesis by (subst recv_loop.simps) simp
  next
    case True
    obtain n where x: "x = Count n" "n > 0" and rest: "progress rest" using Cons.prems(1) by auto
    define m where "m = min n (min chunk (want - length got))"
    have m: "0 < m" "m \<le> want - length got" "m \<le> length stream"
      using x assms True Cons.prems by (auto simp: m_def)
    let ?got = "got @ take m stream"
    have step: "recv_loop chunk c want got (x # rest) stream = recv_loop chunk c want ?got rest (drop m stream)"
      using True m x by (subst recv_loop.simps) (auto simp: m_def)
    have left: "want - length ?got = want - length got - m" using m by simp
    obtain k where k: "k \<le> want - length ?got"
      "recv_loop chunk c want ?got rest (drop m stream) =
        Some (Inr (?got @ take (want - length ?got) (drop m stream)), drop k rest, drop (want - length ?got) (drop m stream))"
    proof -
      have "length ?got \<le> want" "want - length ?got \<le> length rest" "want - length ?got \<le> length (drop m stream)"
        using m Cons.prems by auto
      from Cons.IH [OF rest this] show ?thesis using that by blast
    qed
    have "take m stream @ take (want - length got - m) (drop m stream) = take (want - length got) stream"
      using m by (metis take_add le_add_diff_inverse)
    then show ?thesis using k left m step by (intro exI [of _ "Suc k"]) auto
  qed
qed

lemma progress_drop: "progress script \<Longrightarrow> progress (drop k script)"
  unfolding progress_def by (meson in_set_dropD)

lemma recv_header:
  assumes "progress script" "4 \<le> length script"
  shows "\<exists>k\<le>4. recv_loop 4 NOT_CONNECTED 4 [] script (frame buffer @ rest) =
     Some (Inr (htonl_octets (word_of_nat (length buffer))), drop k script, buffer @ rest)"
  using recv_loop_exact [of 4 script "[]" 4 "frame buffer @ rest" NOT_CONNECTED] assms
  by (simp add: frame_def)

lemma unat_length: "length buffer < 2 ^ 32 \<Longrightarrow> unat (word_of_nat (length buffer) :: u32) = length buffer"
  by (simp add: unat_of_nat take_bit_nat_eq_self)

lemma recv_with_size_frame:
  assumes "progress script" "4 + length buffer \<le> length script"
    and "0 < length buffer" "length buffer \<le> MAX_PROTOCOL_DATA_SIZE * 2"
  shows "\<exists>script'. recv_with_size script (frame buffer @ rest) = Some (Inr buffer, script', rest)"
proof -
  obtain k where k: "k \<le> 4" "recv_loop 4 NOT_CONNECTED 4 [] script (frame buffer @ rest) =
     Some (Inr (htonl_octets (word_of_nat (length buffer))), drop k script, buffer @ rest)"
    using recv_header [OF assms(1)] assms(2) by fastforce
  have size: "unat (word_of_nat (length buffer) :: u32) = length buffer"
    using assms(4) by (intro unat_length) (simp add: MAX_PROTOCOL_DATA_SIZE_def)
  have enough: "length buffer \<le> length script - k" using assms(2) k(1) by linarith
  obtain j where "recv_loop CHUNK_SIZE TRANSPORT_ERROR (length buffer) [] (drop k script) (buffer @ rest) =
     Some (Inr buffer, drop j (drop k script), rest)"
    using recv_loop_exact [of CHUNK_SIZE "drop k script" "[]" "length buffer" "buffer @ rest" TRANSPORT_ERROR]
      enough progress_drop [OF assms(1), of k] by (auto simp: CHUNK_SIZE_def)
  then show ?thesis using k(2) size assms(3,4) by (simp add: recv_with_size_def Let_def)
qed

section \<open>Properties\<close>

text \<open>C27. Whatever sizes the kernel writes and reads in, and however often a write is interrupted, a
  message of 1 to 65536 octets sent with its length prefix is the message the other end receives, and
  what follows it in the stream is left for the next read.\<close>

theorem framing_roundtrip:
  assumes "0 < length buffer" "length buffer \<le> MAX_PROTOCOL_DATA_SIZE * 2"
    and "progress (writes sender)" "4 + length buffer \<le> length (writes sender)"
    and "progress receiver" "4 + length buffer \<le> length receiver"
  shows "\<exists>wire script. send_in_chunks buffer sender = Some (wire, 0) \<and>
     recv_with_size receiver (wire @ rest) = Some (Inr buffer, script, rest)"
  using send_in_chunks_frame [OF assms(3,4)] recv_with_size_frame [OF assms(5,6,1,2)] by blast

theorem framing_roundtrip_witness:
  "\<exists>wire script.
     send_in_chunks [7, 8] [Count 1, Interrupted, Count 2, Count 9, Count 1, Count 1, Count 1] = Some (wire, 0) \<and>
     recv_with_size [Count 3, Count 3, Count 1, Count 5, Count 1, Count 1] (wire @ [9]) = Some (Inr [7, 8], script, [9])"
  by (rule framing_roundtrip) (simp_all add: MAX_PROTOCOL_DATA_SIZE_def writes_def progress_def)

text \<open>The sender has no limit of its own: a message of more than 65536 octets goes out in full and the
  other end, having read its length, refuses it and leaves its octets in the stream, where the next
  read takes them for a length.\<close>

theorem oversize_frame_left_in_stream:
  assumes "MAX_PROTOCOL_DATA_SIZE * 2 < length buffer" "length buffer < 2 ^ 32"
    and "progress (writes sender)" "4 + length buffer \<le> length (writes sender)"
    and "progress receiver" "4 \<le> length receiver"
  shows "\<exists>wire script. send_in_chunks buffer sender = Some (wire, 0) \<and>
     recv_with_size receiver (wire @ rest) = Some (Inl TRANSPORT_ERROR, script, buffer @ rest)"
proof -
  obtain k where "recv_loop 4 NOT_CONNECTED 4 [] receiver (frame buffer @ rest) =
     Some (Inr (htonl_octets (word_of_nat (length buffer))), drop k receiver, buffer @ rest)"
    using recv_header [OF assms(5,6)] by blast
  then have "recv_with_size receiver (frame buffer @ rest) = Some (Inl TRANSPORT_ERROR, drop k receiver, buffer @ rest)"
    using assms(1) unat_length [OF assms(2)] by (simp add: recv_with_size_def Let_def)
  with send_in_chunks_frame [OF assms(3,4)] show ?thesis by blast
qed

theorem oversize_frame_left_in_stream_witness:
  "\<exists>wire script.
     send_in_chunks (replicate 65537 1) (replicate 65541 (Count 70000)) = Some (wire, 0) \<and>
     recv_with_size (replicate 4 (Count 4)) (wire @ []) =
       Some (Inl TRANSPORT_ERROR, script, replicate 65537 1 @ [])"
  by (rule oversize_frame_left_in_stream) (simp_all add: MAX_PROTOCOL_DATA_SIZE_def writes_def progress_def)

end
