(* ===== verification/Posix_Connector.thy ===== *)
theory Posix_Connector
  imports Posix_Framing E3_Text "HOL-Library.Monad_Syntax"
begin

text \<open>
  The POSIX socket connector, \<^verbatim>\<open>src/connector/posix_connector.cpp\<close>. Every method takes
  what the kernel answers (a poll result, accepted descriptors, what a read gives, the write script of
  each descriptor) and returns its result, the connector and the list of what it did to the kernel:
  descriptors opened and closed, addresses bound and connected, paths removed, octets written. The
  socket options for Nagle, timeouts and non-blocking mode have no effect on these results and are
  left out; \<open>SO_REUSEADDR\<close> is kept. A method whose write or read waits for ever has the result None.
\<close>

section \<open>State\<close>

datatype posix_address = Unix_path string | Any_address u16 | Loopback u16

datatype posix_event =
    Opened int | Closed int | Shut int
  | Bound int posix_address | Connected_to int posix_address | Reuseaddr int
  | Unlinked string | Written int bytes

definition UNUSED_SOCKET :: int where "UNUSED_SOCKET = -2"

record posix_connector =
  px_role :: e3_role
  px_transport_layer :: e3_transport_layer
  px_setup_endpoint :: string
  px_inbound_endpoint :: string
  px_outbound_endpoint :: string
  px_setup_socket :: int
  px_setup_connection_socket :: int
  px_inbound_socket :: int
  px_inbound_connection_socket :: int
  px_outbound_socket :: int
  px_outbound_connection_socket :: int
  px_inbound_peer_sockets :: "int list"
  px_outbound_peer_sockets :: "int list"
  px_inbound_rr :: nat
  px_setup_port :: u16
  px_inbound_port :: u16
  px_outbound_port :: u16
  px_connected :: bool
  px_shutdown_requested :: bool

definition strip_uri_prefix :: "string \<Rightarrow> string" where
  "strip_uri_prefix endpoint =
     (case find_text ''://'' endpoint of Some pos \<Rightarrow> drop (pos + 3) endpoint | None \<Rightarrow> endpoint)"

definition posix_connector_new ::
    "e3_role \<Rightarrow> e3_transport_layer \<Rightarrow> string \<Rightarrow> string \<Rightarrow> string \<Rightarrow> u16 \<Rightarrow> u16 \<Rightarrow> u16 \<Rightarrow> posix_connector" where
  "posix_connector_new role transport setup_ep inbound_ep outbound_ep setup_p inbound_p outbound_p =
     \<lparr> px_role = role, px_transport_layer = transport,
       px_setup_endpoint = strip_uri_prefix setup_ep, px_inbound_endpoint = strip_uri_prefix inbound_ep,
       px_outbound_endpoint = strip_uri_prefix outbound_ep,
       px_setup_socket = -1, px_setup_connection_socket = UNUSED_SOCKET,
       px_inbound_socket = -1, px_inbound_connection_socket = UNUSED_SOCKET,
       px_outbound_socket = -1, px_outbound_connection_socket = UNUSED_SOCKET,
       px_inbound_peer_sockets = [], px_outbound_peer_sockets = [], px_inbound_rr = 0,
       px_setup_port = setup_p, px_inbound_port = inbound_p, px_outbound_port = outbound_p,
       px_connected = False, px_shutdown_requested = False \<rparr>"

section \<open>Kernel answers\<close>

datatype poll_result = Poll_timeout | Poll_interrupted | Poll_failed | Poll_ready

text \<open>\<open>Accept_retry\<close> stands for \<open>EINTR\<close> and \<open>EAGAIN\<close>.\<close>

datatype accept_result = Accepted int | Accept_retry | Accept_failed

text \<open>\<open>Octets []\<close> is the end of the stream, \<open>Recv_again\<close> stands for \<open>EINTR\<close> and \<open>EAGAIN\<close>.\<close>

datatype read_result = Octets bytes | Recv_again | Recv_failed

record listener_env =
  le_dir_exists :: bool
  le_mkdir_ok :: bool
  le_socket :: int
  le_bind_ok :: bool
  le_listen_ok :: bool

record poll_events =
  ev_in :: bool
  ev_broken :: bool

record receive_env =
  re_poll :: poll_result
  re_listener :: bool
  re_pending :: "accept_result list"
  re_revents :: "int \<Rightarrow> poll_events"
  re_recv :: "int \<Rightarrow> read_result"
  re_script :: "sys_result list"
  re_stream :: bytes

record send_env =
  se_raw :: sys_result
  se_pending :: "accept_result list"
  se_scripts :: "int \<Rightarrow> sys_result list"

text \<open>One attempt to connect: no socket, a socket whose connect fails, or a connected one.\<close>

datatype connect_result = No_socket | Refused int | Connection int

section \<open>Listeners (RAN)\<close>

text \<open>\<open>strncpy\<close> into \<open>sun_path\<close>, which holds 108 octets and a terminator.\<close>

definition sun_path :: "string \<Rightarrow> string" where
  "sun_path endpoint = take 107 endpoint"

definition listen_address :: "e3_transport_layer \<Rightarrow> string \<Rightarrow> u16 \<Rightarrow> posix_address" where
  "listen_address transport endpoint port =
     (if transport = IPC then Unix_path (sun_path endpoint) else Any_address port)"

text \<open>\<open>sctp_stream_socket\<close> gives no socket when the library is built without SCTP.\<close>

definition stream_socket :: "bool \<Rightarrow> e3_transport_layer \<Rightarrow> int \<Rightarrow> int" where
  "stream_socket with_sctp transport fd = (if transport = SCTP \<and> \<not> with_sctp then -1 else fd)"

definition open_listener ::
    "bool \<Rightarrow> bool \<Rightarrow> e3_transport_layer \<Rightarrow> string \<Rightarrow> u16 \<Rightarrow> listener_env \<Rightarrow> (error_code + int) \<times> posix_event list" where
  "open_listener with_sctp reuse transport endpoint port e =
     (if transport = IPC \<and> \<not> le_dir_exists e \<and> \<not> le_mkdir_ok e then (Inl CONNECTION_FAILED, [])
      else
        let sock = stream_socket with_sctp transport (le_socket e);
            unlinked = (if transport = IPC then [Unlinked endpoint] else []);
            prepared = (if reuse \<and> transport \<noteq> IPC then [Reuseaddr sock] else unlinked);
            bound = [Bound sock (listen_address transport endpoint port)]
        in if sock < 0 then (Inl CONNECTION_FAILED, unlinked)
           else if \<not> le_bind_ok e then (Inl CONNECTION_FAILED, [Opened sock] @ prepared @ [Closed sock])
           else if \<not> le_listen_ok e then (Inl CONNECTION_FAILED, [Opened sock] @ prepared @ bound @ [Closed sock])
           else (Inr sock, [Opened sock] @ prepared @ bound))"

definition posix_setup_initial_connection ::
    "bool \<Rightarrow> listener_env \<Rightarrow> posix_connector \<Rightarrow> error_code \<times> posix_connector \<times> posix_event list" where
  "posix_setup_initial_connection with_sctp e c =
     (case open_listener with_sctp True (px_transport_layer c) (px_setup_endpoint c) (px_setup_port c) e of
        (Inl err, evs) \<Rightarrow> (err, c, evs)
      | (Inr sock, evs) \<Rightarrow> (SUCCESS, c \<lparr> px_setup_socket := sock, px_connected := True \<rparr>, evs))"

definition posix_setup_inbound_connection ::
    "bool \<Rightarrow> listener_env \<Rightarrow> posix_connector \<Rightarrow> error_code \<times> posix_connector \<times> posix_event list" where
  "posix_setup_inbound_connection with_sctp e c =
     (case open_listener with_sctp True (px_transport_layer c) (px_inbound_endpoint c) (px_inbound_port c) e of
        (Inl err, evs) \<Rightarrow> (err, c, evs)
      | (Inr sock, evs) \<Rightarrow> (SUCCESS, c \<lparr> px_inbound_socket := sock \<rparr>, evs))"

text \<open>The outbound listener is bound without \<open>SO_REUSEADDR\<close>.\<close>

definition posix_setup_outbound_connection ::
    "bool \<Rightarrow> listener_env \<Rightarrow> posix_connector \<Rightarrow> error_code \<times> posix_connector \<times> posix_event list" where
  "posix_setup_outbound_connection with_sctp e c =
     (case open_listener with_sctp False (px_transport_layer c) (px_outbound_endpoint c) (px_outbound_port c) e of
        (Inl err, evs) \<Rightarrow> (err, c, evs)
      | (Inr sock, evs) \<Rightarrow> (SUCCESS, c \<lparr> px_outbound_socket := sock \<rparr>, evs))"

text \<open>The pending connections of a listener, taken until the poll or the accept gives none.\<close>

fun accept_all :: "accept_result list \<Rightarrow> int list" where
  "accept_all (Accepted fd # rest) = fd # accept_all rest"
| "accept_all _ = []"

definition drain_accept :: "int \<Rightarrow> accept_result list \<Rightarrow> int list \<Rightarrow> int list \<times> posix_event list" where
  "drain_accept listener pending peers =
     (if listener < 0 then (peers, [])
      else (peers @ accept_all pending, map Opened (accept_all pending)))"

section \<open>The setup channel (RAN)\<close>

definition posix_recv_setup_request ::
    "poll_result \<Rightarrow> accept_result \<Rightarrow> read_result \<Rightarrow> posix_connector
      \<Rightarrow> (error_code + bytes) \<times> posix_connector \<times> posix_event list" where
  "posix_recv_setup_request poll acc recv c =
     (if px_setup_socket c < 0 then (Inl NOT_CONNECTED, c, [])
      else case poll of
        Poll_timeout \<Rightarrow> (Inr [], c, [])
      | Poll_interrupted \<Rightarrow> (Inr [], c, [])
      | Poll_failed \<Rightarrow> (Inl TRANSPORT_ERROR, c, [])
      | Poll_ready \<Rightarrow>
          let old = px_setup_connection_socket c;
              closed = (if old \<ge> 0 then [Closed old] else []);
              dropped = c \<lparr> px_setup_connection_socket := -1 \<rparr>
          in case acc of
               Accept_retry \<Rightarrow> (Inr [], dropped, closed)
             | Accept_failed \<Rightarrow>
                 (if px_shutdown_requested c then Inr [] else Inl TRANSPORT_ERROR, dropped, closed)
             | Accepted fd \<Rightarrow>
                 (let kept = c \<lparr> px_setup_connection_socket := fd \<rparr>; opened = closed @ [Opened fd]
                  in case recv of
                       Recv_again \<Rightarrow> (Inr [], dropped, opened @ [Closed fd])
                     | Recv_failed \<Rightarrow> (Inl TRANSPORT_ERROR, kept, opened)
                     | Octets bs \<Rightarrow> (Inr (take DEFAULT_BUFFER_SIZE bs), kept, opened)))"

definition posix_send_response ::
    "sys_result list \<Rightarrow> bytes \<Rightarrow> posix_connector \<Rightarrow> (error_code \<times> posix_event list) option" where
  "posix_send_response script data c =
     (if px_setup_connection_socket c < 0 then Some (NOT_CONNECTED, [])
      else map_option
        (\<lambda>(out, ret). (if ret < 0 then TRANSPORT_ERROR else SUCCESS, [Written (px_setup_connection_socket c) out]))
        (send_in_chunks data script))"

section \<open>Receiving\<close>

definition posix_receive_dapp ::
    "receive_env \<Rightarrow> posix_connector \<Rightarrow> (error_code + bytes) option" where
  "posix_receive_dapp e c =
     (if px_inbound_connection_socket c < 0 then Some (Inl NOT_CONNECTED)
      else case re_poll e of
        Poll_timeout \<Rightarrow> Some (Inr [])
      | Poll_interrupted \<Rightarrow> Some (Inr [])
      | Poll_failed \<Rightarrow> Some (Inl TRANSPORT_ERROR)
      | Poll_ready \<Rightarrow> map_option fst (recv_with_size (re_script e) (re_stream e)))"

text \<open>What a read of a ready peer gives, and whether the peer is broken.\<close>

definition read_peer :: "poll_events \<Rightarrow> read_result \<Rightarrow> bytes \<times> bool" where
  "read_peer re r =
     (if ev_in re then
        (case r of
           Octets bs \<Rightarrow> (take DEFAULT_BUFFER_SIZE bs, ev_broken re \<or> bs = [])
         | Recv_again \<Rightarrow> ([], ev_broken re)
         | Recv_failed \<Rightarrow> ([], True))
      else ([], ev_broken re))"

text \<open>The peers in the order of the scan, each with its index.\<close>

definition scan_order :: "nat \<Rightarrow> int list \<Rightarrow> (nat \<times> int) list" where
  "scan_order rr polled = map (\<lambda>k. let idx = (rr + k) mod length polled in (idx, polled ! idx)) [0..<length polled]"

fun scan_peers ::
    "receive_env \<Rightarrow> (nat \<times> int) list \<Rightarrow> int list \<Rightarrow> (bytes \<times> nat) option \<times> int list \<times> posix_event list" where
  "scan_peers e [] peers = (None, peers, [])"
| "scan_peers e ((idx, fd) # rest) peers =
     (if \<not> (ev_in (re_revents e fd) \<or> ev_broken (re_revents e fd)) then scan_peers e rest peers
      else
        let (bs, broken) = read_peer (re_revents e fd) (re_recv e fd)
        in if bs \<noteq> [] then (Some (bs, idx), peers, [])
           else if broken then
             (let (served, left, evs) = scan_peers e rest (removeAll fd peers) in (served, left, Closed fd # evs))
           else scan_peers e rest peers)"

definition posix_receive_ran ::
    "receive_env \<Rightarrow> posix_connector \<Rightarrow> (error_code + bytes) \<times> posix_connector \<times> posix_event list" where
  "posix_receive_ran e c =
     (if px_inbound_socket c < 0 then (Inl NOT_CONNECTED, c, [])
      else case re_poll e of
        Poll_timeout \<Rightarrow> (Inr [], c, [])
      | Poll_interrupted \<Rightarrow> (Inr [], c, [])
      | Poll_failed \<Rightarrow> (Inl TRANSPORT_ERROR, c, [])
      | Poll_ready \<Rightarrow>
          let polled = px_inbound_peer_sockets c;
              n_peers = length polled;
              (peers, accepted) =
                (if re_listener e then drain_accept (px_inbound_socket c) (re_pending e) polled else (polled, []));
              (served, left, closed) = scan_peers e (scan_order (px_inbound_rr c) polled) peers
          in case served of
               Some (bs, idx) \<Rightarrow>
                 (Inr bs, c \<lparr> px_inbound_peer_sockets := left, px_inbound_rr := idx + 1 \<rparr>, accepted @ closed)
             | None \<Rightarrow>
                 (Inr [],
                  c \<lparr> px_inbound_peer_sockets := left,
                      px_inbound_rr := (if n_peers > 0 then (px_inbound_rr c + 1) mod n_peers else px_inbound_rr c) \<rparr>,
                  accepted @ closed))"

definition posix_receive ::
    "receive_env \<Rightarrow> posix_connector \<Rightarrow> ((error_code + bytes) \<times> posix_connector \<times> posix_event list) option" where
  "posix_receive e c =
     (if px_role c = DAPP then map_option (\<lambda>r. (r, c, [])) (posix_receive_dapp e c)
      else Some (posix_receive_ran e c))"

section \<open>Sending\<close>

text \<open>One plain \<open>send\<close>, as the dApp does it: what is written, and whether it is all of it.\<close>

fun raw_send :: "sys_result \<Rightarrow> bytes \<Rightarrow> bytes \<times> bool" where
  "raw_send (Count n) data = (take n data, min n (length data) = length data)"
| "raw_send _ data = ([], False)"

fun broadcast ::
    "bytes \<Rightarrow> (int \<Rightarrow> sys_result list) \<Rightarrow> int list \<Rightarrow> (int list \<times> bool \<times> posix_event list) option" where
  "broadcast data scripts [] = Some ([], False, [])"
| "broadcast data scripts (fd # fds) =
     do {
       (out, ret) \<leftarrow> send_in_chunks data (scripts fd);
       (left, any_failed, evs) \<leftarrow> broadcast data scripts fds;
       Some (if ret < 0 then (left, True, Written fd out # Closed fd # evs)
             else (fd # left, any_failed, Written fd out # evs))
     }"

definition posix_send ::
    "send_env \<Rightarrow> bytes \<Rightarrow> posix_connector \<Rightarrow> (error_code \<times> posix_connector \<times> posix_event list) option" where
  "posix_send e data c =
     (if px_shutdown_requested c then Some (CANCELLED, c, [])
      else if px_role c = DAPP then
        (if px_outbound_connection_socket c < 0 then Some (NOT_CONNECTED, c, [])
         else let (out, complete) = raw_send (se_raw e) data
              in Some (if complete then SUCCESS else TRANSPORT_ERROR, c, [Written (px_outbound_connection_socket c) out]))
      else if px_outbound_socket c < 0 then Some (NOT_CONNECTED, c, [])
      else
        (let (peers, accepted) = drain_accept (px_outbound_socket c) (se_pending e) (px_outbound_peer_sockets c)
         in do {
              (left, any_failed, evs) \<leftarrow> broadcast data (se_scripts e) peers;
              Some (if any_failed \<and> left = [] then TRANSPORT_ERROR else SUCCESS,
                    c \<lparr> px_outbound_peer_sockets := left \<rparr>, accepted @ evs)
            }))"

section \<open>The client side (dApp)\<close>

definition connect_address :: "e3_transport_layer \<Rightarrow> string \<Rightarrow> u16 \<Rightarrow> posix_address" where
  "connect_address transport endpoint port =
     (if transport = IPC then Unix_path (sun_path endpoint) else Loopback port)"

fun posix_connect_for ::
    "bool \<Rightarrow> e3_transport_layer \<Rightarrow> string \<Rightarrow> u16 \<Rightarrow> connect_result \<Rightarrow> int option \<times> posix_event list" where
  "posix_connect_for with_sctp transport endpoint port r =
     (if transport = SCTP \<and> \<not> with_sctp then (None, [])
      else case r of
        No_socket \<Rightarrow> (None, [])
      | Refused fd \<Rightarrow> (None, [Opened fd, Closed fd])
      | Connection fd \<Rightarrow> (Some fd, [Opened fd, Connected_to fd (connect_address transport endpoint port)]))"

text \<open>
  The loop of the three client setups, \<open>left\<close> attempts to go: each attempt has its answer and, when it
  fails, the reading of the shutdown flag.
\<close>

fun connect_retry ::
    "(connect_result \<Rightarrow> int option \<times> posix_event list) \<Rightarrow> (connect_result \<times> bool) list \<Rightarrow> nat
      \<Rightarrow> ((error_code + int) \<times> posix_event list) option" where
  "connect_retry attempt answers 0 = Some (Inl CONNECTION_FAILED, [])"
| "connect_retry attempt [] (Suc left) = None"
| "connect_retry attempt ((r, cancelled) # answers) (Suc left) =
     (case attempt r of
        (Some fd, evs) \<Rightarrow> Some (Inr fd, evs)
      | (None, evs) \<Rightarrow>
          if cancelled then Some (Inl CANCELLED, evs)
          else map_option (\<lambda>(res, more). (res, evs @ more)) (connect_retry attempt answers left))"

definition posix_setup_initial_connection_client ::
    "bool \<Rightarrow> (connect_result \<times> bool) list \<Rightarrow> posix_connector \<Rightarrow> (error_code \<times> posix_connector \<times> posix_event list) option" where
  "posix_setup_initial_connection_client with_sctp answers c =
     map_option
       (\<lambda>(res, evs). case res of
            Inl err \<Rightarrow> (err, c, evs)
          | Inr fd \<Rightarrow> (SUCCESS, c \<lparr> px_setup_connection_socket := fd, px_connected := True \<rparr>, evs))
       (connect_retry (posix_connect_for with_sctp (px_transport_layer c) (px_setup_endpoint c) (px_setup_port c)) answers 10)"

text \<open>The dApp's inbound channel is the RAN's outbound endpoint, and the other way round.\<close>

definition posix_setup_inbound_connection_client ::
    "bool \<Rightarrow> (connect_result \<times> bool) list \<Rightarrow> posix_connector \<Rightarrow> (error_code \<times> posix_connector \<times> posix_event list) option" where
  "posix_setup_inbound_connection_client with_sctp answers c =
     map_option
       (\<lambda>(res, evs). case res of
            Inl err \<Rightarrow> (err, c, evs)
          | Inr fd \<Rightarrow> (SUCCESS, c \<lparr> px_inbound_connection_socket := fd \<rparr>, evs))
       (connect_retry (posix_connect_for with_sctp (px_transport_layer c) (px_outbound_endpoint c) (px_outbound_port c)) answers 10)"

definition posix_setup_outbound_connection_client ::
    "bool \<Rightarrow> (connect_result \<times> bool) list \<Rightarrow> posix_connector \<Rightarrow> (error_code \<times> posix_connector \<times> posix_event list) option" where
  "posix_setup_outbound_connection_client with_sctp answers c =
     map_option
       (\<lambda>(res, evs). case res of
            Inl err \<Rightarrow> (err, c, evs)
          | Inr fd \<Rightarrow> (SUCCESS, c \<lparr> px_outbound_connection_socket := fd \<rparr>, evs))
       (connect_retry (posix_connect_for with_sctp (px_transport_layer c) (px_inbound_endpoint c) (px_inbound_port c)) answers 10)"

definition posix_send_setup_request_client ::
    "sys_result \<Rightarrow> bytes \<Rightarrow> posix_connector \<Rightarrow> error_code \<times> posix_event list" where
  "posix_send_setup_request_client r data c =
     (if px_setup_connection_socket c < 0 then (NOT_CONNECTED, [])
      else let (out, complete) = raw_send r data
           in (if complete then SUCCESS else TRANSPORT_ERROR, [Written (px_setup_connection_socket c) out]))"

definition posix_recv_setup_response_client ::
    "receive_env \<Rightarrow> posix_connector \<Rightarrow> (error_code + bytes) option" where
  "posix_recv_setup_response_client e c =
     (if px_setup_connection_socket c < 0 then Some (Inl NOT_CONNECTED)
      else case re_poll e of
        Poll_timeout \<Rightarrow> Some (Inr [])
      | Poll_interrupted \<Rightarrow> Some (Inl TRANSPORT_ERROR)
      | Poll_failed \<Rightarrow> Some (Inl TRANSPORT_ERROR)
      | Poll_ready \<Rightarrow> map_option fst (recv_with_size (re_script e) (re_stream e)))"

section \<open>Shutdown and disposal\<close>

definition posix_shutdown :: "posix_connector \<Rightarrow> posix_connector \<times> posix_event list" where
  "posix_shutdown c =
     (c \<lparr> px_shutdown_requested := True \<rparr>,
      map Shut (filter (\<lambda>fd. fd \<ge> 0) [px_setup_socket c, px_inbound_socket c, px_outbound_socket c]))"

definition posix_dispose :: "posix_connector \<Rightarrow> posix_connector \<times> posix_event list" where
  "posix_dispose c =
     (c \<lparr> px_setup_socket := -1, px_setup_connection_socket := UNUSED_SOCKET,
          px_inbound_socket := -1, px_inbound_connection_socket := UNUSED_SOCKET,
          px_outbound_socket := -1, px_outbound_connection_socket := UNUSED_SOCKET,
          px_inbound_peer_sockets := [], px_outbound_peer_sockets := [], px_connected := False \<rparr>,
      map Closed
        (filter (\<lambda>fd. fd \<ge> 0)
           [px_inbound_connection_socket c, px_setup_connection_socket c, px_outbound_connection_socket c]
         @ px_inbound_peer_sockets c @ px_outbound_peer_sockets c
         @ filter (\<lambda>fd. fd \<ge> 0) [px_inbound_socket c, px_outbound_socket c, px_setup_socket c])
      @ (if px_transport_layer c = IPC \<and> px_role c = RAN
         then [Unlinked (px_setup_endpoint c), Unlinked (px_inbound_endpoint c), Unlinked (px_outbound_endpoint c)]
         else []))"

definition posix_is_connected :: "posix_connector \<Rightarrow> bool" where
  "posix_is_connected c = px_connected c"

end
