(* ===== verification/Posix_Props.thy ===== *)
theory Posix_Props
  imports Posix_Connector "HOL-Library.Multiset" "HOL-Library.Sublist"
begin

text \<open>
  What the POSIX connector promises: it uses and closes only descriptors it holds and loses none, the
  scan of the inbound peers is fair, and a broadcast reaches every peer that takes it.
\<close>

section \<open>Descriptors\<close>

text \<open>
  The kernel's table of descriptors along a list of events: an event on a descriptor that is not open,
  or the opening of one that is, has no successor.
\<close>

fun track :: "int multiset \<Rightarrow> posix_event list \<Rightarrow> int multiset option" where
  "track M [] = Some M"
| "track M (Opened fd # evs) = (if fd < 0 \<or> fd \<in># M then None else track (add_mset fd M) evs)"
| "track M (Closed fd # evs) = (if fd \<in># M then track (M - {#fd#}) evs else None)"
| "track M (Shut fd # evs) = (if fd \<in># M then track M evs else None)"
| "track M (Bound fd _ # evs) = (if fd \<in># M then track M evs else None)"
| "track M (Connected_to fd _ # evs) = (if fd \<in># M then track M evs else None)"
| "track M (Reuseaddr fd # evs) = (if fd \<in># M then track M evs else None)"
| "track M (Written fd _ # evs) = (if fd \<in># M then track M evs else None)"
| "track M (Unlinked _ # evs) = track M evs"

definition fd_slot :: "int \<Rightarrow> int multiset" where
  "fd_slot fd = (if fd < 0 then {#} else {#fd#})"

text \<open>The descriptors a connector holds.\<close>

definition held :: "posix_connector \<Rightarrow> int multiset" where
  "held c =
     fd_slot (px_setup_socket c) + fd_slot (px_setup_connection_socket c) + fd_slot (px_inbound_socket c)
     + fd_slot (px_inbound_connection_socket c) + fd_slot (px_outbound_socket c) + fd_slot (px_outbound_connection_socket c)
     + mset (px_inbound_peer_sockets c) + mset (px_outbound_peer_sockets c)"

definition no_twice :: "int multiset \<Rightarrow> bool" where
  "no_twice M \<longleftrightarrow> (\<forall>fd. count M fd \<le> 1)"

lemma fd_slot_simps [simp]: "fd < 0 \<Longrightarrow> fd_slot fd = {#}" "0 \<le> fd \<Longrightarrow> fd_slot fd = {#fd#}"
  by (simp_all add: fd_slot_def)

lemma track_append: "track M (xs @ ys) = Option.bind (track M xs) (\<lambda>M'. track M' ys)"
  by (induction M xs rule: track.induct) auto

lemma track_no_twice: "track M evs = Some M' \<Longrightarrow> no_twice M \<Longrightarrow> no_twice M'"
proof (induction M evs rule: track.induct)
  case (2 M fd evs)
  have "no_twice (add_mset fd M)" if "fd \<notin># M"
    using 2(3) that by (auto simp: no_twice_def not_in_iff)
  with 2 show ?case by (auto split: if_splits)
next
  case (3 M fd evs)
  have "no_twice (M - {#fd#})" using 3(3) unfolding no_twice_def by (simp add: le_SucI)
  with 3 show ?case by (auto split: if_splits)
qed (auto split: if_splits)

lemma no_twice_distinct:
  assumes "no_twice (mset fds + M)"
  shows "distinct fds"
  unfolding distinct_count_atmost_1
proof (intro allI)
  fix fd
  have "count (mset fds) fd \<le> 1" using assms by (auto simp: no_twice_def dest!: spec [of _ fd])
  then show "count (mset fds) fd = (if fd \<in> set fds then 1 else 0)"
    by (metis count_mset_0_iff le_less less_one)
qed

lemma track_open_all:
  "distinct fds \<Longrightarrow> (\<forall>fd\<in>set fds. 0 \<le> fd \<and> fd \<notin># M) \<Longrightarrow> track M (map Opened fds) = Some (M + mset fds)"
proof (induction fds arbitrary: M)
  case (Cons fd fds)
  then have "\<forall>x\<in>set fds. 0 \<le> x \<and> x \<notin># add_mset fd M" by auto
  with Cons.IH [of "add_mset fd M"] Cons.prems show ?case by simp
qed simp

lemma track_close_all: "track (mset fds + M) (map Closed fds) = Some M"
  by (induction fds) auto

section \<open>Steps\<close>

definition fresh :: "posix_connector \<Rightarrow> int list \<Rightarrow> bool" where
  "fresh c fds \<longleftrightarrow> distinct fds \<and> (\<forall>fd\<in>set fds. 0 \<le> fd \<and> fd \<notin># held c)"

fun attempt_fd :: "connect_result \<Rightarrow> int list" where
  "attempt_fd No_socket = []"
| "attempt_fd (Refused fd) = [fd]"
| "attempt_fd (Connection fd) = [fd]"

fun accepted_fd :: "accept_result \<Rightarrow> int list" where
  "accepted_fd (Accepted fd) = [fd]"
| "accepted_fd _ = []"

text \<open>
  The calls of one connector, with a kernel that hands out descriptors that are not open. A channel is
  set up while it has no socket, as the interface does it.
\<close>

inductive posix_step :: "posix_connector \<Rightarrow> posix_event list \<Rightarrow> posix_connector \<Rightarrow> bool" where
  listen_setup: "px_setup_socket c < 0 \<Longrightarrow> le_socket e \<notin># held c \<Longrightarrow>
    posix_setup_initial_connection with_sctp e c = (r, c', evs) \<Longrightarrow> posix_step c evs c'"
| listen_inbound: "px_inbound_socket c < 0 \<Longrightarrow> le_socket e \<notin># held c \<Longrightarrow>
    posix_setup_inbound_connection with_sctp e c = (r, c', evs) \<Longrightarrow> posix_step c evs c'"
| listen_outbound: "px_outbound_socket c < 0 \<Longrightarrow> le_socket e \<notin># held c \<Longrightarrow>
    posix_setup_outbound_connection with_sctp e c = (r, c', evs) \<Longrightarrow> posix_step c evs c'"
| setup_request: "fresh (c \<lparr> px_setup_connection_socket := -1 \<rparr>) (accepted_fd acc) \<Longrightarrow>
    posix_recv_setup_request poll acc recv c = (res, c', evs) \<Longrightarrow> posix_step c evs c'"
| setup_response: "posix_send_response script data c = Some (r, evs) \<Longrightarrow> posix_step c evs c"
| receive: "fresh c (accept_all (re_pending re)) \<Longrightarrow>
    posix_receive re c = Some (res, c', evs) \<Longrightarrow> posix_step c evs c'"
| send: "fresh c (accept_all (se_pending se)) \<Longrightarrow>
    posix_send se data c = Some (r, c', evs) \<Longrightarrow> posix_step c evs c'"
| connect_setup: "px_setup_connection_socket c < 0 \<Longrightarrow>
    (\<forall>(a, cancelled)\<in>set answers. fresh c (attempt_fd a)) \<Longrightarrow>
    posix_setup_initial_connection_client with_sctp answers c = Some (r, c', evs) \<Longrightarrow> posix_step c evs c'"
| connect_inbound: "px_inbound_connection_socket c < 0 \<Longrightarrow>
    (\<forall>(a, cancelled)\<in>set answers. fresh c (attempt_fd a)) \<Longrightarrow>
    posix_setup_inbound_connection_client with_sctp answers c = Some (r, c', evs) \<Longrightarrow> posix_step c evs c'"
| connect_outbound: "px_outbound_connection_socket c < 0 \<Longrightarrow>
    (\<forall>(a, cancelled)\<in>set answers. fresh c (attempt_fd a)) \<Longrightarrow>
    posix_setup_outbound_connection_client with_sctp answers c = Some (r, c', evs) \<Longrightarrow> posix_step c evs c'"
| setup_request_client: "posix_send_setup_request_client sr data c = (r, evs) \<Longrightarrow> posix_step c evs c"
| shutdown: "posix_shutdown c = (c', evs) \<Longrightarrow> posix_step c evs c'"
| dispose: "posix_dispose c = (c', evs) \<Longrightarrow> posix_step c evs c'"

inductive posix_trace :: "posix_connector \<Rightarrow> posix_event list \<Rightarrow> posix_connector \<Rightarrow> bool" where
  start: "posix_trace c [] c"
| more: "posix_trace c evs c' \<Longrightarrow> posix_step c' evs' c'' \<Longrightarrow> posix_trace c (evs @ evs') c''"

section \<open>Every method keeps to its descriptors\<close>

fun gained :: "error_code + int \<Rightarrow> int multiset" where
  "gained (Inl _) = {#}"
| "gained (Inr fd) = fd_slot fd"

lemma open_listener_track:
  assumes "open_listener with_sctp reuse transport endpoint port e = (res, evs)" "le_socket e \<notin># M"
  shows "track M evs = Some (gained res + M)"
  using assms by (auto simp: open_listener_def Let_def stream_socket_def split: if_splits)

lemma listen_setup_step:
  assumes "px_setup_socket c < 0" "le_socket e \<notin># held c"
    "posix_setup_initial_connection with_sctp e c = (r, c', evs)"
  shows "track (held c) evs = Some (held c')"
proof -
  obtain res evs' where o: "open_listener with_sctp True (px_transport_layer c) (px_setup_endpoint c) (px_setup_port c) e = (res, evs')"
    by fastforce
  show ?thesis using open_listener_track [OF o assms(2)] assms(1,3) o
    by (cases res) (auto simp: posix_setup_initial_connection_def held_def)
qed

lemma listen_inbound_step:
  assumes "px_inbound_socket c < 0" "le_socket e \<notin># held c"
    "posix_setup_inbound_connection with_sctp e c = (r, c', evs)"
  shows "track (held c) evs = Some (held c')"
proof -
  obtain res evs' where o: "open_listener with_sctp True (px_transport_layer c) (px_inbound_endpoint c) (px_inbound_port c) e = (res, evs')"
    by fastforce
  show ?thesis using open_listener_track [OF o assms(2)] assms(1,3) o
    by (cases res) (auto simp: posix_setup_inbound_connection_def held_def)
qed

lemma listen_outbound_step:
  assumes "px_outbound_socket c < 0" "le_socket e \<notin># held c"
    "posix_setup_outbound_connection with_sctp e c = (r, c', evs)"
  shows "track (held c) evs = Some (held c')"
proof -
  obtain res evs' where o: "open_listener with_sctp False (px_transport_layer c) (px_outbound_endpoint c) (px_outbound_port c) e = (res, evs')"
    by fastforce
  show ?thesis using open_listener_track [OF o assms(2)] assms(1,3) o
    by (cases res) (auto simp: posix_setup_outbound_connection_def held_def)
qed

lemma setup_request_step:
  assumes "fresh (c \<lparr> px_setup_connection_socket := -1 \<rparr>) (accepted_fd acc)"
    and "posix_recv_setup_request poll acc recv c = (res, c', evs)"
  shows "track (held c) evs = Some (held c')"
proof -
  let ?old = "px_setup_connection_socket c"
  define M where "M = held (c \<lparr> px_setup_connection_socket := -1 \<rparr>)"
  have held: "held c = fd_slot ?old + M" and held_at: "held (c \<lparr> px_setup_connection_socket := fd \<rparr>) = fd_slot fd + M" for fd
    by (simp_all add: M_def held_def)
  define closed where "closed = (if ?old \<ge> 0 then [Closed ?old] else [])"
  have close: "track (held c) closed = Some M" by (auto simp: held closed_def)
  note unfolded = assms(2) [unfolded posix_recv_setup_request_def Let_def, folded closed_def]
  show ?thesis
  proof (cases "px_setup_socket c < 0 \<or> poll \<noteq> Poll_ready")
    case True
    with unfolded show ?thesis by (cases poll) (auto split: if_splits)
  next
    case False
    with unfolded assms(1) close show ?thesis
      by (cases acc; cases recv) (auto simp: track_append fresh_def held_at)
  qed
qed

lemma drain_track:
  assumes "drain_accept listener pending peers = (peers', evs)" "fresh c (accept_all pending)"
  shows "\<exists>new. peers' = peers @ new \<and> track (held c) evs = Some (held c + mset new)"
  using assms track_open_all [of "accept_all pending" "held c"]
  by (auto simp: drain_accept_def fresh_def split: if_splits)

lemma scan_order_fds: "map snd (scan_order rr polled) = rotate rr polled"
  by (rule nth_equalityI) (auto simp: scan_order_def Let_def nth_rotate)

lemma scan_track:
  "scan_peers e order peers = (served, left, evs) \<Longrightarrow> distinct peers \<Longrightarrow> distinct (map snd order) \<Longrightarrow>
   set (map snd order) \<subseteq> set peers \<Longrightarrow> track (mset peers + K) evs = Some (mset left + K)"
proof (induction e order peers arbitrary: served left evs rule: scan_peers.induct)
  case (2 e idx fd rest peers)
  obtain bs broken where read: "read_peer (re_revents e fd) (re_recv e fd) = (bs, broken)" by fastforce
  have sub: "set (map snd rest) \<subseteq> set (removeAll fd peers)" using "2.prems"(3,4) by auto
  have gone: "mset peers = add_mset fd (mset (removeAll fd peers))"
    using "2.prems"(2,4) by (simp add: distinct_remove1_removeAll [symmetric])
  show ?case
  proof (cases "(ev_in (re_revents e fd) \<or> ev_broken (re_revents e fd)) \<and> bs = [] \<and> broken")
    case True
    obtain served' left' evs' where rec: "scan_peers e rest (removeAll fd peers) = (served', left', evs')"
      by (cases "scan_peers e rest (removeAll fd peers)") auto
    then have "track (mset (removeAll fd peers) + K) evs' = Some (mset left' + K)"
      using "2.IH"(2) [OF _ read [symmetric] refl] True "2.prems"(2,3) sub by (auto simp: distinct_removeAll)
    then show ?thesis using True "2.prems"(1) read rec by (auto simp: gone)
  next
    case False
    show ?thesis
    proof (cases "(ev_in (re_revents e fd) \<or> ev_broken (re_revents e fd)) \<and> bs \<noteq> []")
      case True
      then show ?thesis using "2.prems"(1) read by auto
    next
      case f: False
      then have "scan_peers e rest peers = (served, left, evs)" using False "2.prems"(1) read by (auto split: if_splits)
      then show ?thesis using "2.IH"(1,3) False f read "2.prems" by (auto split: if_splits)
    qed
  qed
qed simp

lemma receive_ran_step:
  assumes "fresh c (accept_all (re_pending re))" "no_twice (held c)"
    and "posix_receive_ran re c = (res, c', evs)"
  shows "track (held c) evs = Some (held c')"
proof (cases "px_inbound_socket c < 0 \<or> re_poll re \<noteq> Poll_ready")
  case True
  with assms(3) show ?thesis by (cases "re_poll re") (auto simp: posix_receive_ran_def split: if_splits)
next
  case False
  let ?polled = "px_inbound_peer_sockets c"
  obtain peers accepted where acc: "(if re_listener re then drain_accept (px_inbound_socket c) (re_pending re) ?polled
      else (?polled, [])) = (peers, accepted)" by fastforce
  obtain served left closed where scan: "scan_peers re (scan_order (px_inbound_rr c) ?polled) peers = (served, left, closed)"
    by (cases "scan_peers re (scan_order (px_inbound_rr c) ?polled) peers") auto
  define K where "K = held (c \<lparr> px_inbound_peer_sockets := [] \<rparr>)"
  have held: "held c = mset ?polled + K" by (simp add: held_def K_def)
  obtain new where new: "peers = ?polled @ new" "track (held c) accepted = Some (mset peers + K)"
    using drain_track [OF _ assms(1), of "px_inbound_socket c" ?polled] acc by (auto simp: held split: if_splits)
  have "no_twice (mset peers + K)" using track_no_twice [OF new(2) assms(2)] .
  then have "distinct peers" by (rule no_twice_distinct)
  moreover from this new(1) have "distinct (map snd (scan_order (px_inbound_rr c) ?polled))"
    "set (map snd (scan_order (px_inbound_rr c) ?polled)) \<subseteq> set peers" by (simp_all add: scan_order_fds)
  ultimately have "track (mset peers + K) closed = Some (mset left + K)" using scan_track [OF scan] by blast
  moreover have "evs = accepted @ closed" "held c' = mset left + K"
    using assms(3) False acc scan unfolding posix_receive_ran_def
    by (auto simp: Let_def K_def held_def split: option.splits if_splits)
  ultimately show ?thesis using new(2) by (auto simp: track_append)
qed

lemma broadcast_track:
  "broadcast data scripts fds = Some (left, failed, evs) \<Longrightarrow> track (mset fds + K) evs = Some (mset left + K)"
proof (induction fds arbitrary: left failed evs K)
  case (Cons fd fds)
  obtain out ret where send: "send_in_chunks data (scripts fd) = Some (out, ret)"
    using Cons.prems by (auto simp: bind_eq_Some_conv)
  obtain left' failed' evs' where rec: "broadcast data scripts fds = Some (left', failed', evs')"
    using Cons.prems by (auto simp: bind_eq_Some_conv)
  show ?case using Cons.IH [OF rec, of K] Cons.IH [OF rec, of "add_mset fd K"] Cons.prems send rec
    by (auto split: if_splits)
qed simp

lemma send_step:
  assumes "fresh c (accept_all (se_pending se))" "posix_send se data c = Some (r, c', evs)"
  shows "track (held c) evs = Some (held c')"
proof (cases "px_shutdown_requested c \<or> px_role c = DAPP \<or> px_outbound_socket c < 0")
  case True
  with assms(2) show ?thesis by (auto simp: posix_send_def held_def split: if_splits prod.splits)
next
  case False
  obtain peers accepted where acc: "drain_accept (px_outbound_socket c) (se_pending se) (px_outbound_peer_sockets c) = (peers, accepted)"
    by fastforce
  obtain left failed sent where cast: "broadcast data (se_scripts se) peers = Some (left, failed, sent)"
    using assms(2) False acc by (auto simp: posix_send_def bind_eq_Some_conv split: if_splits)
  define K where "K = held (c \<lparr> px_outbound_peer_sockets := [] \<rparr>)"
  have held_at: "held (c \<lparr> px_outbound_peer_sockets := ps \<rparr>) = mset ps + K" for ps by (simp add: held_def K_def)
  have held: "held c = mset (px_outbound_peer_sockets c) + K" by (simp add: held_def K_def)
  have "track (held c) accepted = Some (mset peers + K)"
    using drain_track [OF acc assms(1)] by (auto simp: held)
  then show ?thesis using assms(2) False acc cast broadcast_track [OF cast, of K]
    by (auto simp: posix_send_def track_append held_at)
qed

lemma connect_retry_track:
  "connect_retry (posix_connect_for with_sctp transport endpoint port) answers n = Some (res, evs) \<Longrightarrow>
   (\<forall>(a, cancelled)\<in>set answers. fresh c (attempt_fd a)) \<Longrightarrow> track (held c) evs = Some (gained res + held c)"
proof (induction "posix_connect_for with_sctp transport endpoint port" answers n arbitrary: evs rule: connect_retry.induct)
  case (3 a cancelled answers left)
  have fresh: "fresh c (attempt_fd a)" using "3.prems"(2) by simp
  obtain got tried where attempt: "posix_connect_for with_sctp transport endpoint port a = (got, tried)" by fastforce
  then have tried: "track (held c) tried = Some (gained (case got of None \<Rightarrow> Inl CONNECTION_FAILED | Some fd \<Rightarrow> Inr fd) + held c)"
    using fresh by (cases a) (auto simp: fresh_def split: if_splits)
  show ?case
  proof (cases "got = None \<and> \<not> cancelled")
    case False
    then show ?thesis using "3.prems"(1) attempt tried by (auto split: option.splits)
  next
    case True
    then obtain more where more: "connect_retry (posix_connect_for with_sctp transport endpoint port) answers left = Some (res, more)"
      "evs = tried @ more" using "3.prems"(1) attempt by auto
    have "track (held c) more = Some (gained res + held c)"
      using "3.hyps" [OF attempt [symmetric]] True more(1) "3.prems"(2) by auto
    then show ?thesis using tried True more(2) by (simp add: track_append)
  qed
qed auto

lemma connect_client_track:
  assumes "\<forall>(a, cancelled)\<in>set answers. fresh c (attempt_fd a)" "\<And>fd. held (keep fd) = fd_slot fd + held c"
    and "map_option (\<lambda>(res, evs). case res of Inl err \<Rightarrow> (err, c, evs) | Inr fd \<Rightarrow> (SUCCESS, keep fd, evs))
      (connect_retry (posix_connect_for with_sctp transport endpoint port) answers 10) = Some (r, c', evs)"
  shows "track (held c) evs = Some (held c')"
proof -
  obtain res evs' where res: "connect_retry (posix_connect_for with_sctp transport endpoint port) answers 10 = Some (res, evs')"
    using assms(3) by (cases "connect_retry (posix_connect_for with_sctp transport endpoint port) answers 10") auto
  show ?thesis using connect_retry_track [OF res assms(1)] assms(2,3) res by (cases res) auto
qed

lemma connect_setup_step:
  assumes "px_setup_connection_socket c < 0" "\<forall>(a, cancelled)\<in>set answers. fresh c (attempt_fd a)"
    "posix_setup_initial_connection_client with_sctp answers c = Some (r, c', evs)"
  shows "track (held c) evs = Some (held c')"
  by (rule connect_client_track [OF assms(2) _ assms(3) [unfolded posix_setup_initial_connection_client_def]])
    (simp add: held_def assms(1))

lemma connect_inbound_step:
  assumes "px_inbound_connection_socket c < 0" "\<forall>(a, cancelled)\<in>set answers. fresh c (attempt_fd a)"
    "posix_setup_inbound_connection_client with_sctp answers c = Some (r, c', evs)"
  shows "track (held c) evs = Some (held c')"
  by (rule connect_client_track [OF assms(2) _ assms(3) [unfolded posix_setup_inbound_connection_client_def]])
    (simp add: held_def assms(1))

lemma connect_outbound_step:
  assumes "px_outbound_connection_socket c < 0" "\<forall>(a, cancelled)\<in>set answers. fresh c (attempt_fd a)"
    "posix_setup_outbound_connection_client with_sctp answers c = Some (r, c', evs)"
  shows "track (held c) evs = Some (held c')"
  by (rule connect_client_track [OF assms(2) _ assms(3) [unfolded posix_setup_outbound_connection_client_def]])
    (simp add: held_def assms(1))

lemma shutdown_step: "posix_shutdown c = (c', evs) \<Longrightarrow> track (held c) evs = Some (held c')"
  by (auto simp: posix_shutdown_def held_def)

lemma dispose_closes: "track (held c) (snd (posix_dispose c)) = Some {#}"
proof -
  let ?open = "\<lambda>fds. filter (\<lambda>fd. fd \<ge> 0) fds"
  let ?fds = "?open [px_inbound_connection_socket c, px_setup_connection_socket c, px_outbound_connection_socket c]
    @ px_inbound_peer_sockets c @ px_outbound_peer_sockets c @ ?open [px_inbound_socket c, px_outbound_socket c, px_setup_socket c]"
  have three: "mset (?open [x, y, z]) = fd_slot x + fd_slot y + fd_slot z" for x y z by (simp add: fd_slot_def)
  have "held c = mset ?fds + {#}" unfolding mset_append three held_def by simp
  then have "track (held c) (map Closed ?fds) = Some {#}" using track_close_all [of ?fds "{#}"] by metis
  then show ?thesis unfolding posix_dispose_def snd_conv track_append by simp
qed

lemma held_disposed: "held (fst (posix_dispose c)) = {#}"
  by (simp add: posix_dispose_def held_def UNUSED_SOCKET_def)

lemma posix_step_track: "posix_step c evs c' \<Longrightarrow> no_twice (held c) \<Longrightarrow> track (held c) evs = Some (held c')"
proof (induction rule: posix_step.induct)
  case (setup_response script data c r evs)
  then show ?case by (auto simp: posix_send_response_def held_def split: if_splits)
next
  case (receive c re res c' evs)
  then show ?case using receive_ran_step [of c re res c' evs] by (auto simp: posix_receive_def split: if_splits)
next
  case (setup_request_client sr data c r evs)
  then show ?case by (auto simp: posix_send_setup_request_client_def held_def split: if_splits prod.splits)
next
  case (dispose c c' evs)
  then show ?case using dispose_closes [of c] held_disposed [of c] by simp
qed (auto intro: listen_setup_step listen_inbound_step listen_outbound_step setup_request_step send_step
    connect_setup_step connect_inbound_step connect_outbound_step shutdown_step)

lemma posix_trace_track:
  "posix_trace c evs c' \<Longrightarrow> no_twice (held c) \<Longrightarrow> track (held c) evs = Some (held c')"
proof (induction rule: posix_trace.induct)
  case (more c evs c' evs' c'')
  from more have "track (held c) evs = Some (held c')" by blast
  moreover from this more.prems have "no_twice (held c')" by (rule track_no_twice)
  ultimately show ?case using posix_step_track [OF more.hyps(2)] by (simp add: track_append)
qed simp

lemma held_new: "held (posix_connector_new role transport se ie oe sp ip op) = {#}"
  by (simp add: held_def posix_connector_new_def UNUSED_SOCKET_def)

section \<open>The scan of the peers\<close>

text \<open>A call in which nobody joins or leaves, and a peer that has something to read in it.\<close>

definition gives :: "receive_env \<Rightarrow> int \<Rightarrow> bool" where
  "gives e fd \<longleftrightarrow> ev_in (re_revents e fd) \<and> (case re_recv e fd of Octets bs \<Rightarrow> bs \<noteq> [] | _ \<Rightarrow> False)"

definition calm :: "receive_env \<Rightarrow> int \<Rightarrow> bool" where
  "calm e fd \<longleftrightarrow> gives e fd \<or> \<not> ev_broken (re_revents e fd) \<and> (\<not> ev_in (re_revents e fd) \<or> re_recv e fd = Recv_again)"

definition calm_call :: "receive_env \<Rightarrow> int list \<Rightarrow> bool" where
  "calm_call e peers \<longleftrightarrow> re_poll e = Poll_ready \<and> \<not> re_listener e \<and> list_all (calm e) peers"

definition delivery :: "receive_env \<Rightarrow> int \<Rightarrow> bytes" where
  "delivery e fd = fst (read_peer (re_revents e fd) (re_recv e fd))"

lemma gives_delivery: "gives e fd \<Longrightarrow> delivery e fd \<noteq> []"
  by (auto simp: gives_def delivery_def read_peer_def DEFAULT_BUFFER_SIZE_def split: read_result.splits)

lemma scan_calm:
  "list_all (calm e) (map snd order) \<Longrightarrow>
   scan_peers e order peers =
     (map_option (\<lambda>(idx, fd). (delivery e fd, idx)) (List.find (\<lambda>(idx, fd). gives e fd) order), peers, [])"
proof (induction order)
  case (Cons x order)
  obtain idx fd where x: "x = (idx, fd)" by fastforce
  show ?case
  proof (cases "gives e fd")
    case True
    with gives_delivery [OF True] x show ?thesis
      by (auto simp: delivery_def gives_def split: prod.splits)
  next
    case False
    with Cons x show ?thesis by (auto simp: calm_def read_peer_def)
  qed
qed simp

text \<open>The scan serves the first giving peer at or after the cursor.\<close>

lemma find_scan_order:
  assumes "gives e (peers ! ((rr + d) mod length peers))" "d < length peers"
  shows "\<exists>k\<le>d. List.find (\<lambda>(idx, fd). gives e fd) (scan_order rr peers) =
     Some ((rr + k) mod length peers, peers ! ((rr + k) mod length peers))"
proof -
  define P where "P = (\<lambda>k. gives e (peers ! ((rr + k) mod length peers)))"
  define k where "k = (LEAST k. P k)"
  have "P k" and "k \<le> d" and least: "\<And>j. j < k \<Longrightarrow> \<not> P j"
    using assms(1) by (auto simp: k_def P_def intro: LeastI Least_le dest: not_less_Least)
  then show ?thesis using assms(2)
    by (intro exI [of _ k]) (auto simp: find_Some_iff scan_order_def Let_def P_def intro!: exI [of _ k])
qed

lemma receive_ran_calm:
  assumes "calm_call e (px_inbound_peer_sockets c)" "0 \<le> px_inbound_socket c"
    and "gives e (px_inbound_peer_sockets c ! ((px_inbound_rr c + d) mod length (px_inbound_peer_sockets c)))"
    and "d < length (px_inbound_peer_sockets c)"
  shows "\<exists>k\<le>d. let idx = (px_inbound_rr c + k) mod length (px_inbound_peer_sockets c) in
     posix_receive_ran e c = (Inr (delivery e (px_inbound_peer_sockets c ! idx)), c \<lparr> px_inbound_rr := idx + 1 \<rparr>, [])"
proof -
  let ?peers = "px_inbound_peer_sockets c"
  obtain k where k: "k \<le> d" "List.find (\<lambda>(idx, fd). gives e fd) (scan_order (px_inbound_rr c) ?peers) =
     Some ((px_inbound_rr c + k) mod length ?peers, ?peers ! ((px_inbound_rr c + k) mod length ?peers))"
    using find_scan_order [OF assms(3,4)] by blast
  have "list_all (calm e) (map snd (scan_order (px_inbound_rr c) ?peers))"
    using assms(1) by (simp add: scan_order_fds calm_call_def list_all_iff)
  from scan_calm [OF this, of ?peers] k assms(1,2) show ?thesis
    by (intro exI [of _ k]) (simp add: posix_receive_ran_def calm_call_def Let_def)
qed

definition receive_calls :: "receive_env list \<Rightarrow> posix_connector \<Rightarrow> posix_connector" where
  "receive_calls es c = fold (\<lambda>e c. fst (snd (posix_receive_ran e c))) es c"

text \<open>A peer at distance \<open>d\<close> after the cursor is served in one of the next \<open>d + 1\<close> calls.\<close>

lemma served_within:
  "0 \<le> px_inbound_socket c \<Longrightarrow> j < length (px_inbound_peer_sockets c) \<Longrightarrow> d < length es \<Longrightarrow>
   d < length (px_inbound_peer_sockets c) \<Longrightarrow> (px_inbound_rr c + d) mod length (px_inbound_peer_sockets c) = j \<Longrightarrow>
   list_all (\<lambda>e. calm_call e (px_inbound_peer_sockets c) \<and> gives e (px_inbound_peer_sockets c ! j)) es \<Longrightarrow>
   \<exists>i<length es. \<exists>c'. posix_receive_ran (es ! i) (receive_calls (take i es) c) =
     (Inr (delivery (es ! i) (px_inbound_peer_sockets c ! j)), c', []) \<and> px_inbound_rr c' = j + 1"
proof (induction es arbitrary: c d)
  case (Cons e es)
  let ?n = "length (px_inbound_peer_sockets c)"
  obtain k where k: "k \<le> d" "posix_receive_ran e c = (Inr (delivery e (px_inbound_peer_sockets c ! ((px_inbound_rr c + k) mod ?n))),
      c \<lparr> px_inbound_rr := (px_inbound_rr c + k) mod ?n + 1 \<rparr>, [])"
    using receive_ran_calm [of e c d] Cons.prems by (auto simp: Let_def)
  show ?case
  proof (cases "k = d")
    case True
    with k(2) Cons.prems(5) show ?thesis by (intro exI [of _ 0]) (simp add: receive_calls_def)
  next
    case False
    let ?c = "c \<lparr> px_inbound_rr := (px_inbound_rr c + k) mod ?n + 1 \<rparr>"
    have less: "d - k - 1 < length es" "d - k - 1 < ?n" using False k(1) Cons.prems(3,4) by simp_all
    have "(px_inbound_rr c + k) mod ?n + 1 + (d - k - 1) = (px_inbound_rr c + k) mod ?n + (d - k)"
      using False k(1) by simp
    then have "((px_inbound_rr c + k) mod ?n + 1 + (d - k - 1)) mod ?n = (px_inbound_rr c + k + (d - k)) mod ?n"
      by (simp only: mod_add_left_eq)
    then have reach: "(px_inbound_rr ?c + (d - k - 1)) mod ?n = j" using Cons.prems(5) k(1) by simp
    obtain i where "i < length es" "\<exists>c'. posix_receive_ran (es ! i) (receive_calls (take i es) ?c) =
       (Inr (delivery (es ! i) (px_inbound_peer_sockets c ! j)), c', []) \<and> px_inbound_rr c' = j + 1"
      using Cons.IH [of ?c "d - k - 1"] less reach Cons.prems by auto
    then show ?thesis using k(2) by (intro exI [of _ "Suc i"]) (simp add: receive_calls_def)
  qed
qed simp

lemma distance_exists:
  assumes "j < (n :: nat)"
  shows "\<exists>d<n. (rr + d) mod n = j"
proof (intro exI conjI)
  show "(j + n - rr mod n) mod n < n" using assms by simp
  have "rr mod n \<le> n" using assms by (simp add: less_imp_le)
  then have "rr mod n + (j + n - rr mod n) = j + n" by linarith
  then have "(rr mod n + (j + n - rr mod n)) mod n = j" using assms by simp
  then show "(rr + (j + n - rr mod n) mod n) mod n = j" by (metis mod_add_eq mod_mod_trivial)
qed

section \<open>The broadcast\<close>

text \<open>Whether the write of a frame to a peer completes, and what it leaves on the wire.\<close>

definition taken :: "bytes \<Rightarrow> (int \<Rightarrow> sys_result list) \<Rightarrow> int \<Rightarrow> bool" where
  "taken data scripts fd \<longleftrightarrow> (\<exists>out. send_in_chunks data (scripts fd) = Some (out, 0))"

lemma send_in_chunks_result:
  "send_in_chunks data script = Some (out, r) \<Longrightarrow> (r = 0 \<and> out = frame data) \<or> (r = -1 \<and> prefix out (frame data))"
  using send_loop_result [of data 0 script out r] by (auto simp: send_in_chunks_def take_is_prefix)

lemma broadcast_result:
  "broadcast data scripts fds = Some (left, failed, evs) \<Longrightarrow>
   left = filter (taken data scripts) fds \<and> (failed \<longleftrightarrow> (\<exists>fd\<in>set fds. \<not> taken data scripts fd)) \<and>
   (\<forall>fd\<in>set fds. if taken data scripts fd then Written fd (frame data) \<in> set evs else Closed fd \<in> set evs)"
proof (induction fds arbitrary: left failed evs)
  case (Cons fd fds)
  obtain out ret where send: "send_in_chunks data (scripts fd) = Some (out, ret)"
    using Cons.prems by (auto simp: bind_eq_Some_conv)
  obtain left' failed' evs' where rec: "broadcast data scripts fds = Some (left', failed', evs')"
    using Cons.prems by (auto simp: bind_eq_Some_conv)
  show ?case using Cons.IH [OF rec] Cons.prems send rec send_in_chunks_result [OF send]
    by (auto simp: taken_def split: if_splits)
qed simp

lemma broadcast_returns:
  "(\<forall>fd\<in>set fds. send_in_chunks data (scripts fd) \<noteq> None) \<Longrightarrow> \<exists>left failed evs. broadcast data scripts fds = Some (left, failed, evs)"
  by (induction fds) auto

section \<open>Properties\<close>



text \<open>C29. No inbound peer is starved: while nobody joins or leaves, a peer that has data in each of as many
  calls of \<open>receive\<close> as there are peers has its data returned by one of them, whatever the
  other peers send.\<close>

theorem receive_serves_every_peer:
  assumes "0 \<le> px_inbound_socket c" "j < length (px_inbound_peer_sockets c)"
    and "length es = length (px_inbound_peer_sockets c)"
    and "list_all (\<lambda>e. calm_call e (px_inbound_peer_sockets c) \<and> gives e (px_inbound_peer_sockets c ! j)) es"
  shows "\<exists>i<length es. \<exists>c'. posix_receive_ran (es ! i) (receive_calls (take i es) c) =
     (Inr (delivery (es ! i) (px_inbound_peer_sockets c ! j)), c', []) \<and> px_inbound_rr c' = j + 1"
  using served_within [OF assms(1,2) _ _ _ assms(4)] distance_exists [OF assms(2), of "px_inbound_rr c"] assms(3)
  by metis

definition two_talkers :: receive_env where
  "two_talkers = \<lparr> re_poll = Poll_ready, re_listener = False, re_pending = [],
     re_revents = (\<lambda>fd. \<lparr> ev_in = True, ev_broken = False \<rparr>), re_recv = (\<lambda>fd. Octets [of_int fd]),
     re_script = [], re_stream = [] \<rparr>"

definition two_peers :: posix_connector where
  "two_peers = (posix_connector_new RAN TCP [] [] [] 0 0 0) \<lparr> px_inbound_socket := 4, px_inbound_peer_sockets := [5, 6] \<rparr>"

theorem receive_serves_every_peer_witness:
  "\<exists>i<2. \<exists>c'. posix_receive_ran ([two_talkers, two_talkers] ! i) (receive_calls (take i [two_talkers, two_talkers]) two_peers) =
     (Inr (delivery ([two_talkers, two_talkers] ! i) 6), c', []) \<and> px_inbound_rr c' = 2"
proof -
  have "px_inbound_socket two_peers = 4" and peers: "px_inbound_peer_sockets two_peers = [5, 6]"
    by (simp_all add: two_peers_def)
  moreover have "calm_call two_talkers [5, 6]" "gives two_talkers 6"
    by (simp_all add: two_talkers_def calm_call_def calm_def gives_def)
  ultimately show ?thesis using receive_serves_every_peer [of two_peers 1 "[two_talkers, two_talkers]"]
    by (simp add: numeral_2_eq_2)
qed

text \<open>C30. A broadcast goes to the peers that were there and those that just connected. Each peer whose
  write completes stays and is sent the whole frame, each one whose write fails is closed and dropped,
  and the call fails only when there were peers and none of them is left; with no peer the message is
  dropped and the call succeeds.\<close>

theorem broadcast_reaches_every_peer:
  assumes "px_role c = RAN" "\<not> px_shutdown_requested c" "0 \<le> px_outbound_socket c"
    and "peers = px_outbound_peer_sockets c @ accept_all (se_pending e)"
    and "\<forall>fd\<in>set peers. send_in_chunks data (se_scripts e fd) \<noteq> None"
  shows "\<exists>r c' evs. posix_send e data c = Some (r, c', evs) \<and>
     px_outbound_peer_sockets c' = filter (taken data (se_scripts e)) peers \<and>
     (\<forall>fd\<in>set peers. if taken data (se_scripts e) fd then Written fd (frame data) \<in> set evs else Closed fd \<in> set evs) \<and>
     r = (if peers \<noteq> [] \<and> (\<forall>fd\<in>set peers. \<not> taken data (se_scripts e) fd) then TRANSPORT_ERROR else SUCCESS)"
proof -
  have acc: "drain_accept (px_outbound_socket c) (se_pending e) (px_outbound_peer_sockets c) =
      (peers, map Opened (accept_all (se_pending e)))" using assms(3,4) by (simp add: drain_accept_def)
  obtain left failed evs where cast: "broadcast data (se_scripts e) peers = Some (left, failed, evs)"
    using broadcast_returns [OF assms(5)] by blast
  from broadcast_result [OF cast] cast acc assms(1-3) show ?thesis
    by (auto simp: posix_send_def filter_empty_conv)
qed

theorem broadcast_reaches_every_peer_witness:
  "\<exists>c. px_role c = RAN \<and> \<not> px_shutdown_requested c \<and>
     (\<exists>r c' evs. posix_send \<lparr> se_raw = Failed, se_pending = [Accepted 8],
         se_scripts = (\<lambda>fd. if fd = 8 then [Count 5] else [Count 2, Failed]) \<rparr> [1] c = Some (r, c', evs) \<and>
       px_outbound_peer_sockets c' = [8] \<and> Written 8 (frame [1]) \<in> set evs \<and> Closed 7 \<in> set evs \<and> r = SUCCESS)"
proof -
  let ?c = "two_peers \<lparr> px_outbound_socket := 3, px_outbound_peer_sockets := [7] \<rparr>"
  let ?e = "\<lparr> se_raw = Failed, se_pending = [Accepted 8], se_scripts = (\<lambda>fd. if fd = 8 then [Count 5] else [Count 2, Failed]) \<rparr>"
  have "send_in_chunks [1] [Count 5] = Some ([0, 0, 0, 1, 1], 0)"
    by (simp add: send_in_chunks_def send_loop.simps offered_def htonl_octets_def)
  moreover have "send_in_chunks [1] [Count 2, Failed] = Some ([0, 0], -1)"
    by (simp add: send_in_chunks_def send_loop.simps offered_def htonl_octets_def)
  ultimately show ?thesis
    using broadcast_reaches_every_peer [of ?c "[7, 8]" ?e "[1]"]
    by (intro exI [of _ ?c]) (auto simp: two_peers_def posix_connector_new_def taken_def)
qed

end
