(* ===== verification/Zmq_Connector.thy ===== *)
theory Zmq_Connector
  imports E3_Types E3_Text "HOL-Library.Multiset" "HOL-Library.Sublist"
begin

text \<open>
  The ZeroMQ connector, \<^verbatim>\<open>src/connector/zmq_connector.cpp\<close>. libzmq is not part of the sources:
  what it answers (handles, success of a bind, received messages, monitor events) is an argument of
  every method, and what the method asks of it is the list of events it returns. A message longer than
  the buffer of \<open>zmq_recv\<close> is cut to the buffer while its full length is returned, as libzmq
  documents. Socket options are left out.
\<close>

section \<open>State\<close>

datatype zmq_event =
    Ctx_created nat | Ctx_destroyed nat | Sock_opened nat | Sock_closed nat
  | Sock_bound nat string | Sock_connected nat string | Sock_sent nat bytes
  | Chmod string | Path_unlinked string

record zmq_connector =
  zq_role :: e3_role
  zq_transport_layer :: e3_transport_layer
  zq_io_threads :: nat
  zq_setup_endpoint :: string
  zq_inbound_endpoint :: string
  zq_outbound_endpoint :: string
  zq_context :: "nat option"
  zq_setup_socket :: "nat option"
  zq_inbound_socket :: "nat option"
  zq_outbound_socket :: "nat option"
  zq_monitor_socket :: "nat option"
  zq_connected :: bool
  zq_shutdown_requested :: bool

definition bind_endpoint :: "e3_transport_layer \<Rightarrow> string \<Rightarrow> u16 \<Rightarrow> string" where
  "bind_endpoint transport endpoint port =
     (if transport = TCP then ''tcp://*:'' @ decimal (unat port) else endpoint)"

definition zmq_connector_new ::
    "e3_role \<Rightarrow> e3_transport_layer \<Rightarrow> string \<Rightarrow> string \<Rightarrow> string \<Rightarrow> u16 \<Rightarrow> u16 \<Rightarrow> u16 \<Rightarrow> nat \<Rightarrow> zmq_connector" where
  "zmq_connector_new role transport setup_ep inbound_ep outbound_ep setup_p inbound_p outbound_p io_threads =
     \<lparr> zq_role = role, zq_transport_layer = transport, zq_io_threads = io_threads,
       zq_setup_endpoint = bind_endpoint transport setup_ep setup_p,
       zq_inbound_endpoint = bind_endpoint transport inbound_ep inbound_p,
       zq_outbound_endpoint = bind_endpoint transport outbound_ep outbound_p,
       zq_context = None, zq_setup_socket = None, zq_inbound_socket = None, zq_outbound_socket = None,
       zq_monitor_socket = None, zq_connected = False, zq_shutdown_requested = False \<rparr>"

section \<open>What libzmq and the system answer\<close>

record zmq_open_env =
  zo_ctx :: "nat option"
  zo_ctx_set_ok :: bool
  zo_dir_exists :: bool
  zo_mkdir_ok :: bool
  zo_socket :: "nat option"
  zo_attach_ok :: bool
  zo_monitor_ok :: bool
  zo_monitor_socket :: "nat option"
  zo_monitor_connect_ok :: bool

datatype zmq_recv_result = Message bytes | Timed_out | Signalled | Recv_error

section \<open>Shared steps\<close>

text \<open>\<open>std::string::compare\<close> of a prefix, and the rest.\<close>

definition ipc_path :: "string \<Rightarrow> string" where
  "ipc_path endpoint = (if prefix ''ipc://'' endpoint then drop 6 endpoint else [])"

definition setup_ipc_permissions :: "string \<Rightarrow> zmq_event list" where
  "setup_ipc_permissions endpoint = (if prefix ''ipc://'' endpoint then [Chmod (drop 6 endpoint)] else [])"

definition to_connect_endpoint :: "string \<Rightarrow> string" where
  "to_connect_endpoint bind_ep =
     (if prefix ''tcp://*:'' bind_ep then ''tcp://127.0.0.1:'' @ drop 8 bind_ep else bind_ep)"

text \<open>A new socket and its bind; the socket is kept when the bind fails.\<close>

definition bind_socket ::
    "zmq_open_env \<Rightarrow> e3_transport_layer \<Rightarrow> string \<Rightarrow> nat option \<times> error_code \<times> zmq_event list" where
  "bind_socket e transport endpoint =
     (case zo_socket e of
        None \<Rightarrow> (None, CONNECTION_FAILED, [])
      | Some h \<Rightarrow>
          if \<not> zo_attach_ok e then (Some h, CONNECTION_FAILED, [Sock_opened h])
          else (Some h, SUCCESS,
                [Sock_opened h, Sock_bound h endpoint] @ (if transport = IPC then setup_ipc_permissions endpoint else [])))"

definition connect_socket :: "zmq_open_env \<Rightarrow> string \<Rightarrow> nat option \<times> error_code \<times> zmq_event list" where
  "connect_socket e endpoint =
     (case zo_socket e of
        None \<Rightarrow> (None, CONNECTION_FAILED, [])
      | Some h \<Rightarrow>
          if \<not> zo_attach_ok e then (Some h, CONNECTION_FAILED, [Sock_opened h])
          else (Some h, SUCCESS, [Sock_opened h, Sock_connected h (to_connect_endpoint endpoint)]))"

text \<open>The context, with its number of I/O threads set.\<close>

definition new_context :: "zmq_open_env \<Rightarrow> nat option \<times> error_code \<times> zmq_event list" where
  "new_context e =
     (case zo_ctx e of
        None \<Rightarrow> (None, CONNECTION_FAILED, [])
      | Some x \<Rightarrow>
          if \<not> zo_ctx_set_ok e then (None, CONNECTION_FAILED, [Ctx_created x, Ctx_destroyed x])
          else (Some x, SUCCESS, [Ctx_created x]))"

definition close_socket :: "nat option \<Rightarrow> zmq_event list" where
  "close_socket s = (case s of None \<Rightarrow> [] | Some h \<Rightarrow> [Sock_closed h])"

text \<open>
  What a receive into the buffer leaves there once it is resized to the length libzmq returned: the
  part that fits, and zeros for the part that was cut.
\<close>

definition received :: "bytes \<Rightarrow> bytes" where
  "received m = take DEFAULT_BUFFER_SIZE m @ replicate (length m - DEFAULT_BUFFER_SIZE) 0"

section \<open>The RAN side\<close>

definition zmq_setup_initial_connection ::
    "zmq_open_env \<Rightarrow> zmq_connector \<Rightarrow> error_code \<times> zmq_connector \<times> zmq_event list" where
  "zmq_setup_initial_connection e c =
     (let (ctx, rc, evs) = new_context e; c1 = c \<lparr> zq_context := ctx \<rparr>
      in if rc \<noteq> SUCCESS then (rc, c1, evs)
         else if zq_transport_layer c = IPC \<and> \<not> zo_dir_exists e \<and> \<not> zo_mkdir_ok e
         then (CONNECTION_FAILED, c1, evs)
         else
           let (sock, rc', evs') = bind_socket e (zq_transport_layer c) (zq_setup_endpoint c);
               c2 = c1 \<lparr> zq_setup_socket := sock \<rparr>
           in if rc' \<noteq> SUCCESS then (rc', c2, evs @ evs')
              else (SUCCESS, c2 \<lparr> zq_connected := True \<rparr>, evs @ evs'))"

definition reset_setup_socket :: "zmq_open_env \<Rightarrow> zmq_connector \<Rightarrow> bool \<times> zmq_connector \<times> zmq_event list" where
  "reset_setup_socket e c =
     (let closed = close_socket (zq_setup_socket c); c1 = c \<lparr> zq_setup_socket := None \<rparr>
      in if zq_context c = None then (False, c1, closed)
         else case bind_socket e (zq_transport_layer c) (zq_setup_endpoint c) of
                (None, _, evs) \<Rightarrow> (False, c1, closed @ evs)
              | (Some h, rc, evs) \<Rightarrow>
                  if rc \<noteq> SUCCESS then (False, c1, closed @ evs @ [Sock_closed h])
                  else (True, c1 \<lparr> zq_setup_socket := Some h \<rparr>, closed @ evs))"

definition zmq_recv_setup_request ::
    "zmq_recv_result \<Rightarrow> zmq_open_env \<Rightarrow> zmq_connector \<Rightarrow> (error_code + bytes) \<times> zmq_connector \<times> zmq_event list" where
  "zmq_recv_setup_request r e c =
     (if zq_setup_socket c = None then (Inl NOT_CONNECTED, c, [])
      else case r of
        Message m \<Rightarrow> (Inr (received m), c, [])
      | Timed_out \<Rightarrow> (Inr [], c, [])
      | _ \<Rightarrow> (let (_, c', evs) = reset_setup_socket e c in (Inl TRANSPORT_ERROR, c', evs)))"

definition zmq_send_response ::
    "bool \<Rightarrow> zmq_open_env \<Rightarrow> bytes \<Rightarrow> zmq_connector \<Rightarrow> error_code \<times> zmq_connector \<times> zmq_event list" where
  "zmq_send_response sent e data c =
     (case zq_setup_socket c of
        None \<Rightarrow> (NOT_CONNECTED, c, [])
      | Some h \<Rightarrow>
          if \<not> sent then (let (_, c', evs) = reset_setup_socket e c in (TRANSPORT_ERROR, c', evs))
          else (SUCCESS, c, [Sock_sent h data]))"

definition zmq_setup_inbound_connection ::
    "zmq_open_env \<Rightarrow> zmq_connector \<Rightarrow> error_code \<times> zmq_connector \<times> zmq_event list" where
  "zmq_setup_inbound_connection e c =
     (if zq_context c = None then (NOT_INITIALIZED, c, [])
      else let (sock, rc, evs) = bind_socket e (zq_transport_layer c) (zq_inbound_endpoint c)
           in (rc, c \<lparr> zq_inbound_socket := sock \<rparr>, evs))"

definition zmq_setup_outbound_connection ::
    "zmq_open_env \<Rightarrow> zmq_connector \<Rightarrow> error_code \<times> zmq_connector \<times> zmq_event list" where
  "zmq_setup_outbound_connection e c =
     (if zq_context c = None then (NOT_INITIALIZED, c, [])
      else let (sock, rc, evs) = bind_socket e (zq_transport_layer c) (zq_outbound_endpoint c)
           in (rc, c \<lparr> zq_outbound_socket := sock \<rparr>, evs))"

section \<open>Data\<close>

text \<open>The events waiting on the monitor, read until there is none.\<close>

definition ZMQ_EVENT_DISCONNECTED :: u16 where "ZMQ_EVENT_DISCONNECTED = 0x0200"

definition inbound_peer_disconnected :: "u16 list \<Rightarrow> zmq_connector \<Rightarrow> bool" where
  "inbound_peer_disconnected events c \<longleftrightarrow>
     zq_monitor_socket c \<noteq> None \<and> list_ex (\<lambda>event. event = ZMQ_EVENT_DISCONNECTED) events"

definition zmq_receive :: "zmq_recv_result \<Rightarrow> u16 list \<Rightarrow> zmq_connector \<Rightarrow> error_code + bytes" where
  "zmq_receive r events c =
     (if zq_inbound_socket c = None then Inl NOT_CONNECTED
      else case r of
        Message m \<Rightarrow> Inr (received m)
      | Timed_out \<Rightarrow> if inbound_peer_disconnected events c then Inl NOT_CONNECTED else Inr []
      | Signalled \<Rightarrow> Inr []
      | Recv_error \<Rightarrow> Inl TRANSPORT_ERROR)"

definition zmq_send :: "bool \<Rightarrow> bytes \<Rightarrow> zmq_connector \<Rightarrow> error_code \<times> zmq_event list" where
  "zmq_send sent data c =
     (if zq_shutdown_requested c then (CANCELLED, [])
      else case zq_outbound_socket c of
        None \<Rightarrow> (NOT_CONNECTED, [])
      | Some h \<Rightarrow> if \<not> sent then (TRANSPORT_ERROR, []) else (SUCCESS, [Sock_sent h data]))"

section \<open>The dApp side\<close>

definition open_setup_req_socket ::
    "zmq_open_env \<Rightarrow> zmq_connector \<Rightarrow> error_code \<times> zmq_connector \<times> zmq_event list" where
  "open_setup_req_socket e c =
     (let (sock, rc, evs) = connect_socket e (zq_setup_endpoint c)
      in (rc, c \<lparr> zq_setup_socket := sock \<rparr>, close_socket (zq_setup_socket c) @ evs))"

definition zmq_setup_initial_connection_client ::
    "zmq_open_env \<Rightarrow> zmq_connector \<Rightarrow> error_code \<times> zmq_connector \<times> zmq_event list" where
  "zmq_setup_initial_connection_client e c =
     (let (ctx, rc, evs) = new_context e; c1 = c \<lparr> zq_context := ctx \<rparr>
      in if rc \<noteq> SUCCESS then (rc, c1, evs)
         else let (rc', c2, evs') = open_setup_req_socket e c1
              in if rc' \<noteq> SUCCESS then (rc', c2, evs @ evs')
                 else (SUCCESS, c2 \<lparr> zq_connected := True \<rparr>, evs @ evs'))"

definition zmq_send_setup_request_client ::
    "bool \<Rightarrow> zmq_open_env \<Rightarrow> bytes \<Rightarrow> zmq_connector \<Rightarrow> error_code \<times> zmq_connector \<times> zmq_event list" where
  "zmq_send_setup_request_client sent e data c =
     (if zq_setup_socket c = None then (NOT_CONNECTED, c, [])
      else let (rc, c', evs) = open_setup_req_socket e c
           in if rc \<noteq> SUCCESS then (rc, c', evs)
              else case zq_setup_socket c' of
                     None \<Rightarrow> (TRANSPORT_ERROR, c', evs)
                   | Some h \<Rightarrow> if \<not> sent then (TRANSPORT_ERROR, c', evs) else (SUCCESS, c', evs @ [Sock_sent h data]))"

definition zmq_recv_setup_response_client :: "zmq_recv_result \<Rightarrow> zmq_connector \<Rightarrow> error_code + bytes" where
  "zmq_recv_setup_response_client r c =
     (if zq_setup_socket c = None then Inl NOT_CONNECTED
      else case r of
        Message m \<Rightarrow> Inr (received m)
      | Timed_out \<Rightarrow> Inr []
      | _ \<Rightarrow> Inl TRANSPORT_ERROR)"

definition open_inbound_monitor :: "zmq_open_env \<Rightarrow> zmq_connector \<Rightarrow> zmq_connector \<times> zmq_event list" where
  "open_inbound_monitor e c =
     (if \<not> zo_monitor_ok e then (c, [])
      else case zo_monitor_socket e of
        None \<Rightarrow> (c \<lparr> zq_monitor_socket := None \<rparr>, [])
      | Some h \<Rightarrow>
          if \<not> zo_monitor_connect_ok e then (c \<lparr> zq_monitor_socket := None \<rparr>, [Sock_opened h, Sock_closed h])
          else (c \<lparr> zq_monitor_socket := Some h \<rparr>, [Sock_opened h]))"

text \<open>The monitor is opened between the creation of the inbound socket and its connect.\<close>

definition zmq_setup_inbound_connection_client ::
    "zmq_open_env \<Rightarrow> zmq_connector \<Rightarrow> error_code \<times> zmq_connector \<times> zmq_event list" where
  "zmq_setup_inbound_connection_client e c =
     (if zq_context c = None then (NOT_INITIALIZED, c, [])
      else case zo_socket e of
        None \<Rightarrow> (CONNECTION_FAILED, c \<lparr> zq_inbound_socket := None \<rparr>, [])
      | Some h \<Rightarrow>
          let (c', evs) = open_inbound_monitor e (c \<lparr> zq_inbound_socket := Some h \<rparr>)
          in if \<not> zo_attach_ok e then (CONNECTION_FAILED, c', [Sock_opened h] @ evs)
             else (SUCCESS, c', [Sock_opened h] @ evs @ [Sock_connected h (to_connect_endpoint (zq_outbound_endpoint c))]))"

definition zmq_setup_outbound_connection_client ::
    "zmq_open_env \<Rightarrow> zmq_connector \<Rightarrow> error_code \<times> zmq_connector \<times> zmq_event list" where
  "zmq_setup_outbound_connection_client e c =
     (if zq_context c = None then (NOT_INITIALIZED, c, [])
      else let (sock, rc, evs) = connect_socket e (zq_inbound_endpoint c)
           in (rc, c \<lparr> zq_outbound_socket := sock \<rparr>, evs))"

section \<open>Shutdown and disposal\<close>

definition zmq_shutdown :: "zmq_connector \<Rightarrow> zmq_connector" where
  "zmq_shutdown c = c \<lparr> zq_shutdown_requested := True \<rparr>"

definition unlink_path :: "string \<Rightarrow> zmq_event list" where
  "unlink_path endpoint = (if ipc_path endpoint \<noteq> [] then [Path_unlinked (ipc_path endpoint)] else [])"

definition zmq_dispose :: "zmq_connector \<Rightarrow> zmq_connector \<times> zmq_event list" where
  "zmq_dispose c =
     (c \<lparr> zq_setup_socket := None, zq_monitor_socket := None, zq_inbound_socket := None,
          zq_outbound_socket := None, zq_context := None, zq_connected := False \<rparr>,
      close_socket (zq_setup_socket c) @ close_socket (zq_monitor_socket c)
      @ close_socket (zq_inbound_socket c) @ close_socket (zq_outbound_socket c)
      @ (case zq_context c of None \<Rightarrow> [] | Some x \<Rightarrow> [Ctx_destroyed x])
      @ (if zq_transport_layer c = IPC \<and> zq_role c = RAN
         then unlink_path (zq_setup_endpoint c) @ unlink_path (zq_inbound_endpoint c) @ unlink_path (zq_outbound_endpoint c)
         else []))"

definition zmq_is_connected :: "zmq_connector \<Rightarrow> bool" where
  "zmq_is_connected c = zq_connected c"

end
