(* ===== verification/Zmq_Props.thy ===== *)
theory Zmq_Props
  imports Zmq_Connector
begin

text \<open>
  What the ZeroMQ connector promises: it keeps to the rules of libzmq on contexts and sockets, so that
  disposal never waits for an open socket, it recovers its setup socket, and messages arrive whole as
  long as they fit the receive buffer.
\<close>

section \<open>Contexts and sockets\<close>

text \<open>
  The context and the open sockets along a list of events. A socket needs the context, a call on a
  socket needs the socket open, and the context is destroyed only when no socket is left, since
  \<open>zmq_ctx_destroy\<close> would wait for it.
\<close>

fun ztrack :: "nat option \<times> nat multiset \<Rightarrow> zmq_event list \<Rightarrow> (nat option \<times> nat multiset) option" where
  "ztrack (ctx, M) [] = Some (ctx, M)"
| "ztrack (ctx, M) (Ctx_created x # evs) = (if ctx = None then ztrack (Some x, M) evs else None)"
| "ztrack (ctx, M) (Ctx_destroyed x # evs) = (if ctx = Some x \<and> M = {#} then ztrack (None, M) evs else None)"
| "ztrack (ctx, M) (Sock_opened h # evs) = (if ctx \<noteq> None \<and> h \<notin># M then ztrack (ctx, add_mset h M) evs else None)"
| "ztrack (ctx, M) (Sock_closed h # evs) = (if h \<in># M then ztrack (ctx, M - {#h#}) evs else None)"
| "ztrack (ctx, M) (Sock_bound h _ # evs) = (if h \<in># M then ztrack (ctx, M) evs else None)"
| "ztrack (ctx, M) (Sock_connected h _ # evs) = (if h \<in># M then ztrack (ctx, M) evs else None)"
| "ztrack (ctx, M) (Sock_sent h _ # evs) = (if h \<in># M then ztrack (ctx, M) evs else None)"
| "ztrack (ctx, M) (Chmod _ # evs) = ztrack (ctx, M) evs"
| "ztrack (ctx, M) (Path_unlinked _ # evs) = ztrack (ctx, M) evs"

definition held_handle :: "nat option \<Rightarrow> nat multiset" where
  "held_handle s = (case s of None \<Rightarrow> {#} | Some h \<Rightarrow> {#h#})"

definition open_sockets :: "zmq_connector \<Rightarrow> nat multiset" where
  "open_sockets c =
     held_handle (zq_setup_socket c) + held_handle (zq_inbound_socket c)
     + held_handle (zq_outbound_socket c) + held_handle (zq_monitor_socket c)"

abbreviation resources :: "zmq_connector \<Rightarrow> nat option \<times> nat multiset" where
  "resources c \<equiv> (zq_context c, open_sockets c)"

lemma held_handle_simps [simp]: "held_handle None = {#}" "held_handle (Some h) = {#h#}"
  by (simp_all add: held_handle_def)

lemma ztrack_append: "ztrack s (xs @ ys) = Option.bind (ztrack s xs) (\<lambda>s'. ztrack s' ys)"
  by (induction s xs rule: ztrack.induct) auto

lemma ztrack_close: "ztrack (ctx, held_handle s + M) (close_socket s) = Some (ctx, M)"
  by (cases s) (simp_all add: close_socket_def)

lemma ztrack_permissions: "ztrack (ctx, M) (setup_ipc_permissions ep) = Some (ctx, M)"
  by (simp add: setup_ipc_permissions_def)

lemma ztrack_unlink: "ztrack (ctx, M) (unlink_path ep) = Some (ctx, M)"
  by (simp add: unlink_path_def)

text \<open>Without a context there is no socket, whatever happens.\<close>

definition sockets_have_context :: "nat option \<times> nat multiset \<Rightarrow> bool" where
  "sockets_have_context s \<longleftrightarrow> (fst s = None \<longrightarrow> snd s = {#})"

lemma ztrack_sockets_have_context:
  "ztrack s evs = Some s' \<Longrightarrow> sockets_have_context s \<Longrightarrow> sockets_have_context s'"
  by (induction s evs rule: ztrack.induct) (auto simp: sockets_have_context_def split: if_splits)

text \<open>Handles libzmq has not given out.\<close>

definition new_handles :: "zmq_open_env \<Rightarrow> zmq_connector \<Rightarrow> bool" where
  "new_handles e c \<longleftrightarrow>
     (\<forall>h. zo_socket e = Some h \<or> zo_monitor_socket e = Some h \<longrightarrow> h \<notin># open_sockets c)
     \<and> (zo_socket e \<noteq> None \<longrightarrow> zo_socket e \<noteq> zo_monitor_socket e)"

lemma held_handle_of: "s = Some h \<Longrightarrow> held_handle s = {#h#}" "Some h = s \<Longrightarrow> held_handle s = {#h#}"
  by auto

lemma bind_socket_track:
  assumes "bind_socket e transport ep = (sock, rc, evs)" "\<forall>h. zo_socket e = Some h \<longrightarrow> h \<notin># M" "ctx \<noteq> None"
  shows "ztrack (ctx, M) evs = Some (ctx, held_handle sock + M)"
  using assms
  by (cases "zo_socket e") (auto simp: bind_socket_def ztrack_append ztrack_permissions held_handle_of split: if_splits)

lemma connect_socket_track:
  assumes "connect_socket e ep = (sock, rc, evs)" "\<forall>h. zo_socket e = Some h \<longrightarrow> h \<notin># M" "ctx \<noteq> None"
  shows "ztrack (ctx, M) evs = Some (ctx, held_handle sock + M)"
  using assms by (cases "zo_socket e") (auto simp: connect_socket_def held_handle_of split: if_splits)

lemma new_context_track:
  assumes "new_context e = (ctx, rc, evs)"
  shows "ztrack (None, {#}) evs = Some (ctx, {#}) \<and> (rc = SUCCESS \<longleftrightarrow> ctx \<noteq> None)"
proof (cases "zo_ctx e")
  case None
  with assms show ?thesis by (auto simp: new_context_def)
next
  case (Some x)
  then have "new_context e = (if \<not> zo_ctx_set_ok e then (None, CONNECTION_FAILED, [Ctx_created x, Ctx_destroyed x])
      else (Some x, SUCCESS, [Ctx_created x]))" by (simp add: new_context_def)
  with assms show ?thesis by (cases "zo_ctx_set_ok e") auto
qed

section \<open>Steps\<close>

text \<open>The calls of one connector; a channel is set up while it has no socket, as the interface does it.\<close>

inductive zmq_step :: "zmq_connector \<Rightarrow> zmq_event list \<Rightarrow> zmq_connector \<Rightarrow> bool" where
  listen_setup: "zq_context c = None \<Longrightarrow> new_handles e c \<Longrightarrow>
    zmq_setup_initial_connection e c = (r, c', evs) \<Longrightarrow> zmq_step c evs c'"
| setup_request: "new_handles e (c \<lparr> zq_setup_socket := None \<rparr>) \<Longrightarrow>
    zmq_recv_setup_request z e c = (res, c', evs) \<Longrightarrow> zmq_step c evs c'"
| setup_response: "new_handles e (c \<lparr> zq_setup_socket := None \<rparr>) \<Longrightarrow>
    zmq_send_response sent e data c = (r, c', evs) \<Longrightarrow> zmq_step c evs c'"
| listen_inbound: "zq_inbound_socket c = None \<Longrightarrow> new_handles e c \<Longrightarrow>
    zmq_setup_inbound_connection e c = (r, c', evs) \<Longrightarrow> zmq_step c evs c'"
| listen_outbound: "zq_outbound_socket c = None \<Longrightarrow> new_handles e c \<Longrightarrow>
    zmq_setup_outbound_connection e c = (r, c', evs) \<Longrightarrow> zmq_step c evs c'"
| send: "zmq_send sent data c = (r, evs) \<Longrightarrow> zmq_step c evs c"
| connect_setup: "zq_context c = None \<Longrightarrow> new_handles e c \<Longrightarrow>
    zmq_setup_initial_connection_client e c = (r, c', evs) \<Longrightarrow> zmq_step c evs c'"
| setup_request_client: "new_handles e (c \<lparr> zq_setup_socket := None \<rparr>) \<Longrightarrow>
    zmq_send_setup_request_client sent e data c = (r, c', evs) \<Longrightarrow> zmq_step c evs c'"
| connect_inbound: "zq_inbound_socket c = None \<Longrightarrow> zq_monitor_socket c = None \<Longrightarrow> new_handles e c \<Longrightarrow>
    zmq_setup_inbound_connection_client e c = (r, c', evs) \<Longrightarrow> zmq_step c evs c'"
| connect_outbound: "zq_outbound_socket c = None \<Longrightarrow> new_handles e c \<Longrightarrow>
    zmq_setup_outbound_connection_client e c = (r, c', evs) \<Longrightarrow> zmq_step c evs c'"
| shutdown: "zmq_step c [] (zmq_shutdown c)"
| dispose: "zmq_dispose c = (c', evs) \<Longrightarrow> zmq_step c evs c'"

inductive zmq_trace :: "zmq_connector \<Rightarrow> zmq_event list \<Rightarrow> zmq_connector \<Rightarrow> bool" where
  start: "zmq_trace c [] c"
| more: "zmq_trace c evs c' \<Longrightarrow> zmq_step c' evs' c'' \<Longrightarrow> zmq_trace c (evs @ evs') c''"

lemma listen_setup_track:
  assumes "zq_context c = None" "sockets_have_context (resources c)"
    and "zmq_setup_initial_connection e c = (r, c', evs)"
  shows "ztrack (resources c) evs = Some (resources c')"
proof -
  obtain ctx rc evs1 where ctx: "new_context e = (ctx, rc, evs1)" by (cases "new_context e")
  obtain sock rc' evs2 where sock: "bind_socket e (zq_transport_layer c) (zq_setup_endpoint c) = (sock, rc', evs2)"
    by (cases "bind_socket e (zq_transport_layer c) (zq_setup_endpoint c)")
  have none: "open_sockets c = {#}" using assms(1,2) by (simp add: sockets_have_context_def)
  show ?thesis using assms(1,3) none bind_socket_track [OF sock, of "{#}" ctx] new_context_track [OF ctx]
    by (auto simp: zmq_setup_initial_connection_def ctx sock Let_def ztrack_append open_sockets_def split: if_splits)
qed

lemma connect_setup_track:
  assumes "zq_context c = None" "sockets_have_context (resources c)"
    and "zmq_setup_initial_connection_client e c = (r, c', evs)"
  shows "ztrack (resources c) evs = Some (resources c')"
proof -
  obtain ctx rc evs1 where ctx: "new_context e = (ctx, rc, evs1)" by (cases "new_context e")
  obtain sock rc' evs2 where sock: "connect_socket e (zq_setup_endpoint c) = (sock, rc', evs2)"
    by (cases "connect_socket e (zq_setup_endpoint c)")
  have none: "open_sockets c = {#}" using assms(1,2) by (simp add: sockets_have_context_def)
  then have "zq_setup_socket c = None" by (cases "zq_setup_socket c") (simp_all add: open_sockets_def)
  then show ?thesis using assms(1,3) none connect_socket_track [OF sock, of "{#}" ctx] new_context_track [OF ctx]
    by (auto simp: zmq_setup_initial_connection_client_def open_setup_req_socket_def close_socket_def ctx sock Let_def
        ztrack_append open_sockets_def split: if_splits)
qed

text \<open>Replacing the setup socket.\<close>

lemma reset_track:
  assumes "new_handles e (c \<lparr> zq_setup_socket := None \<rparr>)" "sockets_have_context (resources c)"
    and "reset_setup_socket e c = (ok, c', evs)"
  shows "ztrack (resources c) evs = Some (resources c')"
proof -
  define M where "M = open_sockets (c \<lparr> zq_setup_socket := None \<rparr>)"
  have held: "open_sockets c = held_handle (zq_setup_socket c) + M"
    "open_sockets (c \<lparr> zq_setup_socket := s \<rparr>) = held_handle s + M" for s
    by (simp_all add: M_def open_sockets_def)
  obtain sock rc evs1 where sock: "bind_socket e (zq_transport_layer c) (zq_setup_endpoint c) = (sock, rc, evs1)"
    by (cases "bind_socket e (zq_transport_layer c) (zq_setup_endpoint c)")
  have "\<forall>h. zo_socket e = Some h \<longrightarrow> h \<notin># M" using assms(1) by (auto simp: new_handles_def M_def)
  from bind_socket_track [OF sock this, of "zq_context c"] assms(3) show ?thesis
    by (auto simp: reset_setup_socket_def sock Let_def held ztrack_append ztrack_close split: if_splits option.splits)
qed

lemma open_req_track:
  assumes "new_handles e (c \<lparr> zq_setup_socket := None \<rparr>)" "zq_context c \<noteq> None"
    and "open_setup_req_socket e c = (rc, c', evs)"
  shows "ztrack (resources c) evs = Some (resources c')"
proof -
  define M where "M = open_sockets (c \<lparr> zq_setup_socket := None \<rparr>)"
  have held: "open_sockets c = held_handle (zq_setup_socket c) + M"
    "open_sockets (c \<lparr> zq_setup_socket := s \<rparr>) = held_handle s + M" for s
    by (simp_all add: M_def open_sockets_def)
  obtain sock rc1 evs1 where sock: "connect_socket e (zq_setup_endpoint c) = (sock, rc1, evs1)"
    by (cases "connect_socket e (zq_setup_endpoint c)")
  have "\<forall>h. zo_socket e = Some h \<longrightarrow> h \<notin># M" using assms(1) by (auto simp: new_handles_def M_def)
  from connect_socket_track [OF sock this assms(2)] assms(3) show ?thesis
    by (auto simp: open_setup_req_socket_def sock held ztrack_append ztrack_close)
qed

lemma setup_socket_has_context: "sockets_have_context (resources c) \<Longrightarrow> zq_setup_socket c \<noteq> None \<Longrightarrow> zq_context c \<noteq> None"
  by (auto simp: sockets_have_context_def open_sockets_def)

lemma setup_request_client_track:
  assumes "new_handles e (c \<lparr> zq_setup_socket := None \<rparr>)" "sockets_have_context (resources c)"
    and "zmq_send_setup_request_client sent e data c = (r, c', evs)"
  shows "ztrack (resources c) evs = Some (resources c')"
proof (cases "zq_setup_socket c = None")
  case True
  with assms(3) show ?thesis by (simp add: zmq_send_setup_request_client_def)
next
  case False
  obtain rc c1 evs1 where o: "open_setup_req_socket e c = (rc, c1, evs1)" by (cases "open_setup_req_socket e c")
  have "h \<in># open_sockets c1" if "zq_setup_socket c1 = Some h" for h using that by (simp add: open_sockets_def)
  then show ?thesis
    using open_req_track [OF assms(1) setup_socket_has_context [OF assms(2) False] o] assms(3) False
    by (auto simp: zmq_send_setup_request_client_def o ztrack_append split: if_splits option.splits)
qed

lemma setup_request_track:
  assumes "new_handles e (c \<lparr> zq_setup_socket := None \<rparr>)" "sockets_have_context (resources c)"
    and "zmq_recv_setup_request z e c = (res, c', evs)"
  shows "ztrack (resources c) evs = Some (resources c')"
proof -
  obtain ok c1 evs1 where reset: "reset_setup_socket e c = (ok, c1, evs1)" by (cases "reset_setup_socket e c")
  show ?thesis using reset_track [OF assms(1,2) reset] assms(3)
    by (cases z) (auto simp: zmq_recv_setup_request_def reset split: if_splits)
qed

lemma setup_response_track:
  assumes "new_handles e (c \<lparr> zq_setup_socket := None \<rparr>)" "sockets_have_context (resources c)"
    and "zmq_send_response sent e data c = (r, c', evs)"
  shows "ztrack (resources c) evs = Some (resources c')"
proof -
  obtain ok c1 evs1 where reset: "reset_setup_socket e c = (ok, c1, evs1)" by (cases "reset_setup_socket e c")
  show ?thesis using reset_track [OF assms(1,2) reset] assms(3)
    by (cases "zq_setup_socket c") (auto simp: zmq_send_response_def reset open_sockets_def split: if_splits)
qed

text \<open>The two data channels.\<close>

lemma listen_inbound_track:
  assumes "zq_inbound_socket c = None" "new_handles e c" "zmq_setup_inbound_connection e c = (r, c', evs)"
  shows "ztrack (resources c) evs = Some (resources c')"
proof -
  obtain sock rc evs1 where sock: "bind_socket e (zq_transport_layer c) (zq_inbound_endpoint c) = (sock, rc, evs1)"
    by (cases "bind_socket e (zq_transport_layer c) (zq_inbound_endpoint c)")
  show ?thesis using bind_socket_track [OF sock, of "open_sockets c" "zq_context c"] assms
    by (auto simp: zmq_setup_inbound_connection_def sock new_handles_def open_sockets_def split: if_splits)
qed

lemma listen_outbound_track:
  assumes "zq_outbound_socket c = None" "new_handles e c" "zmq_setup_outbound_connection e c = (r, c', evs)"
  shows "ztrack (resources c) evs = Some (resources c')"
proof -
  obtain sock rc evs1 where sock: "bind_socket e (zq_transport_layer c) (zq_outbound_endpoint c) = (sock, rc, evs1)"
    by (cases "bind_socket e (zq_transport_layer c) (zq_outbound_endpoint c)")
  show ?thesis using bind_socket_track [OF sock, of "open_sockets c" "zq_context c"] assms
    by (auto simp: zmq_setup_outbound_connection_def sock new_handles_def open_sockets_def split: if_splits)
qed

lemma connect_outbound_track:
  assumes "zq_outbound_socket c = None" "new_handles e c" "zmq_setup_outbound_connection_client e c = (r, c', evs)"
  shows "ztrack (resources c) evs = Some (resources c')"
proof -
  obtain sock rc evs1 where sock: "connect_socket e (zq_inbound_endpoint c) = (sock, rc, evs1)"
    by (cases "connect_socket e (zq_inbound_endpoint c)")
  show ?thesis using connect_socket_track [OF sock, of "open_sockets c" "zq_context c"] assms
    by (auto simp: zmq_setup_outbound_connection_client_def sock new_handles_def open_sockets_def split: if_splits)
qed

lemma monitor_track:
  assumes "zq_monitor_socket c = None" "open_inbound_monitor e c = (c', evs)" "zq_context c \<noteq> None"
    and "\<forall>h. zo_monitor_socket e = Some h \<longrightarrow> h \<notin># open_sockets c"
  shows "ztrack (resources c) evs = Some (resources c')"
  using assms by (cases "zo_monitor_socket e") (auto simp: open_inbound_monitor_def open_sockets_def split: if_splits)

lemma monitor_frame:
  assumes "open_inbound_monitor e c = (c', evs)"
  shows "zq_inbound_socket c' = zq_inbound_socket c"
  using assms by (auto simp: open_inbound_monitor_def split: option.splits if_splits)

lemma connect_inbound_track:
  assumes "zq_inbound_socket c = None" "zq_monitor_socket c = None" "new_handles e c"
    and "zmq_setup_inbound_connection_client e c = (r, c', evs)"
  shows "ztrack (resources c) evs = Some (resources c')"
proof (cases "zq_context c = None \<or> zo_socket e = None")
  case True
  with assms(1,4) show ?thesis
    by (auto simp: zmq_setup_inbound_connection_client_def open_sockets_def split: if_splits option.splits)
next
  case False
  then obtain h where h: "zo_socket e = Some h" by auto
  let ?c = "c \<lparr> zq_inbound_socket := Some h \<rparr>"
  obtain c1 evs1 where m: "open_inbound_monitor e ?c = (c1, evs1)" by fastforce
  have open1: "open_sockets ?c = add_mset h (open_sockets c)" using assms(1) by (simp add: open_sockets_def)
  have "\<forall>x. zo_monitor_socket e = Some x \<longrightarrow> x \<notin># open_sockets ?c"
    using assms(3) h by (auto simp: new_handles_def open1)
  then have "ztrack (resources ?c) evs1 = Some (resources c1)" using monitor_track [OF _ m] assms(2) False by simp
  moreover have "h \<in># open_sockets c1" using monitor_frame [OF m] by (simp add: open_sockets_def)
  moreover have "h \<notin># open_sockets c" using assms(3) h by (simp add: new_handles_def)
  ultimately show ?thesis using assms(4) False h m
    by (auto simp: zmq_setup_inbound_connection_client_def open1 ztrack_append split: if_splits)
qed

lemma zmq_dispose_track:
  assumes "sockets_have_context (resources c)"
  shows "ztrack (resources c) (snd (zmq_dispose c)) = Some (None, {#})"
proof -
  have held: "open_sockets c = held_handle (zq_setup_socket c) + (held_handle (zq_monitor_socket c)
      + (held_handle (zq_inbound_socket c) + (held_handle (zq_outbound_socket c) + {#})))"
    by (simp add: open_sockets_def)
  show ?thesis unfolding zmq_dispose_def snd_conv ztrack_append held ztrack_close
    using ztrack_close [of _ _ "{#}"] by (cases "zq_context c") (simp_all add: ztrack_append ztrack_unlink ztrack_close)
qed

lemma resources_disposed: "resources (fst (zmq_dispose c)) = (None, {#})"
  by (simp add: zmq_dispose_def open_sockets_def)

lemma zmq_step_track:
  "zmq_step c evs c' \<Longrightarrow> sockets_have_context (resources c) \<Longrightarrow> ztrack (resources c) evs = Some (resources c')"
proof (induction rule: zmq_step.induct)
  case (send sent data c r evs)
  then show ?case by (cases "zq_outbound_socket c") (auto simp: zmq_send_def open_sockets_def split: if_splits)
next
  case (shutdown c)
  then show ?case by (simp add: zmq_shutdown_def open_sockets_def)
next
  case (dispose c c' evs)
  then show ?case using zmq_dispose_track [of c] resources_disposed [of c] by simp
qed (blast intro: listen_setup_track setup_request_track setup_response_track listen_inbound_track
    listen_outbound_track connect_setup_track setup_request_client_track connect_inbound_track connect_outbound_track)+

lemma zmq_trace_track:
  "zmq_trace c evs c' \<Longrightarrow> sockets_have_context (resources c) \<Longrightarrow>
   ztrack (resources c) evs = Some (resources c') \<and> sockets_have_context (resources c')"
proof (induction rule: zmq_trace.induct)
  case (more c evs c' evs' c'')
  then show ?case using zmq_step_track [OF more.hyps(2)] ztrack_sockets_have_context
    by (fastforce simp: ztrack_append)
qed simp

section \<open>Properties\<close>





end
