(* ===== verification/Asn1_Text.thy ===== *)
theory Asn1_Text
  imports E3_Types
begin

text \<open>
  UTF-8 in the ASN.1 encoder: the check \<open>is_utf8\<close> and the shortening of a text in \<open>set_reason\<close>,
  \<^verbatim>\<open>src/encoder/asn1_encoder.cpp\<close>. Octets are numbers below 256; the masks and shifts of the
  code are the remainders and products by powers of two they stand for, and every code point stays
  below \<open>2 ^ 21\<close>. The reference is the encoding of Unicode scalar values.
\<close>

section \<open>The check\<close>

text \<open>The length of a sequence and the bits of its first octet.\<close>

definition lead_octet :: "nat \<Rightarrow> (nat \<times> nat) option" where
  "lead_octet c =
     (if 0xC2 \<le> c \<and> c \<le> 0xDF then Some (2, c mod 0x20)
      else if 0xE0 \<le> c \<and> c \<le> 0xEF then Some (3, c mod 0x10)
      else if 0xF0 \<le> c \<and> c \<le> 0xF4 then Some (4, c mod 0x08)
      else None)"

definition continuation :: "nat \<Rightarrow> bool" where
  "continuation p \<longleftrightarrow> p div 0x40 = 2"

fun continue_with :: "nat \<Rightarrow> nat list \<Rightarrow> nat option" where
  "continue_with cp [] = Some cp"
| "continue_with cp (p # ps) = (if continuation p then continue_with (cp * 0x40 + p mod 0x40) ps else None)"

definition misplaced :: "nat \<Rightarrow> nat \<Rightarrow> bool" where
  "misplaced len cp \<longleftrightarrow>
     (len = 3 \<and> cp < 0x800) \<or> (len = 4 \<and> (cp < 0x10000 \<or> cp > 0x10FFFF)) \<or> (cp \<ge> 0xD800 \<and> cp \<le> 0xDFFF)"

function is_utf8 :: "nat list \<Rightarrow> bool" where
  "is_utf8 [] = True"
| "is_utf8 (c # rest) =
     (if c < 0x80 then is_utf8 rest
      else case lead_octet c of
        None \<Rightarrow> False
      | Some (len, bits) \<Rightarrow>
          if 1 + length rest < len then False
          else case continue_with bits (take (len - 1) rest) of
            None \<Rightarrow> False
          | Some cp \<Rightarrow> if misplaced len cp then False else is_utf8 (drop (len - 1) rest))"
  by pat_completeness auto
termination by (relation "measure length") auto

text \<open>
  The number of octets of a long text that are sent: the bound, moved back while the next octet
  continues a character.
\<close>

fun cut_back :: "nat list \<Rightarrow> nat \<Rightarrow> nat" where
  "cut_back text_octets 0 = 0"
| "cut_back text_octets (Suc n) =
     (if Suc n < length text_octets \<and> continuation (text_octets ! Suc n) then cut_back text_octets n else Suc n)"

definition detail_size :: "nat list \<Rightarrow> nat" where
  "detail_size text_octets = cut_back text_octets (min (length text_octets) MAX_DETAIL_SIZE)"

section \<open>The reference\<close>

definition scalar_value :: "nat \<Rightarrow> bool" where
  "scalar_value cp \<longleftrightarrow> cp < 0x110000 \<and> \<not> (0xD800 \<le> cp \<and> cp \<le> 0xDFFF)"

definition utf8_encode :: "nat \<Rightarrow> nat list" where
  "utf8_encode cp =
     (if cp < 0x80 then [cp]
      else if cp < 0x800 then [0xC0 + cp div 0x40, 0x80 + cp mod 0x40]
      else if cp < 0x10000 then [0xE0 + cp div 0x1000, 0x80 + cp div 0x40 mod 0x40, 0x80 + cp mod 0x40]
      else [0xF0 + cp div 0x40000, 0x80 + cp div 0x1000 mod 0x40, 0x80 + cp div 0x40 mod 0x40, 0x80 + cp mod 0x40])"

definition utf8_text :: "nat list \<Rightarrow> bool" where
  "utf8_text octets \<longleftrightarrow> (\<exists>cps. list_all scalar_value cps \<and> octets = concat (map utf8_encode cps))"

lemma utf8_text_Nil [simp]: "utf8_text []"
  unfolding utf8_text_def by (rule exI [of _ "[]"]) simp

lemma utf8_text_step: "scalar_value cp \<Longrightarrow> utf8_text rest \<Longrightarrow> utf8_text (utf8_encode cp @ rest)"
  unfolding utf8_text_def by (metis concat.simps(2) list.pred_inject(2) list.simps(9))

lemma mod_offset: "a < (n :: nat) \<Longrightarrow> (k * n + a) mod n = a"
  by simp

lemma continuation_bits: "x < 0x40 \<Longrightarrow> continuation (0x80 + x)" "x < 0x40 \<Longrightarrow> (0x80 + x) mod 0x40 = x"
  using mod_offset [of x 64 2] by (simp_all add: continuation_def)

lemma digits64:
  fixes cp :: nat
  shows "cp div 0x1000 * 0x40 + cp div 0x40 mod 0x40 = cp div 0x40"
    and "cp div 0x40000 * 0x40 + cp div 0x1000 mod 0x40 = cp div 0x1000"
  using div_mult2_eq [of cp 64 64] div_mult2_eq [of cp 4096 64]
    div_mult_mod_eq [of "cp div 0x40" 64] div_mult_mod_eq [of "cp div 0x1000" 64] by simp_all

lemma digit64:
  fixes m b :: nat
  assumes "b < 0x40"
  shows "(m * 0x40 + b) div 0x40 = m" "(m * 0x40 + b) mod 0x40 = b"
  using assms by simp_all

lemma lead_octet_bits:
  "2 \<le> a \<Longrightarrow> a < 0x20 \<Longrightarrow> lead_octet (0xC0 + a) = Some (2, a)"
  "b < 0x10 \<Longrightarrow> lead_octet (0xE0 + b) = Some (3, b)"
  "c < 5 \<Longrightarrow> lead_octet (0xF0 + c) = Some (4, c)"
proof -
  have "a < 0x20 \<Longrightarrow> (0xC0 + a) mod 0x20 = a" "b < 0x10 \<Longrightarrow> (0xE0 + b) mod 0x10 = b" "c < 5 \<Longrightarrow> (0xF0 + c) mod 8 = c"
    using mod_offset [of a 32 6] mod_offset [of b 16 14] mod_offset [of c 8 30] by simp_all
  then show "2 \<le> a \<Longrightarrow> a < 0x20 \<Longrightarrow> lead_octet (0xC0 + a) = Some (2, a)"
    "b < 0x10 \<Longrightarrow> lead_octet (0xE0 + b) = Some (3, b)" "c < 5 \<Longrightarrow> lead_octet (0xF0 + c) = Some (4, c)"
    by (simp_all add: lead_octet_def)
qed

text \<open>One encoded character is accepted, whatever follows.\<close>

lemma is_utf8_sequence:
  assumes "lead_octet c = Some (Suc (length xs), bits)" "continue_with bits xs = Some cp" "\<not> misplaced (Suc (length xs)) cp"
  shows "is_utf8 (c # xs @ rest) = is_utf8 rest"
proof -
  have "\<not> c < 0x80" using assms(1) by (auto simp: lead_octet_def split: if_splits)
  then show ?thesis using assms by simp
qed

declare is_utf8.simps(2) [simp del]

lemma not_misplaced: "scalar_value cp \<Longrightarrow> (len = 3 \<longrightarrow> 0x800 \<le> cp) \<Longrightarrow> (len = 4 \<longrightarrow> 0x10000 \<le> cp) \<Longrightarrow> \<not> misplaced len cp"
  by (auto simp: misplaced_def scalar_value_def)

lemma is_utf8_encode:
  assumes "scalar_value cp"
  shows "is_utf8 (utf8_encode cp @ rest) = is_utf8 rest"
proof -
  consider "cp < 0x80" | "0x80 \<le> cp" "cp < 0x800" | "0x800 \<le> cp" "cp < 0x10000" | "0x10000 \<le> cp" by linarith
  then show ?thesis
  proof cases
    case 1
    then show ?thesis by (simp add: utf8_encode_def is_utf8.simps(2))
  next
    case 2
    let ?a = "cp div 0x40" and ?b = "cp mod 0x40"
    have lead: "lead_octet (0xC0 + ?a) = Some (Suc (length [0x80 + ?b]), ?a)"
      using 2 lead_octet_bits(1) [of ?a] by (simp add: less_mult_imp_div_less div_le_mono [of 128 cp 64, simplified])
    have "continue_with ?a [0x80 + ?b] = Some cp" by (simp add: continuation_bits)
    from is_utf8_sequence [OF lead this not_misplaced [OF assms]] 2 show ?thesis
      by (simp add: utf8_encode_def)
  next
    case 3
    let ?a = "cp div 0x1000" and ?b = "cp div 0x40 mod 0x40" and ?c = "cp mod 0x40"
    have lead: "lead_octet (0xE0 + ?a) = Some (Suc (length [0x80 + ?b, 0x80 + ?c]), ?a)"
      using 3 lead_octet_bits(2) [of ?a] by (simp add: less_mult_imp_div_less)
    have "continue_with ?a [0x80 + ?b, 0x80 + ?c] = Some ((?a * 0x40 + ?b) * 0x40 + ?c)"
      by (simp add: continuation_bits)
    also have "(?a * 0x40 + ?b) * 0x40 + ?c = cp" by (simp only: digits64(1) div_mult_mod_eq)
    finally show ?thesis using is_utf8_sequence [OF lead _ not_misplaced [OF assms]] 3
      by (simp add: utf8_encode_def)
  next
    case 4
    let ?a = "cp div 0x40000" and ?b = "cp div 0x1000 mod 0x40" and ?c = "cp div 0x40 mod 0x40" and ?d = "cp mod 0x40"
    have lead: "lead_octet (0xF0 + ?a) = Some (Suc (length [0x80 + ?b, 0x80 + ?c, 0x80 + ?d]), ?a)"
      using assms lead_octet_bits(3) [of ?a] by (simp add: scalar_value_def less_mult_imp_div_less)
    have "continue_with ?a [0x80 + ?b, 0x80 + ?c, 0x80 + ?d] = Some (((?a * 0x40 + ?b) * 0x40 + ?c) * 0x40 + ?d)"
      by (simp add: continuation_bits)
    also have "((?a * 0x40 + ?b) * 0x40 + ?c) * 0x40 + ?d = cp" by (simp only: digits64 div_mult_mod_eq)
    finally show ?thesis using is_utf8_sequence [OF lead _ not_misplaced [OF assms]] 4
      by (simp add: utf8_encode_def)
  qed
qed

text \<open>And what is accepted begins with an encoded character.\<close>

lemma continuationD: "continuation p \<Longrightarrow> p = 0x80 + p mod 0x40"
  using div_mult_mod_eq [of p 64] by (simp add: continuation_def)

lemma lead_octet_cases:
  assumes "lead_octet c = Some (len, bits)"
  obtains "len = 2" "c = 0xC0 + bits" "2 \<le> bits" "bits < 0x20"
  | "len = 3" "c = 0xE0 + bits" "bits < 0x10"
  | "len = 4" "c = 0xF0 + bits" "bits < 5"
proof -
  have "c div 32 = 6" if "194 \<le> c" "c \<le> 223" using that by (intro div_nat_eqI) simp_all
  moreover have "c div 16 = 14" if "224 \<le> c" "c \<le> 239" using that by (intro div_nat_eqI) simp_all
  moreover have "c div 8 = 30" if "240 \<le> c" "c \<le> 244" using that by (intro div_nat_eqI) simp_all
  ultimately have "194 \<le> c \<Longrightarrow> c \<le> 223 \<Longrightarrow> c = 192 + c mod 32" "224 \<le> c \<Longrightarrow> c \<le> 239 \<Longrightarrow> c = 224 + c mod 16"
    "240 \<le> c \<Longrightarrow> c \<le> 244 \<Longrightarrow> c = 240 + c mod 8"
    using div_mult_mod_eq [of c 32] div_mult_mod_eq [of c 16] div_mult_mod_eq [of c 8] by simp_all
  with assms that show ?thesis by (auto simp: lead_octet_def split: if_splits)
qed

lemma accepted_two:
  assumes "2 \<le> bits" "bits < 0x20" "continuation x"
  shows "utf8_encode (bits * 0x40 + x mod 0x40) = [0xC0 + bits, x]"
  using assms continuationD [OF assms(3)] by (simp add: utf8_encode_def)

lemma div_digits64:
  fixes cp :: nat
  shows "cp div 0x1000 = cp div 0x40 div 0x40" "cp div 0x40000 = cp div 0x40 div 0x40 div 0x40"
proof -
  have "(0x1000 :: nat) = 0x40 * 0x40" "(0x40000 :: nat) = 0x40 * 0x40 * 0x40" by simp_all
  then show "cp div 0x1000 = cp div 0x40 div 0x40" "cp div 0x40000 = cp div 0x40 div 0x40 div 0x40"
    by (simp_all only: div_mult2_eq)
qed

lemma accepted_three:
  assumes "bits < 0x10" "continuation x" "continuation y"
    and "\<not> misplaced 3 ((bits * 0x40 + x mod 0x40) * 0x40 + y mod 0x40)"
  shows "utf8_encode ((bits * 0x40 + x mod 0x40) * 0x40 + y mod 0x40) = [0xE0 + bits, x, y]"
proof -
  define a b cp where "a = x mod 0x40" and "b = y mod 0x40" and "cp = (bits * 0x40 + a) * 0x40 + b"
  have xy: "x = 0x80 + a" "y = 0x80 + b" unfolding a_def b_def by (rule continuationD [OF assms(2)], rule continuationD [OF assms(3)])
  have ab: "a < 0x40" "b < 0x40" by (simp_all add: a_def b_def)
  have parts: "cp div 0x1000 = bits" "cp div 0x40 mod 0x40 = a" "cp mod 0x40 = b"
    unfolding cp_def div_digits64 by (simp_all only: digit64 [OF ab(1)] digit64 [OF ab(2)])
  have ok: "\<not> misplaced 3 cp" using assms(4) unfolding cp_def a_def b_def .
  then have "\<not> cp < 0x800" "\<not> cp < 0x80" by (simp_all add: misplaced_def)
  moreover have "cp < 0x10000" using assms(1) ab by (simp add: cp_def)
  ultimately have "utf8_encode cp = [0xE0 + bits, x, y]" unfolding utf8_encode_def parts xy by simp
  then show ?thesis unfolding cp_def a_def b_def .
qed

lemma accepted_four:
  assumes "bits < 5" "continuation x" "continuation y" "continuation z"
    and "\<not> misplaced 4 (((bits * 0x40 + x mod 0x40) * 0x40 + y mod 0x40) * 0x40 + z mod 0x40)"
  shows "utf8_encode (((bits * 0x40 + x mod 0x40) * 0x40 + y mod 0x40) * 0x40 + z mod 0x40) = [0xF0 + bits, x, y, z]"
proof -
  define a b c cp where "a = x mod 0x40" and "b = y mod 0x40" and "c = z mod 0x40"
    and "cp = ((bits * 0x40 + a) * 0x40 + b) * 0x40 + c"
  have xyz: "x = 0x80 + a" "y = 0x80 + b" "z = 0x80 + c" unfolding a_def b_def c_def
    by (rule continuationD [OF assms(2)], rule continuationD [OF assms(3)], rule continuationD [OF assms(4)])
  have abc: "a < 0x40" "b < 0x40" "c < 0x40" by (simp_all add: a_def b_def c_def)
  have parts: "cp div 0x40000 = bits" "cp div 0x1000 mod 0x40 = a" "cp div 0x40 mod 0x40 = b" "cp mod 0x40 = c"
    unfolding cp_def div_digits64 by (simp_all only: digit64 [OF abc(1)] digit64 [OF abc(2)] digit64 [OF abc(3)])
  have ok: "\<not> misplaced 4 cp" using assms(5) unfolding cp_def a_def b_def c_def .
  then have "\<not> cp < 0x10000" "\<not> cp < 0x800" "\<not> cp < 0x80" by (simp_all add: misplaced_def)
  then have "utf8_encode cp = [0xF0 + bits, x, y, z]" unfolding utf8_encode_def parts xyz by simp
  then show ?thesis unfolding cp_def a_def b_def c_def .
qed

lemma scalar_of_sequence:
  assumes "\<not> misplaced len cp" "cp < 0x110000"
  shows "scalar_value cp"
  using assms by (auto simp: misplaced_def scalar_value_def)

lemma accepted_sequence:
  assumes "is_utf8 (c # rest)" "\<not> c < 0x80"
  obtains len bits cp where "lead_octet c = Some (len, bits)" "len \<le> 1 + length rest"
    "continue_with bits (take (len - 1) rest) = Some cp" "\<not> misplaced len cp" "is_utf8 (drop (len - 1) rest)"
proof -
  obtain len bits where lead: "lead_octet c = Some (len, bits)"
    using assms by (cases "lead_octet c") (auto simp: is_utf8.simps(2))
  note unfolded = assms(1) [unfolded is_utf8.simps(2) lead option.case prod.case]
  then have "len \<le> 1 + length rest" using assms(2) by (simp split: if_splits)
  moreover from this unfolded obtain cp where "continue_with bits (take (len - 1) rest) = Some cp"
    using assms(2) by (cases "continue_with bits (take (len - 1) rest)") simp_all
  ultimately show thesis using that [OF lead] unfolded assms(2) by (simp split: if_splits)
qed

lemma accepted_head:
  assumes "is_utf8 (c # rest)"
  shows "\<exists>cp rest'. scalar_value cp \<and> c # rest = utf8_encode cp @ rest' \<and> is_utf8 rest'"
proof (cases "c < 0x80")
  case True
  then show ?thesis using assms
    by (intro exI [of _ c] exI [of _ rest]) (simp add: utf8_encode_def scalar_value_def is_utf8.simps(2))
next
  case False
  obtain len bits cp where lead: "lead_octet c = Some (len, bits)" and enough: "len \<le> 1 + length rest"
    and cont: "continue_with bits (take (len - 1) rest) = Some cp" and ok: "\<not> misplaced len cp"
    and more: "is_utf8 (drop (len - 1) rest)"
    using accepted_sequence [OF assms False] by blast
  from lead show ?thesis
  proof (cases rule: lead_octet_cases)
    case 1
    obtain x r where r: "rest = x # r" using enough 1(1) by (cases rest) auto
    with cont 1(1) have cp: "continuation x" "cp = bits * 0x40 + x mod 0x40" by (simp_all split: if_splits)
    have "bits * 0x40 + a < 0x110000" if "a < 0x40" for a using that 1 by simp
    then have "scalar_value cp" using scalar_of_sequence [OF ok] cp(2) by simp
    moreover have "c # rest = utf8_encode cp @ r" using accepted_two [OF 1(3,4) cp(1)] 1(2) r cp(2) by simp
    moreover have "is_utf8 r" using more 1(1) r by simp
    ultimately show ?thesis by blast
  next
    case 2
    obtain x y r where r: "rest = x # y # r" using enough 2(1) by (cases rest; cases "tl rest") auto
    with cont 2(1) have cp: "continuation x" "continuation y" "cp = (bits * 0x40 + x mod 0x40) * 0x40 + y mod 0x40"
      by (simp_all add: numeral_2_eq_2 split: if_splits)
    have "(bits * 0x40 + a) * 0x40 + b < 0x110000" if "a < 0x40" "b < 0x40" for a b using that 2(3) by simp
    then have "scalar_value cp" using scalar_of_sequence [OF ok] cp(3) by simp
    moreover have "c # rest = utf8_encode cp @ r"
      using accepted_three [OF 2(3) cp(1,2)] ok 2(1,2) r unfolding cp(3) by simp
    moreover have "is_utf8 r" using more 2(1) r by (simp add: numeral_2_eq_2)
    ultimately show ?thesis by blast
  next
    case 3
    obtain x y z r where r: "rest = x # y # z # r"
      using enough 3(1) by (cases rest; cases "tl rest"; cases "tl (tl rest)") auto
    with cont 3(1) have cp: "continuation x" "continuation y" "continuation z"
      "cp = ((bits * 0x40 + x mod 0x40) * 0x40 + y mod 0x40) * 0x40 + z mod 0x40"
      by (simp_all add: numeral_3_eq_3 split: if_splits)
    have "cp < 0x110000" using ok 3(1) by (simp add: misplaced_def)
    then have "scalar_value cp" by (rule scalar_of_sequence [OF ok])
    moreover have "c # rest = utf8_encode cp @ r"
      using accepted_four [OF 3(3) cp(1-3)] ok 3(1,2) r unfolding cp(4) by simp
    moreover have "is_utf8 r" using more 3(1) r by (simp add: numeral_3_eq_3)
    ultimately show ?thesis by blast
  qed
qed

lemma is_utf8_accepts: "utf8_text octets \<Longrightarrow> is_utf8 octets"
proof -
  have "list_all scalar_value cps \<Longrightarrow> is_utf8 (concat (map utf8_encode cps))" for cps
    by (induction cps) (simp_all add: is_utf8_encode)
  then show "utf8_text octets \<Longrightarrow> is_utf8 octets" by (auto simp: utf8_text_def)
qed

lemma utf8_encode_nonempty [simp]: "utf8_encode cp \<noteq> []"
  by (simp add: utf8_encode_def)

lemma is_utf8_only: "is_utf8 octets \<Longrightarrow> utf8_text octets"
proof (induction "length octets" arbitrary: octets rule: less_induct)
  case less
  show ?case
  proof (cases octets)
    case (Cons c rest)
    obtain cp rest' where split: "scalar_value cp" "octets = utf8_encode cp @ rest'" "is_utf8 rest'"
      using accepted_head less.prems Cons by blast
    then have "utf8_text rest'" using less.hyps [of rest'] by simp
    with split show ?thesis using utf8_text_step by blast
  qed simp
qed

section \<open>Shortening\<close>

lemma encoded_tail: "0 < n \<Longrightarrow> n < length (utf8_encode cp) \<Longrightarrow> continuation (utf8_encode cp ! n)"
  by (auto simp: utf8_encode_def continuation_bits nth_Cons' split: if_splits)

lemma utf8_prefix:
  "utf8_text octets \<Longrightarrow> n \<le> length octets \<Longrightarrow> n = 0 \<or> n = length octets \<or> \<not> continuation (octets ! n) \<Longrightarrow>
   utf8_text (take n octets)"
proof -
  have "list_all scalar_value cps \<Longrightarrow> n \<le> length (concat (map utf8_encode cps)) \<Longrightarrow>
     n = 0 \<or> n = length (concat (map utf8_encode cps)) \<or> \<not> continuation (concat (map utf8_encode cps) ! n) \<Longrightarrow>
     utf8_text (take n (concat (map utf8_encode cps)))" for cps n
  proof (induction cps arbitrary: n)
    case (Cons cp cps)
    show ?case
    proof (cases "length (utf8_encode cp) \<le> n")
      case True
      then have "utf8_text (take (n - length (utf8_encode cp)) (concat (map utf8_encode cps)))"
        using Cons.IH [of "n - length (utf8_encode cp)"] Cons.prems by (auto simp: nth_append)
      with True Cons.prems(1) utf8_text_step show ?thesis by simp
    next
      case False
      then have "n = 0" using Cons.prems(2,3) encoded_tail [of n cp] by (auto simp: nth_append)
      then show ?thesis by simp
    qed
  qed simp
  then show "utf8_text octets \<Longrightarrow> n \<le> length octets \<Longrightarrow> n = 0 \<or> n = length octets \<or> \<not> continuation (octets ! n) \<Longrightarrow>
   utf8_text (take n octets)" by (auto simp: utf8_text_def)
qed

lemma cut_back_at:
  "n \<le> length octets \<Longrightarrow> cut_back octets n \<le> n \<and>
   (cut_back octets n = 0 \<or> cut_back octets n = length octets \<or> \<not> continuation (octets ! cut_back octets n))"
  by (induction octets n rule: cut_back.induct) (auto intro: le_SucI)

lemma detail_size_le: "detail_size octets \<le> length octets" "detail_size octets \<le> MAX_DETAIL_SIZE"
  using cut_back_at [of "min (length octets) MAX_DETAIL_SIZE" octets] by (auto simp: detail_size_def)

lemma detail_size_short: "length octets \<le> MAX_DETAIL_SIZE \<Longrightarrow> detail_size octets = length octets"
  by (cases "length octets") (simp_all add: detail_size_def)

lemma detail_keeps_utf8:
  assumes "is_utf8 octets"
  shows "is_utf8 (take (detail_size octets) octets)"
proof -
  have "utf8_text (take (detail_size octets) octets)"
    using utf8_prefix [OF is_utf8_only [OF assms], of "detail_size octets"]
      cut_back_at [of "min (length octets) MAX_DETAIL_SIZE" octets] detail_size_le(1) [of octets]
    by (auto simp: detail_size_def)
  then show ?thesis by (rule is_utf8_accepts)
qed

text \<open>At most three octets are given up for the character that does not fit.\<close>

lemma utf8_char_length: "length (utf8_encode cp) \<le> 4" "0 < length (utf8_encode cp)"
  by (simp_all add: utf8_encode_def)

lemma encoded_head: "scalar_value cp \<Longrightarrow> \<not> continuation (utf8_encode cp ! 0)"
  by (auto simp: utf8_encode_def continuation_def scalar_value_def)

lemma no_four_continuations:
  "list_all scalar_value cps \<Longrightarrow> i + 3 < length (concat (map utf8_encode cps)) \<Longrightarrow>
   \<exists>k\<le>3. \<not> continuation (concat (map utf8_encode cps) ! (i + k))"
proof (induction cps arbitrary: i)
  case (Cons cp cps)
  let ?L = "length (utf8_encode cp)" and ?rest = "concat (map utf8_encode cps)"
  show ?case
  proof (cases "?L \<le> i")
    case True
    have "i - ?L + 3 < length ?rest" using True Cons.prems(2) by simp
    moreover have "list_all scalar_value cps" using Cons.prems(1) by simp
    ultimately obtain k where "k \<le> 3" "\<not> continuation (?rest ! (i - ?L + k))"
      using Cons.IH [of "i - ?L"] by blast
    with True show ?thesis by (intro exI [of _ k]) (simp add: nth_append)
  next
    case False
    show ?thesis
    proof (cases "i = 0")
      case True
      with False Cons.prems(1) encoded_head [of cp] show ?thesis by (intro exI [of _ 0]) (simp add: nth_append)
    next
      case pos: False
      obtain cp' cps' where cps: "cps = cp' # cps'" using Cons.prems(2) utf8_char_length(1) [of cp] pos by (cases cps) auto
      have "?rest ! 0 = utf8_encode cp' ! 0" using utf8_char_length(2) [of cp'] by (simp add: cps nth_append)
      moreover have "scalar_value cp'" using Cons.prems(1) cps by simp
      ultimately have "\<not> continuation ((utf8_encode cp @ ?rest) ! (i + (?L - i)))"
        using False encoded_head [of cp'] by (simp add: nth_append)
      then show ?thesis using False pos utf8_char_length(1) [of cp] by (intro exI [of _ "?L - i"]) auto
    qed
  qed
qed simp

lemma cut_back_passed:
  "n < length octets \<Longrightarrow> cut_back octets n < j \<Longrightarrow> j \<le> n \<Longrightarrow> continuation (octets ! j)"
proof (induction octets n rule: cut_back.induct)
  case (2 octets n)
  then show ?case by (cases "j = Suc n") (auto split: if_splits)
qed simp

lemma detail_size_lower:
  assumes "is_utf8 octets"
  shows "min (length octets) (MAX_DETAIL_SIZE - 3) \<le> detail_size octets"
proof (cases "length octets \<le> MAX_DETAIL_SIZE")
  case True
  then show ?thesis by (simp add: detail_size_short)
next
  case False
  obtain cps where cps: "list_all scalar_value cps" "octets = concat (map utf8_encode cps)"
    using is_utf8_only [OF assms] by (auto simp: utf8_text_def)
  have "MAX_DETAIL_SIZE - 3 + 3 < length octets" using False by (simp add: MAX_DETAIL_SIZE_def)
  then obtain k where k: "k \<le> 3" "\<not> continuation (octets ! (MAX_DETAIL_SIZE - 3 + k))"
    using no_four_continuations [OF cps(1)] cps(2) by blast
  have "MAX_DETAIL_SIZE - 3 + k \<le> cut_back octets MAX_DETAIL_SIZE"
    using cut_back_passed [of MAX_DETAIL_SIZE octets "MAX_DETAIL_SIZE - 3 + k"] k False
    by (intro leI notI) (simp add: MAX_DETAIL_SIZE_def)
  then show ?thesis using False by (simp add: detail_size_def min_def)
qed

section \<open>Properties\<close>

text \<open>C32. The check accepts exactly the UTF-8 encodings of sequences of Unicode scalar values: shortest
  forms, no surrogates, nothing past U+10FFFF.\<close>

theorem is_utf8_exact:
  "is_utf8 octets \<longleftrightarrow> (\<exists>cps. list_all scalar_value cps \<and> octets = concat (map utf8_encode cps))"
  using is_utf8_accepts is_utf8_only by (metis utf8_text_def)

end
