(* ===== verification/Asn1_Encoder.thy ===== *)
theory Asn1_Encoder
  imports Pdu_Codec Asn1_Text
begin

text \<open>
  The ASN.1 encoder, \<^verbatim>\<open>src/encoder/asn1_encoder.cpp\<close>, on the structures that asn1c generates
  from \<^verbatim>\<open>messages/asn1/V1/e3ap-1.0.0.asn1\<close>: an integer type is a C \<open>long\<close>, an \<open>OCTET STRING\<close> is a list of
  octets, an \<open>OPTIONAL\<close> member is a pointer that may be null. The constraints of the grammar are
  \<open>asn_valid\<close>. The aligned packed encoding belongs to the asn1c runtime and is the argument
  \<open>aper_runtime\<close>; \<open>aper_ok\<close> is what its documentation promises. Memory is taken to be available.
\<close>

section \<open>Structures\<close>

record asn_setup_request =
  asq_e3apProtocolVersion :: bytes
  asq_dAppName :: bytes
  asq_dAppVersion :: bytes
  asq_vendor :: bytes

record asn_ran_function =
  asf_ranFunctionIdentifier :: int
  asf_telemetryIdentifierList :: "int list"
  asf_controlIdentifierList :: "int list"
  asf_ranFunctionData :: bytes

record asn_setup_response =
  ass_requestId :: int
  ass_responseCode :: int
  ass_ranIdentifier :: bytes
  ass_e3apProtocolVersion :: "bytes option"
  ass_dAppIdentifier :: "int option"
  ass_ranFunctionList :: "asn_ran_function list option"
  ass_cause :: "int option"
  ass_detail :: "bytes option"

record asn_subscription_request =
  asr_dAppIdentifier :: int
  asr_ranFunctionIdentifier :: int
  asr_telemetryIdentifierList :: "int list"
  asr_controlIdentifierList :: "int list"
  asr_subscriptionTime :: "int option"
  asr_periodicity :: "int option"

record asn_subscription_delete =
  asd_dAppIdentifier :: int
  asd_subscriptionId :: int

record asn_subscription_response =
  asp_requestId :: int
  asp_dAppIdentifier :: int
  asp_responseCode :: int
  asp_subscriptionId :: "int option"
  asp_telemetryIdentifierList :: "int list option"
  asp_controlIdentifierList :: "int list option"
  asp_cause :: "int option"
  asp_detail :: "bytes option"
  asp_ranFunctionIdentifier :: "int option"
  asp_periodicity :: "int option"

record asn_indication_message =
  asi_dAppIdentifier :: int
  asi_ranFunctionIdentifier :: int
  asi_protocolData :: bytes

record asn_dapp_control_action =
  asc_dAppIdentifier :: int
  asc_ranFunctionIdentifier :: int
  asc_controlIdentifier :: int
  asc_sequenceId :: "int option"
  asc_actionData :: bytes

record asn_dapp_report =
  ast_dAppIdentifier :: int
  ast_ranFunctionIdentifier :: int
  ast_sequenceId :: int
  ast_reportData :: bytes

record asn_xapp_control_action =
  asx_dAppIdentifier :: int
  asx_ranFunctionIdentifier :: int
  asx_sequenceId :: int
  asx_xAppControlData :: bytes

record asn_release_message =
  ase_dAppIdentifier :: int

record asn_message_ack =
  asa_requestId :: int
  asa_responseCode :: int
  asa_cause :: "int option"
  asa_detail :: "bytes option"

datatype asn_msg =
    AsnNothing
  | AsnSetupRequest asn_setup_request
  | AsnSetupResponse asn_setup_response
  | AsnSubscriptionRequest asn_subscription_request
  | AsnSubscriptionDelete asn_subscription_delete
  | AsnSubscriptionResponse asn_subscription_response
  | AsnIndicationMessage asn_indication_message
  | AsnDAppControlAction asn_dapp_control_action
  | AsnDAppReport asn_dapp_report
  | AsnXAppControlAction asn_xapp_control_action
  | AsnReleaseMessage asn_release_message
  | AsnMessageAck asn_message_ack

record asn_pdu =
  asn_id :: int
  asn_timestamp :: "int option"
  asn_present :: asn_msg

section \<open>The grammar\<close>

definition in_range :: "int \<Rightarrow> int \<Rightarrow> int \<Rightarrow> bool" where
  "in_range lo hi x \<longleftrightarrow> lo \<le> x \<and> x \<le> hi"

definition sized :: "nat \<Rightarrow> nat \<Rightarrow> 'a list \<Rightarrow> bool" where
  "sized lo hi xs \<longleftrightarrow> lo \<le> length xs \<and> length xs \<le> hi"

definition when_present :: "('a \<Rightarrow> bool) \<Rightarrow> 'a option \<Rightarrow> bool" where
  "when_present ok x = (case x of None \<Rightarrow> True | Some a \<Rightarrow> ok a)"

abbreviation E3_DAppID :: "int \<Rightarrow> bool" where "E3_DAppID \<equiv> in_range 1 65535"
abbreviation E3_Identifier :: "int \<Rightarrow> bool" where "E3_Identifier \<equiv> in_range 1 65535"
abbreviation E3_MessageID :: "int \<Rightarrow> bool" where "E3_MessageID \<equiv> in_range 1 4294967295"
abbreviation E3_SequenceID :: "int \<Rightarrow> bool" where "E3_SequenceID \<equiv> in_range 1 4294967295"
abbreviation E3_ResponseCode :: "int \<Rightarrow> bool" where "E3_ResponseCode \<equiv> in_range 0 1"

definition E3_IdentifierList :: "int list \<Rightarrow> bool" where
  "E3_IdentifierList ids \<longleftrightarrow> sized 0 256 ids \<and> list_all E3_Identifier ids"

definition asn_ran_function_valid :: "asn_ran_function \<Rightarrow> bool" where
  "asn_ran_function_valid f \<longleftrightarrow>
     E3_Identifier (asf_ranFunctionIdentifier f) \<and> E3_IdentifierList (asf_telemetryIdentifierList f)
     \<and> E3_IdentifierList (asf_controlIdentifierList f) \<and> sized 1 262144 (asf_ranFunctionData f)"

fun asn_msg_valid :: "asn_msg \<Rightarrow> bool" where
  "asn_msg_valid AsnNothing = False"
| "asn_msg_valid (AsnSetupRequest m) =
     (sized 1 32 (asq_e3apProtocolVersion m) \<and> sized 1 64 (asq_dAppName m) \<and> sized 1 32 (asq_dAppVersion m)
      \<and> sized 1 64 (asq_vendor m))"
| "asn_msg_valid (AsnSetupResponse m) =
     (E3_MessageID (ass_requestId m) \<and> E3_ResponseCode (ass_responseCode m) \<and> sized 1 64 (ass_ranIdentifier m)
      \<and> when_present (sized 1 32) (ass_e3apProtocolVersion m) \<and> when_present E3_DAppID (ass_dAppIdentifier m)
      \<and> when_present (\<lambda>fs. sized 0 64 fs \<and> list_all asn_ran_function_valid fs) (ass_ranFunctionList m)
      \<and> when_present (sized 0 512) (ass_detail m))"
| "asn_msg_valid (AsnSubscriptionRequest m) =
     (E3_DAppID (asr_dAppIdentifier m) \<and> E3_Identifier (asr_ranFunctionIdentifier m)
      \<and> E3_IdentifierList (asr_telemetryIdentifierList m) \<and> E3_IdentifierList (asr_controlIdentifierList m)
      \<and> when_present (in_range 0 86400) (asr_subscriptionTime m) \<and> when_present (in_range 0 60000000) (asr_periodicity m))"
| "asn_msg_valid (AsnSubscriptionDelete m) =
     (E3_DAppID (asd_dAppIdentifier m) \<and> E3_Identifier (asd_subscriptionId m))"
| "asn_msg_valid (AsnSubscriptionResponse m) =
     (E3_MessageID (asp_requestId m) \<and> E3_DAppID (asp_dAppIdentifier m) \<and> E3_ResponseCode (asp_responseCode m)
      \<and> when_present E3_Identifier (asp_subscriptionId m)
      \<and> when_present E3_IdentifierList (asp_telemetryIdentifierList m)
      \<and> when_present E3_IdentifierList (asp_controlIdentifierList m)
      \<and> when_present (sized 0 512) (asp_detail m) \<and> when_present E3_Identifier (asp_ranFunctionIdentifier m)
      \<and> when_present (in_range 0 60000000) (asp_periodicity m))"
| "asn_msg_valid (AsnIndicationMessage m) =
     (E3_DAppID (asi_dAppIdentifier m) \<and> E3_Identifier (asi_ranFunctionIdentifier m) \<and> sized 1 32768 (asi_protocolData m))"
| "asn_msg_valid (AsnDAppControlAction m) =
     (E3_DAppID (asc_dAppIdentifier m) \<and> E3_Identifier (asc_ranFunctionIdentifier m)
      \<and> E3_Identifier (asc_controlIdentifier m) \<and> when_present E3_SequenceID (asc_sequenceId m)
      \<and> sized 1 32768 (asc_actionData m))"
| "asn_msg_valid (AsnDAppReport m) =
     (E3_DAppID (ast_dAppIdentifier m) \<and> E3_Identifier (ast_ranFunctionIdentifier m)
      \<and> E3_SequenceID (ast_sequenceId m) \<and> sized 1 32768 (ast_reportData m))"
| "asn_msg_valid (AsnXAppControlAction m) =
     (E3_DAppID (asx_dAppIdentifier m) \<and> E3_Identifier (asx_ranFunctionIdentifier m)
      \<and> E3_SequenceID (asx_sequenceId m) \<and> sized 1 32768 (asx_xAppControlData m))"
| "asn_msg_valid (AsnReleaseMessage m) = E3_DAppID (ase_dAppIdentifier m)"
| "asn_msg_valid (AsnMessageAck m) =
     (E3_MessageID (asa_requestId m) \<and> E3_ResponseCode (asa_responseCode m) \<and> when_present (sized 0 512) (asa_detail m))"

definition asn_valid :: "asn_pdu \<Rightarrow> bool" where
  "asn_valid m \<longleftrightarrow> E3_MessageID (asn_id m) \<and> asn_msg_valid (asn_present m)"

section \<open>From a PDU\<close>

text \<open>\<open>E3_Timestamp_t\<close> is a signed 64-bit integer, into which the unsigned timestamp is cast.\<close>

definition set_timestamp :: "u64 \<Rightarrow> int option" where
  "set_timestamp t = (if t \<noteq> 0 then Some (sint t) else None)"

definition set_id_list :: "u32 list \<Rightarrow> int list" where
  "set_id_list ids = map uint ids"

definition set_response_code :: "response_code \<Rightarrow> int" where
  "set_response_code rc = (if rc = POSITIVE then 0 else 1)"

text \<open>The two members of \<open>set_reason\<close>.\<close>

definition set_detail :: "string option \<Rightarrow> bytes option" where
  "set_detail detail =
     (case detail of
        None \<Rightarrow> None
      | Some s \<Rightarrow> if s = [] then None else Some (to_bytes (take (detail_size (map of_char s)) s)))"

definition set_cause :: "cause option \<Rightarrow> int option" where
  "set_cause c = map_option cause_value c"

definition ran_function_to_asn1 :: "ran_function_def \<Rightarrow> asn_ran_function" where
  "ran_function_to_asn1 f =
     \<lparr>asf_ranFunctionIdentifier = uint (rf_ran_function_identifier f),
      asf_telemetryIdentifierList = set_id_list (rf_telemetry_identifier_list f),
      asf_controlIdentifierList = set_id_list (rf_control_identifier_list f),
      asf_ranFunctionData = rf_ran_function_data f\<rparr>"

definition setup_request_to_asn1 :: "setup_request \<Rightarrow> asn_msg" where
  "setup_request_to_asn1 s = AsnSetupRequest
     \<lparr>asq_e3apProtocolVersion = to_bytes (sreq_e3ap_protocol_version s),
      asq_dAppName = to_bytes (sreq_dapp_name s), asq_dAppVersion = to_bytes (sreq_dapp_version s),
      asq_vendor = to_bytes (sreq_vendor s)\<rparr>"

definition setup_response_to_asn1 :: "setup_response \<Rightarrow> asn_msg" where
  "setup_response_to_asn1 s = AsnSetupResponse
     \<lparr>ass_requestId = uint (srsp_request_id s), ass_responseCode = set_response_code (srsp_response_code s),
      ass_ranIdentifier = to_bytes (srsp_ran_identifier s),
      ass_e3apProtocolVersion = map_option to_bytes (srsp_e3ap_protocol_version s),
      ass_dAppIdentifier = map_option uint (srsp_dapp_identifier s),
      ass_ranFunctionList =
      (if srsp_ran_function_list s = [] then None
      else Some (map ran_function_to_asn1 (srsp_ran_function_list s))),
      ass_cause = set_cause (srsp_cause s), ass_detail = set_detail (srsp_detail s)\<rparr>"

definition subscription_request_to_asn1 :: "subscription_request \<Rightarrow> asn_msg" where
  "subscription_request_to_asn1 s = AsnSubscriptionRequest
     \<lparr>asr_dAppIdentifier = uint (subreq_dapp_identifier s),
      asr_ranFunctionIdentifier = uint (subreq_ran_function_identifier s),
      asr_telemetryIdentifierList = set_id_list (subreq_telemetry_identifier_list s),
      asr_controlIdentifierList = set_id_list (subreq_control_identifier_list s),
      asr_subscriptionTime = map_option uint (subreq_subscription_time s),
      asr_periodicity = map_option uint (subreq_periodicity s)\<rparr>"

definition subscription_delete_to_asn1 :: "subscription_delete \<Rightarrow> asn_msg" where
  "subscription_delete_to_asn1 s = AsnSubscriptionDelete
     \<lparr>asd_dAppIdentifier = uint (subdel_dapp_identifier s),
      asd_subscriptionId = uint (subdel_subscription_id s)\<rparr>"

definition subscription_response_to_asn1 :: "subscription_response \<Rightarrow> asn_msg" where
  "subscription_response_to_asn1 s = AsnSubscriptionResponse
     \<lparr>asp_requestId = uint (subrsp_request_id s), asp_dAppIdentifier = uint (subrsp_dapp_identifier s),
      asp_responseCode = set_response_code (subrsp_response_code s),
      asp_subscriptionId = map_option uint (subrsp_subscription_id s),
      asp_telemetryIdentifierList = map_option set_id_list (subrsp_telemetry_identifier_list s),
      asp_controlIdentifierList = map_option set_id_list (subrsp_control_identifier_list s),
      asp_cause = set_cause (subrsp_cause s), asp_detail = set_detail (subrsp_detail s),
      asp_ranFunctionIdentifier = map_option uint (subrsp_ran_function_identifier s),
      asp_periodicity = map_option uint (subrsp_periodicity s)\<rparr>"

definition indication_message_to_asn1 :: "indication_message \<Rightarrow> asn_msg" where
  "indication_message_to_asn1 s = AsnIndicationMessage
     \<lparr>asi_dAppIdentifier = uint (ind_dapp_identifier s),
      asi_ranFunctionIdentifier = uint (ind_ran_function_identifier s),
      asi_protocolData = ind_protocol_data s\<rparr>"

definition dapp_control_action_to_asn1 :: "dapp_control_action \<Rightarrow> asn_msg" where
  "dapp_control_action_to_asn1 s = AsnDAppControlAction
     \<lparr>asc_dAppIdentifier = uint (ctl_dapp_identifier s),
      asc_ranFunctionIdentifier = uint (ctl_ran_function_identifier s),
      asc_controlIdentifier = uint (ctl_control_identifier s),
      asc_sequenceId = (if ctl_sequence_id s \<noteq> 0 then Some (uint (ctl_sequence_id s)) else None),
      asc_actionData = ctl_action_data s\<rparr>"

definition dapp_report_to_asn1 :: "dapp_report \<Rightarrow> asn_msg" where
  "dapp_report_to_asn1 s = AsnDAppReport
     \<lparr>ast_dAppIdentifier = uint (rep_dapp_identifier s),
      ast_ranFunctionIdentifier = uint (rep_ran_function_identifier s),
      ast_sequenceId = uint (rep_sequence_id s), ast_reportData = rep_report_data s\<rparr>"

definition xapp_control_action_to_asn1 :: "xapp_control_action \<Rightarrow> asn_msg" where
  "xapp_control_action_to_asn1 s = AsnXAppControlAction
     \<lparr>asx_dAppIdentifier = uint (xca_dapp_identifier s),
      asx_ranFunctionIdentifier = uint (xca_ran_function_identifier s),
      asx_sequenceId = uint (xca_sequence_id s),
      asx_xAppControlData = xca_xapp_control_data s\<rparr>"

definition release_message_to_asn1 :: "release_message \<Rightarrow> asn_msg" where
  "release_message_to_asn1 s = AsnReleaseMessage
     \<lparr>ase_dAppIdentifier = uint (rel_dapp_identifier s)\<rparr>"

definition message_ack_to_asn1 :: "message_ack \<Rightarrow> asn_msg" where
  "message_ack_to_asn1 s = AsnMessageAck
     \<lparr>asa_requestId = uint (ack_request_id s), asa_responseCode = set_response_code (ack_response_code s),
      asa_cause = set_cause (ack_cause s), asa_detail = set_detail (ack_detail s)\<rparr>"

definition choice_to_asn1 :: "pdu_type \<Rightarrow> pdu_choice \<Rightarrow> asn_msg option" where
  "choice_to_asn1 t c =
     (case t of
        SETUP_REQUEST \<Rightarrow> map_option setup_request_to_asn1 (get_setup_request c)
      | SETUP_RESPONSE \<Rightarrow> map_option setup_response_to_asn1 (get_setup_response c)
      | SUBSCRIPTION_REQUEST \<Rightarrow> map_option subscription_request_to_asn1 (get_subscription_request c)
      | SUBSCRIPTION_DELETE \<Rightarrow> map_option subscription_delete_to_asn1 (get_subscription_delete c)
      | SUBSCRIPTION_RESPONSE \<Rightarrow> map_option subscription_response_to_asn1 (get_subscription_response c)
      | INDICATION_MESSAGE \<Rightarrow> map_option indication_message_to_asn1 (get_indication_message c)
      | DAPP_CONTROL_ACTION \<Rightarrow> map_option dapp_control_action_to_asn1 (get_dapp_control_action c)
      | DAPP_REPORT \<Rightarrow> map_option dapp_report_to_asn1 (get_dapp_report c)
      | XAPP_CONTROL_ACTION \<Rightarrow> map_option xapp_control_action_to_asn1 (get_xapp_control_action c)
      | RELEASE_MESSAGE \<Rightarrow> map_option release_message_to_asn1 (get_release_message c)
      | MESSAGE_ACK \<Rightarrow> map_option message_ack_to_asn1 (get_message_ack c))"

lemmas to_asn1_defs = setup_request_to_asn1_def setup_response_to_asn1_def subscription_request_to_asn1_def subscription_delete_to_asn1_def subscription_response_to_asn1_def indication_message_to_asn1_def dapp_control_action_to_asn1_def dapp_report_to_asn1_def xapp_control_action_to_asn1_def release_message_to_asn1_def message_ack_to_asn1_def

definition pdu_to_asn1 :: "pdu \<Rightarrow> asn_pdu option" where
  "pdu_to_asn1 p =
     map_option
       (\<lambda>m. \<lparr>asn_id = uint (pdu_message_id p), asn_timestamp = set_timestamp (pdu_timestamp p), asn_present = m\<rparr>)
       (choice_to_asn1 (pdu_type_of p) (pdu_choice_of p))"

section \<open>To a PDU\<close>

definition get_id :: "int \<Rightarrow> u32" where
  "get_id x = word_of_int x"

definition get_id_list :: "int list \<Rightarrow> u32 list" where
  "get_id_list xs = map get_id xs"

definition get_response_code :: "int \<Rightarrow> response_code" where
  "get_response_code x = (if x = 0 then POSITIVE else NEGATIVE)"

text \<open>The two members of \<open>get_reason\<close>.\<close>

definition get_detail :: "bytes option \<Rightarrow> string option" where
  "get_detail detail =
     (case detail of
        None \<Rightarrow> None
      | Some b \<Rightarrow> if b \<noteq> [] \<and> is_utf8 (map unat b) then Some (from_bytes b) else None)"

definition get_cause :: "int option \<Rightarrow> cause option" where
  "get_cause c = map_option cause_from_value c"

definition ran_function_of_asn1 :: "asn_ran_function \<Rightarrow> ran_function_def" where
  "ran_function_of_asn1 f =
     \<lparr>rf_ran_function_identifier = get_id (asf_ranFunctionIdentifier f),
      rf_telemetry_identifier_list = get_id_list (asf_telemetryIdentifierList f),
      rf_control_identifier_list = get_id_list (asf_controlIdentifierList f),
      rf_ran_function_data = asf_ranFunctionData f\<rparr>"

definition setup_request_of_asn1 :: "asn_setup_request \<Rightarrow> setup_request" where
  "setup_request_of_asn1 m =
     \<lparr>sreq_e3ap_protocol_version = from_bytes (asq_e3apProtocolVersion m), sreq_dapp_name = from_bytes (asq_dAppName m),
      sreq_dapp_version = from_bytes (asq_dAppVersion m), sreq_vendor = from_bytes (asq_vendor m)\<rparr>"

definition setup_response_of_asn1 :: "asn_setup_response \<Rightarrow> setup_response" where
  "setup_response_of_asn1 m =
     \<lparr>srsp_request_id = get_id (ass_requestId m), srsp_response_code = get_response_code (ass_responseCode m),
      srsp_e3ap_protocol_version = map_option from_bytes (ass_e3apProtocolVersion m),
      srsp_dapp_identifier = map_option get_id (ass_dAppIdentifier m),
      srsp_ran_identifier = from_bytes (ass_ranIdentifier m),
      srsp_ran_function_list =
      (case ass_ranFunctionList m of None \<Rightarrow> [] | Some fs \<Rightarrow> map ran_function_of_asn1 fs),
      srsp_cause = get_cause (ass_cause m), srsp_detail = get_detail (ass_detail m)\<rparr>"

definition subscription_request_of_asn1 :: "asn_subscription_request \<Rightarrow> subscription_request" where
  "subscription_request_of_asn1 m =
     \<lparr>subreq_dapp_identifier = get_id (asr_dAppIdentifier m),
      subreq_ran_function_identifier = get_id (asr_ranFunctionIdentifier m),
      subreq_telemetry_identifier_list = get_id_list (asr_telemetryIdentifierList m),
      subreq_control_identifier_list = get_id_list (asr_controlIdentifierList m),
      subreq_subscription_time = map_option get_id (asr_subscriptionTime m),
      subreq_periodicity = map_option get_id (asr_periodicity m)\<rparr>"

definition subscription_delete_of_asn1 :: "asn_subscription_delete \<Rightarrow> subscription_delete" where
  "subscription_delete_of_asn1 m =
     \<lparr>subdel_dapp_identifier = get_id (asd_dAppIdentifier m), subdel_subscription_id = get_id (asd_subscriptionId m)\<rparr>"

definition subscription_response_of_asn1 :: "asn_subscription_response \<Rightarrow> subscription_response" where
  "subscription_response_of_asn1 m =
     \<lparr>subrsp_request_id = get_id (asp_requestId m), subrsp_dapp_identifier = get_id (asp_dAppIdentifier m),
      subrsp_response_code = get_response_code (asp_responseCode m),
      subrsp_subscription_id = map_option get_id (asp_subscriptionId m),
      subrsp_telemetry_identifier_list = map_option get_id_list (asp_telemetryIdentifierList m),
      subrsp_control_identifier_list = map_option get_id_list (asp_controlIdentifierList m),
      subrsp_ran_function_identifier = map_option get_id (asp_ranFunctionIdentifier m),
      subrsp_periodicity = map_option get_id (asp_periodicity m),
      subrsp_cause = get_cause (asp_cause m), subrsp_detail = get_detail (asp_detail m)\<rparr>"

definition indication_message_of_asn1 :: "asn_indication_message \<Rightarrow> indication_message" where
  "indication_message_of_asn1 m =
     \<lparr>ind_dapp_identifier = get_id (asi_dAppIdentifier m),
      ind_ran_function_identifier = get_id (asi_ranFunctionIdentifier m), ind_protocol_data = asi_protocolData m\<rparr>"

definition dapp_control_action_of_asn1 :: "asn_dapp_control_action \<Rightarrow> dapp_control_action" where
  "dapp_control_action_of_asn1 m =
     \<lparr>ctl_dapp_identifier = get_id (asc_dAppIdentifier m),
      ctl_ran_function_identifier = get_id (asc_ranFunctionIdentifier m),
      ctl_control_identifier = get_id (asc_controlIdentifier m), ctl_action_data = asc_actionData m,
      ctl_sequence_id = (case asc_sequenceId m of Some x \<Rightarrow> get_id x | None \<Rightarrow> 0)\<rparr>"

definition dapp_report_of_asn1 :: "asn_dapp_report \<Rightarrow> dapp_report" where
  "dapp_report_of_asn1 m =
     \<lparr>rep_dapp_identifier = get_id (ast_dAppIdentifier m),
      rep_ran_function_identifier = get_id (ast_ranFunctionIdentifier m), rep_report_data = ast_reportData m,
      rep_sequence_id = get_id (ast_sequenceId m), rep_recv_seq = 0\<rparr>"

definition xapp_control_action_of_asn1 :: "asn_xapp_control_action \<Rightarrow> xapp_control_action" where
  "xapp_control_action_of_asn1 m =
     \<lparr>xca_dapp_identifier = get_id (asx_dAppIdentifier m),
      xca_ran_function_identifier = get_id (asx_ranFunctionIdentifier m),
      xca_xapp_control_data = asx_xAppControlData m, xca_sequence_id = get_id (asx_sequenceId m), xca_message_id = 0\<rparr>"

definition release_message_of_asn1 :: "asn_release_message \<Rightarrow> release_message" where
  "release_message_of_asn1 m =
     \<lparr>rel_dapp_identifier = get_id (ase_dAppIdentifier m)\<rparr>"

definition message_ack_of_asn1 :: "asn_message_ack \<Rightarrow> message_ack" where
  "message_ack_of_asn1 m =
     \<lparr>ack_request_id = get_id (asa_requestId m), ack_response_code = get_response_code (asa_responseCode m),
      ack_cause = get_cause (asa_cause m), ack_detail = get_detail (asa_detail m)\<rparr>"

fun choice_of_asn1 :: "asn_msg \<Rightarrow> pdu_choice" where
  "choice_of_asn1 AsnNothing = SetupRequest default_setup_request"
| "choice_of_asn1 (AsnSetupRequest m) = SetupRequest (setup_request_of_asn1 m)"
| "choice_of_asn1 (AsnSetupResponse m) = SetupResponse (setup_response_of_asn1 m)"
| "choice_of_asn1 (AsnSubscriptionRequest m) = SubscriptionRequest (subscription_request_of_asn1 m)"
| "choice_of_asn1 (AsnSubscriptionDelete m) = SubscriptionDelete (subscription_delete_of_asn1 m)"
| "choice_of_asn1 (AsnSubscriptionResponse m) = SubscriptionResponse (subscription_response_of_asn1 m)"
| "choice_of_asn1 (AsnIndicationMessage m) = IndicationMessage (indication_message_of_asn1 m)"
| "choice_of_asn1 (AsnDAppControlAction m) = DAppControlAction (dapp_control_action_of_asn1 m)"
| "choice_of_asn1 (AsnDAppReport m) = DAppReport (dapp_report_of_asn1 m)"
| "choice_of_asn1 (AsnXAppControlAction m) = XAppControlAction (xapp_control_action_of_asn1 m)"
| "choice_of_asn1 (AsnReleaseMessage m) = ReleaseMessage (release_message_of_asn1 m)"
| "choice_of_asn1 (AsnMessageAck m) = MessageAck (message_ack_of_asn1 m)"

lemmas of_asn1_defs = setup_request_of_asn1_def setup_response_of_asn1_def subscription_request_of_asn1_def subscription_delete_of_asn1_def subscription_response_of_asn1_def indication_message_of_asn1_def dapp_control_action_of_asn1_def dapp_report_of_asn1_def xapp_control_action_of_asn1_def release_message_of_asn1_def message_ack_of_asn1_def

definition asn1_to_pdu :: "asn_pdu \<Rightarrow> pdu" where
  "asn1_to_pdu m =
     (let c = choice_of_asn1 (asn_present m)
      in \<lparr>pdu_type_of = choice_type c, pdu_choice_of = c, pdu_message_id = get_id (asn_id m), pdu_enqueue_seq = 0,
          pdu_timestamp = (case asn_timestamp m of Some t \<Rightarrow> word_of_int t | None \<Rightarrow> 0)\<rparr>)"

section \<open>Encode and decode\<close>

definition ASN1_BUFFER_SIZE :: nat where "ASN1_BUFFER_SIZE = 65536"

text \<open>
  \<open>aper_encode_to_buffer\<close> gives the number of bits written and the buffer, or fails;
  \<open>aper_decode\<close> gives the structure when its code is \<open>RC_OK\<close>.
\<close>

record aper_runtime =
  aper_encode_to_buffer :: "asn_pdu \<Rightarrow> nat \<Rightarrow> (nat \<times> bytes) option"
  aper_decode :: "bytes \<Rightarrow> asn_pdu option"

definition asn1_encode :: "aper_runtime \<Rightarrow> pdu \<Rightarrow> bytes option" where
  "asn1_encode R p =
     (case pdu_to_asn1 p of
        None \<Rightarrow> None
      | Some m \<Rightarrow>
          (case aper_encode_to_buffer R m ASN1_BUFFER_SIZE of
             None \<Rightarrow> None
           | Some (encoded, buffer) \<Rightarrow> Some (take ((encoded + 7) div 8) buffer)))"

definition asn1_decode :: "aper_runtime \<Rightarrow> bytes \<Rightarrow> pdu option" where
  "asn1_decode R data = (if data = [] then None else map_option asn1_to_pdu (aper_decode R data))"

definition asn1_encoder :: "aper_runtime \<Rightarrow> e3_encoder" where
  "asn1_encoder R = \<lparr>enc_encode = asn1_encode R, enc_decode = asn1_decode R\<rparr>"

text \<open>
  The documented contract of the runtime: only structures that keep the constraints are encoded and
  decoded, and the octets that hold the bits of an encoding decode to the structure.
\<close>

definition aper_ok :: "aper_runtime \<Rightarrow> bool" where
  "aper_ok R \<longleftrightarrow>
     (\<forall>m size encoded buffer. aper_encode_to_buffer R m size = Some (encoded, buffer) \<longrightarrow>
        asn_valid m \<and> 0 < encoded \<and> encoded \<le> 8 * size \<and> length buffer = size
        \<and> aper_decode R (take ((encoded + 7) div 8) buffer) = Some m)
     \<and> (\<forall>data m. aper_decode R data = Some m \<longrightarrow> asn_valid m)"

section \<open>Round trip\<close>

text \<open>What arrives of a detail text: nothing of an empty one or one that is not UTF-8, else its first octets.\<close>

definition arriving_detail :: "string option \<Rightarrow> string option" where
  "arriving_detail detail =
     (case detail of
        None \<Rightarrow> None
      | Some s \<Rightarrow>
          let sent = take (detail_size (map of_char s)) s
          in if sent \<noteq> [] \<and> is_utf8 (map of_char sent) then Some sent else None)"

fun asn1_choice :: "pdu_choice \<Rightarrow> pdu_choice" where
  "asn1_choice (SetupResponse s) = SetupResponse (s\<lparr>srsp_detail := arriving_detail (srsp_detail s)\<rparr>)"
| "asn1_choice (SubscriptionResponse s) = SubscriptionResponse (s\<lparr>subrsp_detail := arriving_detail (subrsp_detail s)\<rparr>)"
| "asn1_choice (MessageAck s) = MessageAck (s\<lparr>ack_detail := arriving_detail (ack_detail s)\<rparr>)"
| "asn1_choice c = c"

definition asn1_wire :: "pdu \<Rightarrow> pdu" where
  "asn1_wire p = (wire_pdu p)\<lparr>pdu_choice_of := asn1_choice (wire_choice (pdu_choice_of p))\<rparr>"

lemma unat_to_bytes [simp]: "map unat (to_bytes s) = map of_char s"
proof -
  have "unat (word_of_nat (of_char c) :: u8) = of_char c" for c :: char by (simp add: unat_of_nat)
  then show ?thesis by (simp add: to_bytes_def comp_def)
qed

lemma get_set_detail [simp]: "get_detail (set_detail d) = arriving_detail d"
proof (cases d)
  case (Some s)
  have "to_bytes xs = [] \<longleftrightarrow> xs = []" for xs by (simp add: to_bytes_def)
  then show ?thesis using Some
    by (cases "s = []") (simp_all add: get_detail_def set_detail_def arriving_detail_def Let_def)
qed (simp add: get_detail_def set_detail_def arriving_detail_def)

lemma get_set_id [simp]: "get_id (uint x) = x"
  by (simp add: get_id_def)

lemma get_set_id_list [simp]: "get_id_list (set_id_list xs) = xs"
  by (simp add: get_id_list_def set_id_list_def comp_def)

lemma get_set_code [simp]: "get_response_code (set_response_code rc) = rc"
  by (cases rc) (simp_all add: get_response_code_def set_response_code_def)

lemma get_set_cause [simp]: "get_cause (set_cause c) = c"
  by (cases c) (simp_all add: get_cause_def set_cause_def cause_from_value_value)

lemma asn1_ran_function_roundtrip [simp]: "ran_function_of_asn1 (ran_function_to_asn1 f) = f"
  by (simp add: ran_function_of_asn1_def ran_function_to_asn1_def)

lemma get_set_optional [simp]:
  "map_option get_id (map_option uint x) = x"
  "map_option get_id_list (map_option set_id_list y) = y"
  "map_option from_bytes (map_option to_bytes z) = z"
  by (simp_all add: option.map_comp comp_def option.map_ident)

lemma get_set_functions [simp]:
  "(case (if fs = [] then None else Some (map ran_function_to_asn1 fs)) of
      None \<Rightarrow> [] | Some gs \<Rightarrow> map ran_function_of_asn1 gs) = fs"
  by (simp add: comp_def)

lemma get_set_sequence [simp]:
  "(case (if x \<noteq> 0 then Some (uint x) else None) of Some y \<Rightarrow> get_id y | None \<Rightarrow> 0) = x"
  by simp

lemma choice_asn1_roundtrip:
  assumes "choice_to_asn1 t c = Some m"
  shows "t = choice_type c" "choice_of_asn1 m = asn1_choice (wire_choice c)"
  using assms by (cases t; auto simp: choice_to_asn1_def to_asn1_defs of_asn1_defs comp_def)+

lemma pdu_to_asn1_wf: "pdu_to_asn1 p \<noteq> None \<longleftrightarrow> pdu_wf p"
proof -
  have "choice_to_asn1 (choice_type c) c \<noteq> None" for c
    by (cases c) (simp_all add: choice_to_asn1_def)
  then show ?thesis
    using choice_asn1_roundtrip(1) [of "pdu_type_of p" "pdu_choice_of p"]
    by (auto simp: pdu_to_asn1_def pdu_wf_def)
qed

lemma pdu_to_asn1_roundtrip:
  assumes "pdu_to_asn1 p = Some m"
  shows "asn1_to_pdu m = asn1_wire p"
proof -
  obtain x where x: "choice_to_asn1 (pdu_type_of p) (pdu_choice_of p) = Some x"
    and m: "m = \<lparr>asn_id = uint (pdu_message_id p), asn_timestamp = set_timestamp (pdu_timestamp p), asn_present = x\<rparr>"
    using assms by (auto simp: pdu_to_asn1_def)
  have "choice_type (asn1_choice (wire_choice c)) = choice_type c" for c by (cases c) simp_all
  then show ?thesis using choice_asn1_roundtrip [OF x]
    by (simp add: asn1_to_pdu_def m asn1_wire_def wire_pdu_def set_timestamp_def)
qed

lemma asn1_delivers:
  assumes "aper_ok R" "asn1_encode R p = Some bs"
  shows "length bs \<le> ASN1_BUFFER_SIZE \<and> asn1_decode R bs = Some (asn1_wire p)"
proof -
  obtain m encoded buffer where m: "pdu_to_asn1 p = Some m"
    and enc: "aper_encode_to_buffer R m ASN1_BUFFER_SIZE = Some (encoded, buffer)"
    and bs: "bs = take ((encoded + 7) div 8) buffer"
    using assms(2) by (auto simp: asn1_encode_def split: option.splits)
  have ok: "0 < encoded" "length buffer = ASN1_BUFFER_SIZE" "aper_decode R bs = Some m"
    using assms(1) enc unfolding aper_ok_def bs by blast+
  then have "bs \<noteq> []" by (auto simp: bs ASN1_BUFFER_SIZE_def)
  with ok pdu_to_asn1_roundtrip [OF m] show ?thesis by (simp add: asn1_decode_def bs)
qed

text \<open>The details a message carries, and those that arrive unchanged.\<close>

fun details :: "pdu_choice \<Rightarrow> string list" where
  "details (SetupResponse s) = (case srsp_detail s of None \<Rightarrow> [] | Some d \<Rightarrow> [d])"
| "details (SubscriptionResponse s) = (case subrsp_detail s of None \<Rightarrow> [] | Some d \<Rightarrow> [d])"
| "details (MessageAck s) = (case ack_detail s of None \<Rightarrow> [] | Some d \<Rightarrow> [d])"
| "details _ = []"

definition detail_fits :: "string \<Rightarrow> bool" where
  "detail_fits d \<longleftrightarrow> d \<noteq> [] \<and> length d \<le> MAX_DETAIL_SIZE \<and> is_utf8 (map of_char d)"

lemma arriving_fits: "detail_fits d \<Longrightarrow> arriving_detail (Some d) = Some d"
  by (simp add: detail_fits_def arriving_detail_def detail_size_short)

lemma arriving_None [simp]: "arriving_detail None = None"
  by (simp add: arriving_detail_def)

lemma asn1_choice_same: "list_all detail_fits (details c) \<Longrightarrow> asn1_choice (wire_choice c) = wire_choice c"
  by (cases c) (auto simp: arriving_fits split: option.splits)

lemma asn1_wire_same: "list_all detail_fits (details (pdu_choice_of p)) \<Longrightarrow> asn1_wire p = wire_pdu p"
  by (simp add: asn1_wire_def asn1_choice_same wire_pdu_def)

definition asn1_fits :: "aper_runtime \<Rightarrow> pdu \<Rightarrow> bool" where
  "asn1_fits R p \<longleftrightarrow> aper_ok R \<and> list_all detail_fits (details (pdu_choice_of p))"

interpretation asn1_codec: pdu_codec "asn1_encoder R" "asn1_fits R" for R
proof unfold_locales
  fix p bs
  assume "asn1_fits R p" "enc_encode (asn1_encoder R) p = Some bs"
  then show "enc_decode (asn1_encoder R) bs = Some (wire_pdu p)"
    using asn1_delivers [of R p bs] by (simp add: asn1_fits_def asn1_encoder_def asn1_wire_same)
next
  fix bs p
  assume "enc_decode (asn1_encoder R) bs = Some p"
  then show "pdu_wf p"
    by (auto simp: asn1_encoder_def asn1_decode_def asn1_to_pdu_def pdu_wf_def Let_def split: if_splits)
qed

section \<open>Properties\<close>

text \<open>C31. The ASN.1 encoder converts exactly the PDUs whose tag fits their message. With a runtime that keeps
  its contract an encoded PDU takes at most 65536 octets and decodes to everything of it that is
  transmitted, timestamps and absent members included; only a detail text can change, and one of 1 to
  512 octets of UTF-8 does not.\<close>

theorem asn1_roundtrip:
  assumes "aper_ok R"
  shows "(pdu_to_asn1 p \<noteq> None \<longleftrightarrow> pdu_wf p)
    \<and> (asn1_encode R p = Some bs \<longrightarrow>
        length bs \<le> 65536 \<and> asn1_decode R bs = Some (asn1_wire p)
        \<and> (list_all detail_fits (details (pdu_choice_of p)) \<longrightarrow> asn1_decode R bs = Some (wire_pdu p)))"
  using pdu_to_asn1_wf asn1_delivers [OF assms] asn1_wire_same by (auto simp: ASN1_BUFFER_SIZE_def)

text \<open>A runtime for one message, the release of dApp 7 with message id 5.\<close>

definition release_seven :: pdu where
  "release_seven = make_pdu 0 RELEASE_MESSAGE (ReleaseMessage \<lparr>rel_dapp_identifier = 7\<rparr>) 5"

definition release_seven_asn :: asn_pdu where
  "release_seven_asn = \<lparr>asn_id = 5, asn_timestamp = None, asn_present = AsnReleaseMessage \<lparr>ase_dAppIdentifier = 7\<rparr>\<rparr>"

definition release_seven_octets :: bytes where
  "release_seven_octets = [0, 5, 0x48, 0, 6]"

definition one_message_runtime :: aper_runtime where
  "one_message_runtime =
     \<lparr>aper_encode_to_buffer = (\<lambda>m size.
        if m = release_seven_asn \<and> 5 \<le> size then Some (40, release_seven_octets @ replicate (size - 5) 0) else None),
      aper_decode = (\<lambda>data. if data = release_seven_octets then Some release_seven_asn else None)\<rparr>"

theorem asn1_roundtrip_witness:
  "asn1_encode one_message_runtime release_seven = Some release_seven_octets
   \<and> asn1_decode one_message_runtime release_seven_octets = Some release_seven"
proof -
  have valid: "asn_valid release_seven_asn" by (simp add: asn_valid_def release_seven_asn_def in_range_def)
  have ok: "aper_ok one_message_runtime"
    using valid by (auto simp: aper_ok_def one_message_runtime_def release_seven_octets_def split: if_splits)
  have "pdu_to_asn1 release_seven = Some release_seven_asn"
    by (simp add: pdu_to_asn1_def release_seven_def make_pdu_def choice_to_asn1_def release_message_to_asn1_def release_seven_asn_def
        set_timestamp_def)
  then have enc: "asn1_encode one_message_runtime release_seven = Some release_seven_octets"
    by (simp add: asn1_encode_def one_message_runtime_def release_seven_octets_def ASN1_BUFFER_SIZE_def)
  have "wire_pdu release_seven = release_seven" "details (pdu_choice_of release_seven) = []"
    by (simp_all add: wire_pdu_def release_seven_def make_pdu_def)
  then show ?thesis using asn1_roundtrip [OF ok, of release_seven release_seven_octets] enc by auto
qed

text \<open>C33. A detail text in UTF-8 arrives as UTF-8: unchanged up to 512 octets, and otherwise as its longest
  part of at most 512 octets that ends with a character, at most three octets below the bound.\<close>

theorem detail_arrives:
  assumes "d \<noteq> []" "is_utf8 (map of_char d)"
  shows "\<exists>n. arriving_detail (Some d) = Some (take n d) \<and> is_utf8 (map of_char (take n d))
    \<and> min (length d) 509 \<le> n \<and> n \<le> 512 \<and> (length d \<le> 512 \<longrightarrow> take n d = d)"
proof -
  let ?octets = "map of_char d :: nat list"
  let ?n = "detail_size ?octets"
  have lower: "min (length d) 509 \<le> ?n" using detail_size_lower [OF assms(2)] by (simp add: MAX_DETAIL_SIZE_def)
  moreover have "?n \<le> 512" using detail_size_le(2) [of ?octets] by (simp add: MAX_DETAIL_SIZE_def)
  moreover have utf8: "is_utf8 (map of_char (take ?n d))" using detail_keeps_utf8 [OF assms(2)] by (simp add: take_map)
  moreover have "take ?n d \<noteq> []" using lower assms(1) by (cases ?n) (auto simp: min_def split: if_splits)
  moreover have "length d \<le> 512 \<longrightarrow> take ?n d = d"
    using detail_size_short [of ?octets] by (simp add: MAX_DETAIL_SIZE_def)
  ultimately show ?thesis by (intro exI [of _ ?n]) (simp add: arriving_detail_def Let_def)
qed

theorem detail_arrives_witness:
  "\<exists>n. arriving_detail (Some ''no such RAN function'') = Some (take n ''no such RAN function'')
     \<and> take n ''no such RAN function'' = ''no such RAN function''"
  using detail_arrives [of "''no such RAN function''"] by (auto simp: is_utf8.simps(2))

end
