(* ===== verification/E3_Factories.thy ===== *)
theory E3_Factories
  imports Protobuf_Encoder Json_Props Asn1_Encoder Posix_Connector Zmq_Connector E3_Lifecycle
begin

text \<open>
  The two factories, \<^verbatim>\<open>src/encoder/encoder_factory.cpp\<close> and
  \<^verbatim>\<open>src/connector/connector_factory.cpp\<close>, with the build options that decide what they can create, and
  the calls of \<^verbatim>\<open>include/libe3/e3_connector.hpp\<close> on whichever connector was created. The contract the
  interface relies on is the locale \<open>connector_contract\<close>.
\<close>

section \<open>Encoders\<close>

record build_options =
  LIBE3_ENABLE_ASN1 :: bool
  LIBE3_ENABLE_JSON :: bool
  LIBE3_ENABLE_PROTOBUF :: bool
  LIBE3_HAS_ZMQ :: bool
  LIBE3_ENABLE_SCTP :: bool

text \<open>The third-party libraries the encoders run on.\<close>

record codec_libraries =
  lib_aper :: aper_runtime
  lib_nlohmann :: nlohmann
  lib_protobuf :: pb_runtime

fun encoding_info :: "encoding_format \<Rightarrow> string \<times> string" where
  "encoding_info ASN1 = (''ASN.1'', ''LIBE3_ENABLE_ASN1'')"
| "encoding_info JSON = (''JSON'', ''LIBE3_ENABLE_JSON'')"
| "encoding_info PROTOBUF = (''Protocol Buffers'', ''LIBE3_ENABLE_PROTOBUF'')"

fun create_encoder :: "build_options \<Rightarrow> codec_libraries \<Rightarrow> encoding_format \<Rightarrow> e3_encoder option" where
  "create_encoder B L ASN1 = (if LIBE3_ENABLE_ASN1 B then Some (asn1_encoder (lib_aper L)) else None)"
| "create_encoder B L JSON = (if LIBE3_ENABLE_JSON B then Some (json_encoder (lib_nlohmann L)) else None)"
| "create_encoder B L PROTOBUF = (if LIBE3_ENABLE_PROTOBUF B then Some (pb_encoder (lib_protobuf L)) else None)"

text \<open>The messages the chosen format carries, given libraries that keep their contracts.\<close>

definition format_fits :: "(string \<Rightarrow> bool) \<Rightarrow> codec_libraries \<Rightarrow> encoding_format \<Rightarrow> pdu \<Rightarrow> bool" where
  "format_fits utf8 L fmt p =
     (case fmt of
        ASN1 \<Rightarrow> asn1_fits (lib_aper L) p
      | JSON \<Rightarrow> json_fits (lib_nlohmann L) p
      | PROTOBUF \<Rightarrow> pb_fits utf8 (lib_protobuf L) p)"

lemma created_codec:
  assumes "create_encoder B L fmt = Some E"
  shows "pdu_codec E (format_fits utf8 L fmt)"
proof (cases fmt)
  case ASN1
  then have "E = asn1_encoder (lib_aper L)" "format_fits utf8 L fmt = asn1_fits (lib_aper L)"
    using assms by (auto simp: format_fits_def split: if_splits)
  then show ?thesis using asn1_codec.pdu_codec_axioms by simp
next
  case JSON
  then have "E = json_encoder (lib_nlohmann L)" "format_fits utf8 L fmt = json_fits (lib_nlohmann L)"
    using assms by (auto simp: format_fits_def split: if_splits)
  then show ?thesis using json_codec.pdu_codec_axioms by simp
next
  case PROTOBUF
  then have "E = pb_encoder (lib_protobuf L)" "format_fits utf8 L fmt = pb_fits utf8 (lib_protobuf L)"
    using assms by (auto simp: format_fits_def split: if_splits)
  then show ?thesis using pb_codec.pdu_codec_axioms by simp
qed

section \<open>Connectors\<close>

datatype e3_connector = ZmqConnector zmq_connector | PosixConnector posix_connector

datatype connector_event = ZmqEvent zmq_event | PosixEvent posix_event

fun set_role :: "e3_role \<Rightarrow> e3_connector \<Rightarrow> e3_connector" where
  "set_role role (ZmqConnector c) = ZmqConnector (c \<lparr> zq_role := role \<rparr>)"
| "set_role role (PosixConnector c) = PosixConnector (c \<lparr> px_role := role \<rparr>)"

fun create_connector ::
    "build_options \<Rightarrow> e3_link_layer \<Rightarrow> e3_transport_layer \<Rightarrow> string \<Rightarrow> string \<Rightarrow> string \<Rightarrow> u16 \<Rightarrow> u16 \<Rightarrow> u16 \<Rightarrow> nat
      \<Rightarrow> e3_role \<Rightarrow> e3_connector option" where
  "create_connector B ZMQ transport se ie oe sp ip op io_threads role =
     (if LIBE3_HAS_ZMQ B
      then Some (set_role role (ZmqConnector (zmq_connector_new RAN transport se ie oe sp ip op io_threads)))
      else None)"
| "create_connector B POSIX transport se ie oe sp ip op io_threads role =
     Some (set_role role (PosixConnector (posix_connector_new RAN transport se ie oe sp ip op)))"

text \<open>The interface passes its configuration: the subscriber endpoint is inbound, the publisher outbound.\<close>

definition connector_of_config :: "build_options \<Rightarrow> e3_config \<Rightarrow> e3_connector option" where
  "connector_of_config B cfg =
     create_connector B (cfg_link_layer cfg) (cfg_transport_layer cfg)
       (cfg_setup_endpoint cfg) (cfg_subscriber_endpoint cfg) (cfg_publisher_endpoint cfg)
       (cfg_setup_port cfg) (cfg_subscriber_port cfg) (cfg_publisher_port cfg)
       (cfg_io_threads cfg) (cfg_role cfg)"

text \<open>The virtual calls.\<close>

fun connector_shutdown :: "e3_connector \<Rightarrow> e3_connector" where
  "connector_shutdown (ZmqConnector c) = ZmqConnector (zmq_shutdown c)"
| "connector_shutdown (PosixConnector c) = PosixConnector (fst (posix_shutdown c))"

fun connector_dispose :: "e3_connector \<Rightarrow> e3_connector" where
  "connector_dispose (ZmqConnector c) = ZmqConnector (fst (zmq_dispose c))"
| "connector_dispose (PosixConnector c) = PosixConnector (fst (posix_dispose c))"

fun connector_is_connected :: "e3_connector \<Rightarrow> bool" where
  "connector_is_connected (ZmqConnector c) = zmq_is_connected c"
| "connector_is_connected (PosixConnector c) = posix_is_connected c"

fun connector_cancelled :: "e3_connector \<Rightarrow> bool" where
  "connector_cancelled (ZmqConnector c) = zq_shutdown_requested c"
| "connector_cancelled (PosixConnector c) = px_shutdown_requested c"

fun connector_send ::
    "bool \<times> send_env \<Rightarrow> bytes \<Rightarrow> e3_connector \<Rightarrow> (error_code \<times> e3_connector \<times> connector_event list) option" where
  "connector_send (sent, e) data (ZmqConnector c) =
     (let (r, evs) = zmq_send sent data c in Some (r, ZmqConnector c, map ZmqEvent evs))"
| "connector_send (sent, e) data (PosixConnector c) =
     map_option (\<lambda>(r, c', evs). (r, PosixConnector c', map PosixEvent evs)) (posix_send e data c)"

fun connector_receive ::
    "(zmq_recv_result \<times> u16 list) \<times> receive_env \<Rightarrow> e3_connector \<Rightarrow> ((error_code + bytes) \<times> e3_connector \<times> connector_event list) option" where
  "connector_receive ((z, events), e) (ZmqConnector c) = Some (zmq_receive z events c, ZmqConnector c, [])"
| "connector_receive ((z, events), e) (PosixConnector c) =
     map_option (\<lambda>(r, c', evs). (r, PosixConnector c', map PosixEvent evs)) (posix_receive e c)"

section \<open>The contract of a connector\<close>

locale connector_contract =
  fixes shutdown :: "'c \<Rightarrow> 'c" and dispose :: "'c \<Rightarrow> 'c" and cancelled :: "'c \<Rightarrow> bool"
    and connected :: "'c \<Rightarrow> bool"
    and send :: "'e \<Rightarrow> bytes \<Rightarrow> 'c \<Rightarrow> (error_code \<times> 'c \<times> 'v list) option"
    and receive :: "'r \<Rightarrow> 'c \<Rightarrow> ((error_code + bytes) \<times> 'c \<times> 'v list) option"
  assumes shutdown_cancels: "cancelled (shutdown c)"
    and dispose_cancelled: "cancelled (dispose c) = cancelled c"
    and dispose_disconnects: "\<not> connected (dispose c)"
    and send_cancelled: "cancelled c \<Longrightarrow> send e data c = Some (CANCELLED, c, [])"
    and send_disposed: "\<not> cancelled c \<Longrightarrow> send e data (dispose c) = Some (NOT_CONNECTED, dispose c, [])"
    and receive_disposed: "receive r (dispose c) = Some (Inl NOT_CONNECTED, dispose c, [])"
begin

lemma shut_down_is_silent: "send e data (shutdown c) = Some (CANCELLED, shutdown c, [])"
  by (rule send_cancelled [OF shutdown_cancels])

lemma disposed_is_silent:
  "send e data (dispose c) = Some (if cancelled c then CANCELLED else NOT_CONNECTED, dispose c, [])"
  using send_cancelled [of "dispose c" e data] send_disposed [of c e data] by (simp add: dispose_cancelled)

end

interpretation zmq_contract: connector_contract zmq_shutdown "\<lambda>c. fst (zmq_dispose c)" zq_shutdown_requested
    zmq_is_connected "\<lambda>sent data c. let (r, evs) = zmq_send sent data c in Some (r, c, evs)"
    "\<lambda>(z, events) c. Some (zmq_receive z events c, c, [] :: zmq_event list)"
  by unfold_locales
    (auto simp: zmq_shutdown_def zmq_dispose_def zmq_is_connected_def zmq_send_def zmq_receive_def)

interpretation posix_contract: connector_contract "\<lambda>c. fst (posix_shutdown c)" "\<lambda>c. fst (posix_dispose c)"
    px_shutdown_requested posix_is_connected posix_send posix_receive
  by unfold_locales
    (auto simp: posix_shutdown_def posix_dispose_def posix_is_connected_def posix_send_def posix_receive_def
      posix_receive_dapp_def posix_receive_ran_def UNUSED_SOCKET_def)

lemma zmq_send_cancelled: "zq_shutdown_requested c \<Longrightarrow> zmq_send sent data c = (CANCELLED, [])"
  by (simp add: zmq_send_def)

lemma zmq_send_disposed: "\<not> zq_shutdown_requested c \<Longrightarrow> zmq_send sent data (fst (zmq_dispose c)) = (NOT_CONNECTED, [])"
  by (simp add: zmq_send_def zmq_dispose_def)

interpretation created_contract: connector_contract connector_shutdown connector_dispose connector_cancelled
    connector_is_connected connector_send connector_receive
proof unfold_locales
  fix c data e r
  show "connector_cancelled (connector_shutdown c)"
    by (cases c) (simp_all add: zmq_contract.shutdown_cancels posix_contract.shutdown_cancels)
  show "connector_cancelled (connector_dispose c) = connector_cancelled c"
    by (cases c) (simp_all add: zmq_contract.dispose_cancelled posix_contract.dispose_cancelled)
  show "\<not> connector_is_connected (connector_dispose c)"
    by (cases c) (simp_all add: zmq_contract.dispose_disconnects posix_contract.dispose_disconnects)
  show "connector_send e data c = Some (CANCELLED, c, [])" if "connector_cancelled c"
    using that by (cases c; cases e) (simp_all add: zmq_send_cancelled posix_contract.send_cancelled)
  show "connector_send e data (connector_dispose c) = Some (NOT_CONNECTED, connector_dispose c, [])"
    if "\<not> connector_cancelled c"
    using that by (cases c; cases e) (simp_all add: zmq_send_disposed posix_contract.send_disposed)
  show "connector_receive r (connector_dispose c) = Some (Inl NOT_CONNECTED, connector_dispose c, [])"
    by (cases c; cases r; cases "fst r")
      (simp_all add: zmq_receive_def zmq_dispose_def posix_contract.receive_disposed)
qed

section \<open>Properties\<close>


definition some_libraries :: codec_libraries where
  "some_libraries = \<lparr> lib_aper = one_message_runtime, lib_nlohmann = sample_nlohmann, lib_protobuf = sample_runtime \<rparr>"

definition full_build :: build_options where
  "full_build = \<lparr> LIBE3_ENABLE_ASN1 = True, LIBE3_ENABLE_JSON = True, LIBE3_ENABLE_PROTOBUF = True,
     LIBE3_HAS_ZMQ = False, LIBE3_ENABLE_SCTP = False \<rparr>"


text \<open>Initialisation with the real factories succeeds exactly for an interface that is not initialised,
  whose encoding and link layer are part of the build and, for ASN.1, whose texts fit the grammar; each
  other case has its own error, and the state stays uninitialised.\<close>

definition interface_init ::
    "build_options \<Rightarrow> codec_libraries \<Rightarrow> 's sm_registry \<Rightarrow> 's e3_interface \<Rightarrow> 's e3_interface \<times> error_code" where
  "interface_init B L reg s =
     if_init (create_encoder B L (cfg_encoding (ei_config s)) \<noteq> None) (connector_of_config B (ei_config s) \<noteq> None) reg s"

definition encoding_built :: "build_options \<Rightarrow> encoding_format \<Rightarrow> bool" where
  "encoding_built B fmt =
     (case fmt of ASN1 \<Rightarrow> LIBE3_ENABLE_ASN1 B | JSON \<Rightarrow> LIBE3_ENABLE_JSON B | PROTOBUF \<Rightarrow> LIBE3_ENABLE_PROTOBUF B)"

lemma create_encoder_built: "create_encoder B L fmt \<noteq> None \<longleftrightarrow> encoding_built B fmt"
  by (cases fmt) (simp_all add: encoding_built_def)

lemma connector_of_config_built:
  "connector_of_config B cfg \<noteq> None \<longleftrightarrow> (cfg_link_layer cfg = ZMQ \<longrightarrow> LIBE3_HAS_ZMQ B)"
  by (cases "cfg_link_layer cfg") (simp_all add: connector_of_config_def)

theorem init_outcome:
  "snd (interface_init B L reg s) =
     (if ei_state s \<noteq> UNINITIALIZED then ALREADY_INITIALIZED
      else if \<not> encoding_built B (cfg_encoding (ei_config s)) then INTERNAL_ERROR
      else if cfg_encoding (ei_config s) = ASN1 \<and> \<not> config_fits (ei_config s) then INVALID_PARAM
      else if cfg_link_layer (ei_config s) = ZMQ \<and> \<not> LIBE3_HAS_ZMQ B then INTERNAL_ERROR
      else SUCCESS)
   \<and> ei_state (fst (interface_init B L reg s)) =
       (if snd (interface_init B L reg s) = SUCCESS then INITIALIZED else ei_state s)"
  unfolding interface_init_def if_init_def create_encoder_built connector_of_config_built
  by (simp add: create_connector_from_config_def Let_def)


end
