(* ===== verification/E2sm_Types.thy ===== *)
theory E2sm_Types
  imports E3_Prelude
begin

text \<open>
  The information elements of E2SM-DAPP as \<^verbatim>\<open>include/libe3/e2sm_dapp.hpp\<close> declares them, their
  comparisons, and the structures of the grammar
  \<^verbatim>\<open>messages/asn1/e2sm_dapp/V1/e2sm_dapp-1.0.0.asn\<close> they are converted to. An optional field
  of a C++ struct is a flag and a value; in a structure of the grammar it is an option. The field
  \<open>ext\<close>, which no operation reads, and the null pointers that only exhausted memory leaves in a
  structure are left out. \<open>long\<close> has 64 bits, so the check \<open>fits_long\<close> of the builders always holds.
\<close>

type_synonym i64 = "64 word"

section \<open>Information elements\<close>

datatype asn_code = ASN_ERROR_ENCODE_FAIL | ASN_ERROR_DECODE_FAIL | ASN_SUCCESS

record ran_function_name_s =
  rn_ran_function_instance_present :: bool
  rn_ran_function_short_name :: string
  rn_ran_function_e2sm_o_id :: string
  rn_ran_function_description :: string
  rn_ran_function_instance :: i64

record dapp_e3_subscription_item_s =
  si_dapp_id :: u64
  si_subscribed_e3_ran_functions :: "u64 list"

record ran_function_definition_report_item_s =
  ri_dapp_e3_subscriptions_present :: bool
  ri_ric_report_style_type :: i64
  ri_ric_report_style_name :: string
  ri_ric_ind_hdr_format_type :: i64
  ri_ric_ind_msg_format_type :: i64
  ri_dapp_e3_subscriptions :: "dapp_e3_subscription_item_s list"

record ran_function_definition_ctrl_item_s =
  ci_dapp_e3_subscriptions_present :: bool
  ci_ric_ctrl_style_type :: i64
  ci_ric_ctrl_style_name :: string
  ci_ric_ctrl_hdr_format_type :: i64
  ci_ric_ctrl_msg_format_type :: i64
  ci_ric_ctrl_outcome_format_type :: i64
  ci_dapp_e3_subscriptions :: "dapp_e3_subscription_item_s list"

record e2sm_dapp_ran_function_definition_s =
  fd_event_trigger_present :: bool
  fd_report_present :: bool
  fd_ctrl_present :: bool
  fd_ran_function_name :: ran_function_name_s
  fd_ric_report_style_list :: "ran_function_definition_report_item_s list"
  fd_ric_ctrl_style_list :: "ran_function_definition_ctrl_item_s list"

text \<open>A PLMN identity is an array of three octets.\<close>

record e2sm_dapp_ind_hdr_format1_s =
  h1_node_cu_du_id_present :: bool
  h1_timestamp_present :: bool
  h1_sequence_id_present :: bool
  h1_ran_function_id :: u64
  h1_dapp_id :: u64
  h1_node_type :: u8
  h1_node_plmn_id :: "u8 \<times> u8 \<times> u8"
  h1_node_nb_id :: u64
  h1_node_cu_du_id :: u64
  h1_timestamp :: i64
  h1_sequence_id :: i64

record e2sm_dapp_ind_hdr_format2_s =
  h2_node_cu_du_id_present :: bool
  h2_timestamp_present :: bool
  h2_sequence_id_present :: bool
  h2_node_type :: u8
  h2_node_plmn_id :: "u8 \<times> u8 \<times> u8"
  h2_node_nb_id :: u64
  h2_node_cu_du_id :: u64
  h2_timestamp :: i64
  h2_sequence_id :: i64

datatype e2sm_dapp_ind_hdr_s =
    Ind_hdr_null
  | Ind_hdr_format1 e2sm_dapp_ind_hdr_format1_s
  | Ind_hdr_format2 e2sm_dapp_ind_hdr_format2_s

text \<open>The payload: format 1 of the indication message and of the control message.\<close>

record e2sm_dapp_data_s =
  dt_data_size :: u16
  dt_data :: bytes

datatype e2sm_dapp_ind_msg_s =
    Ind_msg_null
  | Ind_msg_format1 e2sm_dapp_data_s
  | Ind_msg_format2 "dapp_e3_subscription_item_s list"

record e2sm_dapp_ctrl_hdr_format1_s =
  ch_timestamp_present :: bool
  ch_sequence_id_present :: bool
  ch_ran_function_id :: u64
  ch_dapp_id :: u64
  ch_timestamp :: i64
  ch_sequence_id :: i64

record e2sm_dapp_ctrl_outcome_format1_s =
  co_timestamp_present :: bool
  co_sequence_id_present :: bool
  co_e3_ctrl_outcome_present :: bool
  co_timestamp :: i64
  co_sequence_id :: i64
  co_e3_ctrl_outcome :: bytes

text \<open>The types with a \<open>pack\<close> and an \<open>unpack\<close>; an action definition holds its style type only.\<close>

datatype e2sm_pdu =
    Event_trigger
  | Action_definition i64
  | Ind_hdr e2sm_dapp_ind_hdr_s
  | Ind_msg e2sm_dapp_ind_msg_s
  | Ctrl_hdr e2sm_dapp_ctrl_hdr_format1_s
  | Ctrl_msg e2sm_dapp_data_s
  | Ctrl_outcome e2sm_dapp_ctrl_outcome_format1_s
  | Ran_function_definition e2sm_dapp_ran_function_definition_s

section \<open>Comparison\<close>

text \<open>A field that is absent has no value: it is compared only when its flag is set.\<close>

definition ran_function_name_eq :: "ran_function_name_s \<Rightarrow> ran_function_name_s \<Rightarrow> bool" where
  "ran_function_name_eq s t \<longleftrightarrow>
     rn_ran_function_instance_present s = rn_ran_function_instance_present t
     \<and> rn_ran_function_short_name s = rn_ran_function_short_name t
     \<and> rn_ran_function_e2sm_o_id s = rn_ran_function_e2sm_o_id t
     \<and> rn_ran_function_description s = rn_ran_function_description t
     \<and> (\<not> rn_ran_function_instance_present s \<or> rn_ran_function_instance s = rn_ran_function_instance t)"

definition report_item_eq ::
    "ran_function_definition_report_item_s \<Rightarrow> ran_function_definition_report_item_s \<Rightarrow> bool" where
  "report_item_eq s t \<longleftrightarrow>
     ri_dapp_e3_subscriptions_present s = ri_dapp_e3_subscriptions_present t
     \<and> ri_ric_report_style_type s = ri_ric_report_style_type t
     \<and> ri_ric_report_style_name s = ri_ric_report_style_name t
     \<and> ri_ric_ind_hdr_format_type s = ri_ric_ind_hdr_format_type t
     \<and> ri_ric_ind_msg_format_type s = ri_ric_ind_msg_format_type t
     \<and> (\<not> ri_dapp_e3_subscriptions_present s \<or> ri_dapp_e3_subscriptions s = ri_dapp_e3_subscriptions t)"

definition ctrl_item_eq ::
    "ran_function_definition_ctrl_item_s \<Rightarrow> ran_function_definition_ctrl_item_s \<Rightarrow> bool" where
  "ctrl_item_eq s t \<longleftrightarrow>
     ci_dapp_e3_subscriptions_present s = ci_dapp_e3_subscriptions_present t
     \<and> ci_ric_ctrl_style_type s = ci_ric_ctrl_style_type t
     \<and> ci_ric_ctrl_style_name s = ci_ric_ctrl_style_name t
     \<and> ci_ric_ctrl_hdr_format_type s = ci_ric_ctrl_hdr_format_type t
     \<and> ci_ric_ctrl_msg_format_type s = ci_ric_ctrl_msg_format_type t
     \<and> ci_ric_ctrl_outcome_format_type s = ci_ric_ctrl_outcome_format_type t
     \<and> (\<not> ci_dapp_e3_subscriptions_present s \<or> ci_dapp_e3_subscriptions s = ci_dapp_e3_subscriptions t)"

definition ran_function_definition_eq ::
    "e2sm_dapp_ran_function_definition_s \<Rightarrow> e2sm_dapp_ran_function_definition_s \<Rightarrow> bool" where
  "ran_function_definition_eq s t \<longleftrightarrow>
     fd_event_trigger_present s = fd_event_trigger_present t
     \<and> fd_report_present s = fd_report_present t
     \<and> fd_ctrl_present s = fd_ctrl_present t
     \<and> ran_function_name_eq (fd_ran_function_name s) (fd_ran_function_name t)
     \<and> (\<not> fd_report_present s
          \<or> list_all2 report_item_eq (fd_ric_report_style_list s) (fd_ric_report_style_list t))
     \<and> (\<not> fd_ctrl_present s
          \<or> list_all2 ctrl_item_eq (fd_ric_ctrl_style_list s) (fd_ric_ctrl_style_list t))"

definition ind_hdr_format1_eq ::
    "e2sm_dapp_ind_hdr_format1_s \<Rightarrow> e2sm_dapp_ind_hdr_format1_s \<Rightarrow> bool" where
  "ind_hdr_format1_eq s t \<longleftrightarrow>
     h1_node_cu_du_id_present s = h1_node_cu_du_id_present t
     \<and> h1_timestamp_present s = h1_timestamp_present t
     \<and> h1_sequence_id_present s = h1_sequence_id_present t
     \<and> h1_ran_function_id s = h1_ran_function_id t \<and> h1_dapp_id s = h1_dapp_id t
     \<and> h1_node_type s = h1_node_type t \<and> h1_node_plmn_id s = h1_node_plmn_id t
     \<and> h1_node_nb_id s = h1_node_nb_id t
     \<and> (\<not> h1_node_cu_du_id_present s \<or> h1_node_cu_du_id s = h1_node_cu_du_id t)
     \<and> (\<not> h1_timestamp_present s \<or> h1_timestamp s = h1_timestamp t)
     \<and> (\<not> h1_sequence_id_present s \<or> h1_sequence_id s = h1_sequence_id t)"

definition ind_hdr_format2_eq ::
    "e2sm_dapp_ind_hdr_format2_s \<Rightarrow> e2sm_dapp_ind_hdr_format2_s \<Rightarrow> bool" where
  "ind_hdr_format2_eq s t \<longleftrightarrow>
     h2_node_cu_du_id_present s = h2_node_cu_du_id_present t
     \<and> h2_timestamp_present s = h2_timestamp_present t
     \<and> h2_sequence_id_present s = h2_sequence_id_present t
     \<and> h2_node_type s = h2_node_type t \<and> h2_node_plmn_id s = h2_node_plmn_id t
     \<and> h2_node_nb_id s = h2_node_nb_id t
     \<and> (\<not> h2_node_cu_du_id_present s \<or> h2_node_cu_du_id s = h2_node_cu_du_id t)
     \<and> (\<not> h2_timestamp_present s \<or> h2_timestamp s = h2_timestamp t)
     \<and> (\<not> h2_sequence_id_present s \<or> h2_sequence_id s = h2_sequence_id t)"

definition ctrl_hdr_format1_eq ::
    "e2sm_dapp_ctrl_hdr_format1_s \<Rightarrow> e2sm_dapp_ctrl_hdr_format1_s \<Rightarrow> bool" where
  "ctrl_hdr_format1_eq s t \<longleftrightarrow>
     ch_timestamp_present s = ch_timestamp_present t
     \<and> ch_sequence_id_present s = ch_sequence_id_present t
     \<and> ch_ran_function_id s = ch_ran_function_id t \<and> ch_dapp_id s = ch_dapp_id t
     \<and> (\<not> ch_timestamp_present s \<or> ch_timestamp s = ch_timestamp t)
     \<and> (\<not> ch_sequence_id_present s \<or> ch_sequence_id s = ch_sequence_id t)"

definition ctrl_outcome_format1_eq ::
    "e2sm_dapp_ctrl_outcome_format1_s \<Rightarrow> e2sm_dapp_ctrl_outcome_format1_s \<Rightarrow> bool" where
  "ctrl_outcome_format1_eq s t \<longleftrightarrow>
     co_timestamp_present s = co_timestamp_present t
     \<and> co_sequence_id_present s = co_sequence_id_present t
     \<and> co_e3_ctrl_outcome_present s = co_e3_ctrl_outcome_present t
     \<and> (\<not> co_timestamp_present s \<or> co_timestamp s = co_timestamp t)
     \<and> (\<not> co_sequence_id_present s \<or> co_sequence_id s = co_sequence_id t)
     \<and> (\<not> co_e3_ctrl_outcome_present s \<or> co_e3_ctrl_outcome s = co_e3_ctrl_outcome t)"

fun ind_hdr_eq :: "e2sm_dapp_ind_hdr_s \<Rightarrow> e2sm_dapp_ind_hdr_s \<Rightarrow> bool" where
  "ind_hdr_eq Ind_hdr_null Ind_hdr_null = True"
| "ind_hdr_eq (Ind_hdr_format1 s) (Ind_hdr_format1 t) = ind_hdr_format1_eq s t"
| "ind_hdr_eq (Ind_hdr_format2 s) (Ind_hdr_format2 t) = ind_hdr_format2_eq s t"
| "ind_hdr_eq _ _ = False"

definition e2sm_eq :: "e2sm_pdu \<Rightarrow> e2sm_pdu \<Rightarrow> bool" where
  "e2sm_eq m n =
     (case (m, n) of
        (Event_trigger, Event_trigger) \<Rightarrow> True
      | (Action_definition s, Action_definition t) \<Rightarrow> s = t
      | (Ind_hdr s, Ind_hdr t) \<Rightarrow> ind_hdr_eq s t
      | (Ind_msg s, Ind_msg t) \<Rightarrow> s = t
      | (Ctrl_hdr s, Ctrl_hdr t) \<Rightarrow> ctrl_hdr_format1_eq s t
      | (Ctrl_msg s, Ctrl_msg t) \<Rightarrow> s = t
      | (Ctrl_outcome s, Ctrl_outcome t) \<Rightarrow> ctrl_outcome_format1_eq s t
      | (Ran_function_definition s, Ran_function_definition t) \<Rightarrow> ran_function_definition_eq s t
      | _ \<Rightarrow> False)"

section \<open>Structures of the grammar\<close>

record asn_ran_function_name =
  an_ranFunction_ShortName :: string
  an_ranFunction_E2SM_OID :: string
  an_ranFunction_Description :: string
  an_ranFunction_Instance :: "i64 option"

record asn_subscription_item =
  ai_dapp_id :: u64
  ai_subscribed_e3_ran_functions :: "u64 list"

record asn_report_item =
  ar_ric_ReportStyle_Type :: i64
  ar_ric_ReportStyle_Name :: string
  ar_ric_IndicationHeaderFormat_Type :: i64
  ar_ric_IndicationMessageFormat_Type :: i64
  ar_dappE3Subscriptions :: "asn_subscription_item list option"

record asn_control_item =
  ac_ric_ControlStyle_Type :: i64
  ac_ric_ControlStyle_Name :: string
  ac_ric_ControlHeaderFormat_Type :: i64
  ac_ric_ControlMessageFormat_Type :: i64
  ac_ric_ControlOutcomeFormat_Type :: i64
  ac_dappE3Subscriptions :: "asn_subscription_item list option"

record asn_function_definition =
  af_ranFunction_Name :: asn_ran_function_name
  af_ranFunctionDefinition_EventTrigger :: bool
  af_ric_ReportStyle_List :: "asn_report_item list option"
  af_ric_ControlStyle_List :: "asn_control_item list option"

record asn_node =
  ao_node_type :: i64
  ao_node_plmn_id :: bytes
  ao_node_nb_id :: u64
  ao_node_cu_du_id :: "u64 option"
  ao_timestamp :: "i64 option"
  ao_sequence_id :: "i64 option"

record asn_data =
  ax_data_size :: i64
  ax_data :: bytes

record asn_control_header =
  ah_ran_function_id :: u64
  ah_dapp_id :: u64
  ah_timestamp :: "i64 option"
  ah_sequence_id :: "i64 option"

record asn_control_outcome =
  aq_timestamp :: "i64 option"
  aq_sequence_id :: "i64 option"
  aq_e3_control_outcome :: "bytes option"

text \<open>
  A header of format 1 is its two identifiers and the members it shares with format 2. A choice whose
  alternative the receiver does not know has no format.
\<close>

datatype asn_e2sm =
    Asn_event_trigger bool
  | Asn_action_definition i64 bool
  | Asn_header_format1 u64 u64 asn_node
  | Asn_header_format2 asn_node
  | Asn_header_unknown
  | Asn_message_format1 asn_data
  | Asn_message_format2 "asn_subscription_item list"
  | Asn_message_unknown
  | Asn_control_header "asn_control_header option"
  | Asn_control_message "asn_data option"
  | Asn_control_outcome "asn_control_outcome option"
  | Asn_function_definition asn_function_definition

end
