(* ===== verification/E2sm_Codec.thy ===== *)
theory E2sm_Codec
  imports E2sm_Types "HOL-Library.Monad_Syntax"
begin

text \<open>
  The codec of E2SM-DAPP, \<^verbatim>\<open>src/e2sm_dapp/e2sm_dapp.cpp\<close>: the checks, the builders from the C++
  structs to the structures of the grammar, the converters back, and \<open>pack\<close> and \<open>unpack\<close>. The
  packed encoding is the asn1c runtime, the argument \<open>e2sm_runtime\<close>. Memory is taken to be available,
  so a builder refuses a value only for its content.
\<close>

section \<open>Checks\<close>

definition k_max_payload :: nat where "k_max_payload = 32768"
definition k_max_subs :: nat where "k_max_subs = 256"
definition k_max_rf_per_sub :: nat where "k_max_rf_per_sub = 64"
definition k_max_report_sty :: nat where "k_max_report_sty = 2"
definition k_max_ctrl_sty :: nat where "k_max_ctrl_sty = 1"
definition k_name_max :: nat where "k_name_max = 150"
definition k_oid_max :: nat where "k_oid_max = 1000"

definition in_u32 :: "u64 \<Rightarrow> bool" where
  "in_u32 v \<longleftrightarrow> v \<le> 0xFFFFFFFF"

definition is_printable_char :: "char \<Rightarrow> bool" where
  "is_printable_char c \<longleftrightarrow>
     (let n = of_char c :: nat in 65 \<le> n \<and> n \<le> 90 \<or> 97 \<le> n \<and> n \<le> 122 \<or> 48 \<le> n \<and> n \<le> 57)
     \<or> c \<in> {CHR '' '', CHR 0x27, CHR ''('', CHR '')'', CHR ''+'', CHR '','', CHR ''-'', CHR ''.'',
             CHR ''/'', CHR '':'', CHR ''='', CHR ''?''}"

definition valid_printable :: "string \<Rightarrow> nat \<Rightarrow> nat \<Rightarrow> bool" where
  "valid_printable s lo hi \<longleftrightarrow> \<not> (length s < lo \<or> length s > hi) \<and> list_all is_printable_char s"

section \<open>Builders\<close>

definition set_octets :: "bytes \<Rightarrow> bytes option" where
  "set_octets data = (if length data > 2147483647 then None else Some data)"

definition set_printable :: "string \<Rightarrow> nat \<Rightarrow> nat \<Rightarrow> string option" where
  "set_printable s lo hi = (if valid_printable s lo hi then Some s else None)"

definition set_opt_long :: "bool \<Rightarrow> i64 \<Rightarrow> i64 option option" where
  "set_opt_long present v = Some (if present then Some v else None)"

definition set_u32 :: "u64 \<Rightarrow> u64 option" where
  "set_u32 v = (if in_u32 v then Some v else None)"

definition set_opt_u32 :: "bool \<Rightarrow> u64 \<Rightarrow> u64 option option" where
  "set_opt_u32 present v = (if present then map_option Some (set_u32 v) else Some None)"

definition build_sub :: "dapp_e3_subscription_item_s \<Rightarrow> asn_subscription_item option" where
  "build_sub s =
     (if length (si_subscribed_e3_ran_functions s) < 1
         \<or> length (si_subscribed_e3_ran_functions s) > k_max_rf_per_sub then None
      else do {
        dapp \<leftarrow> set_u32 (si_dapp_id s);
        rfs \<leftarrow> those (map set_u32 (si_subscribed_e3_ran_functions s));
        Some \<lparr>ai_dapp_id = dapp, ai_subscribed_e3_ran_functions = rfs\<rparr> })"

definition build_subs :: "dapp_e3_subscription_item_s list \<Rightarrow> asn_subscription_item list option" where
  "build_subs src = (if length src > k_max_subs then None else those (map build_sub src))"

definition build_opt_subs ::
    "bool \<Rightarrow> dapp_e3_subscription_item_s list \<Rightarrow> asn_subscription_item list option option" where
  "build_opt_subs present src = (if \<not> present then Some None else map_option Some (build_subs src))"

definition build_name :: "ran_function_name_s \<Rightarrow> asn_ran_function_name option" where
  "build_name s = do {
     short \<leftarrow> set_printable (rn_ran_function_short_name s) 1 k_name_max;
     oid \<leftarrow> set_printable (rn_ran_function_e2sm_o_id s) 1 k_oid_max;
     descr \<leftarrow> set_printable (rn_ran_function_description s) 1 k_name_max;
     inst \<leftarrow> set_opt_long (rn_ran_function_instance_present s) (rn_ran_function_instance s);
     Some \<lparr>an_ranFunction_ShortName = short, an_ranFunction_E2SM_OID = oid,
           an_ranFunction_Description = descr, an_ranFunction_Instance = inst\<rparr> }"

definition build_report_item :: "ran_function_definition_report_item_s \<Rightarrow> asn_report_item option" where
  "build_report_item s = do {
     name \<leftarrow> set_printable (ri_ric_report_style_name s) 1 k_name_max;
     subs \<leftarrow> build_opt_subs (ri_dapp_e3_subscriptions_present s) (ri_dapp_e3_subscriptions s);
     Some \<lparr>ar_ric_ReportStyle_Type = ri_ric_report_style_type s, ar_ric_ReportStyle_Name = name,
           ar_ric_IndicationHeaderFormat_Type = ri_ric_ind_hdr_format_type s,
           ar_ric_IndicationMessageFormat_Type = ri_ric_ind_msg_format_type s,
           ar_dappE3Subscriptions = subs\<rparr> }"

definition build_ctrl_item :: "ran_function_definition_ctrl_item_s \<Rightarrow> asn_control_item option" where
  "build_ctrl_item s = do {
     name \<leftarrow> set_printable (ci_ric_ctrl_style_name s) 1 k_name_max;
     subs \<leftarrow> build_opt_subs (ci_dapp_e3_subscriptions_present s) (ci_dapp_e3_subscriptions s);
     Some \<lparr>ac_ric_ControlStyle_Type = ci_ric_ctrl_style_type s, ac_ric_ControlStyle_Name = name,
           ac_ric_ControlHeaderFormat_Type = ci_ric_ctrl_hdr_format_type s,
           ac_ric_ControlMessageFormat_Type = ci_ric_ctrl_msg_format_type s,
           ac_ric_ControlOutcomeFormat_Type = ci_ric_ctrl_outcome_format_type s,
           ac_dappE3Subscriptions = subs\<rparr> }"

definition build_report ::
    "ran_function_definition_report_item_s list \<Rightarrow> asn_report_item list option" where
  "build_report items =
     (if length items < 1 \<or> length items > k_max_report_sty then None
      else those (map build_report_item items))"

definition build_ctrl :: "ran_function_definition_ctrl_item_s list \<Rightarrow> asn_control_item list option" where
  "build_ctrl items =
     (if length items < 1 \<or> length items > k_max_ctrl_sty then None
      else those (map build_ctrl_item items))"

definition build_definition ::
    "e2sm_dapp_ran_function_definition_s \<Rightarrow> asn_function_definition option" where
  "build_definition s = do {
     name \<leftarrow> build_name (fd_ran_function_name s);
     report \<leftarrow> (if fd_report_present s then map_option Some (build_report (fd_ric_report_style_list s))
               else Some None);
     ctrl \<leftarrow> (if fd_ctrl_present s then map_option Some (build_ctrl (fd_ric_ctrl_style_list s))
             else Some None);
     Some \<lparr>af_ranFunction_Name = name,
           af_ranFunctionDefinition_EventTrigger = fd_event_trigger_present s,
           af_ric_ReportStyle_List = report, af_ric_ControlStyle_List = ctrl\<rparr> }"

definition plmn_octets :: "u8 \<times> u8 \<times> u8 \<Rightarrow> bytes" where
  "plmn_octets p = (case p of (a, b, c) \<Rightarrow> [a, b, c])"

definition build_ind_hdr_format1 :: "e2sm_dapp_ind_hdr_format1_s \<Rightarrow> asn_e2sm option" where
  "build_ind_hdr_format1 s = do {
     rf \<leftarrow> set_u32 (h1_ran_function_id s);
     dapp \<leftarrow> set_u32 (h1_dapp_id s);
     nb \<leftarrow> set_u32 (h1_node_nb_id s);
     plmn \<leftarrow> set_octets (plmn_octets (h1_node_plmn_id s));
     cu_du \<leftarrow> set_opt_u32 (h1_node_cu_du_id_present s) (h1_node_cu_du_id s);
     ts \<leftarrow> set_opt_long (h1_timestamp_present s) (h1_timestamp s);
     sq \<leftarrow> set_opt_long (h1_sequence_id_present s) (h1_sequence_id s);
     Some (Asn_header_format1 rf dapp
             \<lparr>ao_node_type = ucast (h1_node_type s), ao_node_plmn_id = plmn, ao_node_nb_id = nb,
              ao_node_cu_du_id = cu_du, ao_timestamp = ts, ao_sequence_id = sq\<rparr>) }"

definition build_ind_hdr_format2 :: "e2sm_dapp_ind_hdr_format2_s \<Rightarrow> asn_e2sm option" where
  "build_ind_hdr_format2 s = do {
     nb \<leftarrow> set_u32 (h2_node_nb_id s);
     plmn \<leftarrow> set_octets (plmn_octets (h2_node_plmn_id s));
     cu_du \<leftarrow> set_opt_u32 (h2_node_cu_du_id_present s) (h2_node_cu_du_id s);
     ts \<leftarrow> set_opt_long (h2_timestamp_present s) (h2_timestamp s);
     sq \<leftarrow> set_opt_long (h2_sequence_id_present s) (h2_sequence_id s);
     Some (Asn_header_format2
             \<lparr>ao_node_type = ucast (h2_node_type s), ao_node_plmn_id = plmn, ao_node_nb_id = nb,
              ao_node_cu_du_id = cu_du, ao_timestamp = ts, ao_sequence_id = sq\<rparr>) }"

definition build_data :: "e2sm_dapp_data_s \<Rightarrow> asn_data option" where
  "build_data s =
     (if unat (dt_data_size s) > k_max_payload \<or> dt_data s = [] \<or> length (dt_data s) > k_max_payload
      then None
      else do {
        octets \<leftarrow> set_octets (dt_data s);
        Some \<lparr>ax_data_size = ucast (dt_data_size s), ax_data = octets\<rparr> })"

definition build_ctrl_hdr :: "e2sm_dapp_ctrl_hdr_format1_s \<Rightarrow> asn_control_header option" where
  "build_ctrl_hdr s = do {
     rf \<leftarrow> set_u32 (ch_ran_function_id s);
     dapp \<leftarrow> set_u32 (ch_dapp_id s);
     ts \<leftarrow> set_opt_long (ch_timestamp_present s) (ch_timestamp s);
     sq \<leftarrow> set_opt_long (ch_sequence_id_present s) (ch_sequence_id s);
     Some \<lparr>ah_ran_function_id = rf, ah_dapp_id = dapp, ah_timestamp = ts, ah_sequence_id = sq\<rparr> }"

definition build_ctrl_outcome :: "e2sm_dapp_ctrl_outcome_format1_s \<Rightarrow> asn_control_outcome option" where
  "build_ctrl_outcome s = do {
     ts \<leftarrow> set_opt_long (co_timestamp_present s) (co_timestamp s);
     sq \<leftarrow> set_opt_long (co_sequence_id_present s) (co_sequence_id s);
     outcome \<leftarrow> (if co_e3_ctrl_outcome_present s then map_option Some (set_octets (co_e3_ctrl_outcome s))
                else Some None);
     Some \<lparr>aq_timestamp = ts, aq_sequence_id = sq, aq_e3_control_outcome = outcome\<rparr> }"

definition fill_ind_hdr :: "e2sm_dapp_ind_hdr_s \<Rightarrow> asn_e2sm option" where
  "fill_ind_hdr h =
     (case h of
        Ind_hdr_format1 s \<Rightarrow> build_ind_hdr_format1 s
      | Ind_hdr_format2 s \<Rightarrow> build_ind_hdr_format2 s
      | Ind_hdr_null \<Rightarrow> None)"

definition fill_ind_msg :: "e2sm_dapp_ind_msg_s \<Rightarrow> asn_e2sm option" where
  "fill_ind_msg m =
     (case m of
        Ind_msg_format1 s \<Rightarrow> map_option Asn_message_format1 (build_data s)
      | Ind_msg_format2 subs \<Rightarrow> map_option Asn_message_format2 (build_subs subs)
      | Ind_msg_null \<Rightarrow> None)"

definition fill_event_trigger :: "asn_e2sm option" where
  "fill_event_trigger = Some (Asn_event_trigger True)"

definition fill_action_definition :: "i64 \<Rightarrow> asn_e2sm option" where
  "fill_action_definition style = Some (Asn_action_definition style True)"

definition fill_ctrl_hdr :: "e2sm_dapp_ctrl_hdr_format1_s \<Rightarrow> asn_e2sm option" where
  "fill_ctrl_hdr s = map_option (\<lambda>f. Asn_control_header (Some f)) (build_ctrl_hdr s)"

definition fill_ctrl_msg :: "e2sm_dapp_data_s \<Rightarrow> asn_e2sm option" where
  "fill_ctrl_msg s = map_option (\<lambda>f. Asn_control_message (Some f)) (build_data s)"

definition fill_ctrl_outcome :: "e2sm_dapp_ctrl_outcome_format1_s \<Rightarrow> asn_e2sm option" where
  "fill_ctrl_outcome s = map_option (\<lambda>f. Asn_control_outcome (Some f)) (build_ctrl_outcome s)"

definition fill_ran_function_definition :: "e2sm_dapp_ran_function_definition_s \<Rightarrow> asn_e2sm option" where
  "fill_ran_function_definition s = map_option Asn_function_definition (build_definition s)"

fun fill :: "e2sm_pdu \<Rightarrow> asn_e2sm option" where
  "fill Event_trigger = fill_event_trigger"
| "fill (Action_definition style) = fill_action_definition style"
| "fill (Ind_hdr h) = fill_ind_hdr h"
| "fill (Ind_msg m) = fill_ind_msg m"
| "fill (Ctrl_hdr s) = fill_ctrl_hdr s"
| "fill (Ctrl_msg s) = fill_ctrl_msg s"
| "fill (Ctrl_outcome s) = fill_ctrl_outcome s"
| "fill (Ran_function_definition s) = fill_ran_function_definition s"

section \<open>Converters\<close>

definition get_u32 :: "u64 \<Rightarrow> u64 option" where
  "get_u32 v = (if v > 0xFFFFFFFF then None else Some v)"

definition get_printable :: "string \<Rightarrow> nat \<Rightarrow> nat \<Rightarrow> string option" where
  "get_printable s lo hi = (if \<not> valid_printable s lo hi then None else Some s)"

definition get_sub :: "asn_subscription_item \<Rightarrow> dapp_e3_subscription_item_s option" where
  "get_sub item = do {
     dapp \<leftarrow> get_u32 (ai_dapp_id item);
     (if length (ai_subscribed_e3_ran_functions item) < 1
         \<or> length (ai_subscribed_e3_ran_functions item) > k_max_rf_per_sub then None
      else do {
        rfs \<leftarrow> those (map get_u32 (ai_subscribed_e3_ran_functions item));
        Some \<lparr>si_dapp_id = dapp, si_subscribed_e3_ran_functions = rfs\<rparr> }) }"

definition get_subs :: "asn_subscription_item list \<Rightarrow> dapp_e3_subscription_item_s list option" where
  "get_subs src = (if length src > k_max_subs then None else those (map get_sub src))"

text \<open>An absent field leaves its flag unset and the field of the new struct at its initial value.\<close>

definition get_opt_subs ::
    "asn_subscription_item list option \<Rightarrow> (bool \<times> dapp_e3_subscription_item_s list) option" where
  "get_opt_subs src = (case src of None \<Rightarrow> Some (False, []) | Some l \<Rightarrow> map_option (Pair True) (get_subs l))"

definition get_node_type :: "i64 \<Rightarrow> u8 option" where
  "get_node_type v = (if sint v < 0 \<or> sint v > 255 then None else Some (ucast v))"

definition get_plmn :: "bytes \<Rightarrow> (u8 \<times> u8 \<times> u8) option" where
  "get_plmn s = (case s of [a, b, c] \<Rightarrow> Some (a, b, c) | _ \<Rightarrow> None)"

definition get_opt_u32 :: "u64 option \<Rightarrow> (bool \<times> u64) option" where
  "get_opt_u32 src = (case src of None \<Rightarrow> Some (False, 0) | Some v \<Rightarrow> map_option (Pair True) (get_u32 v))"

definition get_opt_long :: "i64 option \<Rightarrow> bool \<times> i64" where
  "get_opt_long src = (case src of None \<Rightarrow> (False, 0) | Some v \<Rightarrow> (True, v))"

definition get_data :: "asn_data \<Rightarrow> e2sm_dapp_data_s option" where
  "get_data f =
     (if sint (ax_data_size f) < 0 \<or> unat (ax_data_size f) > k_max_payload
         \<or> length (ax_data f) < 1 \<or> length (ax_data f) > k_max_payload then None
      else Some \<lparr>dt_data_size = ucast (ax_data_size f), dt_data = ax_data f\<rparr>)"

definition name_from_asn :: "asn_ran_function_name \<Rightarrow> ran_function_name_s option" where
  "name_from_asn s = do {
     a \<leftarrow> get_printable (an_ranFunction_ShortName s) 1 k_name_max;
     b \<leftarrow> get_printable (an_ranFunction_E2SM_OID s) 1 k_oid_max;
     c \<leftarrow> get_printable (an_ranFunction_Description s) 1 k_name_max;
     (case get_opt_long (an_ranFunction_Instance s) of (present, inst) \<Rightarrow>
        Some \<lparr>rn_ran_function_instance_present = present, rn_ran_function_short_name = a,
              rn_ran_function_e2sm_o_id = b, rn_ran_function_description = c,
              rn_ran_function_instance = inst\<rparr>) }"

definition report_item_from_asn :: "asn_report_item \<Rightarrow> ran_function_definition_report_item_s option" where
  "report_item_from_asn s = do {
     name \<leftarrow> get_printable (ar_ric_ReportStyle_Name s) 1 k_name_max;
     (present, subs) \<leftarrow> get_opt_subs (ar_dappE3Subscriptions s);
     Some \<lparr>ri_dapp_e3_subscriptions_present = present,
           ri_ric_report_style_type = ar_ric_ReportStyle_Type s, ri_ric_report_style_name = name,
           ri_ric_ind_hdr_format_type = ar_ric_IndicationHeaderFormat_Type s,
           ri_ric_ind_msg_format_type = ar_ric_IndicationMessageFormat_Type s,
           ri_dapp_e3_subscriptions = subs\<rparr> }"

definition ctrl_item_from_asn :: "asn_control_item \<Rightarrow> ran_function_definition_ctrl_item_s option" where
  "ctrl_item_from_asn s = do {
     name \<leftarrow> get_printable (ac_ric_ControlStyle_Name s) 1 k_name_max;
     (present, subs) \<leftarrow> get_opt_subs (ac_dappE3Subscriptions s);
     Some \<lparr>ci_dapp_e3_subscriptions_present = present,
           ci_ric_ctrl_style_type = ac_ric_ControlStyle_Type s, ci_ric_ctrl_style_name = name,
           ci_ric_ctrl_hdr_format_type = ac_ric_ControlHeaderFormat_Type s,
           ci_ric_ctrl_msg_format_type = ac_ric_ControlMessageFormat_Type s,
           ci_ric_ctrl_outcome_format_type = ac_ric_ControlOutcomeFormat_Type s,
           ci_dapp_e3_subscriptions = subs\<rparr> }"

definition report_from_asn ::
    "asn_report_item list \<Rightarrow> ran_function_definition_report_item_s list option" where
  "report_from_asn l =
     (if length l < 1 \<or> length l > k_max_report_sty then None else those (map report_item_from_asn l))"

definition ctrl_from_asn ::
    "asn_control_item list \<Rightarrow> ran_function_definition_ctrl_item_s list option" where
  "ctrl_from_asn l =
     (if length l < 1 \<or> length l > k_max_ctrl_sty then None else those (map ctrl_item_from_asn l))"

definition definition_from_asn ::
    "asn_function_definition \<Rightarrow> e2sm_dapp_ran_function_definition_s option" where
  "definition_from_asn s = do {
     name \<leftarrow> name_from_asn (af_ranFunction_Name s);
     (report_present, report) \<leftarrow>
        (case af_ric_ReportStyle_List s of
           None \<Rightarrow> Some (False, []) | Some l \<Rightarrow> map_option (Pair True) (report_from_asn l));
     (ctrl_present, ctrl) \<leftarrow>
        (case af_ric_ControlStyle_List s of
           None \<Rightarrow> Some (False, []) | Some l \<Rightarrow> map_option (Pair True) (ctrl_from_asn l));
     Some \<lparr>fd_event_trigger_present = af_ranFunctionDefinition_EventTrigger s,
           fd_report_present = report_present, fd_ctrl_present = ctrl_present,
           fd_ran_function_name = name, fd_ric_report_style_list = report,
           fd_ric_ctrl_style_list = ctrl\<rparr> }"

definition ind_hdr_format1_from_asn ::
    "u64 \<Rightarrow> u64 \<Rightarrow> asn_node \<Rightarrow> e2sm_dapp_ind_hdr_format1_s option" where
  "ind_hdr_format1_from_asn rf_id dapp_id s = do {
     rf \<leftarrow> get_u32 rf_id;
     dapp \<leftarrow> get_u32 dapp_id;
     nt \<leftarrow> get_node_type (ao_node_type s);
     plmn \<leftarrow> get_plmn (ao_node_plmn_id s);
     nb \<leftarrow> get_u32 (ao_node_nb_id s);
     (cu_du_present, cu_du) \<leftarrow> get_opt_u32 (ao_node_cu_du_id s);
     (case (get_opt_long (ao_timestamp s), get_opt_long (ao_sequence_id s)) of
        ((ts_present, ts), (sq_present, sq)) \<Rightarrow>
          Some \<lparr>h1_node_cu_du_id_present = cu_du_present, h1_timestamp_present = ts_present,
                h1_sequence_id_present = sq_present, h1_ran_function_id = rf, h1_dapp_id = dapp,
                h1_node_type = nt, h1_node_plmn_id = plmn, h1_node_nb_id = nb,
                h1_node_cu_du_id = cu_du, h1_timestamp = ts, h1_sequence_id = sq\<rparr>) }"

definition ind_hdr_format2_from_asn :: "asn_node \<Rightarrow> e2sm_dapp_ind_hdr_format2_s option" where
  "ind_hdr_format2_from_asn s = do {
     nt \<leftarrow> get_node_type (ao_node_type s);
     plmn \<leftarrow> get_plmn (ao_node_plmn_id s);
     nb \<leftarrow> get_u32 (ao_node_nb_id s);
     (cu_du_present, cu_du) \<leftarrow> get_opt_u32 (ao_node_cu_du_id s);
     (case (get_opt_long (ao_timestamp s), get_opt_long (ao_sequence_id s)) of
        ((ts_present, ts), (sq_present, sq)) \<Rightarrow>
          Some \<lparr>h2_node_cu_du_id_present = cu_du_present, h2_timestamp_present = ts_present,
                h2_sequence_id_present = sq_present, h2_node_type = nt, h2_node_plmn_id = plmn,
                h2_node_nb_id = nb, h2_node_cu_du_id = cu_du, h2_timestamp = ts,
                h2_sequence_id = sq\<rparr>) }"

definition ctrl_hdr_from_asn :: "asn_control_header \<Rightarrow> e2sm_dapp_ctrl_hdr_format1_s option" where
  "ctrl_hdr_from_asn s = do {
     rf \<leftarrow> get_u32 (ah_ran_function_id s);
     dapp \<leftarrow> get_u32 (ah_dapp_id s);
     (case (get_opt_long (ah_timestamp s), get_opt_long (ah_sequence_id s)) of
        ((ts_present, ts), (sq_present, sq)) \<Rightarrow>
          Some \<lparr>ch_timestamp_present = ts_present, ch_sequence_id_present = sq_present,
                ch_ran_function_id = rf, ch_dapp_id = dapp, ch_timestamp = ts, ch_sequence_id = sq\<rparr>) }"

definition ctrl_outcome_from_asn :: "asn_control_outcome \<Rightarrow> e2sm_dapp_ctrl_outcome_format1_s" where
  "ctrl_outcome_from_asn s =
     (case (get_opt_long (aq_timestamp s), get_opt_long (aq_sequence_id s)) of
        ((ts_present, ts), (sq_present, sq)) \<Rightarrow>
          \<lparr>co_timestamp_present = ts_present, co_sequence_id_present = sq_present,
           co_e3_ctrl_outcome_present = (aq_e3_control_outcome s \<noteq> None),
           co_timestamp = ts, co_sequence_id = sq,
           co_e3_ctrl_outcome = (case aq_e3_control_outcome s of None \<Rightarrow> [] | Some octets \<Rightarrow> octets)\<rparr>)"

definition convert_event_trigger :: "bool \<Rightarrow> e2sm_pdu option" where
  "convert_event_trigger format1 = (if format1 then Some Event_trigger else None)"

definition convert_action_definition :: "i64 \<Rightarrow> bool \<Rightarrow> e2sm_pdu option" where
  "convert_action_definition style format1 = (if format1 then Some (Action_definition style) else None)"

definition convert_ind_hdr :: "asn_e2sm \<Rightarrow> e2sm_pdu option" where
  "convert_ind_hdr a =
     (case a of
        Asn_header_format1 rf dapp n \<Rightarrow>
          map_option (\<lambda>s. Ind_hdr (Ind_hdr_format1 s)) (ind_hdr_format1_from_asn rf dapp n)
      | Asn_header_format2 n \<Rightarrow> map_option (\<lambda>s. Ind_hdr (Ind_hdr_format2 s)) (ind_hdr_format2_from_asn n)
      | _ \<Rightarrow> None)"

definition convert_ind_msg :: "asn_e2sm \<Rightarrow> e2sm_pdu option" where
  "convert_ind_msg a =
     (case a of
        Asn_message_format1 f \<Rightarrow> map_option (\<lambda>s. Ind_msg (Ind_msg_format1 s)) (get_data f)
      | Asn_message_format2 l \<Rightarrow> map_option (\<lambda>s. Ind_msg (Ind_msg_format2 s)) (get_subs l)
      | _ \<Rightarrow> None)"

definition convert_ctrl_hdr :: "asn_control_header option \<Rightarrow> e2sm_pdu option" where
  "convert_ctrl_hdr f = Option.bind f (\<lambda>h. map_option Ctrl_hdr (ctrl_hdr_from_asn h))"

definition convert_ctrl_msg :: "asn_data option \<Rightarrow> e2sm_pdu option" where
  "convert_ctrl_msg f = Option.bind f (\<lambda>d. map_option Ctrl_msg (get_data d))"

definition convert_ctrl_outcome :: "asn_control_outcome option \<Rightarrow> e2sm_pdu option" where
  "convert_ctrl_outcome f = map_option (\<lambda>q. Ctrl_outcome (ctrl_outcome_from_asn q)) f"

definition convert_ran_function_definition :: "asn_function_definition \<Rightarrow> e2sm_pdu option" where
  "convert_ran_function_definition s = map_option Ran_function_definition (definition_from_asn s)"

definition convert :: "asn_e2sm \<Rightarrow> e2sm_pdu option" where
  "convert a =
     (case a of
        Asn_event_trigger format1 \<Rightarrow> convert_event_trigger format1
      | Asn_action_definition style format1 \<Rightarrow> convert_action_definition style format1
      | Asn_control_header f \<Rightarrow> convert_ctrl_hdr f
      | Asn_control_message f \<Rightarrow> convert_ctrl_msg f
      | Asn_control_outcome f \<Rightarrow> convert_ctrl_outcome f
      | Asn_function_definition s \<Rightarrow> convert_ran_function_definition s
      | Asn_message_format1 _ \<Rightarrow> convert_ind_msg a
      | Asn_message_format2 _ \<Rightarrow> convert_ind_msg a
      | Asn_message_unknown \<Rightarrow> convert_ind_msg a
      | _ \<Rightarrow> convert_ind_hdr a)"

declare fill_event_trigger_def [simp] fill_action_definition_def [simp] fill_ctrl_hdr_def [simp]
  fill_ctrl_msg_def [simp] fill_ctrl_outcome_def [simp] fill_ran_function_definition_def [simp]

lemma convert_simps [simp]:
  "convert (Asn_event_trigger format1) = (if format1 then Some Event_trigger else None)"
  "convert (Asn_action_definition style format1) = (if format1 then Some (Action_definition style) else None)"
  "convert (Asn_header_format1 rf dapp n) =
     map_option (\<lambda>s. Ind_hdr (Ind_hdr_format1 s)) (ind_hdr_format1_from_asn rf dapp n)"
  "convert (Asn_header_format2 n) =
     map_option (\<lambda>s. Ind_hdr (Ind_hdr_format2 s)) (ind_hdr_format2_from_asn n)"
  "convert Asn_header_unknown = None"
  "convert (Asn_message_format1 f) = map_option (\<lambda>s. Ind_msg (Ind_msg_format1 s)) (get_data f)"
  "convert (Asn_message_format2 l) = map_option (\<lambda>s. Ind_msg (Ind_msg_format2 s)) (get_subs l)"
  "convert Asn_message_unknown = None"
  "convert (Asn_control_header g) = Option.bind g (\<lambda>h. map_option Ctrl_hdr (ctrl_hdr_from_asn h))"
  "convert (Asn_control_message d) = Option.bind d (\<lambda>d. map_option Ctrl_msg (get_data d))"
  "convert (Asn_control_outcome q) = map_option (\<lambda>q. Ctrl_outcome (ctrl_outcome_from_asn q)) q"
  "convert (Asn_function_definition s) = map_option Ran_function_definition (definition_from_asn s)"
  by (simp_all add: convert_def convert_event_trigger_def convert_action_definition_def convert_ind_hdr_def
      convert_ind_msg_def convert_ctrl_hdr_def convert_ctrl_msg_def convert_ctrl_outcome_def
      convert_ran_function_definition_def)

section \<open>Encoding and decoding\<close>

text \<open>
  The descriptor of a type, which \<open>pack\<close> and \<open>unpack\<close> hand to the runtime. The runtime checks the
  constraints of a structure, encodes it by handing chunks to a callback and returning their total
  length, or a negative number, and decodes octets of a given type.
\<close>

datatype e2sm_descriptor =
    DEF_EventTrigger | DEF_ActionDefinition | DEF_IndicationHeader | DEF_IndicationMessage
  | DEF_ControlHeader | DEF_ControlMessage | DEF_ControlOutcome | DEF_RANFunctionDefinition

fun descriptor :: "e2sm_pdu \<Rightarrow> e2sm_descriptor" where
  "descriptor Event_trigger = DEF_EventTrigger"
| "descriptor (Action_definition _) = DEF_ActionDefinition"
| "descriptor (Ind_hdr _) = DEF_IndicationHeader"
| "descriptor (Ind_msg _) = DEF_IndicationMessage"
| "descriptor (Ctrl_hdr _) = DEF_ControlHeader"
| "descriptor (Ctrl_msg _) = DEF_ControlMessage"
| "descriptor (Ctrl_outcome _) = DEF_ControlOutcome"
| "descriptor (Ran_function_definition _) = DEF_RANFunctionDefinition"

fun asn_descriptor :: "asn_e2sm \<Rightarrow> e2sm_descriptor" where
  "asn_descriptor (Asn_event_trigger _) = DEF_EventTrigger"
| "asn_descriptor (Asn_action_definition _ _) = DEF_ActionDefinition"
| "asn_descriptor (Asn_header_format1 _ _ _) = DEF_IndicationHeader"
| "asn_descriptor (Asn_header_format2 _) = DEF_IndicationHeader"
| "asn_descriptor Asn_header_unknown = DEF_IndicationHeader"
| "asn_descriptor (Asn_message_format1 _) = DEF_IndicationMessage"
| "asn_descriptor (Asn_message_format2 _) = DEF_IndicationMessage"
| "asn_descriptor Asn_message_unknown = DEF_IndicationMessage"
| "asn_descriptor (Asn_control_header _) = DEF_ControlHeader"
| "asn_descriptor (Asn_control_message _) = DEF_ControlMessage"
| "asn_descriptor (Asn_control_outcome _) = DEF_ControlOutcome"
| "asn_descriptor (Asn_function_definition _) = DEF_RANFunctionDefinition"

record e2sm_runtime =
  er_check_constraints :: "asn_e2sm \<Rightarrow> bool"
  er_encode :: "asn_e2sm \<Rightarrow> bytes list \<times> int"
  er_aper_decode :: "e2sm_descriptor \<Rightarrow> bytes \<Rightarrow> asn_e2sm option"

definition encode_pdu :: "e2sm_runtime \<Rightarrow> asn_e2sm \<Rightarrow> asn_code \<times> bytes" where
  "encode_pdu R a =
     (if \<not> er_check_constraints R a then (ASN_ERROR_ENCODE_FAIL, [])
      else case er_encode R a of (chunks, encoded) \<Rightarrow>
        (let out = concat chunks in
         if encoded < 0 \<or> length out \<noteq> nat encoded \<or> out = [] then (ASN_ERROR_ENCODE_FAIL, [])
         else (ASN_SUCCESS, out)))"

definition pack :: "e2sm_runtime \<Rightarrow> e2sm_pdu \<Rightarrow> asn_code \<times> bytes" where
  "pack R m = (case fill m of None \<Rightarrow> (ASN_ERROR_ENCODE_FAIL, []) | Some a \<Rightarrow> encode_pdu R a)"

definition unpack :: "e2sm_runtime \<Rightarrow> bytes \<Rightarrow> e2sm_pdu \<Rightarrow> asn_code \<times> e2sm_pdu" where
  "unpack R data self =
     (if data = [] then (ASN_ERROR_DECODE_FAIL, self)
      else case er_aper_decode R (descriptor self) data of
        None \<Rightarrow> (ASN_ERROR_DECODE_FAIL, self)
      | Some a \<Rightarrow>
          (case convert a of
             None \<Rightarrow> (ASN_ERROR_DECODE_FAIL, self)
           | Some m \<Rightarrow> (ASN_SUCCESS, m)))"

end
