(* ===== verification/E2sm_Elements.thy ===== *)
theory E2sm_Elements
  imports E2sm_Codec
begin

text \<open>
  What the codec of E2SM-DAPP promises for one element of the grammar, the locale \<open>asn_element\<close>, and
  its proof for every element. The laws are stated with the struct an encoding stands for: \<open>norm\<close>
  puts the initial value into every field that is absent. Lists and optional members inherit the laws
  from what they hold.
\<close>

section \<open>The contract of an element\<close>

locale asn_element =
  fixes build :: "'c \<Rightarrow> 'a option"
    and from_asn :: "'a \<Rightarrow> 'c option"
    and norm :: "'c \<Rightarrow> 'c"
    and eqv :: "'c \<Rightarrow> 'c \<Rightarrow> bool"
    and valid :: "'a \<Rightarrow> bool"
    and short :: "'a \<Rightarrow> bool"
  assumes build_from: "build s = Some a \<Longrightarrow> from_asn a = Some (norm s)"
    and build_short: "build s = Some a \<Longrightarrow> short a"
    and build_norm: "build (norm s) = build s"
    and from_build: "from_asn a = Some s \<Longrightarrow> short a \<Longrightarrow> build s = Some a"
    and from_norm: "from_asn a = Some s \<Longrightarrow> norm s = s"
    and from_valid: "from_asn a \<noteq> None \<longleftrightarrow> valid a"
    and eqv_norm: "eqv s t \<longleftrightarrow> norm s = norm t"
begin

lemma build_valid: "build s = Some a \<Longrightarrow> valid a"
  using build_from from_valid by fastforce

lemma eqv_iff_same:
  assumes "build s = Some a"
  shows "eqv s t \<longleftrightarrow> build t = Some a"
proof
  assume "eqv s t"
  then have "build (norm t) = Some a" using assms build_norm [of s] by (simp add: eqv_norm)
  then show "build t = Some a" by (simp add: build_norm)
next
  assume "build t = Some a"
  then show "eqv s t" using build_from [OF assms] build_from [of t a] by (simp add: eqv_norm)
qed

lemma build_from_eqv: "build s = Some a \<Longrightarrow> \<exists>t. from_asn a = Some t \<and> eqv s t"
  using build_from from_norm eqv_norm by metis

end

lemma those_map_iff: "those (map f xs) = Some ys \<longleftrightarrow> list_all2 (\<lambda>x y. f x = Some y) xs ys"
proof (induction xs arbitrary: ys)
  case Nil
  then show ?case by auto
next
  case (Cons x xs)
  show ?case
  proof (cases "f x")
    case None
    then show ?thesis by (simp add: list_all2_Cons1)
  next
    case (Some y)
    then show ?thesis by (auto simp: list_all2_Cons1 Cons.IH)
  qed
qed

lemma those_map_None_iff: "those (map f xs) \<noteq> None \<longleftrightarrow> list_all (\<lambda>x. f x \<noteq> None) xs"
  by (induction xs) (auto split: option.splits)

context asn_element
begin

text \<open>Lists whose length lies between two bounds.\<close>

definition build_list :: "nat \<Rightarrow> nat \<Rightarrow> 'c list \<Rightarrow> 'a list option" where
  "build_list lo hi xs = (if length xs < lo \<or> length xs > hi then None else those (map build xs))"

definition from_list :: "nat \<Rightarrow> nat \<Rightarrow> 'a list \<Rightarrow> 'c list option" where
  "from_list lo hi ys = (if length ys < lo \<or> length ys > hi then None else those (map from_asn ys))"

lemma list_element:
  "asn_element (build_list lo hi) (from_list lo hi) (map norm) (list_all2 eqv)
     (\<lambda>ys. lo \<le> length ys \<and> length ys \<le> hi \<and> list_all valid ys) (list_all short)"
proof unfold_locales
  fix xs ys assume "build_list lo hi xs = Some ys"
  then have len: "\<not> length xs < lo" "\<not> length xs > hi" and all: "list_all2 (\<lambda>x y. build x = Some y) xs ys"
    by (auto simp: build_list_def those_map_iff split: if_splits)
  have "list_all2 (\<lambda>y x. from_asn y = Some x) ys (map norm xs)"
    using all by (auto simp: list_all2_conv_all_nth build_from)
  then show "from_list lo hi ys = Some (map norm xs)"
    using len list_all2_lengthD [OF all] by (simp add: from_list_def those_map_iff)
  show "list_all short ys"
    using all by (auto simp: list_all2_conv_all_nth list_all_length intro: build_short)
next
  fix xs show "build_list lo hi (map norm xs) = build_list lo hi xs"
    by (simp add: build_list_def build_norm comp_def)
next
  fix ys xs assume "from_list lo hi ys = Some xs" "list_all short ys"
  then have len: "\<not> length ys < lo" "\<not> length ys > hi" and all: "list_all2 (\<lambda>y x. from_asn y = Some x) ys xs"
    by (auto simp: from_list_def those_map_iff split: if_splits)
  have "list_all2 (\<lambda>x y. build x = Some y) xs ys"
    using all \<open>list_all short ys\<close> by (auto simp: list_all2_conv_all_nth list_all_length intro: from_build)
  then show "build_list lo hi xs = Some ys"
    using len list_all2_lengthD [OF all] by (simp add: build_list_def those_map_iff)
next
  fix ys xs assume "from_list lo hi ys = Some xs"
  then have "list_all2 (\<lambda>y x. from_asn y = Some x) ys xs"
    by (auto simp: from_list_def those_map_iff split: if_splits)
  then show "map norm xs = xs"
    by (intro nth_equalityI) (auto simp: list_all2_conv_all_nth intro: from_norm)
next
  fix ys
  show "(from_list lo hi ys \<noteq> None) = (lo \<le> length ys \<and> length ys \<le> hi \<and> list_all valid ys)"
    by (auto simp: from_list_def those_map_None_iff [simplified] from_valid [simplified] not_less)
next
  fix xs zs show "list_all2 eqv xs zs = (map norm xs = map norm zs)"
  proof -
    have "eqv = (\<lambda>s t. norm s = norm t)" by (intro ext) (rule eqv_norm)
    then show ?thesis by (simp add: list_all2_map1 list_all2_map2 list.rel_eq [symmetric] del: list.rel_eq)
  qed
qed

end

section \<open>Members\<close>

lemma set_u32_iff [simp]: "set_u32 v = Some w \<longleftrightarrow> in_u32 v \<and> w = v"
  by (auto simp: set_u32_def)

lemma get_u32_iff [simp]: "get_u32 v = Some w \<longleftrightarrow> in_u32 v \<and> w = v"
  by (auto simp: get_u32_def in_u32_def)

lemma get_u32_None [simp]: "get_u32 v = None \<longleftrightarrow> \<not> in_u32 v"
  by (auto simp: get_u32_def in_u32_def)

lemma set_printable_iff [simp]: "set_printable s lo hi = Some t \<longleftrightarrow> valid_printable s lo hi \<and> t = s"
  by (auto simp: set_printable_def)

lemma get_printable_iff [simp]: "get_printable s lo hi = Some t \<longleftrightarrow> valid_printable s lo hi \<and> t = s"
  by (auto simp: get_printable_def)

lemma get_printable_None [simp]: "get_printable s lo hi = None \<longleftrightarrow> \<not> valid_printable s lo hi"
  by (simp add: get_printable_def)

lemma set_opt_u32_iff [simp]:
  "set_opt_u32 p v = Some w \<longleftrightarrow> (p \<longrightarrow> in_u32 v) \<and> w = (if p then Some v else None)"
  by (auto simp: set_opt_u32_def)

lemma get_opt_u32_iff:
  "get_opt_u32 src = Some r \<longleftrightarrow> (case src of None \<Rightarrow> r = (False, 0) | Some v \<Rightarrow> in_u32 v \<and> r = (True, v))"
  by (auto simp: get_opt_u32_def split: option.splits)

interpretation u32_element: asn_element set_u32 get_u32 id "(=)" in_u32 "\<lambda>_. True"
  by unfold_locales auto

definition sub_valid :: "asn_subscription_item \<Rightarrow> bool" where
  "sub_valid a \<longleftrightarrow> in_u32 (ai_dapp_id a)
     \<and> 1 \<le> length (ai_subscribed_e3_ran_functions a)
     \<and> length (ai_subscribed_e3_ran_functions a) \<le> k_max_rf_per_sub
     \<and> list_all in_u32 (ai_subscribed_e3_ran_functions a)"

interpretation rf_element: asn_element "u32_element.build_list 1 k_max_rf_per_sub"
    "u32_element.from_list 1 k_max_rf_per_sub" "map id" "list_all2 (=)"
    "\<lambda>l. 1 \<le> length l \<and> length l \<le> k_max_rf_per_sub \<and> list_all in_u32 l" "list_all (\<lambda>_. True)"
  by (rule u32_element.list_element)

lemma build_sub_iff:
  "build_sub s = Some a \<longleftrightarrow>
     in_u32 (si_dapp_id s) \<and> ai_dapp_id a = si_dapp_id s
     \<and> u32_element.build_list 1 k_max_rf_per_sub (si_subscribed_e3_ran_functions s)
         = Some (ai_subscribed_e3_ran_functions a)"
  by (cases a) (auto simp: build_sub_def u32_element.build_list_def bind_eq_Some_conv)

lemma get_sub_iff:
  "get_sub a = Some s \<longleftrightarrow>
     in_u32 (ai_dapp_id a) \<and> si_dapp_id s = ai_dapp_id a
     \<and> u32_element.from_list 1 k_max_rf_per_sub (ai_subscribed_e3_ran_functions a)
         = Some (si_subscribed_e3_ran_functions s)"
  by (cases s) (auto simp: get_sub_def u32_element.from_list_def bind_eq_Some_conv)

interpretation sub_element: asn_element build_sub get_sub id "(=)" sub_valid "\<lambda>_. True"
proof unfold_locales
  fix s a assume "build_sub s = Some a"
  then show "get_sub a = Some (id s)"
    using rf_element.build_from [of "si_subscribed_e3_ran_functions s"]
    by (simp add: build_sub_iff get_sub_iff)
next
  fix a s assume "get_sub a = Some s"
  then show "build_sub s = Some a"
    using rf_element.from_build [of "ai_subscribed_e3_ran_functions a"]
    by (simp add: build_sub_iff get_sub_iff list_all_iff)
next
  fix a show "(get_sub a \<noteq> None) = sub_valid a"
    using rf_element.from_valid [of "ai_subscribed_e3_ran_functions a"]
    by (auto simp: get_sub_def u32_element.from_list_def sub_valid_def bind_eq_None_conv)
qed auto

interpretation subs_element: asn_element "sub_element.build_list 0 k_max_subs"
    "sub_element.from_list 0 k_max_subs" "map id" "list_all2 (=)"
    "\<lambda>l. 0 \<le> length l \<and> length l \<le> k_max_subs \<and> list_all sub_valid l" "list_all (\<lambda>_. True)"
  by (rule sub_element.list_element)

lemma build_subs_eq: "build_subs = sub_element.build_list 0 k_max_subs"
  by (rule ext) (simp add: build_subs_def sub_element.build_list_def)

lemma get_subs_eq: "get_subs = sub_element.from_list 0 k_max_subs"
  by (rule ext) (simp add: get_subs_def sub_element.from_list_def)

definition subs_valid :: "asn_subscription_item list \<Rightarrow> bool" where
  "subs_valid l \<longleftrightarrow> length l \<le> k_max_subs \<and> list_all sub_valid l"

lemma build_get_subs: "build_subs s = Some a \<Longrightarrow> get_subs a = Some s"
  using subs_element.build_from by (simp add: build_subs_eq get_subs_eq)

lemma get_build_subs: "get_subs a = Some s \<Longrightarrow> build_subs s = Some a"
  using subs_element.from_build [of a s] by (simp add: build_subs_eq get_subs_eq list_all_iff)

lemma subs_valid_iff: "subs_valid a \<longleftrightarrow> (\<exists>s. get_subs a = Some s)"
  using subs_element.from_valid [of a] by (auto simp: get_subs_eq subs_valid_def)

section \<open>Elements\<close>

text \<open>The constraints of the grammar.\<close>

definition name_valid :: "asn_ran_function_name \<Rightarrow> bool" where
  "name_valid a \<longleftrightarrow> valid_printable (an_ranFunction_ShortName a) 1 k_name_max
     \<and> valid_printable (an_ranFunction_E2SM_OID a) 1 k_oid_max
     \<and> valid_printable (an_ranFunction_Description a) 1 k_name_max"

definition report_item_valid :: "asn_report_item \<Rightarrow> bool" where
  "report_item_valid a \<longleftrightarrow> valid_printable (ar_ric_ReportStyle_Name a) 1 k_name_max
     \<and> pred_option subs_valid (ar_dappE3Subscriptions a)"

definition ctrl_item_valid :: "asn_control_item \<Rightarrow> bool" where
  "ctrl_item_valid a \<longleftrightarrow> valid_printable (ac_ric_ControlStyle_Name a) 1 k_name_max
     \<and> pred_option subs_valid (ac_dappE3Subscriptions a)"

definition name_norm :: "ran_function_name_s \<Rightarrow> ran_function_name_s" where
  "name_norm s = (if rn_ran_function_instance_present s then s else s\<lparr>rn_ran_function_instance := 0\<rparr>)"

definition report_item_norm ::
    "ran_function_definition_report_item_s \<Rightarrow> ran_function_definition_report_item_s" where
  "report_item_norm s =
     (if ri_dapp_e3_subscriptions_present s then s else s\<lparr>ri_dapp_e3_subscriptions := []\<rparr>)"

definition ctrl_item_norm ::
    "ran_function_definition_ctrl_item_s \<Rightarrow> ran_function_definition_ctrl_item_s" where
  "ctrl_item_norm s =
     (if ci_dapp_e3_subscriptions_present s then s else s\<lparr>ci_dapp_e3_subscriptions := []\<rparr>)"

lemmas element_simps =
  bind_eq_Some_conv bind_eq_None_conv set_opt_long_def get_opt_long_def build_opt_subs_def get_opt_subs_def

interpretation name_element: asn_element build_name name_from_asn name_norm ran_function_name_eq
    name_valid "\<lambda>_. True"
proof unfold_locales
  fix s a assume "build_name s = Some a"
  then show "name_from_asn a = Some (name_norm s)"
    by (cases s; cases a) (auto simp: build_name_def name_from_asn_def name_norm_def element_simps split: if_splits)
next
  fix s show "build_name (name_norm s) = build_name s"
    by (simp add: build_name_def name_norm_def set_opt_long_def)
next
  fix a s assume "name_from_asn a = Some s"
  then show "build_name s = Some a" "name_norm s = s"
    by (cases s; cases a;
        auto simp: build_name_def name_from_asn_def name_norm_def element_simps split: option.splits)+
next
  fix a show "(name_from_asn a \<noteq> None) = name_valid a"
    by (auto simp: name_from_asn_def name_valid_def element_simps split: option.splits)
next
  fix s t show "ran_function_name_eq s t = (name_norm s = name_norm t)"
    by (cases s; cases t) (auto simp: ran_function_name_eq_def name_norm_def)
qed auto

interpretation report_item_element: asn_element build_report_item report_item_from_asn report_item_norm
    report_item_eq report_item_valid "\<lambda>_. True"
proof unfold_locales
  fix s a assume "build_report_item s = Some a"
  then show "report_item_from_asn a = Some (report_item_norm s)"
    by (cases s; cases a)
      (auto simp: build_report_item_def report_item_from_asn_def report_item_norm_def element_simps
        split: if_splits dest: build_get_subs)
next
  fix s show "build_report_item (report_item_norm s) = build_report_item s"
    by (simp add: build_report_item_def report_item_norm_def build_opt_subs_def)
next
  fix a s assume "report_item_from_asn a = Some s"
  then show "build_report_item s = Some a" "report_item_norm s = s"
    by (cases s; cases a;
        auto simp: build_report_item_def report_item_from_asn_def report_item_norm_def element_simps
          split: option.splits dest: get_build_subs)+
next
  fix a show "(report_item_from_asn a \<noteq> None) = report_item_valid a"
    unfolding not_None_eq
    by (auto simp: report_item_from_asn_def report_item_valid_def element_simps subs_valid_iff pred_option_def
          split: option.splits)
next
  fix s t show "report_item_eq s t = (report_item_norm s = report_item_norm t)"
    by (cases s; cases t) (auto simp: report_item_eq_def report_item_norm_def)
qed auto

interpretation ctrl_item_element: asn_element build_ctrl_item ctrl_item_from_asn ctrl_item_norm
    ctrl_item_eq ctrl_item_valid "\<lambda>_. True"
proof unfold_locales
  fix s a assume "build_ctrl_item s = Some a"
  then show "ctrl_item_from_asn a = Some (ctrl_item_norm s)"
    by (cases s; cases a)
      (auto simp: build_ctrl_item_def ctrl_item_from_asn_def ctrl_item_norm_def element_simps
        split: if_splits dest: build_get_subs)
next
  fix s show "build_ctrl_item (ctrl_item_norm s) = build_ctrl_item s"
    by (simp add: build_ctrl_item_def ctrl_item_norm_def build_opt_subs_def)
next
  fix a s assume "ctrl_item_from_asn a = Some s"
  then show "build_ctrl_item s = Some a" "ctrl_item_norm s = s"
    by (cases s; cases a;
        auto simp: build_ctrl_item_def ctrl_item_from_asn_def ctrl_item_norm_def element_simps
          split: option.splits dest: get_build_subs)+
next
  fix a show "(ctrl_item_from_asn a \<noteq> None) = ctrl_item_valid a"
    unfolding not_None_eq
    by (auto simp: ctrl_item_from_asn_def ctrl_item_valid_def element_simps subs_valid_iff pred_option_def
          split: option.splits)
next
  fix s t show "ctrl_item_eq s t = (ctrl_item_norm s = ctrl_item_norm t)"
    by (cases s; cases t) (auto simp: ctrl_item_eq_def ctrl_item_norm_def)
qed auto

lemma build_report_eq: "build_report = report_item_element.build_list 1 k_max_report_sty"
  by (rule ext) (simp add: build_report_def report_item_element.build_list_def)

lemma report_from_asn_eq: "report_from_asn = report_item_element.from_list 1 k_max_report_sty"
  by (rule ext) (simp add: report_from_asn_def report_item_element.from_list_def)

lemma build_ctrl_eq: "build_ctrl = ctrl_item_element.build_list 1 k_max_ctrl_sty"
  by (rule ext) (simp add: build_ctrl_def ctrl_item_element.build_list_def)

lemma ctrl_from_asn_eq: "ctrl_from_asn = ctrl_item_element.from_list 1 k_max_ctrl_sty"
  by (rule ext) (simp add: ctrl_from_asn_def ctrl_item_element.from_list_def)

definition report_valid :: "asn_report_item list \<Rightarrow> bool" where
  "report_valid l \<longleftrightarrow> 1 \<le> length l \<and> length l \<le> k_max_report_sty \<and> list_all report_item_valid l"

definition ctrl_valid :: "asn_control_item list \<Rightarrow> bool" where
  "ctrl_valid l \<longleftrightarrow> 1 \<le> length l \<and> length l \<le> k_max_ctrl_sty \<and> list_all ctrl_item_valid l"

interpretation report_element: asn_element build_report report_from_asn "map report_item_norm"
    "list_all2 report_item_eq" report_valid "list_all (\<lambda>_. True)"
  unfolding build_report_eq report_from_asn_eq report_valid_def [abs_def]
  by (rule report_item_element.list_element)

interpretation ctrl_element: asn_element build_ctrl ctrl_from_asn "map ctrl_item_norm"
    "list_all2 ctrl_item_eq" ctrl_valid "list_all (\<lambda>_. True)"
  unfolding build_ctrl_eq ctrl_from_asn_eq ctrl_valid_def [abs_def]
  by (rule ctrl_item_element.list_element)

lemma list_all_True [simp]: "list_all (\<lambda>_. True) xs"
  by (simp add: list_all_iff)

definition definition_valid :: "asn_function_definition \<Rightarrow> bool" where
  "definition_valid a \<longleftrightarrow> name_valid (af_ranFunction_Name a)
     \<and> pred_option report_valid (af_ric_ReportStyle_List a)
     \<and> pred_option ctrl_valid (af_ric_ControlStyle_List a)"

definition definition_norm ::
    "e2sm_dapp_ran_function_definition_s \<Rightarrow> e2sm_dapp_ran_function_definition_s" where
  "definition_norm s =
     s\<lparr>fd_ran_function_name := name_norm (fd_ran_function_name s),
       fd_ric_report_style_list :=
         (if fd_report_present s then map report_item_norm (fd_ric_report_style_list s) else []),
       fd_ric_ctrl_style_list :=
         (if fd_ctrl_present s then map ctrl_item_norm (fd_ric_ctrl_style_list s) else [])\<rparr>"

lemma build_definition_iff:
  "build_definition s = Some a \<longleftrightarrow>
     build_name (fd_ran_function_name s) = Some (af_ranFunction_Name a)
     \<and> af_ranFunctionDefinition_EventTrigger a = fd_event_trigger_present s
     \<and> (if fd_report_present s
        then \<exists>l. af_ric_ReportStyle_List a = Some l \<and> build_report (fd_ric_report_style_list s) = Some l
        else af_ric_ReportStyle_List a = None)
     \<and> (if fd_ctrl_present s
        then \<exists>l. af_ric_ControlStyle_List a = Some l \<and> build_ctrl (fd_ric_ctrl_style_list s) = Some l
        else af_ric_ControlStyle_List a = None)"
  by (cases a) (auto simp: build_definition_def element_simps)

lemma definition_from_asn_iff:
  "definition_from_asn a = Some s \<longleftrightarrow>
     name_from_asn (af_ranFunction_Name a) = Some (fd_ran_function_name s)
     \<and> fd_event_trigger_present s = af_ranFunctionDefinition_EventTrigger a
     \<and> (case af_ric_ReportStyle_List a of
          None \<Rightarrow> \<not> fd_report_present s \<and> fd_ric_report_style_list s = []
        | Some l \<Rightarrow> fd_report_present s \<and> report_from_asn l = Some (fd_ric_report_style_list s))
     \<and> (case af_ric_ControlStyle_List a of
          None \<Rightarrow> \<not> fd_ctrl_present s \<and> fd_ric_ctrl_style_list s = []
        | Some l \<Rightarrow> fd_ctrl_present s \<and> ctrl_from_asn l = Some (fd_ric_ctrl_style_list s))"
  by (cases s) (auto simp: definition_from_asn_def element_simps split: option.splits)

interpretation definition_element: asn_element build_definition definition_from_asn definition_norm
    ran_function_definition_eq definition_valid "\<lambda>_. True"
proof unfold_locales
  fix s a assume "build_definition s = Some a"
  then show "definition_from_asn a = Some (definition_norm s)"
    by (auto simp: build_definition_iff definition_from_asn_iff definition_norm_def
          name_element.build_from report_element.build_from ctrl_element.build_from split: if_splits)
next
  fix s show "build_definition (definition_norm s) = build_definition s"
    by (simp add: build_definition_def definition_norm_def name_element.build_norm
          report_element.build_norm ctrl_element.build_norm)
next
  fix a s assume "definition_from_asn a = Some s"
  then show "build_definition s = Some a"
    by (auto simp: build_definition_iff definition_from_asn_iff
          name_element.from_build report_element.from_build ctrl_element.from_build split: option.splits)
next
  fix a s assume "definition_from_asn a = Some s"
  then show "definition_norm s = s"
    by (auto simp: definition_from_asn_iff definition_norm_def
          name_element.from_norm report_element.from_norm ctrl_element.from_norm split: option.splits)
next
  fix a show "(definition_from_asn a \<noteq> None) = definition_valid a"
    unfolding not_None_eq
    by (auto simp: definition_from_asn_def definition_valid_def element_simps pred_option_def
          name_element.from_valid [unfolded not_None_eq, symmetric]
          report_element.from_valid [unfolded not_None_eq, symmetric]
          ctrl_element.from_valid [unfolded not_None_eq, symmetric] split: option.splits) blast+
next
  fix s t show "ran_function_definition_eq s t = (definition_norm s = definition_norm t)"
    by (cases s; cases t)
      (auto simp: ran_function_definition_eq_def definition_norm_def name_element.eqv_norm
         report_element.eqv_norm ctrl_element.eqv_norm)
qed auto

section \<open>Headers, payloads and outcomes\<close>

lemma sint_i64: "sint (v :: i64) = (if uint v < 2 ^ 63 then uint v else uint v - 2 ^ 64)"
proof -
  have u: "0 \<le> uint v" "uint v < 2 ^ 64" using uint_bounded [of v] by simp_all
  have "sint v = (uint v + 2 ^ 63) mod 2 ^ 64 - 2 ^ 63"
    by (simp add: sint_uint signed_take_bit_eq_take_bit_shift take_bit_eq_mod)
  moreover have "(uint v + 2 ^ 63) mod 2 ^ 64 = (if uint v < 2 ^ 63 then uint v + 2 ^ 63 else uint v + 2 ^ 63 - 2 ^ 64)"
    using u minus_mod_self2 [of "uint v + 2 ^ 63" "2 ^ 64"]
      mod_pos_pos_trivial [of "uint v + 2 ^ 63" "2 ^ 64"] mod_pos_pos_trivial [of "uint v + 2 ^ 63 - 2 ^ 64" "2 ^ 64"]
    by simp
  ultimately show ?thesis by simp
qed
lemma small_of_sint: "\<not> sint (v :: i64) < 0 \<Longrightarrow> sint v = int (unat v)"
  using uint_bounded [of v] by (simp add: sint_i64 split: if_splits)

lemma unat_ucast_u8 [simp]: "unat (ucast (x :: u8) :: i64) = unat x"
proof -
  have "unat x < 2 ^ 8" using unsigned_less [of x] by simp
  then show ?thesis by (simp add: unsigned_ucast_eq take_bit_nat_eq_self)
qed

lemma unat_ucast_u16 [simp]: "unat (ucast (x :: u16) :: i64) = unat x"
proof -
  have "unat x < 2 ^ 16" using unsigned_less [of x] by simp
  then show ?thesis by (simp add: unsigned_ucast_eq take_bit_nat_eq_self)
qed

lemma narrow_u8: "unat (v :: i64) \<le> 255 \<Longrightarrow> ucast (ucast v :: u8) = v"
  by (simp add: word_unat_eq_iff unsigned_ucast_eq unsigned_take_bit_eq take_bit_nat_eq_self)

lemma narrow_u16: "unat (v :: i64) \<le> 65535 \<Longrightarrow> ucast (ucast v :: u16) = v"
  by (simp add: word_unat_eq_iff unsigned_ucast_eq unsigned_take_bit_eq take_bit_nat_eq_self)

lemma sint_of_small:
  assumes "unat (v :: i64) < 2 ^ 63"
  shows "sint v = int (unat v)"
proof -
  have "int (unat v) < int (2 ^ 63)" using assms by (simp only: of_nat_less_iff)
  then show ?thesis by (simp add: sint_i64)
qed

lemma get_node_type_iff: "get_node_type v = Some t \<longleftrightarrow> v = ucast t"
proof
  assume "get_node_type v = Some t"
  then have "\<not> sint v < 0" "sint v \<le> 255" "t = ucast v" by (auto simp: get_node_type_def split: if_splits)
  then have "int (unat v) \<le> int 255" using small_of_sint [of v] by simp
  then have "unat v \<le> 255" by (simp only: of_nat_le_iff)
  then show "v = ucast t" using narrow_u8 [of v] \<open>t = ucast v\<close> by simp
next
  assume v: "v = ucast t"
  have "unat t < 2 ^ 8" using unsigned_less [of t] by simp
  then have "sint v = int (unat t)" using sint_of_small [of v] v by simp
  then show "get_node_type v = Some t" using uint_bounded [of t] v by (simp add: get_node_type_def ucast_up_ucast_id is_up)
qed

lemma build_get_data: "build_data s = Some a \<Longrightarrow> get_data a = Some s"
  using unsigned_less [of "dt_data_size s"] sint_of_small [of "ucast (dt_data_size s)"]
  by (cases s) (auto simp: build_data_def get_data_def set_octets_def k_max_payload_def ucast_up_ucast_id is_up
      bind_eq_Some_conv Suc_le_eq split: if_splits)

lemma get_build_data: "get_data a = Some s \<Longrightarrow> build_data s = Some a"
  using narrow_u16 [of "ax_data_size a"]
  by (cases a) (auto simp: build_data_def get_data_def set_octets_def k_max_payload_def unsigned_ucast_eq 
     take_bit_nat_eq_self Suc_le_eq split: if_splits)

lemma unat_gt_payload: "32768 < unat (v :: i64) \<longleftrightarrow> 32768 < uint v"
  using of_nat_less_iff [of 32768 "unat v", where 'a = int] by simp

lemma data_valid_iff:
  "get_data a \<noteq> None \<longleftrightarrow>
     0 \<le> sint (ax_data_size a) \<and> sint (ax_data_size a) \<le> 32768
     \<and> 1 \<le> length (ax_data a) \<and> length (ax_data a) \<le> 32768"
  using small_of_sint [of "ax_data_size a"]
  by (auto simp: get_data_def k_max_payload_def Suc_le_eq unat_gt_payload)

definition data_valid :: "asn_data \<Rightarrow> bool" where
  "data_valid a \<longleftrightarrow> 0 \<le> sint (ax_data_size a) \<and> sint (ax_data_size a) \<le> 32768
     \<and> 1 \<le> length (ax_data a) \<and> length (ax_data a) \<le> 32768"

interpretation data_element: asn_element build_data get_data id "(=)" data_valid "\<lambda>_. True"
proof unfold_locales
  fix s a assume "build_data s = Some a"
  then show "get_data a = Some (id s)" using build_get_data by simp
next
  fix a show "(get_data a \<noteq> None) = data_valid a" by (simp only: data_valid_iff data_valid_def)
qed (simp_all add: get_build_data)

lemma get_plmn_iff [simp]: "get_plmn s = Some p \<longleftrightarrow> s = plmn_octets p"
  by (cases p) (auto simp: get_plmn_def plmn_octets_def split: list.splits)

lemma set_plmn [simp]: "set_octets (plmn_octets p) = Some (plmn_octets p)"
  by (simp add: set_octets_def plmn_octets_def split: prod.splits)

definition node_valid :: "asn_node \<Rightarrow> bool" where
  "node_valid n \<longleftrightarrow> 0 \<le> sint (ao_node_type n) \<and> sint (ao_node_type n) \<le> 255
     \<and> length (ao_node_plmn_id n) = 3 \<and> in_u32 (ao_node_nb_id n)
     \<and> pred_option in_u32 (ao_node_cu_du_id n)"

definition ind_hdr_format1_norm :: "e2sm_dapp_ind_hdr_format1_s \<Rightarrow> e2sm_dapp_ind_hdr_format1_s" where
  "ind_hdr_format1_norm s =
     s\<lparr>h1_node_cu_du_id := (if h1_node_cu_du_id_present s then h1_node_cu_du_id s else 0),
       h1_timestamp := (if h1_timestamp_present s then h1_timestamp s else 0),
       h1_sequence_id := (if h1_sequence_id_present s then h1_sequence_id s else 0)\<rparr>"

definition ind_hdr_format2_norm :: "e2sm_dapp_ind_hdr_format2_s \<Rightarrow> e2sm_dapp_ind_hdr_format2_s" where
  "ind_hdr_format2_norm s =
     s\<lparr>h2_node_cu_du_id := (if h2_node_cu_du_id_present s then h2_node_cu_du_id s else 0),
       h2_timestamp := (if h2_timestamp_present s then h2_timestamp s else 0),
       h2_sequence_id := (if h2_sequence_id_present s then h2_sequence_id s else 0)\<rparr>"

lemma plmn_octets_inject [simp]: "plmn_octets p = plmn_octets q \<longleftrightarrow> p = q"
  by (simp add: plmn_octets_def split: prod.splits)

lemma node_valid_iff:
  "node_valid n \<longleftrightarrow>
     (\<exists>t. get_node_type (ao_node_type n) = Some t) \<and> (\<exists>p. ao_node_plmn_id n = plmn_octets p)
     \<and> in_u32 (ao_node_nb_id n) \<and> (\<exists>r. get_opt_u32 (ao_node_cu_du_id n) = Some r)"
proof -
  have "(\<exists>t. get_node_type v = Some t) \<longleftrightarrow> 0 \<le> sint v \<and> sint v \<le> 255" for v
    by (auto simp: get_node_type_def)
  moreover have "(\<exists>p. s = plmn_octets p) \<longleftrightarrow> length s = 3" for s
    by (auto simp: plmn_octets_def numeral_3_eq_3 length_Suc_conv split: prod.splits)
  moreover have "(\<exists>r. get_opt_u32 src = Some r) \<longleftrightarrow> pred_option in_u32 src" for src
    by (cases src) (auto simp: get_opt_u32_iff)
  ultimately show ?thesis by (simp add: node_valid_def)
qed

fun hdr1_of :: "asn_e2sm \<Rightarrow> e2sm_dapp_ind_hdr_format1_s option" where
  "hdr1_of (Asn_header_format1 rf dapp n) = ind_hdr_format1_from_asn rf dapp n"
| "hdr1_of _ = None"

fun hdr2_of :: "asn_e2sm \<Rightarrow> e2sm_dapp_ind_hdr_format2_s option" where
  "hdr2_of (Asn_header_format2 n) = ind_hdr_format2_from_asn n"
| "hdr2_of _ = None"

fun hdr1_valid :: "asn_e2sm \<Rightarrow> bool" where
  "hdr1_valid (Asn_header_format1 rf dapp n) = (in_u32 rf \<and> in_u32 dapp \<and> node_valid n)"
| "hdr1_valid _ = False"

fun hdr2_valid :: "asn_e2sm \<Rightarrow> bool" where
  "hdr2_valid (Asn_header_format2 n) = node_valid n"
| "hdr2_valid _ = False"

lemma build_hdr1_iff:
  "build_ind_hdr_format1 s = Some a \<longleftrightarrow>
     in_u32 (h1_ran_function_id s) \<and> in_u32 (h1_dapp_id s) \<and> in_u32 (h1_node_nb_id s)
     \<and> (h1_node_cu_du_id_present s \<longrightarrow> in_u32 (h1_node_cu_du_id s))
     \<and> a = Asn_header_format1 (h1_ran_function_id s) (h1_dapp_id s)
             \<lparr>ao_node_type = ucast (h1_node_type s), ao_node_plmn_id = plmn_octets (h1_node_plmn_id s),
              ao_node_nb_id = h1_node_nb_id s,
              ao_node_cu_du_id = (if h1_node_cu_du_id_present s then Some (h1_node_cu_du_id s) else None),
              ao_timestamp = (if h1_timestamp_present s then Some (h1_timestamp s) else None),
              ao_sequence_id = (if h1_sequence_id_present s then Some (h1_sequence_id s) else None)\<rparr>"
  by (auto simp: build_ind_hdr_format1_def element_simps)

lemma build_hdr2_iff:
  "build_ind_hdr_format2 s = Some a \<longleftrightarrow>
     in_u32 (h2_node_nb_id s)
     \<and> (h2_node_cu_du_id_present s \<longrightarrow> in_u32 (h2_node_cu_du_id s))
     \<and> a = Asn_header_format2
             \<lparr>ao_node_type = ucast (h2_node_type s), ao_node_plmn_id = plmn_octets (h2_node_plmn_id s),
              ao_node_nb_id = h2_node_nb_id s,
              ao_node_cu_du_id = (if h2_node_cu_du_id_present s then Some (h2_node_cu_du_id s) else None),
              ao_timestamp = (if h2_timestamp_present s then Some (h2_timestamp s) else None),
              ao_sequence_id = (if h2_sequence_id_present s then Some (h2_sequence_id s) else None)\<rparr>"
  by (auto simp: build_ind_hdr_format2_def element_simps)

lemma get_opt_long_iff:
  "get_opt_long src = (p, v) \<longleftrightarrow> src = (if p then Some v else None) \<and> (p \<or> v = 0)"
  by (auto simp: get_opt_long_def split: option.splits)

lemma get_opt_u32_pair:
  "get_opt_u32 src = Some (p, v) \<longleftrightarrow>
     src = (if p then Some v else None) \<and> (if p then in_u32 v else v = 0)"
  by (auto simp: get_opt_u32_iff split: option.splits)

lemma hdr1_from_asn_iff:
  "ind_hdr_format1_from_asn rf dapp n = Some s \<longleftrightarrow>
     in_u32 rf \<and> in_u32 dapp \<and> in_u32 (ao_node_nb_id n)
     \<and> get_node_type (ao_node_type n) = Some (h1_node_type s)
     \<and> ao_node_plmn_id n = plmn_octets (h1_node_plmn_id s)
     \<and> get_opt_u32 (ao_node_cu_du_id n) = Some (h1_node_cu_du_id_present s, h1_node_cu_du_id s)
     \<and> get_opt_long (ao_timestamp n) = (h1_timestamp_present s, h1_timestamp s)
     \<and> get_opt_long (ao_sequence_id n) = (h1_sequence_id_present s, h1_sequence_id s)
     \<and> h1_ran_function_id s = rf \<and> h1_dapp_id s = dapp \<and> h1_node_nb_id s = ao_node_nb_id n"
  by (cases s; cases "get_opt_long (ao_timestamp n)"; cases "get_opt_long (ao_sequence_id n)")
    (auto simp: ind_hdr_format1_from_asn_def bind_eq_Some_conv)

lemma hdr2_from_asn_iff:
  "ind_hdr_format2_from_asn n = Some s \<longleftrightarrow>
     in_u32 (ao_node_nb_id n)
     \<and> get_node_type (ao_node_type n) = Some (h2_node_type s)
     \<and> ao_node_plmn_id n = plmn_octets (h2_node_plmn_id s)
     \<and> get_opt_u32 (ao_node_cu_du_id n) = Some (h2_node_cu_du_id_present s, h2_node_cu_du_id s)
     \<and> get_opt_long (ao_timestamp n) = (h2_timestamp_present s, h2_timestamp s)
     \<and> get_opt_long (ao_sequence_id n) = (h2_sequence_id_present s, h2_sequence_id s)
     \<and> h2_node_nb_id s = ao_node_nb_id n"
  by (cases s; cases "get_opt_long (ao_timestamp n)"; cases "get_opt_long (ao_sequence_id n)")
    (auto simp: ind_hdr_format2_from_asn_def bind_eq_Some_conv)

lemmas member_iffs = get_node_type_iff get_opt_u32_pair get_opt_long_iff

lemma absent_eq:
  "p = q \<Longrightarrow> (if p then x else z) = (if q then y else z) \<longleftrightarrow> \<not> p \<or> x = y"
  by auto

interpretation hdr1_element: asn_element build_ind_hdr_format1 hdr1_of ind_hdr_format1_norm
    ind_hdr_format1_eq hdr1_valid "\<lambda>_. True"
proof unfold_locales
  fix s a assume "build_ind_hdr_format1 s = Some a"
  then show "hdr1_of a = Some (ind_hdr_format1_norm s)"
    by (simp add: build_hdr1_iff hdr1_from_asn_iff ind_hdr_format1_norm_def member_iffs)
next
  fix s show "build_ind_hdr_format1 (ind_hdr_format1_norm s) = build_ind_hdr_format1 s"
    by (simp add: build_ind_hdr_format1_def ind_hdr_format1_norm_def set_opt_u32_def set_opt_long_def)
next
  fix a s assume *: "hdr1_of a = Some s"
  then obtain rf dapp n where a: "a = Asn_header_format1 rf dapp n" by (cases a rule: hdr1_of.cases) auto
  show "build_ind_hdr_format1 s = Some a"
    using * unfolding a by (cases n) (simp add: build_hdr1_iff hdr1_from_asn_iff member_iffs split: if_splits)
  show "ind_hdr_format1_norm s = s"
    using * unfolding a by (cases s) (auto simp: hdr1_from_asn_iff ind_hdr_format1_norm_def member_iffs)
next
  fix a show "(hdr1_of a \<noteq> None) = hdr1_valid a"
    unfolding not_None_eq
    by (cases a) (auto simp: ind_hdr_format1_from_asn_def node_valid_iff bind_eq_Some_conv case_prod_unfold)
next
  fix s t show "ind_hdr_format1_eq s t = (ind_hdr_format1_norm s = ind_hdr_format1_norm t)"
    by (cases s; cases t)
      (simp add: ind_hdr_format1_eq_def ind_hdr_format1_norm_def absent_eq cong: conj_cong)
qed auto

interpretation hdr2_element: asn_element build_ind_hdr_format2 hdr2_of ind_hdr_format2_norm
    ind_hdr_format2_eq hdr2_valid "\<lambda>_. True"
proof unfold_locales
  fix s a assume "build_ind_hdr_format2 s = Some a"
  then show "hdr2_of a = Some (ind_hdr_format2_norm s)"
    by (simp add: build_hdr2_iff hdr2_from_asn_iff ind_hdr_format2_norm_def member_iffs)
next
  fix s show "build_ind_hdr_format2 (ind_hdr_format2_norm s) = build_ind_hdr_format2 s"
    by (simp add: build_ind_hdr_format2_def ind_hdr_format2_norm_def set_opt_u32_def set_opt_long_def)
next
  fix a s assume *: "hdr2_of a = Some s"
  then obtain n where a: "a = Asn_header_format2 n" by (cases a rule: hdr2_of.cases) auto
  show "build_ind_hdr_format2 s = Some a"
    using * unfolding a by (cases n) (simp add: build_hdr2_iff hdr2_from_asn_iff member_iffs split: if_splits)
  show "ind_hdr_format2_norm s = s"
    using * unfolding a by (cases s) (auto simp: hdr2_from_asn_iff ind_hdr_format2_norm_def member_iffs)
next
  fix a show "(hdr2_of a \<noteq> None) = hdr2_valid a"
    unfolding not_None_eq
    by (cases a) (auto simp: ind_hdr_format2_from_asn_def node_valid_iff bind_eq_Some_conv case_prod_unfold)
next
  fix s t show "ind_hdr_format2_eq s t = (ind_hdr_format2_norm s = ind_hdr_format2_norm t)"
    by (cases s; cases t)
      (simp add: ind_hdr_format2_eq_def ind_hdr_format2_norm_def absent_eq cong: conj_cong)
qed auto


definition ctrl_hdr_valid :: "asn_control_header \<Rightarrow> bool" where
  "ctrl_hdr_valid a \<longleftrightarrow> in_u32 (ah_ran_function_id a) \<and> in_u32 (ah_dapp_id a)"

definition ctrl_hdr_norm :: "e2sm_dapp_ctrl_hdr_format1_s \<Rightarrow> e2sm_dapp_ctrl_hdr_format1_s" where
  "ctrl_hdr_norm s =
     s\<lparr>ch_timestamp := (if ch_timestamp_present s then ch_timestamp s else 0),
       ch_sequence_id := (if ch_sequence_id_present s then ch_sequence_id s else 0)\<rparr>"

lemma ctrl_hdr_from_asn_iff:
  "ctrl_hdr_from_asn a = Some s \<longleftrightarrow>
     ctrl_hdr_valid a \<and> ch_ran_function_id s = ah_ran_function_id a \<and> ch_dapp_id s = ah_dapp_id a
     \<and> get_opt_long (ah_timestamp a) = (ch_timestamp_present s, ch_timestamp s)
     \<and> get_opt_long (ah_sequence_id a) = (ch_sequence_id_present s, ch_sequence_id s)"
  by (cases s; cases "get_opt_long (ah_timestamp a)"; cases "get_opt_long (ah_sequence_id a)")
    (auto simp: ctrl_hdr_from_asn_def ctrl_hdr_valid_def bind_eq_Some_conv)

interpretation ctrl_hdr_element: asn_element build_ctrl_hdr ctrl_hdr_from_asn ctrl_hdr_norm
    ctrl_hdr_format1_eq ctrl_hdr_valid "\<lambda>_. True"
proof unfold_locales
  fix s a assume "build_ctrl_hdr s = Some a"
  then show "ctrl_hdr_from_asn a = Some (ctrl_hdr_norm s)"
    by (auto simp: build_ctrl_hdr_def ctrl_hdr_from_asn_iff ctrl_hdr_norm_def ctrl_hdr_valid_def
        set_opt_long_def bind_eq_Some_conv member_iffs)
next
  fix s show "build_ctrl_hdr (ctrl_hdr_norm s) = build_ctrl_hdr s"
    by (simp add: build_ctrl_hdr_def ctrl_hdr_norm_def set_opt_long_def)
next
  fix a s assume *: "ctrl_hdr_from_asn a = Some s"
  show "build_ctrl_hdr s = Some a"
    using * by (cases a) (simp add: build_ctrl_hdr_def ctrl_hdr_from_asn_iff ctrl_hdr_valid_def
        set_opt_long_def set_u32_def member_iffs)
  show "ctrl_hdr_norm s = s"
    using * by (cases s) (auto simp: ctrl_hdr_from_asn_iff ctrl_hdr_norm_def member_iffs)
next
  fix a show "(ctrl_hdr_from_asn a \<noteq> None) = ctrl_hdr_valid a"
    unfolding not_None_eq
    by (auto simp: ctrl_hdr_from_asn_def ctrl_hdr_valid_def bind_eq_Some_conv case_prod_unfold)
next
  fix s t show "ctrl_hdr_format1_eq s t = (ctrl_hdr_norm s = ctrl_hdr_norm t)"
    by (cases s; cases t)
      (simp add: ctrl_hdr_format1_eq_def ctrl_hdr_norm_def absent_eq cong: conj_cong)
qed auto

text \<open>
  The octets of an outcome are not bounded by the grammar, but the builder refuses more than
  \<open>INT32_MAX\<close> of them.
\<close>

definition ctrl_outcome_norm :: "e2sm_dapp_ctrl_outcome_format1_s \<Rightarrow> e2sm_dapp_ctrl_outcome_format1_s" where
  "ctrl_outcome_norm s =
     s\<lparr>co_timestamp := (if co_timestamp_present s then co_timestamp s else 0),
       co_sequence_id := (if co_sequence_id_present s then co_sequence_id s else 0),
       co_e3_ctrl_outcome := (if co_e3_ctrl_outcome_present s then co_e3_ctrl_outcome s else [])\<rparr>"

definition outcome_short :: "asn_control_outcome \<Rightarrow> bool" where
  "outcome_short a \<longleftrightarrow> pred_option (\<lambda>octets. length octets \<le> 2147483647) (aq_e3_control_outcome a)"

lemma ctrl_outcome_from_asn_iff:
  "ctrl_outcome_from_asn a = s \<longleftrightarrow>
     get_opt_long (aq_timestamp a) = (co_timestamp_present s, co_timestamp s)
     \<and> get_opt_long (aq_sequence_id a) = (co_sequence_id_present s, co_sequence_id s)
     \<and> aq_e3_control_outcome a = (if co_e3_ctrl_outcome_present s then Some (co_e3_ctrl_outcome s) else None)
     \<and> (co_e3_ctrl_outcome_present s \<or> co_e3_ctrl_outcome s = [])"
  by (cases s; cases "get_opt_long (aq_timestamp a)"; cases "get_opt_long (aq_sequence_id a)";
      cases "aq_e3_control_outcome a")
    (auto simp: ctrl_outcome_from_asn_def)

interpretation ctrl_outcome_element: asn_element build_ctrl_outcome "\<lambda>a. Some (ctrl_outcome_from_asn a)"
    ctrl_outcome_norm ctrl_outcome_format1_eq "\<lambda>_. True" outcome_short
proof unfold_locales
  fix s a assume *: "build_ctrl_outcome s = Some a"
  then show "Some (ctrl_outcome_from_asn a) = Some (ctrl_outcome_norm s)"
    by (auto simp: build_ctrl_outcome_def ctrl_outcome_from_asn_iff ctrl_outcome_norm_def set_octets_def
        set_opt_long_def bind_eq_Some_conv member_iffs split: if_splits)
  show "outcome_short a"
    using * by (auto simp: build_ctrl_outcome_def outcome_short_def set_octets_def set_opt_long_def
        bind_eq_Some_conv split: if_splits)
next
  fix s show "build_ctrl_outcome (ctrl_outcome_norm s) = build_ctrl_outcome s"
    by (simp add: build_ctrl_outcome_def ctrl_outcome_norm_def set_opt_long_def)
next
  fix a s assume "Some (ctrl_outcome_from_asn a) = Some s"
  then have *: "ctrl_outcome_from_asn a = s" by simp
  show "ctrl_outcome_norm s = s"
    using * by (cases s) (auto simp: ctrl_outcome_from_asn_iff ctrl_outcome_norm_def member_iffs)
  assume "outcome_short a"
  then show "build_ctrl_outcome s = Some a"
    using * by (cases a) (auto simp: build_ctrl_outcome_def ctrl_outcome_from_asn_iff outcome_short_def
        set_opt_long_def set_octets_def member_iffs split: if_splits)
next
  fix s t show "ctrl_outcome_format1_eq s t = (ctrl_outcome_norm s = ctrl_outcome_norm t)"
    by (cases s; cases t)
      (simp add: ctrl_outcome_format1_eq_def ctrl_outcome_norm_def absent_eq cong: conj_cong)
qed auto

end
