(* ===== verification/E2sm_Props.thy ===== *)
theory E2sm_Props
  imports E2sm_Elements
begin

text \<open>
  The codec of E2SM-DAPP as a whole: packing and unpacking every type, and the comparison of two
  structs against the octets they are packed into.
\<close>

section \<open>All types\<close>

fun ind_hdr_norm :: "e2sm_dapp_ind_hdr_s \<Rightarrow> e2sm_dapp_ind_hdr_s" where
  "ind_hdr_norm Ind_hdr_null = Ind_hdr_null"
| "ind_hdr_norm (Ind_hdr_format1 s) = Ind_hdr_format1 (ind_hdr_format1_norm s)"
| "ind_hdr_norm (Ind_hdr_format2 s) = Ind_hdr_format2 (ind_hdr_format2_norm s)"

fun e2sm_norm :: "e2sm_pdu \<Rightarrow> e2sm_pdu" where
  "e2sm_norm (Ind_hdr h) = Ind_hdr (ind_hdr_norm h)"
| "e2sm_norm (Ctrl_hdr s) = Ctrl_hdr (ctrl_hdr_norm s)"
| "e2sm_norm (Ctrl_outcome s) = Ctrl_outcome (ctrl_outcome_norm s)"
| "e2sm_norm (Ran_function_definition s) = Ran_function_definition (definition_norm s)"
| "e2sm_norm m = m"

text \<open>The constraints of the grammar on a structure.\<close>

fun e2sm_valid :: "asn_e2sm \<Rightarrow> bool" where
  "e2sm_valid (Asn_event_trigger format1) = format1"
| "e2sm_valid (Asn_action_definition _ format1) = format1"
| "e2sm_valid (Asn_header_format1 rf dapp n) = (in_u32 rf \<and> in_u32 dapp \<and> node_valid n)"
| "e2sm_valid (Asn_header_format2 n) = node_valid n"
| "e2sm_valid Asn_header_unknown = False"
| "e2sm_valid (Asn_message_format1 f) = data_valid f"
| "e2sm_valid (Asn_message_format2 l) = subs_valid l"
| "e2sm_valid Asn_message_unknown = False"
| "e2sm_valid (Asn_control_header f) = (case f of None \<Rightarrow> False | Some h \<Rightarrow> ctrl_hdr_valid h)"
| "e2sm_valid (Asn_control_message f) = (case f of None \<Rightarrow> False | Some d \<Rightarrow> data_valid d)"
| "e2sm_valid (Asn_control_outcome f) = (f \<noteq> None)"
| "e2sm_valid (Asn_function_definition s) = definition_valid s"

fun e2sm_short :: "asn_e2sm \<Rightarrow> bool" where
  "e2sm_short (Asn_control_outcome (Some q)) = outcome_short q"
| "e2sm_short _ = True"

lemma convert_valid: "convert a \<noteq> None \<longleftrightarrow> e2sm_valid a"
proof (cases a)
  case (Asn_header_format1 rf dapp n)
  then show ?thesis using hdr1_element.from_valid [of a] by simp
next
  case (Asn_header_format2 n)
  then show ?thesis using hdr2_element.from_valid [of a] by simp
next
  case (Asn_message_format2 l)
  then show ?thesis using subs_valid_iff [of l] by auto
next
  case (Asn_control_header f)
  then show ?thesis using ctrl_hdr_element.from_valid by (cases f) auto
next
  case (Asn_control_message f)
  then show ?thesis using data_element.from_valid by (cases f) auto
next
  case (Asn_message_format1 f)
  then show ?thesis using data_element.from_valid [of f] by simp
next
  case (Asn_function_definition s)
  then show ?thesis using definition_element.from_valid [of s] by simp
qed auto

lemma fill_convert_hdr: "fill_ind_hdr h = Some a \<Longrightarrow> convert a = Some (Ind_hdr (ind_hdr_norm h))"
  using hdr1_element.build_from [of _ a] hdr2_element.build_from [of _ a]
  by (cases h) (auto simp: fill_ind_hdr_def build_hdr1_iff build_hdr2_iff)

lemma fill_convert: "fill m = Some a \<Longrightarrow> convert a = Some (e2sm_norm m)"
  by (cases m)
    (auto simp: fill_convert_hdr fill_ind_msg_def build_get_data build_get_subs
      ctrl_hdr_element.build_from ctrl_outcome_element.build_from [simplified]
      definition_element.build_from split: e2sm_dapp_ind_msg_s.splits)

lemma fill_norm: "fill (e2sm_norm m) = fill m"
proof (cases m)
  case (Ind_hdr h)
  then show ?thesis by (cases h) (simp_all add: fill_ind_hdr_def hdr1_element.build_norm hdr2_element.build_norm)
qed (simp_all add: ctrl_hdr_element.build_norm ctrl_outcome_element.build_norm definition_element.build_norm)

lemma fill_short: "fill m = Some a \<Longrightarrow> e2sm_short a"
  by (cases a rule: e2sm_short.cases; cases m)
    (auto simp: fill_ind_hdr_def fill_ind_msg_def build_hdr1_iff build_hdr2_iff
      dest: ctrl_outcome_element.build_short split: e2sm_dapp_ind_hdr_s.splits e2sm_dapp_ind_msg_s.splits)

lemma convert_fill: "convert a = Some m \<Longrightarrow> e2sm_short a \<Longrightarrow> fill m = Some a"
proof (cases a)
  case (Asn_header_format1 rf dapp n)
  moreover assume "convert a = Some m"
  ultimately show ?thesis using hdr1_element.from_build [of a] by (auto simp: fill_ind_hdr_def)
next
  case (Asn_header_format2 n)
  moreover assume "convert a = Some m"
  ultimately show ?thesis using hdr2_element.from_build [of a] by (auto simp: fill_ind_hdr_def)
qed (auto simp: fill_ind_msg_def get_build_data get_build_subs bind_eq_Some_conv
      ctrl_hdr_element.from_build ctrl_outcome_element.from_build [simplified]
      definition_element.from_build split: if_splits)

lemma convert_norm: "convert a = Some m \<Longrightarrow> e2sm_norm m = m"
proof (cases a)
  case (Asn_header_format1 rf dapp n)
  moreover assume "convert a = Some m"
  ultimately show ?thesis using hdr1_element.from_norm [of a] by auto
next
  case (Asn_header_format2 n)
  moreover assume "convert a = Some m"
  ultimately show ?thesis using hdr2_element.from_norm [of a] by auto
qed (auto simp: bind_eq_Some_conv ctrl_hdr_element.from_norm ctrl_outcome_element.from_norm [simplified]
      definition_element.from_norm split: if_splits)

lemma ind_hdr_eq_norm: "ind_hdr_eq g h \<longleftrightarrow> ind_hdr_norm g = ind_hdr_norm h"
  by (cases g; cases h) (simp_all add: hdr1_element.eqv_norm hdr2_element.eqv_norm)

lemma e2sm_eq_norm: "e2sm_eq m n \<longleftrightarrow> e2sm_norm m = e2sm_norm n"
  by (cases m; cases n)
    (simp_all add: e2sm_eq_def ind_hdr_eq_norm ctrl_hdr_element.eqv_norm ctrl_outcome_element.eqv_norm
      definition_element.eqv_norm)

interpretation e2sm_element: asn_element fill convert e2sm_norm e2sm_eq e2sm_valid e2sm_short
  by (rule asn_element.intro; fact fill_convert fill_short fill_norm convert_fill convert_norm convert_valid e2sm_eq_norm)

lemma descriptor_norm [simp]: "descriptor (e2sm_norm m) = descriptor m"
  by (cases m) simp_all

lemma fill_descriptor: "fill m = Some a \<Longrightarrow> asn_descriptor a = descriptor m"
  by (cases m)
    (auto simp: fill_ind_hdr_def fill_ind_msg_def build_hdr1_iff build_hdr2_iff
      split: e2sm_dapp_ind_hdr_s.splits e2sm_dapp_ind_msg_s.splits)

lemma convert_descriptor: "convert a = Some m \<Longrightarrow> descriptor m = asn_descriptor a"
  by (cases a) (auto simp: bind_eq_Some_conv split: if_splits)

section \<open>The runtime\<close>

text \<open>
  What the documentation of asn1c promises: the check accepts every structure that keeps the
  constraints; a structure that passes the check and whose encoding is not reported as failed has
  been handed to the callback completely, and its octets decode to it; decoding with the descriptor
  of a type gives a structure of that type.
\<close>

definition e2sm_runtime_ok :: "e2sm_runtime \<Rightarrow> bool" where
  "e2sm_runtime_ok R \<longleftrightarrow>
     (\<forall>a. e2sm_valid a \<longrightarrow> er_check_constraints R a)
     \<and> (\<forall>a chunks encoded. er_check_constraints R a \<and> er_encode R a = (chunks, encoded) \<and> 0 < encoded \<longrightarrow>
          length (concat chunks) = nat encoded
          \<and> er_aper_decode R (asn_descriptor a) (concat chunks) = Some a)
     \<and> (\<forall>d data a. er_aper_decode R d data = Some a \<longrightarrow> asn_descriptor a = d)"

lemma encode_pdu_ok:
  assumes "encode_pdu R a = (ASN_SUCCESS, out)"
  shows "er_check_constraints R a" "out \<noteq> []" "\<exists>chunks. er_encode R a = (chunks, int (length out)) \<and> out = concat chunks"
  using assms by (auto simp: encode_pdu_def Let_def split: if_splits prod.splits)

lemma encode_pdu_decodes:
  assumes "e2sm_runtime_ok R" "encode_pdu R a = (ASN_SUCCESS, out)"
  shows "er_aper_decode R (asn_descriptor a) out = Some a"
proof -
  obtain chunks where "er_encode R a = (chunks, int (length out))" "out = concat chunks"
    using encode_pdu_ok(3) [OF assms(2)] by blast
  then show ?thesis
    using assms(1) encode_pdu_ok(1,2) [OF assms(2)] unfolding e2sm_runtime_ok_def by fastforce
qed

lemma pack_ok: "pack R m = (ASN_SUCCESS, out) \<longleftrightarrow> (\<exists>a. fill m = Some a \<and> encode_pdu R a = (ASN_SUCCESS, out))"
  by (auto simp: pack_def split: option.splits)

lemma unpack_packed:
  assumes "e2sm_runtime_ok R" "pack R m = (ASN_SUCCESS, out)" "descriptor self = descriptor m"
  shows "unpack R out self = (ASN_SUCCESS, e2sm_norm m)"
proof -
  obtain a where a: "fill m = Some a" "encode_pdu R a = (ASN_SUCCESS, out)"
    using assms(2) unfolding pack_ok by blast
  have "er_aper_decode R (descriptor self) out = Some a"
    using encode_pdu_decodes [OF assms(1) a(2)] fill_descriptor [OF a(1)] assms(3) by simp
  then show ?thesis
    using fill_convert [OF a(1)] encode_pdu_ok(2) [OF a(2)] by (simp add: unpack_def)
qed

text \<open>
  A runtime that encodes one control header, and two structs for it that differ in the timestamp only,
  which neither of them has.
\<close>

definition sample_header :: asn_control_header where
  "sample_header = \<lparr>ah_ran_function_id = 5, ah_dapp_id = 7, ah_timestamp = None, ah_sequence_id = Some 9\<rparr>"

definition sample_ctrl_hdr :: "i64 \<Rightarrow> e2sm_pdu" where
  "sample_ctrl_hdr ts = Ctrl_hdr
     \<lparr>ch_timestamp_present = False, ch_sequence_id_present = True, ch_ran_function_id = 5, ch_dapp_id = 7,
      ch_timestamp = ts, ch_sequence_id = 9\<rparr>"

definition one_header_runtime :: e2sm_runtime where
  "one_header_runtime =
     \<lparr>er_check_constraints = e2sm_valid,
      er_encode = (\<lambda>a. if a = Asn_control_header (Some sample_header) then ([[1, 2], [3]], 3) else ([], -1)),
      er_aper_decode = (\<lambda>d data. if d = DEF_ControlHeader \<and> data = [1, 2, 3]
                                 then Some (Asn_control_header (Some sample_header)) else None)\<rparr>"

lemma one_header_runtime_ok: "e2sm_runtime_ok one_header_runtime"
  by (auto simp: e2sm_runtime_ok_def one_header_runtime_def split: if_splits)

lemma sample_packed: "pack one_header_runtime (sample_ctrl_hdr ts) = (ASN_SUCCESS, [1, 2, 3])"
  by (simp add: pack_def sample_ctrl_hdr_def build_ctrl_hdr_def set_u32_def in_u32_def set_opt_long_def
      encode_pdu_def one_header_runtime_def sample_header_def ctrl_hdr_valid_def)

section \<open>Properties\<close>

text \<open>C38. A struct that \<open>pack\<close> accepts is read back by \<open>unpack\<close> as one that compares equal to it,
  whatever the struct that receives it held before; a failing \<open>pack\<close> leaves no octets.\<close>

theorem e2sm_round_trip:
  assumes "e2sm_runtime_ok R" "descriptor self = descriptor m"
  shows "case pack R m of
           (ASN_SUCCESS, out) \<Rightarrow> out \<noteq> [] \<and> (\<exists>m'. unpack R out self = (ASN_SUCCESS, m') \<and> e2sm_eq m m')
         | (code, out) \<Rightarrow> code = ASN_ERROR_ENCODE_FAIL \<and> out = []"
proof (cases "fst (pack R m) = ASN_SUCCESS")
  case True
  then obtain out where out: "pack R m = (ASN_SUCCESS, out)" by (cases "pack R m") simp
  have "e2sm_eq m (e2sm_norm m)"
    using out e2sm_element.eqv_iff_same [of m _ "e2sm_norm m"] by (auto simp: pack_ok fill_norm)
  moreover have "out \<noteq> []" using out encode_pdu_ok(2) unfolding pack_ok by blast
  ultimately show ?thesis using unpack_packed [OF assms(1) out assms(2)] out by simp
next
  case False
  then have "pack R m = (ASN_ERROR_ENCODE_FAIL, [])"
    by (auto simp: pack_def encode_pdu_def Let_def split: option.splits prod.splits if_splits)
  then show ?thesis by simp
qed

theorem e2sm_round_trip_witness:
  "pack one_header_runtime (sample_ctrl_hdr 4) = (ASN_SUCCESS, [1, 2, 3])
   \<and> (\<exists>m'. unpack one_header_runtime [1, 2, 3] (sample_ctrl_hdr 8) = (ASN_SUCCESS, m')
          \<and> e2sm_eq (sample_ctrl_hdr 4) m')"
  using e2sm_round_trip [OF one_header_runtime_ok, of "sample_ctrl_hdr 8" "sample_ctrl_hdr 4"] sample_packed [of 4]
  by (simp add: sample_ctrl_hdr_def)

text \<open>C39. Two structs of a type are packed into the same octets exactly when \<open>operator==\<close> holds: the
  comparison ignores nothing that is transmitted, and the encoding carries nothing else.\<close>

theorem e2sm_equal_iff_same_octets:
  assumes "e2sm_runtime_ok R" "descriptor m = descriptor n"
    and "pack R m = (ASN_SUCCESS, out)" "pack R n = (ASN_SUCCESS, out')"
  shows "e2sm_eq m n \<longleftrightarrow> out = out'"
proof
  assume "e2sm_eq m n"
  moreover obtain a where "fill m = Some a" "encode_pdu R a = (ASN_SUCCESS, out)"
    using assms(3) unfolding pack_ok by blast
  ultimately show "out = out'"
    using e2sm_element.eqv_iff_same assms(4) by (auto simp: pack_ok)
next
  assume "out = out'"
  then show "e2sm_eq m n"
    using unpack_packed [OF assms(1) assms(3), of m] unpack_packed [OF assms(1) assms(4), of m] assms(2)
    by (simp add: e2sm_eq_norm)
qed

theorem e2sm_equal_iff_same_octets_witness:
  "e2sm_eq (sample_ctrl_hdr 4) (sample_ctrl_hdr 8) \<and> sample_ctrl_hdr 4 \<noteq> sample_ctrl_hdr 8"
  using e2sm_equal_iff_same_octets [OF one_header_runtime_ok _ sample_packed [of 4] sample_packed [of 8]]
  by (simp add: sample_ctrl_hdr_def)



end
