(* ===== verification/Spec2Isabelle.thy ===== *)
theory Spec2Isabelle
  imports Subscription_Props Dapp_State Sm_Registry Simple_Sm Mpmc_Queue Lockfree_Queue E3_Encoder E3_Outbox
    Ran_Props Dapp_Props E3_Agent Protobuf_Encoder Json_Props Posix_Props Zmq_Props E3_Factories E2sm_Props
begin

text \<open>Verification of libe3.\<close>

end
